(* ===== verification/Prelude.thy ===== *)
theory Prelude
  imports Main "HOL-Library.Word"
begin

text \<open>
  The common base of the development: the effects of the C code as a state-and-stop
  monad, the world a process of the program runs in, pointers to character buffers with
  their capacity, and the C string functions the sources call.

  Every C function of the sources is a computation of type \<open>('s, 'a) comp\<close>: from a state
  it either returns a value and the new state, or it stops. It stops by \<open>exit\<close>, by
  waiting for ever, or because the C standard gives the execution no meaning (a write
  past the end of a buffer, a read of an unterminated array, \<open>free\<close> of an indeterminate
  pointer, signed overflow). Stopping is a value of the model, so a theorem that an
  operation returns says that none of these happens.
\<close>

section \<open>Collections of rules\<close>

named_theorems comp_simps \<open>symbolic execution of computations\<close>
named_theorems wp_simps \<open>weakest preconditions\<close>
named_theorems inv_intros \<open>which invariants a computation preserves, what it can return\<close>
named_theorems frame_intros \<open>what a computation leaves unchanged\<close>

section \<open>Computations\<close>

text \<open>The ways in which C gives an execution no meaning.\<close>

datatype ub =
    Buffer_Overflow      \<comment> \<open>a write past the end of an array\<close>
  | Unterminated_Read    \<comment> \<open>a read past the end of an array\<close>
  | Null_Deref           \<comment> \<open>a null pointer is read through\<close>
  | Indet_Pointer        \<comment> \<open>an uninitialised pointer is read through or freed\<close>
  | Signed_Overflow      \<comment> \<open>an int operation leaves the range of int\<close>
  | Bad_Semaphore        \<comment> \<open>a semaphore that is not initialised is used\<close>

datatype stop = Exit int | Blocked | Running | Undef ub

type_synonym ('s, 'a) comp = "'s \<Rightarrow> (stop \<times> 's) + ('a \<times> 's)"

definition ret :: "'a \<Rightarrow> ('s, 'a) comp" where
  "ret a = (\<lambda>s. Inr (a, s))"

definition bnd :: "('s, 'a) comp \<Rightarrow> ('a \<Rightarrow> ('s, 'b) comp) \<Rightarrow> ('s, 'b) comp" where
  "bnd m f = (\<lambda>s. case m s of Inl e \<Rightarrow> Inl e | Inr (a, s') \<Rightarrow> f a s')"

definition thn :: "('s, 'a) comp \<Rightarrow> ('s, 'b) comp \<Rightarrow> ('s, 'b) comp" where
  "thn m n = bnd m (\<lambda>_. n)"

definition halt :: "stop \<Rightarrow> ('s, 'a) comp" where
  "halt e = (\<lambda>s. Inl (e, s))"

definition gets :: "('s \<Rightarrow> 'a) \<Rightarrow> ('s, 'a) comp" where
  "gets f = (\<lambda>s. Inr (f s, s))"

definition modify :: "('s \<Rightarrow> 's) \<Rightarrow> ('s, unit) comp" where
  "modify f = (\<lambda>s. Inr ((), f s))"

lemma ret_run [simp, comp_simps]: "ret a s = Inr (a, s)"
  by (simp add: ret_def)

lemma halt_run [simp, comp_simps]: "halt e s = Inl (e, s)"
  by (simp add: halt_def)

lemma gets_run [simp, comp_simps]: "gets f s = Inr (f s, s)"
  by (simp add: gets_def)

lemma modify_run [simp, comp_simps]: "modify f s = Inr ((), f s)"
  by (simp add: modify_def)

lemma bnd_run [comp_simps]:
  "bnd m f s = (case m s of Inl e \<Rightarrow> Inl e | Inr (a, s') \<Rightarrow> f a s')"
  by (simp add: bnd_def)

lemma bnd_Inr [simp]: "m s = Inr (a, s') \<Longrightarrow> bnd m f s = f a s'"
  by (simp add: bnd_def)

lemma bnd_Inl [simp]: "m s = Inl e \<Longrightarrow> bnd m f s = Inl e"
  by (simp add: bnd_def)

lemma thn_run [comp_simps]:
  "thn m n s = (case m s of Inl e \<Rightarrow> Inl e | Inr (a, s') \<Rightarrow> n s')"
  by (simp add: thn_def bnd_def)

lemma thn_Inr [simp]: "m s = Inr (a, s') \<Longrightarrow> thn m n s = n s'"
  by (simp add: thn_def)

lemma thn_Inl [simp]: "m s = Inl e \<Longrightarrow> thn m n s = Inl e"
  by (simp add: thn_def)

lemma bnd_ret_left [simp]: "bnd (ret a) f = f a"
  by (simp add: bnd_def ret_def)

lemma bnd_ret_right [simp]: "bnd m ret = m"
  by (rule ext) (simp add: bnd_def split: sum.splits)

lemma bnd_assoc: "bnd (bnd m f) g = bnd m (\<lambda>a. bnd (f a) g)"
  by (rule ext) (simp add: bnd_def split: sum.splits)

lemma bnd_if: "bnd (if c then m else n) f = (if c then bnd m f else bnd n f)"
  by simp

lemma bnd_split: "bnd (case p of (a, b) \<Rightarrow> g a b) f = (case p of (a, b) \<Rightarrow> bnd (g a b) f)"
  by (simp split: prod.split)

lemma bnd_eq_InrD:
  assumes "bnd m f s = Inr (b, t)"
  obtains a s' where "m s = Inr (a, s')" and "f a s' = Inr (b, t)"
  using assms by (auto simp: bnd_def split: sum.splits prod.splits)

subsection \<open>Weakest preconditions\<close>

text \<open>\<open>wp m Q E s\<close>: run from \<open>s\<close>, \<open>m\<close> returns a value and a state that satisfy \<open>Q\<close>, or stops
  for a reason and in a state that satisfy \<open>E\<close>. The rules compute it along the code.\<close>

definition wp :: "('s, 'a) comp \<Rightarrow> ('a \<Rightarrow> 's \<Rightarrow> bool) \<Rightarrow> (stop \<Rightarrow> 's \<Rightarrow> bool) \<Rightarrow> 's \<Rightarrow> bool" where
  "wp m Q E s = (case m s of Inl (e, s') \<Rightarrow> E e s' | Inr (a, s') \<Rightarrow> Q a s')"

lemma wp_ret [wp_simps]: "wp (ret a) Q E s = Q a s"
  by (simp add: wp_def)

lemma wp_halt [wp_simps]: "wp (halt e) Q E s = E e s"
  by (simp add: wp_def)

lemma wp_gets [wp_simps]: "wp (gets f) Q E s = Q (f s) s"
  by (simp add: wp_def)

lemma wp_modify [wp_simps]: "wp (modify f) Q E s = Q () (f s)"
  by (simp add: wp_def)

lemma wp_bnd [wp_simps]: "wp (bnd m f) Q E s = wp m (\<lambda>a. wp (f a) Q E) E s"
  by (simp add: wp_def bnd_def split: sum.splits prod.splits)

lemma wp_thn [wp_simps]: "wp (thn m n) Q E s = wp m (\<lambda>_. wp n Q E) E s"
  by (simp add: thn_def wp_bnd)

lemma wp_if [wp_simps]: "wp (if b then m else n) Q E s = (if b then wp m Q E s else wp n Q E s)"
  by simp

lemma wp_option [wp_simps]:
  "wp (case x of None \<Rightarrow> m | Some a \<Rightarrow> f a) Q E s =
     (case x of None \<Rightarrow> wp m Q E s | Some a \<Rightarrow> wp (f a) Q E s)"
  by (cases x) auto

lemma wp_prod [wp_simps]:
  "wp (case x of (a, b) \<Rightarrow> f a b) Q E s = (case x of (a, b) \<Rightarrow> wp (f a b) Q E s)"
  by (cases x) auto

lemma wp_let [wp_simps]: "wp (let y = x in f y) Q E s = wp (f x) Q E s"
  by simp

lemma wp_mono:
  assumes "wp m Q E s" "\<And>a t. Q a t \<Longrightarrow> Q' a t" "\<And>e t. E e t \<Longrightarrow> E' e t"
  shows "wp m Q' E' s"
  using assms by (auto simp: wp_def split: sum.splits)

lemma wp_eq: "m s = Inr (a, t) \<Longrightarrow> wp m Q E s = Q a t"
  by (simp add: wp_def)

lemma wp_returns: "wp m Q (\<lambda>_ _. False) s \<longleftrightarrow> (\<exists>a t. m s = Inr (a, t) \<and> Q a t)"
  by (auto simp: wp_def split: sum.splits)

lemma wp_stops: "wp m (\<lambda>_ _. False) E s \<longleftrightarrow> (\<exists>e t. m s = Inl (e, t) \<and> E e t)"
  by (auto simp: wp_def split: sum.splits)

subsection \<open>What a computation leaves unchanged\<close>

fun final :: "(stop \<times> 's) + ('a \<times> 's) \<Rightarrow> 's" where
  "final (Inl (e, s)) = s"
| "final (Inr (a, s)) = s"

text \<open>\<open>keeps f m\<close>: on every path, a stop included, \<open>m\<close> ends with the observation \<open>f\<close>
  of the state it began with.\<close>

definition keeps :: "('s \<Rightarrow> 'b) \<Rightarrow> ('s, 'a) comp \<Rightarrow> bool" where
  "keeps f m \<longleftrightarrow> (\<forall>s. f (final (m s)) = f s)"

lemma keepsD: "keeps f m \<Longrightarrow> f (final (m s)) = f s"
  by (simp add: keeps_def)

lemma keeps_Inr: "keeps f m \<Longrightarrow> m s = Inr (a, s') \<Longrightarrow> f s' = f s"
  using keepsD [of f m s] by simp

lemma keeps_Inl: "keeps f m \<Longrightarrow> m s = Inl (e, s') \<Longrightarrow> f s' = f s"
  using keepsD [of f m s] by simp

lemma keeps_ret [frame_intros]: "keeps f (ret a)"
  by (simp add: keeps_def)

lemma keeps_halt [frame_intros]: "keeps f (halt e)"
  by (simp add: keeps_def)

lemma keeps_gets [frame_intros]: "keeps f (gets g)"
  by (simp add: keeps_def)

lemma keeps_modify [frame_intros]: "(\<And>s. f (g s) = f s) \<Longrightarrow> keeps f (modify g)"
  by (simp add: keeps_def)

lemma keeps_bnd [frame_intros]:
  assumes "keeps f m" and "\<And>a. keeps f (g a)"
  shows "keeps f (bnd m g)"
  unfolding keeps_def
proof
  fix s
  show "f (final (bnd m g s)) = f s"
  proof (cases "m s")
    case (Inl e)
    with keepsD [OF assms(1), of s] show ?thesis by (cases e) simp
  next
    case (Inr p)
    then obtain a s' where p: "m s = Inr (a, s')" by (cases p) auto
    with keepsD [OF assms(1), of s] keepsD [OF assms(2), of a s'] show ?thesis by simp
  qed
qed

lemma keeps_thn [frame_intros]: "keeps f m \<Longrightarrow> keeps f n \<Longrightarrow> keeps f (thn m n)"
  by (simp add: thn_def keeps_bnd)

lemma keeps_if [frame_intros]:
  "(b \<Longrightarrow> keeps f m) \<Longrightarrow> (\<not> b \<Longrightarrow> keeps f n) \<Longrightarrow> keeps f (if b then m else n)"
  by simp

lemma keeps_option [frame_intros]:
  "keeps f m \<Longrightarrow> (\<And>a. keeps f (g a)) \<Longrightarrow> keeps f (case x of None \<Rightarrow> m | Some a \<Rightarrow> g a)"
  by (cases x) auto

lemma keeps_prod [frame_intros]:
  "(\<And>a b. keeps f (g a b)) \<Longrightarrow> keeps f (case x of (a, b) \<Rightarrow> g a b)"
  by (cases x) auto

lemma keeps_let [frame_intros]: "keeps f (g x) \<Longrightarrow> keeps f (let y = x in g y)"
  by simp

subsection \<open>Both together\<close>

lemma wp_keeps:
  "keeps f m \<Longrightarrow> wp m Q E s \<Longrightarrow> wp m (\<lambda>a t. Q a t \<and> f t = f s) (\<lambda>e t. E e t \<and> f t = f s) s"
  using keepsD [of f m s] by (auto simp: wp_def split: sum.splits)

lemma wp_frame: "keeps f m \<Longrightarrow> wp m (\<lambda>_ t. f t = f s) (\<lambda>_ t. f t = f s) s"
  using keepsD [of f m s] by (auto simp: wp_def split: sum.splits)

lemma wp_true: "wp m (\<lambda>_ _. True) (\<lambda>_ _. True) s"
  by (auto simp: wp_def split: sum.splits)

lemma wp_cong: "(\<And>a t. Q a t = Q' a t) \<Longrightarrow> wp m Q E s = wp m Q' E s"
  by (simp add: wp_def split: sum.splits)

lemma wp_thn_fun: "wp (thn m n) Q E = wp m (\<lambda>_. wp n Q E) E"
  by (rule ext) (rule wp_thn)

lemma keeps_pair: "keeps f m \<Longrightarrow> keeps g m \<Longrightarrow> keeps (\<lambda>s. (f s, g s)) m"
  by (simp add: keeps_def)

lemma keeps_comp: "keeps f m \<Longrightarrow> keeps (\<lambda>s. g (f s)) m"
  by (simp add: keeps_def)

text \<open>A step that leaves an observation alone, followed by the rest.\<close>

lemma wp_thn_frame:
  assumes "keeps f m" "\<And>t. f t = f s \<Longrightarrow> wp n Q E t" "\<And>e t. f t = f s \<Longrightarrow> E e t"
  shows "wp (thn m n) Q E s"
  unfolding wp_thn by (rule wp_mono [OF wp_frame [OF assms(1)]]) (use assms in auto)

lemma wp_bnd_frame:
  assumes "keeps f m" "\<And>a t. f t = f s \<Longrightarrow> wp (g a) Q E t" "\<And>e t. f t = f s \<Longrightarrow> E e t"
  shows "wp (bnd m g) Q E s"
  unfolding wp_bnd by (rule wp_mono [OF wp_frame [OF assms(1)]]) (use assms in auto)

subsection \<open>What a computation preserves\<close>

text \<open>\<open>preserves I m\<close>: from a state that satisfies \<open>I\<close>, \<open>m\<close> ends on every path, a stop included, in one that
  satisfies it too.\<close>

definition preserves :: "('s \<Rightarrow> bool) \<Rightarrow> ('s, 'a) comp \<Rightarrow> bool" where
  "preserves I m \<longleftrightarrow> (\<forall>s. I s \<longrightarrow> wp m (\<lambda>_. I) (\<lambda>_. I) s)"

lemma preservesI: "(\<And>s. I s \<Longrightarrow> wp m (\<lambda>_. I) (\<lambda>_. I) s) \<Longrightarrow> preserves I m"
  by (simp add: preserves_def)

lemma preservesD: "preserves I m \<Longrightarrow> I s \<Longrightarrow> wp m (\<lambda>_. I) (\<lambda>_. I) s"
  by (simp add: preserves_def)

lemma preserves_keeps:
  assumes "keeps f m" "\<And>s t. f t = f s \<Longrightarrow> I s \<Longrightarrow> I t"
  shows "preserves I m"
  by (rule preservesI, rule wp_mono [OF wp_frame [OF assms(1)]]) (use assms(2) in blast)+

lemma preserves_basic [inv_intros]: "preserves I (ret a)" "preserves I (halt e)" "preserves I (gets g)"
  by (simp_all add: preserves_def wp_simps)

lemma preserves_modify [inv_intros]: "(\<And>s. I s \<Longrightarrow> I (g s)) \<Longrightarrow> preserves I (modify g)"
  by (simp add: preserves_def wp_simps)

lemma preserves_bnd [inv_intros]:
  assumes "preserves I m" "\<And>a. preserves I (g a)"
  shows "preserves I (bnd m g)"
  by (rule preservesI, unfold wp_bnd, rule wp_mono [OF preservesD [OF assms(1)]])
     (use preservesD [OF assms(2)] in blast)+

lemma preserves_thn [inv_intros]: "preserves I m \<Longrightarrow> preserves I n \<Longrightarrow> preserves I (thn m n)"
  by (simp add: thn_def preserves_bnd)

lemma preserves_if [inv_intros]:
  "(b \<Longrightarrow> preserves I m) \<Longrightarrow> (\<not> b \<Longrightarrow> preserves I n) \<Longrightarrow> preserves I (if b then m else n)"
  by simp

lemma preserves_prod [inv_intros]:
  "(\<And>a b. x = (a, b) \<Longrightarrow> preserves I (g a b)) \<Longrightarrow> preserves I (case x of (a, b) \<Rightarrow> g a b)"
  by (cases x) auto

lemma preserves_list [inv_intros]:
  "preserves I m \<Longrightarrow> (\<And>a x. preserves I (g a x)) \<Longrightarrow> preserves I (case l of [] \<Rightarrow> m | a # x \<Rightarrow> g a x)"
  by (cases l) auto

subsection \<open>What a computation can return\<close>

text \<open>\<open>yields R m\<close>: whatever the state, a value that \<open>m\<close> returns satisfies \<open>R\<close>.\<close>

definition yields :: "('a \<Rightarrow> bool) \<Rightarrow> ('s, 'a) comp \<Rightarrow> bool" where
  "yields R m \<longleftrightarrow> (\<forall>s. wp m (\<lambda>a _. R a) (\<lambda>_ _. True) s)"

lemma yieldsD: "yields R m \<Longrightarrow> wp m (\<lambda>a _. R a) (\<lambda>_ _. True) s"
  by (simp add: yields_def)

lemma yields_ret [inv_intros]: "R a \<Longrightarrow> yields R (ret a)"
  by (simp add: yields_def wp_simps)

lemma yields_halt [inv_intros]: "yields R (halt e)"
  by (simp add: yields_def wp_simps)

lemma yields_bnd_value:
  assumes "yields S m" "\<And>a. S a \<Longrightarrow> yields R (g a)"
  shows "yields R (bnd m g)"
  unfolding yields_def wp_bnd
proof
  fix s
  show "wp m (\<lambda>a. wp (g a) (\<lambda>a _. R a) (\<lambda>_ _. True)) (\<lambda>_ _. True) s"
    by (rule wp_mono [OF yieldsD [OF assms(1)]]) (simp_all add: yieldsD [OF assms(2)])
qed

lemma yields_bnd [inv_intros]: "(\<And>a. yields R (g a)) \<Longrightarrow> yields R (bnd m g)"
  by (rule yields_bnd_value [where S = "\<lambda>_. True"]) (simp_all add: yields_def wp_true)

lemma yields_thn [inv_intros]: "yields R n \<Longrightarrow> yields R (thn m n)"
  by (simp add: thn_def yields_bnd)

lemma yields_if [inv_intros]:
  "(b \<Longrightarrow> yields R m) \<Longrightarrow> (\<not> b \<Longrightarrow> yields R n) \<Longrightarrow> yields R (if b then m else n)"
  by simp

lemma yields_option [inv_intros]:
  "yields R m \<Longrightarrow> (\<And>a. yields R (g a)) \<Longrightarrow> yields R (case x of None \<Rightarrow> m | Some a \<Rightarrow> g a)"
  by (cases x) auto

lemma yields_sum [inv_intros]:
  "(\<And>a. yields R (g a)) \<Longrightarrow> (\<And>a. yields R (h a)) \<Longrightarrow> yields R (case x of Inl a \<Rightarrow> g a | Inr a \<Rightarrow> h a)"
  by (cases x) auto

lemma yields_list [inv_intros]:
  "yields R m \<Longrightarrow> (\<And>a x. yields R (g a x)) \<Longrightarrow> yields R (case l of [] \<Rightarrow> m | a # x \<Rightarrow> g a x)"
  by (cases l) auto

lemma yields_prod [inv_intros]:
  "(\<And>a b. x = (a, b) \<Longrightarrow> yields R (g a b)) \<Longrightarrow> yields R (case x of (a, b) \<Rightarrow> g a b)"
  by (cases x) auto

text \<open>A value that a computation yields is stored: the invariant must hold for this value only.\<close>

lemma preserves_bnd_value:
  assumes "yields R m" "preserves I m" "\<And>a. R a \<Longrightarrow> preserves I (g a)"
  shows "preserves I (bnd m g)"
proof (rule preservesI)
  fix s assume I: "I s"
  have "wp m (\<lambda>a t. R a \<and> I t) (\<lambda>_. I) s"
    using yieldsD [OF assms(1), of s] preservesD [OF assms(2) I] by (auto simp: wp_def split: sum.splits)
  then show "wp (bnd m g) (\<lambda>_. I) (\<lambda>_. I) s"
    unfolding wp_bnd by (rule wp_mono) (use preservesD [OF assms(3)] in blast)+
qed

text \<open>The value is stored in a variable.\<close>

lemma preserves_store:
  assumes "yields R m" "preserves I m" "\<And>a s. R a \<Longrightarrow> I s \<Longrightarrow> I (u a s)" "\<And>a. R a \<Longrightarrow> preserves I (n a)"
  shows "preserves I (bnd m (\<lambda>a. thn (modify (u a)) (n a)))"
  by (rule preserves_bnd_value [OF assms(1,2)]) (auto intro!: preserves_thn preserves_modify assms(3,4))

text \<open>What is read from a state that satisfies the invariant.\<close>

lemma preserves_gets_value:
  assumes "\<And>s. I s \<Longrightarrow> R (f s)" "\<And>a. R a \<Longrightarrow> preserves I (g a)"
  shows "preserves I (bnd (gets f) g)"
  by (rule preservesI, unfold wp_bnd wp_gets, rule preservesD [OF assms(2) [OF assms(1)]])

section \<open>The world of a process\<close>

text \<open>A socket: domain and type as given to \<open>socket\<close>, the port it is bound to, the
  backlog it listens with, the peer it is connected to.\<close>

record sock =
  sk_domain :: int
  sk_type :: int
  sk_bound :: "nat option"
  sk_listen :: "nat option"
  sk_peer :: "(string \<times> nat) option"

text \<open>The broken-down time \<open>struct tm\<close> (\<open>tm_year\<close> is the full year here, \<open>tm_mon\<close> and
  \<open>tm_wday\<close> count from \<open>0\<close>).\<close>

record tm =
  tm_wday :: nat
  tm_mon :: nat
  tm_mday :: nat
  tm_hour :: nat
  tm_min :: nat
  tm_sec :: nat
  tm_year :: int

text \<open>
  The state outside the program's variables. \<open>sys_err n\<close> is the outcome of the \<open>n\<close>-th
  call that can fail for a reason outside the program (memory, a file, a socket, a
  process): \<open>0\<close> for success, else the \<open>errno\<close> it fails with. \<open>junk n\<close> is what
  uninitialised storage obtained at time \<open>n\<close> holds, \<open>localtime n\<close> the local time then,
  \<open>rnd n\<close> the source of \<open>rand\<close>. All are arbitrary: a theorem about
  every world is a theorem about every pattern of failures. \<open>tick\<close> counts the calls.
  \<open>live_mem\<close> and \<open>live_json\<close> count the heap blocks and the cJSON trees that were
  allocated and not yet released. \<open>inbox\<close> holds per socket what is still to be received,
  \<open>sent\<close> what was sent, \<open>mqueue\<close> the message queue, \<open>pipe_data\<close> the bytes in the pipe and
  \<open>kills\<close> the signals sent to the parent process. \<open>closed_fds\<close> lists the descriptors closed so far,
  \<open>pid\<close> is what \<open>getpid\<close> returns, \<open>fork_pid\<close> what \<open>fork\<close> returns to this process (a run of the
  model follows one process through its forks, so a theorem about every world covers the
  parent and every child) and \<open>wait_ret\<close> the child and the status that \<open>wait\<close> reports.
\<close>

record world =
  sys_err :: "nat \<Rightarrow> int"
  junk :: "nat \<Rightarrow> string"
  tick :: nat
  localtime :: "nat \<Rightarrow> tm"
  rnd :: "nat \<Rightarrow> nat"
  errno :: int
  files :: "string \<rightharpoonup> string"
  live_mem :: int
  live_json :: int
  stdout :: "string list"
  stderr :: "string list"
  sockets :: "int \<rightharpoonup> sock"
  next_fd :: int
  inbox :: "int \<Rightarrow> string list"
  sent :: "(int \<times> string) list"
  mqueue :: "(int \<times> string) list"
  pipe_data :: string
  kills :: "int list"
  closed_fds :: "int list"
  pid :: int
  fork_pid :: "nat \<Rightarrow> int"
  wait_ret :: "nat \<Rightarrow> int \<times> nat"

text \<open>The signals the program handles or sends.\<close>

definition SIGINT :: int where "SIGINT = 2"
definition SIGTSTP :: int where "SIGTSTP = 20"
definition SIGTERM :: int where "SIGTERM = 15"

text \<open>A world in which no call fails from now on.\<close>

abbreviation calm :: "'z world_scheme \<Rightarrow> bool" where
  "calm w \<equiv> \<forall>n. sys_err w n = 0"

text \<open>Updates of different fields commute; a normal form keeps computed states comparable.\<close>

lemma world_update_order [simp]:
  "files_update files' (sent_update sent' w) = sent_update sent' (files_update files' w)"
  "files_update files' (inbox_update inbox' w) = inbox_update inbox' (files_update files' w)"
  "files_update files' (mqueue_update mqueue' w) = mqueue_update mqueue' (files_update files' w)"
  "files_update files' (pipe_data_update pipe_data' w) = pipe_data_update pipe_data' (files_update files' w)"
  "files_update files' (kills_update kills' w) = kills_update kills' (files_update files' w)"
  "files_update files' (closed_fds_update closed_fds' w) = closed_fds_update closed_fds' (files_update files' w)"
  "files_update files' (sockets_update sockets' w) = sockets_update sockets' (files_update files' w)"
  "files_update files' (next_fd_update next_fd' w) = next_fd_update next_fd' (files_update files' w)"
  "files_update files' (stdout_update stdout' w) = stdout_update stdout' (files_update files' w)"
  "files_update files' (stderr_update stderr' w) = stderr_update stderr' (files_update files' w)"
  "files_update files' (errno_update errno' w) = errno_update errno' (files_update files' w)"
  "files_update files' (live_mem_update live_mem' w) = live_mem_update live_mem' (files_update files' w)"
  "files_update files' (live_json_update live_json' w) = live_json_update live_json' (files_update files' w)"
  "files_update files' (tick_update tick' w) = tick_update tick' (files_update files' w)"
  "sent_update sent' (inbox_update inbox' w) = inbox_update inbox' (sent_update sent' w)"
  "sent_update sent' (mqueue_update mqueue' w) = mqueue_update mqueue' (sent_update sent' w)"
  "sent_update sent' (pipe_data_update pipe_data' w) = pipe_data_update pipe_data' (sent_update sent' w)"
  "sent_update sent' (kills_update kills' w) = kills_update kills' (sent_update sent' w)"
  "sent_update sent' (closed_fds_update closed_fds' w) = closed_fds_update closed_fds' (sent_update sent' w)"
  "sent_update sent' (sockets_update sockets' w) = sockets_update sockets' (sent_update sent' w)"
  "sent_update sent' (next_fd_update next_fd' w) = next_fd_update next_fd' (sent_update sent' w)"
  "sent_update sent' (stdout_update stdout' w) = stdout_update stdout' (sent_update sent' w)"
  "sent_update sent' (stderr_update stderr' w) = stderr_update stderr' (sent_update sent' w)"
  "sent_update sent' (errno_update errno' w) = errno_update errno' (sent_update sent' w)"
  "sent_update sent' (live_mem_update live_mem' w) = live_mem_update live_mem' (sent_update sent' w)"
  "sent_update sent' (live_json_update live_json' w) = live_json_update live_json' (sent_update sent' w)"
  "sent_update sent' (tick_update tick' w) = tick_update tick' (sent_update sent' w)"
  "inbox_update inbox' (mqueue_update mqueue' w) = mqueue_update mqueue' (inbox_update inbox' w)"
  "inbox_update inbox' (pipe_data_update pipe_data' w) = pipe_data_update pipe_data' (inbox_update inbox' w)"
  "inbox_update inbox' (kills_update kills' w) = kills_update kills' (inbox_update inbox' w)"
  "inbox_update inbox' (closed_fds_update closed_fds' w) = closed_fds_update closed_fds' (inbox_update inbox' w)"
  "inbox_update inbox' (sockets_update sockets' w) = sockets_update sockets' (inbox_update inbox' w)"
  "inbox_update inbox' (next_fd_update next_fd' w) = next_fd_update next_fd' (inbox_update inbox' w)"
  "inbox_update inbox' (stdout_update stdout' w) = stdout_update stdout' (inbox_update inbox' w)"
  "inbox_update inbox' (stderr_update stderr' w) = stderr_update stderr' (inbox_update inbox' w)"
  "inbox_update inbox' (errno_update errno' w) = errno_update errno' (inbox_update inbox' w)"
  "inbox_update inbox' (live_mem_update live_mem' w) = live_mem_update live_mem' (inbox_update inbox' w)"
  "inbox_update inbox' (live_json_update live_json' w) = live_json_update live_json' (inbox_update inbox' w)"
  "inbox_update inbox' (tick_update tick' w) = tick_update tick' (inbox_update inbox' w)"
  "mqueue_update mqueue' (pipe_data_update pipe_data' w) = pipe_data_update pipe_data' (mqueue_update mqueue' w)"
  "mqueue_update mqueue' (kills_update kills' w) = kills_update kills' (mqueue_update mqueue' w)"
  "mqueue_update mqueue' (closed_fds_update closed_fds' w) = closed_fds_update closed_fds' (mqueue_update mqueue' w)"
  "mqueue_update mqueue' (sockets_update sockets' w) = sockets_update sockets' (mqueue_update mqueue' w)"
  "mqueue_update mqueue' (next_fd_update next_fd' w) = next_fd_update next_fd' (mqueue_update mqueue' w)"
  "mqueue_update mqueue' (stdout_update stdout' w) = stdout_update stdout' (mqueue_update mqueue' w)"
  "mqueue_update mqueue' (stderr_update stderr' w) = stderr_update stderr' (mqueue_update mqueue' w)"
  "mqueue_update mqueue' (errno_update errno' w) = errno_update errno' (mqueue_update mqueue' w)"
  "mqueue_update mqueue' (live_mem_update live_mem' w) = live_mem_update live_mem' (mqueue_update mqueue' w)"
  "mqueue_update mqueue' (live_json_update live_json' w) = live_json_update live_json' (mqueue_update mqueue' w)"
  "mqueue_update mqueue' (tick_update tick' w) = tick_update tick' (mqueue_update mqueue' w)"
  "pipe_data_update pipe_data' (kills_update kills' w) = kills_update kills' (pipe_data_update pipe_data' w)"
  "pipe_data_update pipe_data' (closed_fds_update closed_fds' w) = closed_fds_update closed_fds' (pipe_data_update pipe_data' w)"
  "pipe_data_update pipe_data' (sockets_update sockets' w) = sockets_update sockets' (pipe_data_update pipe_data' w)"
  "pipe_data_update pipe_data' (next_fd_update next_fd' w) = next_fd_update next_fd' (pipe_data_update pipe_data' w)"
  "pipe_data_update pipe_data' (stdout_update stdout' w) = stdout_update stdout' (pipe_data_update pipe_data' w)"
  "pipe_data_update pipe_data' (stderr_update stderr' w) = stderr_update stderr' (pipe_data_update pipe_data' w)"
  "pipe_data_update pipe_data' (errno_update errno' w) = errno_update errno' (pipe_data_update pipe_data' w)"
  "pipe_data_update pipe_data' (live_mem_update live_mem' w) = live_mem_update live_mem' (pipe_data_update pipe_data' w)"
  "pipe_data_update pipe_data' (live_json_update live_json' w) = live_json_update live_json' (pipe_data_update pipe_data' w)"
  "pipe_data_update pipe_data' (tick_update tick' w) = tick_update tick' (pipe_data_update pipe_data' w)"
  "kills_update kills' (closed_fds_update closed_fds' w) = closed_fds_update closed_fds' (kills_update kills' w)"
  "kills_update kills' (sockets_update sockets' w) = sockets_update sockets' (kills_update kills' w)"
  "kills_update kills' (next_fd_update next_fd' w) = next_fd_update next_fd' (kills_update kills' w)"
  "kills_update kills' (stdout_update stdout' w) = stdout_update stdout' (kills_update kills' w)"
  "kills_update kills' (stderr_update stderr' w) = stderr_update stderr' (kills_update kills' w)"
  "kills_update kills' (errno_update errno' w) = errno_update errno' (kills_update kills' w)"
  "kills_update kills' (live_mem_update live_mem' w) = live_mem_update live_mem' (kills_update kills' w)"
  "kills_update kills' (live_json_update live_json' w) = live_json_update live_json' (kills_update kills' w)"
  "kills_update kills' (tick_update tick' w) = tick_update tick' (kills_update kills' w)"
  "closed_fds_update closed_fds' (sockets_update sockets' w) = sockets_update sockets' (closed_fds_update closed_fds' w)"
  "closed_fds_update closed_fds' (next_fd_update next_fd' w) = next_fd_update next_fd' (closed_fds_update closed_fds' w)"
  "closed_fds_update closed_fds' (stdout_update stdout' w) = stdout_update stdout' (closed_fds_update closed_fds' w)"
  "closed_fds_update closed_fds' (stderr_update stderr' w) = stderr_update stderr' (closed_fds_update closed_fds' w)"
  "closed_fds_update closed_fds' (errno_update errno' w) = errno_update errno' (closed_fds_update closed_fds' w)"
  "closed_fds_update closed_fds' (live_mem_update live_mem' w) = live_mem_update live_mem' (closed_fds_update closed_fds' w)"
  "closed_fds_update closed_fds' (live_json_update live_json' w) = live_json_update live_json' (closed_fds_update closed_fds' w)"
  "closed_fds_update closed_fds' (tick_update tick' w) = tick_update tick' (closed_fds_update closed_fds' w)"
  "sockets_update sockets' (next_fd_update next_fd' w) = next_fd_update next_fd' (sockets_update sockets' w)"
  "sockets_update sockets' (stdout_update stdout' w) = stdout_update stdout' (sockets_update sockets' w)"
  "sockets_update sockets' (stderr_update stderr' w) = stderr_update stderr' (sockets_update sockets' w)"
  "sockets_update sockets' (errno_update errno' w) = errno_update errno' (sockets_update sockets' w)"
  "sockets_update sockets' (live_mem_update live_mem' w) = live_mem_update live_mem' (sockets_update sockets' w)"
  "sockets_update sockets' (live_json_update live_json' w) = live_json_update live_json' (sockets_update sockets' w)"
  "sockets_update sockets' (tick_update tick' w) = tick_update tick' (sockets_update sockets' w)"
  "next_fd_update next_fd' (stdout_update stdout' w) = stdout_update stdout' (next_fd_update next_fd' w)"
  "next_fd_update next_fd' (stderr_update stderr' w) = stderr_update stderr' (next_fd_update next_fd' w)"
  "next_fd_update next_fd' (errno_update errno' w) = errno_update errno' (next_fd_update next_fd' w)"
  "next_fd_update next_fd' (live_mem_update live_mem' w) = live_mem_update live_mem' (next_fd_update next_fd' w)"
  "next_fd_update next_fd' (live_json_update live_json' w) = live_json_update live_json' (next_fd_update next_fd' w)"
  "next_fd_update next_fd' (tick_update tick' w) = tick_update tick' (next_fd_update next_fd' w)"
  "stdout_update stdout' (stderr_update stderr' w) = stderr_update stderr' (stdout_update stdout' w)"
  "stdout_update stdout' (errno_update errno' w) = errno_update errno' (stdout_update stdout' w)"
  "stdout_update stdout' (live_mem_update live_mem' w) = live_mem_update live_mem' (stdout_update stdout' w)"
  "stdout_update stdout' (live_json_update live_json' w) = live_json_update live_json' (stdout_update stdout' w)"
  "stdout_update stdout' (tick_update tick' w) = tick_update tick' (stdout_update stdout' w)"
  "stderr_update stderr' (errno_update errno' w) = errno_update errno' (stderr_update stderr' w)"
  "stderr_update stderr' (live_mem_update live_mem' w) = live_mem_update live_mem' (stderr_update stderr' w)"
  "stderr_update stderr' (live_json_update live_json' w) = live_json_update live_json' (stderr_update stderr' w)"
  "stderr_update stderr' (tick_update tick' w) = tick_update tick' (stderr_update stderr' w)"
  "errno_update errno' (live_mem_update live_mem' w) = live_mem_update live_mem' (errno_update errno' w)"
  "errno_update errno' (live_json_update live_json' w) = live_json_update live_json' (errno_update errno' w)"
  "errno_update errno' (tick_update tick' w) = tick_update tick' (errno_update errno' w)"
  "live_mem_update live_mem' (live_json_update live_json' w) = live_json_update live_json' (live_mem_update live_mem' w)"
  "live_mem_update live_mem' (tick_update tick' w) = tick_update tick' (live_mem_update live_mem' w)"
  "live_json_update live_json' (tick_update tick' w) = tick_update tick' (live_json_update live_json' w)"
  by simp_all

definition sys :: "('z world_scheme, bool) comp" where
  "sys = (\<lambda>w. let e = sys_err w (tick w) in
     Inr (e = 0, w\<lparr>tick := Suc (tick w), errno := (if e = 0 then errno w else e)\<rparr>))"

text \<open>Text written to the standard error and to the standard output.\<close>

definition diag :: "string \<Rightarrow> ('z world_scheme, unit) comp" where
  "diag msg = modify (\<lambda>w. w\<lparr>stderr := stderr w @ [msg]\<rparr>)"

definition print :: "string \<Rightarrow> ('z world_scheme, unit) comp" where
  "print msg = modify (\<lambda>w. w\<lparr>stdout := stdout w @ [msg]\<rparr>)"

text \<open>Counts of calls in the form in which they arise.\<close>

lemma tick_sums:
  "(n::nat) + 3 = Suc (Suc (Suc n))" "n + 4 = Suc (Suc (Suc (Suc n)))"
  "n + 5 = Suc (Suc (Suc (Suc (Suc n))))" "n + 6 = Suc (Suc (Suc (Suc (Suc (Suc n)))))"
  "n + 7 = Suc (Suc (Suc (Suc (Suc (Suc (Suc n))))))" "n + 8 = Suc (Suc (Suc (Suc (Suc (Suc (Suc (Suc n)))))))"
  by simp_all

lemma sys_ok: "sys_err w (tick w) = 0 \<Longrightarrow> sys w = Inr (True, w\<lparr>tick := Suc (tick w)\<rparr>)"
  by (simp add: sys_def)

lemma sys_fails: "sys_err w (tick w) \<noteq> 0 \<Longrightarrow>
    sys w = Inr (False, w\<lparr>tick := Suc (tick w), errno := sys_err w (tick w)\<rparr>)"
  by (simp add: sys_def)

lemma sys_run [comp_simps]:
  "sys w = Inr (sys_err w (tick w) = 0,
     w\<lparr>tick := Suc (tick w),
       errno := (if sys_err w (tick w) = 0 then errno w else sys_err w (tick w))\<rparr>)"
  by (simp add: sys_def)

lemma diag_run [simp, comp_simps]: "diag m w = Inr ((), w\<lparr>stderr := stderr w @ [m]\<rparr>)"
  by (simp add: diag_def)

lemma print_run [simp, comp_simps]: "print m w = Inr ((), w\<lparr>stdout := stdout w @ [m]\<rparr>)"
  by (simp add: print_def)

lemma wp_sys [wp_simps]:
  "wp sys Q E w = (if sys_err w (tick w) = 0 then Q True (w\<lparr>tick := Suc (tick w)\<rparr>)
     else Q False (w\<lparr>tick := Suc (tick w), errno := sys_err w (tick w)\<rparr>))"
  by (simp add: wp_def sys_def Let_def)

lemma wp_diag [wp_simps]: "wp (diag m) Q E w = Q () (w\<lparr>stderr := stderr w @ [m]\<rparr>)"
  by (simp add: wp_def)

lemma wp_print [wp_simps]: "wp (print m) Q E w = Q () (w\<lparr>stdout := stdout w @ [m]\<rparr>)"
  by (simp add: wp_def)

text \<open>\<open>sleep\<close> lets time pass; \<open>close\<close> gives a descriptor back.\<close>

definition sleep :: "nat \<Rightarrow> ('z world_scheme, unit) comp" where
  "sleep n = modify (\<lambda>w. w\<lparr>tick := Suc (tick w)\<rparr>)"

definition close :: "int \<Rightarrow> ('z world_scheme, unit) comp" where
  "close fd = modify (\<lambda>w. w\<lparr>sockets := (sockets w)(fd := None), closed_fds := closed_fds w @ [fd]\<rparr>)"

lemma wp_sleep [wp_simps]: "wp (sleep n) Q E w = Q () (w\<lparr>tick := Suc (tick w)\<rparr>)"
  by (simp add: sleep_def wp_simps)

lemma wp_close [wp_simps]:
  "wp (close fd) Q E w = Q () (w\<lparr>sockets := (sockets w)(fd := None), closed_fds := closed_fds w @ [fd]\<rparr>)"
  by (simp add: close_def wp_simps)

text \<open>The observations that no bookkeeping of a call (its outcome, an error message, the
  counts of live blocks) changes.\<close>

definition quiet :: "('z world_scheme \<Rightarrow> 'b) \<Rightarrow> bool" where
  "quiet f \<longleftrightarrow> (\<forall>w g. f (tick_update g w) = f w) \<and> (\<forall>w g. f (errno_update g w) = f w) \<and>
     (\<forall>w g. f (live_mem_update g w) = f w) \<and> (\<forall>w g. f (live_json_update g w) = f w) \<and>
     (\<forall>w g. f (stderr_update g w) = f w)"

lemma quietD:
  assumes "quiet f"
  shows "f (tick_update n w) = f w" "f (errno_update e w) = f w" "f (live_mem_update k w) = f w"
    "f (live_json_update k w) = f w" "f (stderr_update m w) = f w"
  using assms by (auto simp: quiet_def)

lemma quiet_fields [simp]:
  "quiet files" "quiet (\<lambda>w. files w p)" "quiet sent" "quiet inbox" "quiet (\<lambda>w. inbox w fd)"
  "quiet mqueue" "quiet sockets" "quiet stdout" "quiet sys_err" "quiet junk" "quiet localtime"
  "quiet next_fd" "quiet pipe_data" "quiet kills" "quiet closed_fds" "quiet rnd" "quiet pid"
  "quiet fork_pid" "quiet wait_ret"
  by (simp_all add: quiet_def)

lemma keeps_sys [frame_intros]: "quiet f \<Longrightarrow> keeps f sys"
  by (simp add: keeps_def sys_def Let_def quiet_def)

lemma keeps_diag [frame_intros]: "quiet f \<Longrightarrow> keeps f (diag s)"
  by (simp add: keeps_def quiet_def)

lemma keeps_sleep [frame_intros]: "quiet f \<Longrightarrow> keeps f (sleep n)"
  unfolding sleep_def by (intro frame_intros) (simp add: quiet_def)

lemma keeps_close [frame_intros]:
  "(\<And>w g. f (sockets_update g w) = f w) \<Longrightarrow> (\<And>w g. f (closed_fds_update g w) = f w) \<Longrightarrow>
     keeps f (close fd)"
  by (simp add: close_def frame_intros)

lemma keeps_print [frame_intros]: "(\<And>w m. f (stdout_update m w) = f w) \<Longrightarrow> keeps f (print s)"
  by (simp add: keeps_def)

section \<open>Character arrays and C strings\<close>

text \<open>An array of \<open>char\<close> is the list of all its bytes, so its length is its capacity. The
  string it holds ends at the first null byte; without one, reading it as a string runs
  past its end.\<close>

abbreviation NUL :: char where "NUL \<equiv> CHR 0x00"
abbreviation NL :: char where "NL \<equiv> CHR 0x0A"
abbreviation TAB :: char where "TAB \<equiv> CHR 0x09"

definition cstr :: "char list \<Rightarrow> string option" where
  "cstr a = (if NUL \<in> set a then Some (takeWhile (\<lambda>c. c \<noteq> NUL) a) else None)"

definition put_str :: "char list \<Rightarrow> string \<Rightarrow> char list" where
  "put_str a s = s @ NUL # drop (Suc (length s)) a"

text \<open>An array of \<open>n\<close> bytes with the given bytes in it.\<close>

definition fit :: "nat \<Rightarrow> string \<Rightarrow> char list" where
  "fit n s = take n (s @ replicate n NUL)"

lemma length_fit [simp]: "length (fit n s) = n"
  by (simp add: fit_def)

lemma fit_pad: "length m \<le> n \<Longrightarrow> m @ replicate (n - length m) NUL = fit n m"
  by (simp add: fit_def min_absorb2)

lemma cstr_put_str [simp]: "NUL \<notin> set s \<Longrightarrow> cstr (put_str a s) = Some s"
  by (simp add: cstr_def put_str_def takeWhile_append)

lemma length_put_str [simp]: "length s < length a \<Longrightarrow> length (put_str a s) = length a"
  by (simp add: put_str_def)

lemma cstr_no_nul: "cstr a = Some s \<Longrightarrow> NUL \<notin> set s"
  by (auto simp: cstr_def dest: set_takeWhileD split: if_splits)

lemma cstr_length: "cstr a = Some s \<Longrightarrow> length s < length a"
proof -
  assume a: "cstr a = Some s"
  then have "takeWhile (\<lambda>c. c \<noteq> NUL) a \<noteq> a"
    by (auto simp: cstr_def dest: set_takeWhileD split: if_splits)
  then have "length (takeWhile (\<lambda>c. c \<noteq> NUL) a) < length a"
    by (metis length_takeWhile_le nat_less_le takeWhile_eq_take take_all order_refl)
  with a show ?thesis by (auto simp: cstr_def split: if_splits)
qed

lemma cstr_term [simp]: "NUL \<notin> set s \<Longrightarrow> cstr (s @ NUL # t) = Some s"
  by (simp add: cstr_def takeWhile_append)

lemma cstr_Nil [simp]: "cstr [] = None"
  by (simp add: cstr_def)

lemma cstr_zeros [simp]: "0 < n \<Longrightarrow> cstr (replicate n NUL) = Some []"
  by (cases n) (simp_all add: cstr_def)

text \<open>A \<open>char *\<close>: uninitialised, null, or the only pointer to an array.\<close>

datatype cptr = Indet | Null | Buf "char list"

text \<open>A pointer to a string literal.\<close>

definition lit :: "string \<Rightarrow> cptr" where
  "lit s = Buf (s @ [NUL])"

text \<open>Reading a string through a pointer, and the test \<open>p == NULL\<close>.\<close>

fun read_str :: "cptr \<Rightarrow> ('s, string) comp" where
  "read_str Indet = halt (Undef Indet_Pointer)"
| "read_str Null = halt (Undef Null_Deref)"
| "read_str (Buf a) = (case cstr a of None \<Rightarrow> halt (Undef Unterminated_Read) | Some s \<Rightarrow> ret s)"

fun is_null :: "cptr \<Rightarrow> ('s, bool) comp" where
  "is_null Indet = halt (Undef Indet_Pointer)"
| "is_null Null = ret True"
| "is_null (Buf a) = ret False"

text \<open>\<open>strcpy(p, s)\<close>, and \<open>sprintf(p, ...)\<close> of the formatted text \<open>s\<close>.\<close>

fun strcpy :: "cptr \<Rightarrow> string \<Rightarrow> ('s, cptr) comp" where
  "strcpy Indet s = halt (Undef Indet_Pointer)"
| "strcpy Null s = halt (Undef Null_Deref)"
| "strcpy (Buf a) s = (if length s < length a then ret (Buf (put_str a s))
                       else halt (Undef Buffer_Overflow))"

definition strcat :: "cptr \<Rightarrow> string \<Rightarrow> ('s, cptr) comp" where
  "strcat p s = bnd (read_str p) (\<lambda>t. strcpy p (t @ s))"

text \<open>\<open>strncpy(dst, src, n)\<close>: the first \<open>n\<close> bytes of the source string, then null bytes up
  to \<open>n\<close>; the source is read up to its null byte or \<open>n\<close> bytes, whichever is first.\<close>

definition strncpy :: "char list \<Rightarrow> char list \<Rightarrow> nat \<Rightarrow> ('s, char list) comp" where
  "strncpy dst src n =
     (if NUL \<notin> set (take n src) \<and> length src < n then halt (Undef Unterminated_Read)
      else if length dst < n then halt (Undef Buffer_Overflow)
      else ret (fit n (takeWhile (\<lambda>c. c \<noteq> NUL) (take n src)) @ drop n dst))"

section \<open>Storage\<close>

definition malloc :: "nat \<Rightarrow> ('z world_scheme, cptr) comp" where
  "malloc n = bnd (gets (\<lambda>w. junk w (tick w))) (\<lambda>bytes. bnd sys (\<lambda>ok.
     if ok then thn (modify (\<lambda>w. w\<lparr>live_mem := live_mem w + 1\<rparr>)) (ret (Buf (fit n bytes)))
     else ret Null))"

fun free_c :: "cptr \<Rightarrow> ('z world_scheme, unit) comp" where
  "free_c Indet = halt (Undef Indet_Pointer)"
| "free_c Null = ret ()"
| "free_c (Buf a) = modify (\<lambda>w. w\<lparr>live_mem := live_mem w - 1\<rparr>)"

text \<open>A local array without an initialiser.\<close>

definition local_array :: "nat \<Rightarrow> ('z world_scheme, char list) comp" where
  "local_array n = bnd (gets (\<lambda>w. junk w (tick w))) (\<lambda>bytes.
     thn (modify (\<lambda>w. w\<lparr>tick := Suc (tick w)\<rparr>)) (ret (fit n bytes)))"

lemma malloc_ok: "sys_err w (tick w) = 0 \<Longrightarrow>
    malloc n w = Inr (Buf (fit n (junk w (tick w))),
                      w\<lparr>tick := Suc (tick w), live_mem := live_mem w + 1\<rparr>)"
  by (simp add: malloc_def sys_ok)

lemma malloc_fails: "sys_err w (tick w) \<noteq> 0 \<Longrightarrow>
    malloc n w = Inr (Null, w\<lparr>tick := Suc (tick w), errno := sys_err w (tick w)\<rparr>)"
  by (simp add: malloc_def sys_fails)

lemma local_array_run [simp, comp_simps]:
  "local_array n w = Inr (fit n (junk w (tick w)), w\<lparr>tick := Suc (tick w)\<rparr>)"
  by (simp add: local_array_def)

lemma read_str_lit [simp]: "NUL \<notin> set s \<Longrightarrow> read_str (lit s) = ret s"
  by (simp add: lit_def)

lemma is_null_lit [simp]: "is_null (lit s) = ret False"
  by (simp add: lit_def)

lemma wp_malloc [wp_simps]:
  "wp (malloc n) Q E w =
     (if sys_err w (tick w) = 0
      then Q (Buf (fit n (junk w (tick w)))) (w\<lparr>tick := Suc (tick w), live_mem := live_mem w + 1\<rparr>)
      else Q Null (w\<lparr>tick := Suc (tick w), errno := sys_err w (tick w)\<rparr>))"
  by (simp add: malloc_def wp_simps)

lemma wp_local_array [wp_simps]:
  "wp (local_array n) Q E w = Q (fit n (junk w (tick w))) (w\<lparr>tick := Suc (tick w)\<rparr>)"
  by (simp add: wp_def)

lemma wp_free_c [wp_simps]:
  "wp (free_c p) Q E w = (case p of Indet \<Rightarrow> E (Undef Indet_Pointer) w | Null \<Rightarrow> Q () w
     | Buf a \<Rightarrow> Q () (w\<lparr>live_mem := live_mem w - 1\<rparr>))"
  by (cases p) (simp_all add: wp_simps)

lemma wp_read_str [wp_simps]:
  "wp (read_str p) Q E s = (case p of Indet \<Rightarrow> E (Undef Indet_Pointer) s
     | Null \<Rightarrow> E (Undef Null_Deref) s
     | Buf a \<Rightarrow> (case cstr a of None \<Rightarrow> E (Undef Unterminated_Read) s | Some t \<Rightarrow> Q t s))"
  by (cases p) (simp_all add: wp_simps split: option.splits)

lemma wp_is_null [wp_simps]:
  "wp (is_null p) Q E s = (case p of Indet \<Rightarrow> E (Undef Indet_Pointer) s
     | Null \<Rightarrow> Q True s | Buf a \<Rightarrow> Q False s)"
  by (cases p) (simp_all add: wp_simps)

lemma wp_strcpy [wp_simps]:
  "wp (strcpy p t) Q E s = (case p of Indet \<Rightarrow> E (Undef Indet_Pointer) s
     | Null \<Rightarrow> E (Undef Null_Deref) s
     | Buf a \<Rightarrow> (if length t < length a then Q (Buf (put_str a t)) s
                 else E (Undef Buffer_Overflow) s))"
  by (cases p) (simp_all add: wp_simps)

lemma wp_cptr [wp_simps]:
  "wp (case p of Indet \<Rightarrow> m | Null \<Rightarrow> n | Buf a \<Rightarrow> f a) Q E s =
     (case p of Indet \<Rightarrow> wp m Q E s | Null \<Rightarrow> wp n Q E s | Buf a \<Rightarrow> wp (f a) Q E s)"
  by (cases p) auto

lemma keeps_cptr [frame_intros]:
  "keeps f m \<Longrightarrow> keeps f n \<Longrightarrow> (\<And>a. keeps f (g a)) \<Longrightarrow>
     keeps f (case p of Indet \<Rightarrow> m | Null \<Rightarrow> n | Buf a \<Rightarrow> g a)"
  by (cases p) auto

lemma keeps_read_str [frame_intros]: "keeps f (read_str p)"
  by (cases p) (auto intro: frame_intros)

lemma keeps_is_null [frame_intros]: "keeps f (is_null p)"
  by (cases p) (auto intro: frame_intros)

lemma keeps_strcpy [frame_intros]: "keeps f (strcpy p s)"
  by (cases p) (auto intro: frame_intros)

lemma keeps_strcat [frame_intros]: "keeps f (strcat p s)"
  by (auto simp: strcat_def intro: frame_intros)

lemma keeps_strncpy [frame_intros]: "keeps f (strncpy d s n)"
  by (simp add: strncpy_def frame_intros)

lemma keeps_malloc [frame_intros]: "quiet f \<Longrightarrow> keeps f (malloc n)"
  unfolding malloc_def by (intro frame_intros) (simp_all add: quiet_def)

lemma keeps_free_c [frame_intros]: "quiet f \<Longrightarrow> keeps f (free_c p)"
  by (cases p) (auto intro!: frame_intros simp: quietD)

lemma keeps_local_array [frame_intros]: "quiet f \<Longrightarrow> keeps f (local_array n)"
  by (simp add: keeps_def quiet_def)

text \<open>From here on computations are taken apart by \<open>wp\<close>; the rules that run one from a
  given state stay available as \<open>comp_simps\<close>.\<close>

declare ret_run [simp del] halt_run [simp del] gets_run [simp del] modify_run [simp del]
  diag_run [simp del] print_run [simp del] local_array_run [simp del]

end
