(* ===== verification/C_Numbers.thy ===== *)
theory C_Numbers
  imports Complex_Main
begin

text \<open>
  The numbers of C as the sources use them: decimal text of integers (\<open>%d\<close>), \<open>atoi\<close>,
  the IEEE-754 binary64 type \<open>double\<close>, \<open>atof\<close>, and the \<open>%f\<close> conversions of \<open>printf\<close>.
  A finite \<open>double\<close> is its sign and its magnitude, a rational number; conversion from
  text rounds to 53 significant bits, to nearest with ties to even, as glibc does.
\<close>

section \<open>Characters\<close>

definition isspace :: "char \<Rightarrow> bool" where
  "isspace c \<longleftrightarrow> c = CHR '' '' \<or> (9 \<le> (of_char c :: nat) \<and> (of_char c :: nat) \<le> 13)"

definition isdigit :: "char \<Rightarrow> bool" where
  "isdigit c \<longleftrightarrow> 48 \<le> (of_char c :: nat) \<and> (of_char c :: nat) \<le> 57"

definition digit_val :: "char \<Rightarrow> nat" where
  "digit_val c = of_char c - 48"

definition digit_char :: "nat \<Rightarrow> char" where
  "digit_char d = char_of (48 + d)"

definition tolower :: "char \<Rightarrow> char" where
  "tolower c = (if 65 \<le> (of_char c :: nat) \<and> (of_char c :: nat) \<le> 90
                then char_of ((of_char c :: nat) + 32) else c)"

lemma of_char_digit_char [simp]: "d < 10 \<Longrightarrow> (of_char (digit_char d) :: nat) = 48 + d"
  by (simp add: digit_char_def of_char_of)

lemma isdigit_digit_char [simp]: "d < 10 \<Longrightarrow> isdigit (digit_char d)"
  by (simp add: isdigit_def)

lemma digit_val_digit_char [simp]: "d < 10 \<Longrightarrow> digit_val (digit_char d) = d"
  by (simp add: digit_val_def)

lemma isdigit_not_isspace [simp]: "isdigit c \<Longrightarrow> \<not> isspace c"
  by (auto simp: isdigit_def isspace_def)

lemma isspace_minus [simp]: "\<not> isspace (CHR ''-'')"
  by (simp add: isspace_def)

lemma isdigit_not_sign [simp]:
  "isdigit c \<Longrightarrow> c \<noteq> CHR ''-''" "isdigit c \<Longrightarrow> c \<noteq> CHR ''+''" "isdigit c \<Longrightarrow> c \<noteq> CHR ''.''"
  by (auto simp: isdigit_def)

section \<open>Decimal text of integers\<close>

fun show_nat :: "nat \<Rightarrow> string" where
  "show_nat n = (if n < 10 then [digit_char n] else show_nat (n div 10) @ [digit_char (n mod 10)])"

declare show_nat.simps [simp del]

definition show_int :: "int \<Rightarrow> string" where
  "show_int i = (if i < 0 then CHR ''-'' # show_nat (nat (- i)) else show_nat (nat i))"

definition digits_val :: "string \<Rightarrow> nat" where
  "digits_val ds = foldl (\<lambda>v c. 10 * v + digit_val c) 0 ds"

lemma digits_val_Nil [simp]: "digits_val [] = 0"
  by (simp add: digits_val_def)

lemma digits_val_snoc [simp]: "digits_val (ds @ [c]) = 10 * digits_val ds + digit_val c"
  by (simp add: digits_val_def)

lemma show_nat_isdigit: "c \<in> set (show_nat n) \<Longrightarrow> isdigit c"
proof (induction n rule: show_nat.induct)
  case (1 n)
  then show ?case
    by (cases "n < 10") (auto simp: show_nat.simps [of n])
qed

lemma show_nat_nonempty [simp]: "show_nat n \<noteq> []"
  by (subst show_nat.simps) simp

lemma digits_val_show_nat [simp]: "digits_val (show_nat n) = n"
proof (induction n rule: show_nat.induct)
  case (1 n)
  show ?case
  proof (cases "n < 10")
    case True
    then show ?thesis by (simp add: show_nat.simps [of n] digits_val_def)
  next
    case False
    with 1 show ?thesis by (simp add: show_nat.simps [of n])
  qed
qed

lemma show_nat_Cons: obtains d ds where "show_nat n = d # ds" and "isdigit d"
  using show_nat_isdigit [of _ n] by (cases "show_nat n") auto

lemma length_show_nat: "0 < k \<Longrightarrow> n < 10 ^ k \<Longrightarrow> length (show_nat n) \<le> k"
proof (induction n arbitrary: k rule: show_nat.induct)
  case (1 n)
  show ?case
  proof (cases "n < 10")
    case True
    with 1(2) show ?thesis by (simp add: show_nat.simps [of n])
  next
    case False
    with 1(3) obtain j where j: "k = Suc j" "0 < j"
      by (cases k; cases "k - 1") auto
    with 1(3) have "n div 10 < 10 ^ j"
      by (simp add: less_mult_imp_div_less mult.commute)
    with 1(1) [OF False \<open>0 < j\<close>] False j show ?thesis
      by (simp add: show_nat.simps [of n])
  qed
qed

lemma length_show_nat_ge: "10 ^ k \<le> n \<Longrightarrow> k < length (show_nat n)"
proof (induction k arbitrary: n)
  case 0
  then show ?case by simp
next
  case (Suc k)
  then have le: "10 * 10 ^ k \<le> n" by simp
  then have "10 ^ k \<le> n div 10"
    by (simp add: less_eq_div_iff_mult_less_eq mult.commute)
  moreover have "\<not> n < 10"
    using le one_le_power [of "10::nat" k] by linarith
  ultimately show ?case
    using Suc.IH [of "n div 10"] by (simp add: show_nat.simps [of n])
qed

lemma takeWhile_digits_show_nat [simp]:
  "(rest \<noteq> [] \<Longrightarrow> \<not> isdigit (hd rest)) \<Longrightarrow> takeWhile isdigit (show_nat n @ rest) = show_nat n"
  using show_nat_isdigit [of _ n]
  by (cases rest) (auto simp: takeWhile_append)

lemma dropWhile_digits_show_nat [simp]:
  "(rest \<noteq> [] \<Longrightarrow> \<not> isdigit (hd rest)) \<Longrightarrow> dropWhile isdigit (show_nat n @ rest) = rest"
  using show_nat_isdigit [of _ n]
  by (cases rest) (auto simp: dropWhile_append)

section \<open>The function atoi\<close>

text \<open>glibc's \<open>atoi\<close> is \<open>(int) strtol(s, NULL, 10)\<close>: \<open>strtol\<close> saturates at the bounds of
  a 64-bit \<open>long\<close>, and the conversion to \<open>int\<close> keeps the low 32 bits.\<close>

definition INT_MAX :: int where "INT_MAX = 2147483647"
definition INT_MIN :: int where "INT_MIN = -2147483648"

definition int32 :: "int \<Rightarrow> int" where
  "int32 x = (x + 2 ^ 31) mod 2 ^ 32 - 2 ^ 31"

definition clamp_long :: "int \<Rightarrow> int" where
  "clamp_long x = max (- (2 ^ 63)) (min (2 ^ 63 - 1) x)"

fun take_sign :: "string \<Rightarrow> bool \<times> string" where
  "take_sign [] = (False, [])"
| "take_sign (c # cs) =
     (if c = CHR ''-'' then (True, cs) else if c = CHR ''+'' then (False, cs) else (False, c # cs))"

definition atoi :: "string \<Rightarrow> int" where
  "atoi s = (let (neg, t) = take_sign (dropWhile isspace s);
                 v = int (digits_val (takeWhile isdigit t))
             in int32 (clamp_long (if neg then - v else v)))"

lemma int32_range: "INT_MIN \<le> int32 x \<and> int32 x \<le> INT_MAX"
  by (simp add: int32_def INT_MIN_def INT_MAX_def)

lemma int32_id: "INT_MIN \<le> x \<Longrightarrow> x \<le> INT_MAX \<Longrightarrow> int32 x = x"
  by (simp add: int32_def INT_MIN_def INT_MAX_def)

lemma clamp_long_id: "INT_MIN \<le> x \<Longrightarrow> x \<le> INT_MAX \<Longrightarrow> clamp_long x = x"
  by (simp add: clamp_long_def INT_MIN_def INT_MAX_def)

lemma take_sign_digit [simp]: "isdigit d \<Longrightarrow> take_sign (d # ds) = (False, d # ds)"
  by auto

lemma strip_show_nat [simp]:
  "take_sign (dropWhile isspace (show_nat n @ rest)) = (False, show_nat n @ rest)"
  by (rule show_nat_Cons [of n]) simp

lemma strip_neg_show_nat [simp]:
  "take_sign (dropWhile isspace (CHR ''-'' # show_nat n @ rest)) = (True, show_nat n @ rest)"
  by simp

text \<open>\<open>atoi\<close> reads back what \<open>%d\<close> printed, whatever follows the digits.\<close>

lemma atoi_show_int_append:
  assumes "INT_MIN \<le> i" "i \<le> INT_MAX" "rest \<noteq> [] \<Longrightarrow> \<not> isdigit (hd rest)"
  shows "atoi (show_int i @ rest) = i"
  using assms by (auto simp: atoi_def show_int_def clamp_long_id int32_id)


section \<open>The type double\<close>

text \<open>Sign and magnitude of a finite value (so that there are two zeros), the two
  infinities, and one NaN.\<close>

datatype double = DFin bool rat | DInf bool | DNaN

definition of_int_d :: "int \<Rightarrow> double" where
  "of_int_d i = DFin (i < 0) (of_int \<bar>i\<bar>)"

text \<open>The C comparison \<open>d != 0\<close>: true of a NaN.\<close>

fun nonzero_d :: "double \<Rightarrow> bool" where
  "nonzero_d (DFin n m) \<longleftrightarrow> m \<noteq> 0"
| "nonzero_d (DInf n) \<longleftrightarrow> True"
| "nonzero_d DNaN \<longleftrightarrow> True"

text \<open>The C comparison \<open>a > b\<close>: false when one of the two is a NaN.\<close>

fun signed_d :: "bool \<Rightarrow> rat \<Rightarrow> rat" where
  "signed_d n m = (if n then - m else m)"

fun greater_d :: "double \<Rightarrow> double \<Rightarrow> bool" where
  "greater_d (DFin n m) (DFin n' m') \<longleftrightarrow> signed_d n' m' < signed_d n m"
| "greater_d (DInf n) (DFin n' m') \<longleftrightarrow> \<not> n"
| "greater_d (DFin n m) (DInf n') \<longleftrightarrow> n'"
| "greater_d (DInf n) (DInf n') \<longleftrightarrow> \<not> n \<and> n'"
| "greater_d _ _ \<longleftrightarrow> False"

subsection \<open>Rounding\<close>

definition round_half_even :: "rat \<Rightarrow> int" where
  "round_half_even x = (let f = \<lfloor>x\<rfloor>; r = x - of_int f
     in if r < 1/2 then f else if 1/2 < r then f + 1 else if even f then f else f + 1)"

lemma round_half_even_int [simp]: "round_half_even (of_int i) = i"
  by (simp add: round_half_even_def)

fun ilog2 :: "nat \<Rightarrow> nat" where
  "ilog2 n = (if n < 2 then 0 else Suc (ilog2 (n div 2)))"

declare ilog2.simps [simp del]

lemma ilog2_le: "0 < n \<Longrightarrow> 2 ^ ilog2 n \<le> n"
proof (induction n rule: ilog2.induct)
  case (1 n)
  show ?case
  proof (cases "n < 2")
    case True
    with 1(2) show ?thesis by (simp add: ilog2.simps [of n])
  next
    case False
    with 1(1) have "2 ^ ilog2 (n div 2) \<le> n div 2" by simp
    with False show ?thesis by (simp add: ilog2.simps [of n])
  qed
qed

text \<open>\<open>\<lfloor>log2 x\<rfloor>\<close> of a positive rational.\<close>

definition exponent :: "rat \<Rightarrow> int" where
  "exponent x = (if 1 \<le> x then int (ilog2 (nat \<lfloor>x\<rfloor>))
                 else - int (Suc (ilog2 (nat (\<lceil>1 / x\<rceil> - 1)))))"

definition pow2 :: "int \<Rightarrow> rat" where
  "pow2 e = (if 0 \<le> e then 2 ^ nat e else 1 / 2 ^ nat (- e))"

text \<open>The nearest binary64 value of a non-negative magnitude: 53 significant bits, a
  smallest exponent of \<open>-1074\<close>, infinity from \<open>2^1024\<close> on.\<close>

definition round_double :: "bool \<Rightarrow> rat \<Rightarrow> double" where
  "round_double neg x =
     (if x = 0 then DFin neg 0
      else let q = max (exponent x - 52) (- 1074);
               m = of_int (round_half_even (x / pow2 q)) * pow2 q
           in if 2 ^ 1024 \<le> m then DInf neg else DFin neg m)"

lemma round_double_int:
  assumes "n < 2 ^ 53"
  shows "round_double neg (of_nat n) = DFin neg (of_nat n)"
proof (cases "n = 0")
  case True
  then show ?thesis by (simp add: round_double_def)
next
  case False
  let ?e = "ilog2 n"
  have e: "exponent (of_nat n) = int ?e"
    using False by (simp add: exponent_def)
  have "(2::nat) ^ ?e < 2 ^ 53"
    using ilog2_le [of n] False assms by linarith
  then have "?e < 53" by (rule power_less_imp_less_exp [rotated]) simp
  then obtain k where k: "52 = ?e + k"
    using less_Suc_eq_le [of ?e 52] le_Suc_ex [of ?e 52] by auto
  define q where "q = max (exponent (of_nat n :: rat) - 52) (- 1074)"
  have q: "q = - int k"
    using k e by (simp add: q_def)
  have p: "pow2 q = 1 / 2 ^ k"
    by (simp add: pow2_def q)
  have "of_nat n / pow2 q = (of_int (int n * 2 ^ k) :: rat)"
    by (simp add: p)
  then have m: "of_int (round_half_even (of_nat n / pow2 q)) * pow2 q = (of_nat n :: rat)"
    by (simp only: round_half_even_int) (simp add: p)
  have "(of_nat n :: rat) < of_nat (2 ^ 53)"
    using assms by (simp only: of_nat_less_iff)
  then have "\<not> (2 ^ 1024 :: rat) \<le> of_nat n" by simp
  with False show ?thesis
    unfolding round_double_def Let_def q_def [symmetric] m by simp
qed

subsection \<open>The function atof\<close>

text \<open>\<open>strtod\<close> in the C locale: leading white space, a sign, then an infinity, a NaN, a
  hexadecimal or a decimal floating constant, the longest that fits; without one the
  result is \<open>0\<close>.\<close>

definition isxdigit :: "char \<Rightarrow> bool" where
  "isxdigit c \<longleftrightarrow> isdigit c \<or> (97 \<le> (of_char (tolower c) :: nat) \<and> (of_char (tolower c) :: nat) \<le> 102)"

definition xdigit_val :: "char \<Rightarrow> nat" where
  "xdigit_val c = (if isdigit c then digit_val c else of_char (tolower c) - 87)"

definition xdigits_val :: "string \<Rightarrow> nat" where
  "xdigits_val ds = foldl (\<lambda>v c. 16 * v + xdigit_val c) 0 ds"

definition ci_prefix :: "string \<Rightarrow> string \<Rightarrow> bool" where
  "ci_prefix p s \<longleftrightarrow> map tolower (take (length p) s) = p"

text \<open>The mantissa: integral digits, fractional digits, and what follows them.\<close>

definition scan_mantissa :: "(char \<Rightarrow> bool) \<Rightarrow> string \<Rightarrow> string \<times> string \<times> string" where
  "scan_mantissa dig s =
     (let ip = takeWhile dig s; r = dropWhile dig s in
      case r of
        [] \<Rightarrow> (ip, [], [])
      | c # cs \<Rightarrow> if c = CHR ''.'' then (ip, takeWhile dig cs, dropWhile dig cs) else (ip, [], r))"

text \<open>The exponent: the letter, an optional sign and at least one digit, or none.\<close>

definition scan_exponent :: "char \<Rightarrow> string \<Rightarrow> int" where
  "scan_exponent letter s =
     (case s of
        [] \<Rightarrow> 0
      | c # cs \<Rightarrow>
          if tolower c = letter
          then let (neg, t) = take_sign cs; v = int (digits_val (takeWhile isdigit t))
               in (if neg then - v else v)
          else 0)"

definition scale :: "rat \<Rightarrow> int \<Rightarrow> rat" where
  "scale b e = (if 0 \<le> e then b ^ nat e else 1 / b ^ nat (- e))"

definition strtod_dec :: "bool \<Rightarrow> string \<Rightarrow> double" where
  "strtod_dec neg t =
     (let (ip, fp, r) = scan_mantissa isdigit t in
      if ip = [] \<and> fp = [] then DFin False 0
      else round_double neg
             (of_nat (digits_val (ip @ fp)) / 10 ^ length fp * scale 10 (scan_exponent (CHR ''e'') r)))"

definition strtod_hex :: "bool \<Rightarrow> string \<Rightarrow> double" where
  "strtod_hex neg t =
     (let (ip, fp, r) = scan_mantissa isxdigit t in
      if ip = [] \<and> fp = [] then DFin neg 0
      else round_double neg
             (of_nat (xdigits_val (ip @ fp)) / 16 ^ length fp * scale 2 (scan_exponent (CHR ''p'') r)))"

definition atof :: "string \<Rightarrow> double" where
  "atof s =
     (let (neg, t) = take_sign (dropWhile isspace s) in
      if ci_prefix ''inf'' t then DInf neg
      else if ci_prefix ''nan'' t then DNaN
      else if ci_prefix ''0x'' t then strtod_hex neg (drop 2 t)
      else strtod_dec neg t)"

lemma tolower_digit [simp]: "isdigit c \<Longrightarrow> tolower c = c"
  by (simp add: isdigit_def tolower_def)

lemma ci_prefix_show_nat [simp]:
  "\<not> ci_prefix ''inf'' (show_nat n)" "\<not> ci_prefix ''nan'' (show_nat n)"
  "\<not> ci_prefix ''0x'' (show_nat n)"
proof -
  have d: "\<not> isdigit CHR ''i''" "\<not> isdigit CHR ''n''" "\<not> isdigit CHR ''x''"
    by (simp_all add: isdigit_def)
  obtain c cs where n: "show_nat n = c # cs" "isdigit c" by (rule show_nat_Cons)
  then show "\<not> ci_prefix ''inf'' (show_nat n)" "\<not> ci_prefix ''nan'' (show_nat n)"
    using d by (auto simp: ci_prefix_def)
  show "\<not> ci_prefix ''0x'' (show_nat n)"
    using d n show_nat_isdigit [of _ n] by (cases cs) (auto simp: ci_prefix_def)
qed

lemma scan_mantissa_show_nat [simp]: "scan_mantissa isdigit (show_nat n) = (show_nat n, [], [])"
  using takeWhile_digits_show_nat [of "[]" n] dropWhile_digits_show_nat [of "[]" n]
  by (simp add: scan_mantissa_def Let_def del: takeWhile_digits_show_nat dropWhile_digits_show_nat
      takeWhile_eq_all_conv dropWhile_eq_Nil_conv)

lemma strtod_dec_show_nat: "n < 2 ^ 53 \<Longrightarrow> strtod_dec neg (show_nat n) = DFin neg (of_nat n)"
  by (simp add: strtod_dec_def scan_exponent_def scale_def round_double_int)

text \<open>\<open>atof\<close> is exact on the decimal text of an integer below \<open>2^53\<close>.\<close>

lemma atof_show_int:
  assumes "\<bar>i\<bar> < 2 ^ 53"
  shows "atof (show_int i) = of_int_d i"
proof -
  have n: "nat \<bar>i\<bar> < 2 ^ 53" using assms by (simp add: nat_less_iff)
  have s: "take_sign (dropWhile isspace (show_int i)) = (i < 0, show_nat (nat \<bar>i\<bar>))"
    using strip_show_nat [of "nat i" "[]"] strip_neg_show_nat [of "nat (- i)" "[]"]
    by (auto simp: show_int_def)
  have "atof (show_int i) = strtod_dec (i < 0) (show_nat (nat \<bar>i\<bar>))"
    by (simp add: atof_def s)
  also have "\<dots> = DFin (i < 0) (of_nat (nat \<bar>i\<bar>))"
    by (rule strtod_dec_show_nat [OF n])
  finally show ?thesis by (simp add: of_int_d_def)
qed

subsection \<open>The conversions %f and %.1f\<close>

definition pad :: "nat \<Rightarrow> nat \<Rightarrow> string" where
  "pad k n = replicate (k - length (show_nat n)) (CHR ''0'') @ show_nat n"

definition fmt_mag :: "nat \<Rightarrow> rat \<Rightarrow> string" where
  "fmt_mag k m = (let n = nat (round_half_even (m * 10 ^ k))
                  in show_nat (n div 10 ^ k) @ CHR ''.'' # pad k (n mod 10 ^ k))"

fun fmt_fixed :: "nat \<Rightarrow> double \<Rightarrow> string" where
  "fmt_fixed k (DFin neg m) = (if neg then ''-'' else []) @ fmt_mag k m"
| "fmt_fixed k (DInf neg) = (if neg then ''-inf'' else ''inf'')"
| "fmt_fixed k DNaN = ''nan''"

lemma fmt_mag_nat: "0 < k \<Longrightarrow> fmt_mag k (of_nat n) = show_nat n @ CHR ''.'' # replicate k (CHR ''0'')"
proof -
  assume k: "0 < k"
  have "of_nat n * 10 ^ k = (of_int (int n * 10 ^ k) :: rat)" by simp
  then have r: "round_half_even (of_nat n * 10 ^ k) = int n * 10 ^ k"
    by (simp only: round_half_even_int)
  have "nat (int n * 10 ^ k) = n * 10 ^ k"
    by (simp add: nat_mult_distrib nat_power_eq)
  moreover have "show_nat 0 = ''0''"
    by (simp add: show_nat.simps digit_char_def char_of_def bit_simps)
  moreover from k have "replicate k (CHR ''0'') = replicate (k - 1) (CHR ''0'') @ ''0''"
    by (cases k) (simp_all add: replicate_append_same)
  ultimately show ?thesis
    by (simp add: fmt_mag_def r pad_def)
qed

lemma fmt_fixed_int:
  "0 < k \<Longrightarrow> fmt_fixed k (of_int_d i) = show_int i @ CHR ''.'' # replicate k (CHR ''0'')"
  using fmt_mag_nat [of k "nat \<bar>i\<bar>"] by (simp add: of_int_d_def show_int_def)

text \<open>What the code does with a stored number: print it with \<open>%f\<close>, read it with \<open>atoi\<close>.\<close>

lemma atoi_fmt_fixed_int:
  assumes "INT_MIN \<le> i" "i \<le> INT_MAX" "0 < k"
  shows "atoi (fmt_fixed k (of_int_d i)) = i"
  using assms by (simp add: fmt_fixed_int atoi_show_int_append isdigit_def)

lemma show_int_no_nul [simp]: "CHR 0x00 \<notin> set (show_int i)"
proof -
  have "\<not> isdigit (CHR 0x00)" by (simp add: isdigit_def)
  then show ?thesis using show_nat_isdigit by (auto simp: show_int_def)
qed

lemma nonzero_of_int_d [simp]: "nonzero_d (of_int_d i) \<longleftrightarrow> i \<noteq> 0"
  by (simp add: of_int_d_def)

lemma length_show_int:
  assumes "INT_MIN \<le> i" "i \<le> INT_MAX"
  shows "length (show_int i) \<le> 11"
proof -
  have "nat \<bar>i\<bar> < 10 ^ 10"
    using assms by (simp add: INT_MIN_def INT_MAX_def)
  from length_show_nat [OF _ this] show ?thesis by (auto simp: show_int_def)
qed

lemma show_nat_no_nul [simp]: "CHR 0x00 \<notin> set (show_nat n)"
  using show_nat_isdigit [of "CHR 0x00" n] by (auto simp: isdigit_def)

lemma fmt_fixed_no_nul [simp]: "CHR 0x00 \<notin> set (fmt_fixed k d)"
  by (cases d) (auto simp: fmt_mag_def pad_def Let_def)

end
