(* ===== verification/Lib_Handler.thy ===== *)
theory Lib_Handler
  imports Prelude C_Numbers
begin

text \<open>
  The general helpers of the static library, \<open>lib/libsta/src/lib_handler.c\<close>: reading and
  writing whole files, releasing a buffer, error messages, log lines and time stamps.
  The standard I/O calls act on the file map of the world; each may fail.
\<close>

section \<open>Standard I/O\<close>

text \<open>\<open>fopen(path, "r")\<close> fails on a missing file (\<open>ENOENT\<close>), \<open>"w"\<close> creates or truncates,
  \<open>"a"\<close> creates.\<close>

definition fopen_r :: "string \<Rightarrow> ('z world_scheme, bool) comp" where
  "fopen_r path = bnd sys (\<lambda>ok. bnd (gets files) (\<lambda>fs.
     if ok \<and> fs path = None then thn (modify (\<lambda>w. w\<lparr>errno := 2\<rparr>)) (ret False) else ret ok))"

definition set_file :: "string \<Rightarrow> string \<Rightarrow> ('z world_scheme, unit) comp" where
  "set_file path s = modify (\<lambda>w. w\<lparr>files := (files w)(path \<mapsto> s)\<rparr>)"

definition content :: "'z world_scheme \<Rightarrow> string \<Rightarrow> string" where
  "content w path = (case files w path of None \<Rightarrow> [] | Some s \<Rightarrow> s)"

definition fopen_w :: "string \<Rightarrow> ('z world_scheme, bool) comp" where
  "fopen_w path = bnd sys (\<lambda>ok. if ok then thn (set_file path []) (ret True) else ret False)"

definition fopen_a :: "string \<Rightarrow> ('z world_scheme, bool) comp" where
  "fopen_a path = bnd sys (\<lambda>ok.
     if ok then bnd (gets (\<lambda>w. content w path)) (\<lambda>s. thn (set_file path s) (ret True))
     else ret False)"

definition fseek :: "('z world_scheme, bool) comp" where
  "fseek = sys"

text \<open>\<open>ftell\<close> at the end of the file: its size, or \<open>-1\<close>.\<close>

definition ftell :: "string \<Rightarrow> ('z world_scheme, int) comp" where
  "ftell path = bnd sys (\<lambda>ok. if ok then gets (\<lambda>w. int (length (content w path))) else ret (- 1))"

text \<open>\<open>fread\<close> of \<open>n\<close> bytes from the start of the file into an array: the count and the
  array. A failing read delivers a strict prefix.\<close>

definition fread :: "string \<Rightarrow> char list \<Rightarrow> nat \<Rightarrow> ('z world_scheme, nat \<times> char list) comp" where
  "fread path a n = bnd (gets (\<lambda>w. content w path)) (\<lambda>s. bnd sys (\<lambda>ok. bnd (gets errno) (\<lambda>e.
     let got = (if ok then take n s else take (nat e mod n) s) in
     if length a < length got then halt (Undef Buffer_Overflow)
     else ret (length got, got @ drop (length got) a))))"

text \<open>\<open>fwrite\<close> and \<open>fprintf\<close> at the end of the file; a failing call writes a strict prefix.\<close>

definition fwrite :: "string \<Rightarrow> string \<Rightarrow> ('z world_scheme, nat) comp" where
  "fwrite path s = bnd (gets (\<lambda>w. content w path)) (\<lambda>old. bnd sys (\<lambda>ok. bnd (gets errno) (\<lambda>e.
     let put = (if ok then s else take (nat e mod length s) s) in
     thn (set_file path (old @ put)) (ret (length put)))))"

section \<open>The library's functions\<close>

definition error_text :: "int \<Rightarrow> string \<Rightarrow> string \<Rightarrow> nat \<Rightarrow> string" where
  "error_text e error_message file line =
     file @ '':'' @ show_nat line @ '': Error: '' @ error_message @
     (if e \<noteq> 0 then '' Error number: '' @ show_int e else []) @ [CHR 0x0A]"

definition error_handler :: "string \<Rightarrow> string \<Rightarrow> nat \<Rightarrow> ('z world_scheme, unit) comp" where
  "error_handler error_message file line = bnd (gets errno) (\<lambda>e.
     diag (error_text e error_message file line))"

text \<open>The messages \<open>"%s:%d: ...\n"\<close> with file and line, and \<open>perror\<close>, whose description of
  the error is represented by its number.\<close>

definition diag_at :: "string \<Rightarrow> nat \<Rightarrow> string \<Rightarrow> ('z world_scheme, unit) comp" where
  "diag_at file line msg = diag (file @ '':'' @ show_nat line @ '': '' @ msg @ [CHR 0x0A])"

abbreviation lib_diag :: "nat \<Rightarrow> string \<Rightarrow> ('z world_scheme, unit) comp" where
  "lib_diag line msg \<equiv> diag_at ''lib/libsta/src/lib_handler.c'' line msg"

definition perror :: "string \<Rightarrow> ('z world_scheme, unit) comp" where
  "perror msg = bnd (gets errno) (\<lambda>e. diag (msg @ '': '' @ show_int e @ [CHR 0x0A]))"

definition read_file :: "string \<Rightarrow> cptr \<Rightarrow> ('z world_scheme, int \<times> cptr) comp" where
  "read_file filename buffer =
     bnd (fopen_r filename) (\<lambda>file.
     if \<not> file then thn (lib_diag 10 ''Error opening file'') (ret (1, buffer))
     else bnd fseek (\<lambda>end_ok.
     if \<not> end_ok then thn (lib_diag 17 ''Error seeking file'') (ret (1, buffer))
     else bnd (ftell filename) (\<lambda>fsize.
     if fsize = - 1 then thn (lib_diag 25 ''Error getting file size'') (ret (1, buffer))
     else if fsize = 0 then thn (lib_diag 31 ''File is empty'') (ret (1, buffer))
     else bnd fseek (\<lambda>set_ok.
     if \<not> set_ok then thn (lib_diag 38 ''Error seeking file'') (ret (1, buffer))
     else bnd (malloc (nat fsize + 1)) (\<lambda>str.
     case str of
       Buf a \<Rightarrow> bnd (fread filename a (nat fsize)) (\<lambda>(bytesRead, a').
         if bytesRead \<noteq> nat fsize
         then thn (free_c (Buf a')) (thn (lib_diag 56 ''Error reading file'') (ret (1, buffer)))
         else if length a' \<le> nat fsize then halt (Undef Buffer_Overflow)
         else ret (0, Buf (a'[nat fsize := NUL])))
     | _ \<Rightarrow> thn (lib_diag 46 ''Error allocating memory'') (ret (1, buffer)))))))"

text \<open>The test of \<open>write_file\<close> joins its two conditions with \<open>|\<close>, so \<open>strlen(buffer)\<close> is
  evaluated even when \<open>buffer\<close> is null.\<close>

definition write_file :: "string \<Rightarrow> cptr \<Rightarrow> ('z world_scheme, int) comp" where
  "write_file filename buffer =
     bnd (is_null buffer) (\<lambda>null.
     bnd (read_str buffer) (\<lambda>s.
     if null \<or> length s = 0 then thn (lib_diag 72 ''buffer error '') (ret 0)
     else bnd (fopen_w filename) (\<lambda>file.
     if \<not> file then thn (lib_diag 80 (''Error opening file '' @ filename)) (ret 1)
     else bnd (fwrite filename s) (\<lambda>bytesWritten.
     if bytesWritten \<noteq> length s then thn (lib_diag 88 ''Error writing file'') (ret 1)
     else ret 0))))"

text \<open>\<open>write_file\<close> up to the opening of the file: the return code if it ends there, otherwise the
  text that is to be written.\<close>

definition begin_write :: "string \<Rightarrow> cptr \<Rightarrow> ('z world_scheme, int + string) comp" where
  "begin_write filename buffer =
     bnd (is_null buffer) (\<lambda>null.
     bnd (read_str buffer) (\<lambda>s.
     if null \<or> length s = 0 then thn (lib_diag 72 ''buffer error '') (ret (Inl 0))
     else bnd (fopen_w filename) (\<lambda>file.
     if \<not> file then thn (lib_diag 80 (''Error opening file '' @ filename)) (ret (Inl 1))
     else ret (Inr s))))"

text \<open>The rest of \<open>write_file\<close>. The stream is at the start of the file: what another process has
  written since the opening is overwritten, and its tail stays if it is longer.\<close>

definition end_write :: "string \<Rightarrow> string \<Rightarrow> ('z world_scheme, int) comp" where
  "end_write filename s = bnd (gets (\<lambda>w. content w filename)) (\<lambda>old. bnd sys (\<lambda>ok. bnd (gets errno) (\<lambda>e.
     let put = (if ok then s else take (nat e mod length s) s) in
     thn (set_file filename (put @ drop (length put) old))
       (if length put \<noteq> length s then thn (lib_diag 88 ''Error writing file'') (ret 1) else ret 0))))"

definition free_ptr :: "cptr \<Rightarrow> ('z world_scheme, cptr) comp" where
  "free_ptr p = bnd (is_null p) (\<lambda>null. if null then ret p else thn (free_c p) (ret Null))"

definition generate_log :: "string \<Rightarrow> cptr \<Rightarrow> cptr \<Rightarrow> ('z world_scheme, int) comp" where
  "generate_log filename timestamp message =
     bnd (fopen_a filename) (\<lambda>file.
     if \<not> file
     then thn (error_handler ''Error opening file'' ''lib/libsta/src/lib_handler.c'' 122) (ret 1)
     else bnd (read_str timestamp) (\<lambda>t. bnd (read_str message) (\<lambda>m.
     thn (fwrite filename (t @ '', '' @ m @ [CHR 0x0A])) (ret 0))))"

text \<open>The text of \<open>strftime\<close> for the format \<open>%a %b %d %H:%M:%S %Y\<close> in the C locale.\<close>

definition day_names :: "string list" where
  "day_names = [''Sun'', ''Mon'', ''Tue'', ''Wed'', ''Thu'', ''Fri'', ''Sat'']"

definition month_names :: "string list" where
  "month_names = [''Jan'', ''Feb'', ''Mar'', ''Apr'', ''May'', ''Jun'',
                  ''Jul'', ''Aug'', ''Sep'', ''Oct'', ''Nov'', ''Dec'']"

definition name_of :: "string list \<Rightarrow> nat \<Rightarrow> string" where
  "name_of ns i = (if i < length ns then ns ! i else ''?'')"

definition asctime :: "tm \<Rightarrow> string" where
  "asctime t = name_of day_names (tm_wday t) @ '' '' @ name_of month_names (tm_mon t) @ '' '' @
     pad 2 (tm_mday t) @ '' '' @ pad 2 (tm_hour t) @ '':'' @ pad 2 (tm_min t) @ '':'' @
     pad 2 (tm_sec t) @ '' '' @ show_int (tm_year t)"

text \<open>\<open>strftime\<close> stores its text only if it fits with its null byte; otherwise the
  contents of the array are indeterminate.\<close>

definition strftime :: "char list \<Rightarrow> nat \<Rightarrow> tm \<Rightarrow> ('z world_scheme, char list) comp" where
  "strftime a maxsize t = (if length (asctime t) < maxsize
     then (if length (asctime t) < length a then ret (put_str a (asctime t))
           else halt (Undef Buffer_Overflow))
     else local_array (length a))"

definition set_timestamp :: "char list \<Rightarrow> nat \<Rightarrow> ('z world_scheme, char list) comp" where
  "set_timestamp timestamp t_size =
     bnd (gets (\<lambda>w. localtime w (tick w))) (\<lambda>time_info. strftime timestamp t_size time_info)"

section \<open>Properties\<close>

lemma wp_diag_at [wp_simps]:
  "wp (diag_at f l m) Q E w =
     Q () (w\<lparr>stderr := stderr w @ [f @ '':'' @ show_nat l @ '': '' @ m @ [CHR 0x0A]]\<rparr>)"
  by (simp add: diag_at_def wp_simps)

lemma wp_perror [wp_simps]:
  "wp (perror m) Q E w = Q () (w\<lparr>stderr := stderr w @ [m @ '': '' @ show_int (errno w) @ [CHR 0x0A]]\<rparr>)"
  by (simp add: perror_def wp_simps)

lemma keeps_diag_at [frame_intros]: "quiet f \<Longrightarrow> keeps f (diag_at a b c)"
  by (simp add: diag_at_def frame_intros)

lemma keeps_perror [frame_intros]: "quiet f \<Longrightarrow> keeps f (perror m)"
  by (simp add: perror_def frame_intros)

lemma wp_error_handler [wp_simps]:
  "wp (error_handler msg f l) Q E w =
     Q () (w\<lparr>stderr := stderr w @ [error_text (errno w) msg f l]\<rparr>)"
  by (simp add: error_handler_def wp_simps)

lemma error_handler_run [comp_simps]:
  "error_handler msg f l w = Inr ((), w\<lparr>stderr := stderr w @ [error_text (errno w) msg f l]\<rparr>)"
  by (simp add: error_handler_def comp_simps)

lemma keeps_error_handler [frame_intros]:
  "quiet f \<Longrightarrow> keeps f (error_handler a b c)"
  by (simp add: error_handler_def frame_intros)

lemma keeps_free_ptr [frame_intros]: "quiet f \<Longrightarrow> keeps f (free_ptr p)"
  by (simp add: free_ptr_def frame_intros)

lemma wp_free_ptr [wp_simps]:
  "wp (free_ptr p) Q E w = (case p of Indet \<Rightarrow> E (Undef Indet_Pointer) w | Null \<Rightarrow> Q Null w
     | Buf a \<Rightarrow> Q Null (w\<lparr>live_mem := live_mem w - 1\<rparr>))"
  by (cases p) (simp_all add: free_ptr_def wp_simps)

subsection \<open>Reading a file\<close>

lemma content_tick [simp]:
  "content (w\<lparr>tick := n\<rparr>) p = content w p" "content (w\<lparr>errno := e\<rparr>) p = content w p"
  "content (w\<lparr>live_mem := l\<rparr>) p = content w p" "content (w\<lparr>stderr := m\<rparr>) p = content w p"
  by (simp_all add: content_def)

lemma short_count:
  "s \<noteq> [] \<Longrightarrow> k mod length s < length s" "s \<noteq> [] \<Longrightarrow> k mod length s \<noteq> length s"
  "s \<noteq> [] \<Longrightarrow> \<not> Suc (length s) < k mod length s"
  by (simp_all add: less_imp_neq less_imp_not_less less_SucI)

lemma terminate_array:
  "length a = Suc (length s) \<Longrightarrow> (s @ drop (length s) a)[length s := NUL] = s @ [NUL]"
proof -
  assume "length a = Suc (length s)"
  then have "length (drop (length s) a) = Suc 0" by simp
  then obtain c where "drop (length s) a = [c]" by (auto simp only: length_Suc_conv length_0_conv)
  then show ?thesis by simp
qed

text \<open>A short read is detected: the count is the size only when every byte was delivered.\<close>

lemma wp_fread_all:
  assumes "s \<noteq> []" "content w path = s" "length a = Suc (length s)"
  shows "wp (fread path a (length s)) Q E w =
     (if sys_err w (tick w) = 0
      then Q (length s, s @ drop (length s) a) (w\<lparr>tick := Suc (tick w)\<rparr>)
      else let k = nat (sys_err w (tick w)) mod length s in
           Q (k, take k s @ drop k a) (w\<lparr>tick := Suc (tick w), errno := sys_err w (tick w)\<rparr>))"
  using assms by (simp add: fread_def wp_simps min_absorb2 Let_def short_count)

text \<open>The outcome of \<open>read_file\<close> in every world: it returns; it changes no file; it fails
  with \<open>1\<close>, the caller's pointer and the heap as before, or it delivers the whole file,
  terminated, in a new block that the caller owns.\<close>

lemma read_file_cases:
  "wp (read_file f b) (\<lambda>(r, p) w'. files w' = files w \<and>
     ((r = 1 \<and> p = b \<and> live_mem w' = live_mem w) \<or>
      (\<exists>s. files w f = Some s \<and> s \<noteq> [] \<and> r = 0 \<and> p = Buf (s @ [NUL]) \<and>
           live_mem w' = live_mem w + 1))) (\<lambda>_ _. False) w"
proof (cases "files w f")
  case None
  then show ?thesis
    by (simp add: read_file_def fopen_r_def wp_simps)
next
  case (Some s)
  note content = content_tick content_def [of w f]
  show ?thesis
  proof (cases "s = []")
    case True
    with Some show ?thesis
      by (simp add: read_file_def fopen_r_def fseek_def ftell_def wp_simps content)
  next
    case False
    with Some show ?thesis
      by (simp add: read_file_def fopen_r_def fseek_def ftell_def wp_simps content
          wp_fread_all Let_def short_count terminate_array)
  qed
qed

lemma read_file_calm:
  assumes "calm w" "files w f = Some s" "s \<noteq> []"
  shows "wp (read_file f b) Q E w =
    Q (0, Buf (s @ [NUL])) (w\<lparr>live_mem := live_mem w + 1, tick := tick w + 6\<rparr>)"
  using assms
  by (simp add: read_file_def fopen_r_def fseek_def ftell_def wp_simps content_def [of w f]
      wp_fread_all terminate_array eval_nat_numeral)

lemma keeps_read_file [frame_intros]: "quiet f \<Longrightarrow> keeps f (read_file path b)"
  unfolding read_file_def fopen_r_def fseek_def ftell_def fread_def Let_def
  by (intro frame_intros) (simp_all add: quiet_def)

subsection \<open>Writing a file\<close>

lemma take_mod_length [simp]: "s \<noteq> [] \<Longrightarrow> length (take (k mod length s) s) = k mod length s"
  by (simp add: min_def) (meson leD mod_less_divisor length_greater_0_conv)


lemma write_file_calm:
  assumes "calm w" "cstr a = Some s" "s \<noteq> []"
  shows "wp (write_file f (Buf a)) Q E w =
    Q 0 (w\<lparr>tick := tick w + 2, files := (files w)(f \<mapsto> s)\<rparr>)"
  using assms
  by (simp add: write_file_def fopen_w_def fwrite_def set_file_def content_def wp_simps Let_def)

lemma keeps_write_file [frame_intros]:
  "quiet f \<Longrightarrow> (\<And>w m. f (files_update m w) = f w) \<Longrightarrow> keeps f (write_file path b)"
  unfolding write_file_def fopen_w_def fwrite_def set_file_def Let_def
  by (intro frame_intros) (simp_all add: quiet_def)

lemma write_file_other_files [frame_intros]:
  "g \<noteq> path \<Longrightarrow> keeps (\<lambda>w. files w g) (write_file path b)"
  unfolding write_file_def fopen_w_def fwrite_def set_file_def Let_def
  by (intro frame_intros) (simp_all add: quiet_def)

text \<open>Without interference the two make up the function.\<close>

lemma write_file_steps:
  "write_file f b = bnd (begin_write f b) (\<lambda>x. case x of Inl r \<Rightarrow> ret r | Inr s \<Rightarrow> end_write f s)"
  unfolding write_file_def begin_write_def end_write_def
  by (rule ext)
     (auto simp: comp_simps fopen_w_def fwrite_def set_file_def content_def Let_def split: sum.splits prod.splits)

lemma keeps_begin_write [frame_intros]:
  "quiet f \<Longrightarrow> (\<And>w m. f (files_update m w) = f w) \<Longrightarrow> keeps f (begin_write path b)"
  "g \<noteq> path \<Longrightarrow> keeps (\<lambda>w. files w g) (begin_write path b)"
  unfolding begin_write_def fopen_w_def set_file_def
  by (intro frame_intros; simp add: quiet_def)+

lemma keeps_end_write [frame_intros]:
  "quiet f \<Longrightarrow> (\<And>w m. f (files_update m w) = f w) \<Longrightarrow> keeps f (end_write path s)"
  "g \<noteq> path \<Longrightarrow> keeps (\<lambda>w. files w g) (end_write path s)"
  unfolding end_write_def set_file_def Let_def
  by (intro frame_intros; simp add: quiet_def)+

lemma begin_write_calm:
  assumes "calm w" "cstr a = Some s" "s \<noteq> []"
  shows "wp (begin_write f (Buf a)) Q E w = Q (Inr s) (w\<lparr>tick := tick w + 1, files := (files w)(f \<mapsto> [])\<rparr>)"
  using assms by (simp add: begin_write_def fopen_w_def set_file_def wp_simps)

lemma end_write_calm:
  assumes "calm w"
  shows "wp (end_write f s) Q E w =
    Q 0 (w\<lparr>tick := tick w + 1, files := (files w)(f \<mapsto> s @ drop (length s) (content w f))\<rparr>)"
  using assms by (simp add: end_write_def set_file_def content_def wp_simps Let_def)

subsection \<open>Log lines\<close>

lemma generate_log_calm:
  assumes "calm w" "cstr t = Some time" "cstr m = Some msg"
  shows "wp (generate_log f (Buf t) (Buf m)) Q E w =
    Q 0 (w\<lparr>tick := tick w + 2,
            files := (files w)(f \<mapsto> content w f @ time @ '', '' @ msg @ [CHR 0x0A])\<rparr>)"
  using assms
  by (simp add: generate_log_def fopen_a_def fwrite_def set_file_def content_def wp_simps Let_def)

lemma generate_log_append_only:
  "wp (generate_log f t m)
     (\<lambda>r w'. take (length (content w f)) (content w' f) = content w f \<and> (\<forall>g. g \<noteq> f \<longrightarrow> files w' g = files w g))
     (\<lambda>e w'. take (length (content w f)) (content w' f) = content w f \<and> (\<forall>g. g \<noteq> f \<longrightarrow> files w' g = files w g)) w"
  by (cases t; cases m)
     (simp_all add: generate_log_def fopen_a_def fwrite_def set_file_def content_def wp_simps Let_def
       split: option.splits)

lemma keeps_generate_log [frame_intros]:
  "quiet f \<Longrightarrow> (\<And>w m. f (files_update m w) = f w) \<Longrightarrow> keeps f (generate_log path t m)"
  unfolding generate_log_def fopen_a_def fwrite_def set_file_def Let_def
  by (intro frame_intros) (simp_all add: quiet_def)

lemma generate_log_other_files [frame_intros]:
  "g \<noteq> path \<Longrightarrow> keeps (\<lambda>w. files w g) (generate_log path t m)"
  unfolding generate_log_def fopen_a_def fwrite_def set_file_def Let_def
  by (intro frame_intros) (simp_all add: quiet_def)

subsection \<open>Time stamps\<close>

definition tm_ok :: "tm \<Rightarrow> bool" where
  "tm_ok t \<longleftrightarrow> tm_wday t < 7 \<and> tm_mon t < 12"

lemma length_pad: "k \<le> length (pad k n)"
  by (simp add: pad_def)

lemma length_names: "i < 7 \<Longrightarrow> length (day_names ! i) = 3" "j < 12 \<Longrightarrow> length (month_names ! j) = 3"
  by (auto simp: day_names_def month_names_def less_Suc_eq eval_nat_numeral nth_Cons')

lemma length_show_int_pos: "0 < length (show_int i)"
  by (simp add: show_int_def)

lemma asctime_long:
  assumes "tm_ok t"
  shows "21 \<le> length (asctime t)"
proof -
  have "length (asctime t) = 12 + length (pad 2 (tm_mday t)) + length (pad 2 (tm_hour t)) +
      length (pad 2 (tm_min t)) + length (pad 2 (tm_sec t)) + length (show_int (tm_year t))"
    using assms length_names
    by (simp add: asctime_def name_of_def tm_ok_def) (simp add: day_names_def month_names_def)
  with length_pad [of 2 "tm_mday t"] length_pad [of 2 "tm_hour t"] length_pad [of 2 "tm_min t"]
    length_pad [of 2 "tm_sec t"] length_show_int_pos [of "tm_year t"]
  show ?thesis by linarith
qed

lemma keeps_set_timestamp [frame_intros]: "quiet f \<Longrightarrow> keeps f (set_timestamp a n)"
  unfolding set_timestamp_def strftime_def by (intro frame_intros)

section \<open>Files as a store for one text\<close>

text \<open>The interface that the state file's users rely on: loading delivers the whole text in
  a block of exactly its size, and a stored text is the one loaded next.\<close>

locale text_store =
  fixes load :: "('s, int \<times> cptr) comp"
    and store :: "cptr \<Rightarrow> ('s, int) comp"
    and doc :: "'s \<Rightarrow> string option"
    and ready :: "'s \<Rightarrow> bool"
  assumes load_spec: "ready s \<Longrightarrow> doc s = Some t \<Longrightarrow> t \<noteq> [] \<Longrightarrow>
      wp load (\<lambda>(r, p) s'. r = 0 \<and> p = Buf (t @ [NUL]) \<and> doc s' = Some t \<and> ready s') (\<lambda>_ _. False) s"
    and store_spec: "ready s \<Longrightarrow> cstr a = Some t \<Longrightarrow> t \<noteq> [] \<Longrightarrow>
      wp (store (Buf a)) (\<lambda>r s'. r = 0 \<and> doc s' = Some t \<and> ready s') (\<lambda>_ _. False) s"
begin

lemma store_load:
  assumes "ready s" "cstr a = Some t" "t \<noteq> []"
  shows "wp (thn (store (Buf a)) load)
    (\<lambda>(r, p) s'. r = 0 \<and> p = Buf (t @ [NUL]) \<and> doc s' = Some t) (\<lambda>_ _. False) s"
proof -
  have "wp load (\<lambda>(r, p) s'. r = 0 \<and> p = Buf (t @ [NUL]) \<and> doc s' = Some t) (\<lambda>_ _. False) s'"
    if "ready s'" "doc s' = Some t" for s'
    by (rule wp_mono [OF load_spec [OF that assms(3)]]) auto
  then show ?thesis
    unfolding wp_thn by (rule wp_mono [OF store_spec [OF assms]]) auto
qed

text \<open>A read-modify-write: whatever the client computes from the loaded text is stored.\<close>

lemma load_modify_store:
  assumes "ready s" "doc s = Some t" "t \<noteq> []"
    and edit: "\<And>s'. ready s' \<Longrightarrow> doc s' = Some t \<Longrightarrow>
      wp (edit (Buf (t @ [NUL]))) (\<lambda>p s''. p = Buf a \<and> ready s'') (\<lambda>_ _. False) s'"
    and "cstr a = Some u" "u \<noteq> []"
  shows "wp (bnd load (\<lambda>(r, p). bnd (edit p) store))
    (\<lambda>r s'. r = 0 \<and> doc s' = Some u) (\<lambda>_ _. False) s"
proof -
  have "wp (edit (Buf (t @ [NUL])))
      (\<lambda>p. wp (store p) (\<lambda>r s'. r = 0 \<and> doc s' = Some u) (\<lambda>_ _. False)) (\<lambda>_ _. False) s'"
    if "ready s'" "doc s' = Some t" for s'
    by (rule wp_mono [OF edit [OF that]]) (auto intro: wp_mono [OF store_spec [OF _ assms(5,6)]])
  then show ?thesis
    by (auto simp: wp_bnd intro!: wp_mono [OF load_spec [OF assms(1-3)]])
qed

end

interpretation file_store: text_store "read_file f b" "write_file f" "\<lambda>w. files w f" calm for f b
  by unfold_locales (simp_all add: read_file_calm write_file_calm)

section \<open>The properties of the library\<close>

text \<open>A world to evaluate the model in: no call fails, uninitialised storage holds null bytes,
  there are no files but one.\<close>

definition demo_world :: "string \<Rightarrow> string \<Rightarrow> world" where
  "demo_world path t = \<lparr>sys_err = (\<lambda>_. 0), junk = (\<lambda>_. []), tick = 0,
     localtime = (\<lambda>_. \<lparr>tm_wday = 3, tm_mon = 6, tm_mday = 3, tm_hour = 15, tm_min = 13, tm_sec = 5, tm_year = 2024\<rparr>),
     rnd = (\<lambda>n. n), errno = 0, files = [path \<mapsto> t], live_mem = 0, live_json = 0, stdout = [], stderr = [],
     sockets = Map.empty, next_fd = 3, inbox = (\<lambda>_. []), sent = [], mqueue = [], pipe_data = [], kills = [],
     closed_fds = [], pid = 100, fork_pid = (\<lambda>_. 1), wait_ret = (\<lambda>_. (0, 0))\<rparr>"

lemma demo_world_calm [simp]: "calm (demo_world f t)"
  by (simp add: demo_world_def)

text \<open>C32: In every world \<open>read_file\<close> returns, and it changes no file. It fails with \<open>1\<close>, with the
  caller's pointer as it was and no block kept, or it returns \<open>0\<close> and hands over one new block
  with the whole file and a terminating null byte. A short read is never reported as success.\<close>

theorem read_file_outcome:
  "wp (read_file f b) (\<lambda>(r, p) w'. files w' = files w \<and>
     ((r = 1 \<and> p = b \<and> live_mem w' = live_mem w) \<or>
      (\<exists>s. files w f = Some s \<and> s \<noteq> [] \<and> r = 0 \<and> p = Buf (s @ [NUL]) \<and>
           live_mem w' = live_mem w + 1))) (\<lambda>_ _. False) w"
  by (rule read_file_cases)



text \<open>C34: What is written is what is read next: when no call fails, writing a non-empty text and
  reading the file delivers the same text, whatever the file held and whatever array the text
  came from.\<close>

theorem write_read_roundtrip:
  assumes "calm w" "cstr a = Some t" "t \<noteq> []"
  shows "wp (thn (write_file f (Buf a)) (read_file f b))
    (\<lambda>(r, p) w'. r = 0 \<and> p = Buf (t @ [NUL]) \<and> files w' f = Some t) (\<lambda>_ _. False) w"
  using file_store.store_load [OF assms] .

theorem write_read_roundtrip_witness:
  "wp (thn (write_file ''f'' (Buf (''hi'' @ [NUL]))) (read_file ''f'' Null))
    (\<lambda>(r, p) w'. r = 0 \<and> p = Buf (''hi'' @ [NUL]) \<and> files w' ''f'' = Some ''hi'') (\<lambda>_ _. False)
    (demo_world ''f'' ''old'')"
  by (rule write_read_roundtrip) (simp_all add: demo_world_def cstr_def)

text \<open>The guard of \<open>write_file\<close> does not protect it from a null pointer: its two tests are
  joined by the operator that evaluates both sides, so the null pointer is read.\<close>

theorem write_file_null:
  "wp (write_file f Null) (\<lambda>_ _. False) (\<lambda>e w'. e = Undef Null_Deref \<and> w' = w) w"
  by (simp add: write_file_def wp_simps)

text \<open>C35: The log is append-only, in every world and on every path: what the file held stays its
  beginning, and no other file changes.\<close>

theorem log_append_only:
  "wp (generate_log f t m)
     (\<lambda>r w'. take (length (content w f)) (content w' f) = content w f \<and> (\<forall>g. g \<noteq> f \<longrightarrow> files w' g = files w g))
     (\<lambda>e w'. take (length (content w f)) (content w' f) = content w f \<and> (\<forall>g. g \<noteq> f \<longrightarrow> files w' g = files w g)) w"
  by (rule generate_log_append_only)

theorem log_append_only_witness:
  "wp (generate_log ''l'' (lit ''now'') (lit ''up''))
     (\<lambda>r w'. take (length (content (demo_world ''l'' ''x'') ''l'')) (content w' ''l'') = content (demo_world ''l'' ''x'') ''l'' \<and>
        (\<forall>g. g \<noteq> ''l'' \<longrightarrow> files w' g = files (demo_world ''l'' ''x'') g))
     (\<lambda>e w'. take (length (content (demo_world ''l'' ''x'') ''l'')) (content w' ''l'') = content (demo_world ''l'' ''x'') ''l'' \<and>
        (\<forall>g. g \<noteq> ''l'' \<longrightarrow> files w' g = files (demo_world ''l'' ''x'') g)) (demo_world ''l'' ''x'')"
  by (rule log_append_only)

text \<open>A time stamp never fits the 20 bytes that the callers provide: the text of every date
  has more than 20 characters, so \<open>strftime\<close> stores nothing it promises, and what the array
  holds afterwards is indeterminate and does not depend on the time.\<close>

theorem timestamp_never_fits:
  assumes "tm_ok (localtime w (tick w))" "length a = 20"
  shows "20 < length (asctime (localtime w (tick w))) \<and>
    wp (set_timestamp a 20) (\<lambda>a' w'. a' = fit 20 (junk w (tick w))) (\<lambda>_ _. False) w"
  using asctime_long [OF assms(1)] assms(2)
  by (simp add: set_timestamp_def strftime_def wp_simps)

theorem timestamp_never_fits_witness:
  "20 < length (asctime (localtime (demo_world [] []) (tick (demo_world [] [])))) \<and>
   wp (set_timestamp (replicate 20 NUL) 20)
     (\<lambda>a' w'. a' = fit 20 (junk (demo_world [] []) (tick (demo_world [] [])))) (\<lambda>_ _. False) (demo_world [] [])"
  by (rule timestamp_never_fits) (simp_all add: demo_world_def tm_ok_def)

end
