(* ===== verification/Cjson_Api.thy ===== *)
theory Cjson_Api
  imports Lib_Handler
begin

text \<open>
  The interface of cJSON, the JSON library the build fetches and links. Its code is not
  part of the repository, so it is a parameter of the model: a record of the functions,
  tests and fields that the sources use, over an arbitrary type of JSON trees. What the
  sources rely on is stated once, as the assumptions of the locale \<open>cjson_lib\<close>.
\<close>

section \<open>The functions\<close>

text \<open>\<open>cJSON_items\<close> are the children in the order of \<open>cJSON_ArrayForEach\<close>, each with its
  \<open>string\<close> field (null for the elements of an array).\<close>

record 'j cjson_api =
  cJSON_Parse :: "string \<Rightarrow> 'j option"
  cJSON_Print :: "'j \<Rightarrow> string"
  cJSON_GetObjectItemCaseSensitive :: "'j \<Rightarrow> string \<Rightarrow> 'j option"
  cJSON_IsString :: "'j \<Rightarrow> bool"
  cJSON_IsNumber :: "'j \<Rightarrow> bool"
  cJSON_IsObject :: "'j \<Rightarrow> bool"
  valuestring :: "'j \<Rightarrow> string option"
  valuedouble :: "'j \<Rightarrow> double"
  cJSON_CreateObject :: 'j
  cJSON_CreateNumber :: "double \<Rightarrow> 'j"
  cJSON_CreateString :: "string \<Rightarrow> 'j"
  cJSON_AddItemToObject :: "'j \<Rightarrow> string \<Rightarrow> 'j \<Rightarrow> 'j"
  cJSON_DeleteItemFromObject :: "'j \<Rightarrow> string \<Rightarrow> 'j"
  cJSON_Duplicate :: "'j \<Rightarrow> 'j"
  cJSON_items :: "'j \<Rightarrow> (string option \<times> 'j) list"

section \<open>What the sources rely on\<close>

text \<open>Object keys are matched exactly by \<open>cJSON_GetObjectItemCaseSensitive\<close>, and without
  regard to case by \<open>cJSON_DeleteItemFromObject\<close>; both take the first match.\<close>

definition ci_eq :: "string \<Rightarrow> string option \<Rightarrow> bool" where
  "ci_eq k x \<longleftrightarrow> (case x of None \<Rightarrow> False | Some k' \<Rightarrow> map tolower k = map tolower k')"

fun delete_first :: "('a \<Rightarrow> bool) \<Rightarrow> 'a list \<Rightarrow> 'a list" where
  "delete_first P [] = []"
| "delete_first P (x # xs) = (if P x then xs else x # delete_first P xs)"

lemma set_delete_first: "set (delete_first P xs) \<subseteq> set xs"
  by (induction xs) auto

text \<open>The documented limit \<open>CJSON_NESTING_LIMIT\<close> of the parser.\<close>

definition CJSON_NESTING_LIMIT :: nat where
  "CJSON_NESTING_LIMIT = 1000"

text \<open>
  The contract. \<open>valid\<close> are the trees on which printing loses nothing (numbers in the
  range of \<open>int\<close>, strings without null bytes) and \<open>depth\<close> is the nesting of objects and
  arrays: parsing inverts printing on the valid trees within the nesting limit.
\<close>

locale cjson_lib =
  fixes api :: "'j cjson_api" and valid :: "'j \<Rightarrow> bool" and depth :: "'j \<Rightarrow> nat"
  assumes parse_print:
      "valid j \<Longrightarrow> depth j \<le> CJSON_NESTING_LIMIT \<Longrightarrow> cJSON_Parse api (cJSON_Print api j) = Some j"
    and print_text: "NUL \<notin> set (cJSON_Print api j)" "cJSON_Print api j \<noteq> []"
    and parse_empty: "cJSON_Parse api [] = None"
    and get_items: "cJSON_IsObject api j \<Longrightarrow>
      cJSON_GetObjectItemCaseSensitive api j k = map_of (cJSON_items api j) (Some k)"
    and object_kind: "cJSON_IsObject api j \<Longrightarrow> \<not> cJSON_IsString api j \<and> \<not> cJSON_IsNumber api j"
    and create_object: "cJSON_IsObject api (cJSON_CreateObject api)"
      "cJSON_items api (cJSON_CreateObject api) = []"
    and create_string: "NUL \<notin> set s \<Longrightarrow> cJSON_IsString api (cJSON_CreateString api s)"
      "NUL \<notin> set s \<Longrightarrow> valuestring api (cJSON_CreateString api s) = Some s"
    and create_number: "cJSON_IsNumber api (cJSON_CreateNumber api d)"
      "\<not> cJSON_IsString api (cJSON_CreateNumber api d)"
      "valuedouble api (cJSON_CreateNumber api d) = d"
    and valuestring_text: "valuestring api j = Some s \<Longrightarrow> NUL \<notin> set s"
    and add_item: "cJSON_IsObject api j \<Longrightarrow> cJSON_IsObject api (cJSON_AddItemToObject api j k v)"
      "cJSON_IsObject api j \<Longrightarrow>
        cJSON_items api (cJSON_AddItemToObject api j k v) = cJSON_items api j @ [(Some k, v)]"
    and delete_item: "cJSON_IsObject api j \<Longrightarrow> cJSON_IsObject api (cJSON_DeleteItemFromObject api j k)"
      "cJSON_IsObject api j \<Longrightarrow>
        cJSON_items api (cJSON_DeleteItemFromObject api j k) =
          delete_first (\<lambda>(k', v). ci_eq k k') (cJSON_items api j)"
    and duplicate: "cJSON_Duplicate api j = j"
    and valid_object: "valid (cJSON_CreateObject api)"
    and valid_string: "NUL \<notin> set s \<Longrightarrow> valid (cJSON_CreateString api s)"
    and valid_number: "INT_MIN \<le> i \<Longrightarrow> i \<le> INT_MAX \<Longrightarrow> valid (cJSON_CreateNumber api (of_int_d i))"
    and valid_add: "cJSON_IsObject api j \<Longrightarrow> valid j \<Longrightarrow> valid v \<Longrightarrow> NUL \<notin> set k \<Longrightarrow>
      valid (cJSON_AddItemToObject api j k v)"
    and valid_delete: "cJSON_IsObject api j \<Longrightarrow> valid j \<Longrightarrow> valid (cJSON_DeleteItemFromObject api j k)"
    and valid_item: "valid j \<Longrightarrow> (ok, v) \<in> set (cJSON_items api j) \<Longrightarrow> valid v"
    and depth_scalar: "depth (cJSON_CreateString api s) = 0" "depth (cJSON_CreateNumber api d) = 0"
    and depth_object: "cJSON_IsObject api j \<Longrightarrow> 1 \<le> depth j" "depth (cJSON_CreateObject api) = 1"
    and depth_add: "cJSON_IsObject api j \<Longrightarrow>
      depth (cJSON_AddItemToObject api j k v) = max (depth j) (Suc (depth v))"
    and depth_delete: "cJSON_IsObject api j \<Longrightarrow> depth (cJSON_DeleteItemFromObject api j k) \<le> depth j"
    and depth_item: "(ok, v) \<in> set (cJSON_items api j) \<Longrightarrow> depth v < depth j"
begin

lemmas cjson_specs = get_items create_object create_string create_number add_item delete_item

end

section \<open>The calls\<close>

text \<open>Each call that allocates may fail. A tree obtained from the library is live until it
  is deleted or becomes part of another tree; printed text is a heap block.\<close>

definition parse_c :: "'j cjson_api \<Rightarrow> cptr \<Rightarrow> ('z world_scheme, 'j option) comp" where
  "parse_c api p = bnd (is_null p) (\<lambda>null. if null then ret None
     else bnd (read_str p) (\<lambda>s. bnd sys (\<lambda>ok.
       case (if ok then cJSON_Parse api s else None) of
         None \<Rightarrow> ret None
       | Some j \<Rightarrow> thn (modify (\<lambda>w. w\<lparr>live_json := live_json w + 1\<rparr>)) (ret (Some j)))))"

definition create_c :: "'j \<Rightarrow> ('z world_scheme, 'j option) comp" where
  "create_c j = bnd sys (\<lambda>ok.
     if ok then thn (modify (\<lambda>w. w\<lparr>live_json := live_json w + 1\<rparr>)) (ret (Some j)) else ret None)"

definition print_c :: "'j cjson_api \<Rightarrow> 'j \<Rightarrow> ('z world_scheme, cptr) comp" where
  "print_c api j = bnd sys (\<lambda>ok.
     if ok then thn (modify (\<lambda>w. w\<lparr>live_mem := live_mem w + 1\<rparr>))
                    (ret (Buf (cJSON_Print api j @ [NUL])))
     else ret Null)"

definition get_c :: "'j cjson_api \<Rightarrow> 'j \<Rightarrow> string option \<Rightarrow> 'j option" where
  "get_c api j key = (case key of None \<Rightarrow> None | Some k \<Rightarrow> cJSON_GetObjectItemCaseSensitive api j k)"

text \<open>\<open>cJSON_AddItemToObject\<close> does nothing when the key or the item is null or when it
  cannot copy the key; the item then stays with the caller.\<close>

definition add_c :: "'j cjson_api \<Rightarrow> 'j \<Rightarrow> string option \<Rightarrow> 'j option \<Rightarrow> ('z world_scheme, 'j) comp" where
  "add_c api j key item = (case (key, item) of
     (Some k, Some v) \<Rightarrow> bnd sys (\<lambda>ok.
       if ok then thn (modify (\<lambda>w. w\<lparr>live_json := live_json w - 1\<rparr>))
                      (ret (cJSON_AddItemToObject api j k v))
       else ret j)
   | _ \<Rightarrow> ret j)"

text \<open>A \<open>char *\<close> argument that the library accepts as null.\<close>

definition opt_str :: "cptr \<Rightarrow> ('s, string option) comp" where
  "opt_str p = bnd (is_null p) (\<lambda>null. if null then ret None else bnd (read_str p) (\<lambda>s. ret (Some s)))"

lemma wp_parse_c [wp_simps]:
  "wp (parse_c api p) Q E w = (case p of
     Indet \<Rightarrow> E (Undef Indet_Pointer) w
   | Null \<Rightarrow> Q None w
   | Buf a \<Rightarrow> (case cstr a of
       None \<Rightarrow> E (Undef Unterminated_Read) w
     | Some s \<Rightarrow>
         if sys_err w (tick w) \<noteq> 0
         then Q None (w\<lparr>tick := Suc (tick w), errno := sys_err w (tick w)\<rparr>)
         else (case cJSON_Parse api s of
           None \<Rightarrow> Q None (w\<lparr>tick := Suc (tick w)\<rparr>)
         | Some j \<Rightarrow> Q (Some j) (w\<lparr>tick := Suc (tick w), live_json := live_json w + 1\<rparr>))))"
  by (cases p) (simp_all add: parse_c_def wp_simps split: option.splits)

lemma wp_create_c [wp_simps]:
  "wp (create_c j) Q E w =
     (if sys_err w (tick w) = 0
      then Q (Some j) (w\<lparr>tick := Suc (tick w), live_json := live_json w + 1\<rparr>)
      else Q None (w\<lparr>tick := Suc (tick w), errno := sys_err w (tick w)\<rparr>))"
  by (simp add: create_c_def wp_simps)

lemma wp_print_c [wp_simps]:
  "wp (print_c api j) Q E w =
     (if sys_err w (tick w) = 0
      then Q (Buf (cJSON_Print api j @ [NUL])) (w\<lparr>tick := Suc (tick w), live_mem := live_mem w + 1\<rparr>)
      else Q Null (w\<lparr>tick := Suc (tick w), errno := sys_err w (tick w)\<rparr>))"
  by (simp add: print_c_def wp_simps)

lemma wp_add_c [wp_simps]:
  "wp (add_c api j key item) Q E w = (case (key, item) of
     (Some k, Some v) \<Rightarrow>
       if sys_err w (tick w) = 0
       then Q (cJSON_AddItemToObject api j k v)
              (w\<lparr>tick := Suc (tick w), live_json := live_json w - 1\<rparr>)
       else Q j (w\<lparr>tick := Suc (tick w), errno := sys_err w (tick w)\<rparr>)
   | _ \<Rightarrow> Q j w)"
  by (cases key; cases item) (simp_all add: add_c_def wp_simps)

lemma wp_opt_str [wp_simps]:
  "wp (opt_str p) Q E s = (case p of
     Indet \<Rightarrow> E (Undef Indet_Pointer) s
   | Null \<Rightarrow> Q None s
   | Buf a \<Rightarrow> (case cstr a of None \<Rightarrow> E (Undef Unterminated_Read) s | Some t \<Rightarrow> Q (Some t) s))"
  by (cases p) (simp_all add: opt_str_def wp_simps split: option.splits)

lemma keeps_parse_c [frame_intros]: "quiet f \<Longrightarrow> keeps f (parse_c api p)"
  unfolding parse_c_def by (intro frame_intros) (simp_all add: quiet_def)

lemma keeps_create_c [frame_intros]: "quiet f \<Longrightarrow> keeps f (create_c j)"
  unfolding create_c_def by (intro frame_intros) (simp_all add: quiet_def)

lemma keeps_print_c [frame_intros]: "quiet f \<Longrightarrow> keeps f (print_c api j)"
  unfolding print_c_def by (intro frame_intros) (simp_all add: quiet_def)

lemma keeps_add_c [frame_intros]: "quiet f \<Longrightarrow> keeps f (add_c api j k v)"
  unfolding add_c_def by (cases k; cases v) (auto intro!: frame_intros simp: quietD)

lemma keeps_opt_str [frame_intros]: "keeps f (opt_str p)"
  unfolding opt_str_def by (intro frame_intros)

end
