(* ===== verification/Json_Reference.thy ===== *)
theory Json_Reference
  imports Cjson_Api
begin

text \<open>
  A reference implementation of the cJSON interface: JSON trees as a datatype, a printer
  with the layout of \<open>cJSON_Print\<close> (one tab per level, a tab after the colon) and a
  recursive-descent parser. It shows that the contract \<open>cjson_lib\<close> can be met, and it
  makes the model run: the repository's unit tests and state file are evaluated on it.
  It stands in for cJSON on trees whose numbers are integers in the range of \<open>int\<close>.
\<close>

section \<open>Trees and their text\<close>

datatype json = JNull | JBool bool | JNum double | JStr string
  | JArr "json list" | JObj "(string \<times> json) list"

definition hex_char :: "nat \<Rightarrow> char" where
  "hex_char d = (if d < 10 then char_of (48 + d) else char_of (87 + d))"

definition esc :: "char \<Rightarrow> string" where
  "esc c = (if c = CHR 0x22 then [CHR 0x5C, CHR 0x22]
     else if c = CHR 0x5C then [CHR 0x5C, CHR 0x5C]
     else if c = CHR 0x08 then [CHR 0x5C, CHR ''b'']
     else if c = CHR 0x0C then [CHR 0x5C, CHR ''f'']
     else if c = CHR 0x0A then [CHR 0x5C, CHR ''n'']
     else if c = CHR 0x0D then [CHR 0x5C, CHR ''r'']
     else if c = CHR 0x09 then [CHR 0x5C, CHR ''t'']
     else if (of_char c :: nat) < 32
     then [CHR 0x5C, CHR ''u'', CHR ''0'', CHR ''0'', hex_char (of_char c div 16), hex_char (of_char c mod 16)]
     else [c])"

definition pr_string :: "string \<Rightarrow> string" where
  "pr_string s = CHR 0x22 # concat (map esc s) @ [CHR 0x22]"

definition int_of_double :: "double \<Rightarrow> int option" where
  "int_of_double d = (case d of
     DFin neg m \<Rightarrow> let i = (if neg then - \<lfloor>m\<rfloor> else \<lfloor>m\<rfloor>) in
       if of_int \<lfloor>m\<rfloor> = m \<and> INT_MIN \<le> i \<and> i \<le> INT_MAX then Some i else None
   | _ \<Rightarrow> None)"

definition pr_number :: "double \<Rightarrow> string" where
  "pr_number d = (case int_of_double d of Some i \<Rightarrow> show_int i
     | None \<Rightarrow> (case d of DFin neg m \<Rightarrow> fmt_fixed 6 d | _ \<Rightarrow> ''null''))"

abbreviation tabs :: "nat \<Rightarrow> string" where
  "tabs d \<equiv> replicate d (CHR 0x09)"

fun pr :: "nat \<Rightarrow> json \<Rightarrow> string"
  and pr_items :: "nat \<Rightarrow> (string \<times> json) list \<Rightarrow> string"
  and pr_elems :: "nat \<Rightarrow> json list \<Rightarrow> string" where
  "pr d JNull = ''null''"
| "pr d (JBool b) = (if b then ''true'' else ''false'')"
| "pr d (JNum x) = pr_number x"
| "pr d (JStr s) = pr_string s"
| "pr d (JArr xs) = ''['' @ pr_elems d xs @ '']''"
| "pr d (JObj kvs) = [CHR 0x7B, CHR 0x0A] @ pr_items (Suc d) kvs @ tabs d @ [CHR 0x7D]"
| "pr_items d [] = []"
| "pr_items d ((k, v) # rest) = tabs d @ pr_string k @ [CHR '':'', CHR 0x09] @ pr d v @
     (if rest = [] then [] else '','') @ [CHR 0x0A] @ pr_items d rest"
| "pr_elems d [] = []"
| "pr_elems d (x # xs) = pr d x @ (if xs = [] then [] else '', '' @ pr_elems d xs)"

section \<open>The parser\<close>

definition skip :: "string \<Rightarrow> string" where
  "skip s = dropWhile (\<lambda>c. (of_char c :: nat) \<le> 32) s"

definition unesc :: "char \<Rightarrow> char option" where
  "unesc e = (if e = CHR ''b'' then Some (CHR 0x08) else if e = CHR ''f'' then Some (CHR 0x0C)
     else if e = CHR ''n'' then Some (CHR 0x0A) else if e = CHR ''r'' then Some (CHR 0x0D)
     else if e = CHR ''t'' then Some (CHR 0x09)
     else if e = CHR 0x22 \<or> e = CHR 0x5C \<or> e = CHR ''/'' then Some e else None)"

fun parse_chars :: "string \<Rightarrow> (string \<times> string) option" where
  "parse_chars [] = None"
| "parse_chars (c # cs) =
     (if c = CHR 0x22 then Some ([], cs)
      else if c = CHR 0x5C then
        (case cs of
           [] \<Rightarrow> None
         | e # es \<Rightarrow>
             if e = CHR ''u'' then
               (case es of
                  h1 # h2 # h3 # h4 # r \<Rightarrow>
                    if list_all isxdigit [h1, h2, h3, h4] \<and> xdigits_val [h1, h2, h3, h4] < 128
                    then map_option (apfst (Cons (char_of (xdigits_val [h1, h2, h3, h4])))) (parse_chars r)
                    else None
                | _ \<Rightarrow> None)
             else (case unesc e of None \<Rightarrow> None | Some x \<Rightarrow> map_option (apfst (Cons x)) (parse_chars es)))
      else map_option (apfst (Cons c)) (parse_chars cs))"

definition isnumchar :: "char \<Rightarrow> bool" where
  "isnumchar c \<longleftrightarrow> isdigit c \<or> c \<in> {CHR ''+'', CHR ''-'', CHR ''e'', CHR ''E'', CHR ''.''}"

definition parse_number :: "string \<Rightarrow> (json \<times> string) option" where
  "parse_number s = (let (neg, t) = take_sign (takeWhile isnumchar s) in
     Some (JNum (strtod_dec neg t), dropWhile isnumchar s))"

text \<open>The fuel bounds the nesting of calls; the length of the input is enough.\<close>

fun parse_value :: "nat \<Rightarrow> string \<Rightarrow> (json \<times> string) option"
  and parse_items :: "nat \<Rightarrow> string \<Rightarrow> ((string \<times> json) list \<times> string) option"
  and parse_elems :: "nat \<Rightarrow> string \<Rightarrow> (json list \<times> string) option" where
  "parse_value 0 s = None"
| "parse_value (Suc n) s =
     (case skip s of
        [] \<Rightarrow> None
      | c # cs \<Rightarrow>
          if c = CHR 0x22 then map_option (\<lambda>(t, r). (JStr t, r)) (parse_chars cs)
          else if c = CHR 0x7B then
            (case skip cs of
               [] \<Rightarrow> None
             | c' # r \<Rightarrow> if c' = CHR 0x7D then Some (JObj [], r)
                 else map_option (\<lambda>(kvs, r). (JObj kvs, r)) (parse_items n (c' # r)))
          else if c = CHR ''['' then
            (case skip cs of
               [] \<Rightarrow> None
             | c' # r \<Rightarrow> if c' = CHR '']'' then Some (JArr [], r)
                 else map_option (\<lambda>(xs, r). (JArr xs, r)) (parse_elems n (c' # r)))
          else if take 4 (c # cs) = ''null'' then Some (JNull, drop 4 (c # cs))
          else if take 4 (c # cs) = ''true'' then Some (JBool True, drop 4 (c # cs))
          else if take 5 (c # cs) = ''false'' then Some (JBool False, drop 5 (c # cs))
          else if c = CHR ''-'' \<or> isdigit c then parse_number (c # cs)
          else None)"
| "parse_items 0 s = None"
| "parse_items (Suc n) s =
     (case skip s of
        [] \<Rightarrow> None
      | c # cs \<Rightarrow> if c \<noteq> CHR 0x22 then None else
          (case parse_chars cs of
             None \<Rightarrow> None
           | Some (k, r) \<Rightarrow>
               (case skip r of
                  [] \<Rightarrow> None
                | c' # r' \<Rightarrow> if c' \<noteq> CHR '':'' then None else
                    (case parse_value n r' of
                       None \<Rightarrow> None
                     | Some (v, r'') \<Rightarrow>
                         (case skip r'' of
                            [] \<Rightarrow> None
                          | c'' # r3 \<Rightarrow>
                              if c'' = CHR '','' then map_option (apfst (Cons (k, v))) (parse_items n r3)
                              else if c'' = CHR 0x7D then Some ([(k, v)], r3) else None)))))"
| "parse_elems 0 s = None"
| "parse_elems (Suc n) s =
     (case parse_value n s of
        None \<Rightarrow> None
      | Some (v, r) \<Rightarrow>
          (case skip r of
             [] \<Rightarrow> None
           | c # r' \<Rightarrow>
               if c = CHR '','' then map_option (apfst (Cons v)) (parse_elems n r')
               else if c = CHR '']'' then Some ([v], r') else None))"

definition parse_json :: "string \<Rightarrow> json option" where
  "parse_json s = map_option fst (parse_value (length s) s)"

section \<open>The interface\<close>

definition json_items :: "json \<Rightarrow> (string option \<times> json) list" where
  "json_items j = (case j of JObj kvs \<Rightarrow> map (\<lambda>(k, v). (Some k, v)) kvs
     | JArr xs \<Rightarrow> map (Pair None) xs | _ \<Rightarrow> [])"

definition ref_api :: "json cjson_api" where
  "ref_api = \<lparr>
     cJSON_Parse = parse_json,
     cJSON_Print = pr 0,
     cJSON_GetObjectItemCaseSensitive = (\<lambda>j k. map_of (json_items j) (Some k)),
     cJSON_IsString = (\<lambda>j. case j of JStr s \<Rightarrow> True | _ \<Rightarrow> False),
     cJSON_IsNumber = (\<lambda>j. case j of JNum d \<Rightarrow> True | _ \<Rightarrow> False),
     cJSON_IsObject = (\<lambda>j. case j of JObj kvs \<Rightarrow> True | _ \<Rightarrow> False),
     valuestring = (\<lambda>j. case j of JStr s \<Rightarrow> Some (takeWhile (\<lambda>c. c \<noteq> NUL) s) | _ \<Rightarrow> None),
     valuedouble = (\<lambda>j. case j of JNum d \<Rightarrow> d | _ \<Rightarrow> DFin False 0),
     cJSON_CreateObject = JObj [],
     cJSON_CreateNumber = JNum,
     cJSON_CreateString = JStr,
     cJSON_AddItemToObject = (\<lambda>j k v. case j of JObj kvs \<Rightarrow> JObj (kvs @ [(k, v)]) | _ \<Rightarrow> j),
     cJSON_DeleteItemFromObject = (\<lambda>j k. case j of
        JObj kvs \<Rightarrow> JObj (delete_first (\<lambda>(k', v). ci_eq k (Some k')) kvs) | _ \<Rightarrow> j),
     cJSON_Duplicate = (\<lambda>j. j),
     cJSON_items = json_items \<rparr>"

fun ref_valid :: "json \<Rightarrow> bool"
  and ref_valid_items :: "(string \<times> json) list \<Rightarrow> bool"
  and ref_valid_elems :: "json list \<Rightarrow> bool" where
  "ref_valid (JNum d) \<longleftrightarrow> (\<exists>i \<in> {INT_MIN..INT_MAX}. d = of_int_d i)"
| "ref_valid (JStr s) \<longleftrightarrow> NUL \<notin> set s"
| "ref_valid (JArr xs) \<longleftrightarrow> ref_valid_elems xs"
| "ref_valid (JObj kvs) \<longleftrightarrow> ref_valid_items kvs"
| "ref_valid _ \<longleftrightarrow> True"
| "ref_valid_items [] \<longleftrightarrow> True"
| "ref_valid_items ((k, v) # rest) \<longleftrightarrow> NUL \<notin> set k \<and> ref_valid v \<and> ref_valid_items rest"
| "ref_valid_elems [] \<longleftrightarrow> True"
| "ref_valid_elems (x # xs) \<longleftrightarrow> ref_valid x \<and> ref_valid_elems xs"

fun ref_depth :: "json \<Rightarrow> nat"
  and ref_depth_items :: "(string \<times> json) list \<Rightarrow> nat"
  and ref_depth_elems :: "json list \<Rightarrow> nat" where
  "ref_depth (JArr xs) = Suc (ref_depth_elems xs)"
| "ref_depth (JObj kvs) = Suc (ref_depth_items kvs)"
| "ref_depth _ = 0"
| "ref_depth_items [] = 0"
| "ref_depth_items ((k, v) # rest) = max (ref_depth v) (ref_depth_items rest)"
| "ref_depth_elems [] = 0"
| "ref_depth_elems (x # xs) = max (ref_depth x) (ref_depth_elems xs)"

section \<open>Parsing inverts printing\<close>

subsection \<open>Strings\<close>

lemma hex_char_val:
  assumes "d < 16"
  shows "isxdigit (hex_char d) \<and> xdigit_val (hex_char d) = d"
proof (cases "d < 10")
  case True
  then have "hex_char d = digit_char d" by (simp add: hex_char_def digit_char_def)
  with True show ?thesis by (simp add: isxdigit_def xdigit_val_def)
next
  case False
  with assms have "(of_char (hex_char d) :: nat) = 87 + d"
    by (simp add: hex_char_def of_char_of)
  with assms False show ?thesis
    by (simp add: isxdigit_def xdigit_val_def isdigit_def tolower_def)
qed

lemma parse_chars_esc: "parse_chars (esc c @ t) = map_option (apfst (Cons c)) (parse_chars t)"
proof (cases "c \<in> {CHR 0x22, CHR 0x5C, CHR 0x08, CHR 0x0C, CHR 0x0A, CHR 0x0D, CHR 0x09} \<or> 32 \<le> (of_char c :: nat)")
  case True
  then show ?thesis by (auto simp: esc_def unesc_def)
next
  case False
  let ?n = "of_char c :: nat"
  have n: "?n div 16 < 16" "?n mod 16 < 16" "?n < 128" using False by auto
  have z: "isxdigit (CHR ''0'') \<and> xdigit_val (CHR ''0'') = 0"
    by (simp add: isxdigit_def xdigit_val_def isdigit_def digit_val_def)
  have "xdigits_val [CHR ''0'', CHR ''0'', hex_char (?n div 16), hex_char (?n mod 16)] = ?n"
    using hex_char_val [OF n(1)] hex_char_val [OF n(2)] z by (simp add: xdigits_val_def)
  with False hex_char_val [OF n(1)] hex_char_val [OF n(2)] z n(3) show ?thesis
    by (auto simp: esc_def)
qed

lemma parse_chars_pr: "parse_chars (concat (map esc s) @ CHR 0x22 # rest) = Some (s, rest)"
  by (induction s) (simp_all add: parse_chars_esc)

subsection \<open>White space\<close>

lemma skip_tab [simp]: "skip (CHR 0x09 # s) = skip s" "skip (CHR 0x0A # s) = skip s"
  "skip (CHR '' '' # s) = skip s"
  by (simp_all add: skip_def)

lemma skip_tabs [simp]: "skip (tabs d @ s) = skip s"
  by (induction d) simp_all

lemma skip_Cons: "32 < (of_char c :: nat) \<Longrightarrow> skip (c # s) = c # s"
  by (simp add: skip_def)

lemma skip_skip [simp]: "skip (skip s) = skip s"
  by (simp add: skip_def)

lemma parse_value_skip: "skip s = skip t \<Longrightarrow> parse_value n s = parse_value n t"
  by (cases n) simp_all

lemma parse_items_skip: "skip s = skip t \<Longrightarrow> parse_items n s = parse_items n t"
  by (cases n) simp_all

lemma parse_elems_skip: "skip s = skip t \<Longrightarrow> parse_elems n s = parse_elems n t"
  by (cases n) (simp_all add: parse_value_skip [of s t])

subsection \<open>Numbers\<close>

lemma int_of_double_of_int [simp]:
  "INT_MIN \<le> i \<Longrightarrow> i \<le> INT_MAX \<Longrightarrow> int_of_double (of_int_d i) = Some i"
proof -
  assume "INT_MIN \<le> i" "i \<le> INT_MAX"
  moreover have "of_int_d i = DFin (i < 0) (of_int \<bar>i\<bar>)" by (rule of_int_d_def)
  ultimately show ?thesis by (simp add: int_of_double_def del: of_int_abs)
qed

lemma isdigit_isnumchar: "isdigit c \<Longrightarrow> isnumchar c"
  by (simp add: isnumchar_def)

lemma show_int_numchars: "c \<in> set (show_int i) \<Longrightarrow> isnumchar c"
  using show_nat_isdigit by (auto simp: show_int_def isnumchar_def split: if_splits)

lemma parse_number_show:
  assumes "\<bar>i\<bar> < 2 ^ 53" "rest = [] \<or> \<not> isnumchar (hd rest)"
  shows "parse_number (show_int i @ rest) = Some (JNum (of_int_d i), rest)"
proof -
  have t: "takeWhile isnumchar (show_int i @ rest) = show_int i"
    and d: "dropWhile isnumchar (show_int i @ rest) = rest"
    using assms(2) show_int_numchars [of _ i] by (cases rest; auto simp: takeWhile_append dropWhile_append)+
  have "take_sign (show_int i) = (i < 0, show_nat (nat \<bar>i\<bar>))"
    by (rule show_nat_Cons [of "nat i"]) (simp add: show_int_def)
  moreover have "nat \<bar>i\<bar> < 2 ^ 53" using assms(1) by (simp add: nat_less_iff)
  ultimately show ?thesis
    by (simp add: parse_number_def t d strtod_dec_show_nat of_int_d_def)
qed

subsection \<open>Values\<close>

fun need :: "json \<Rightarrow> nat"
  and need_items :: "(string \<times> json) list \<Rightarrow> nat"
  and need_elems :: "json list \<Rightarrow> nat" where
  "need (JArr xs) = Suc (need_elems xs)"
| "need (JObj kvs) = Suc (need_items kvs)"
| "need _ = 1"
| "need_items [] = 0"
| "need_items ((k, v) # rest) = Suc (max (need v) (need_items rest))"
| "need_elems [] = 0"
| "need_elems (x # xs) = Suc (max (need x) (need_elems xs))"

lemma pr_number_nonempty [simp]: "pr_number d \<noteq> []"
  by (cases d) (auto simp: pr_number_def show_int_def fmt_mag_def Let_def split: option.splits)

lemma need_length:
  "need j \<le> length (pr d j)"
  "need_items kvs \<le> length (pr_items d kvs)"
  "need_elems xs \<le> Suc (length (pr_elems d xs))"
proof (induction d j and d kvs and d xs rule: pr_pr_items_pr_elems.induct)
  case (3 d x)
  then show ?case using pr_number_nonempty [of x] by (simp add: Suc_le_eq)
qed (auto simp: pr_string_def)

lemma pr_head:
  assumes "ref_valid j"
  shows "\<exists>c cs. pr d j = c # cs \<and> 32 < (of_char c :: nat) \<and> c \<noteq> CHR 0x7D \<and> c \<noteq> CHR '']''"
proof (cases j)
  case (JNum x)
  with assms obtain i where i: "INT_MIN \<le> i" "i \<le> INT_MAX" "x = of_int_d i" by auto
  obtain c cs where c: "show_nat (nat i) = c # cs" "isdigit c" by (rule show_nat_Cons)
  then have "32 < (of_char c :: nat)" "c \<noteq> CHR 0x7D" "c \<noteq> CHR '']''" by (auto simp: isdigit_def)
  with c i JNum show ?thesis by (simp add: pr_number_def show_int_def)
qed (simp_all add: pr_string_def)

lemma isnumchar_punct [simp]:
  "\<not> isnumchar (CHR '','')" "\<not> isnumchar (CHR 0x0A)" "\<not> isnumchar (CHR '']'')"
  by (simp_all add: isnumchar_def isdigit_def)

lemma parse_value_string: "parse_value (Suc n) (pr_string s @ rest) = Some (JStr s, rest)"
  using parse_chars_pr [of s rest] by (simp add: pr_string_def skip_Cons)

lemma parse_value_number:
  assumes "INT_MIN \<le> i" "i \<le> INT_MAX" "rest = [] \<or> \<not> isnumchar (hd rest)"
  shows "parse_value (Suc n) (show_int i @ rest) = Some (JNum (of_int_d i), rest)"
proof -
  have b: "\<bar>i\<bar> < 2 ^ 53" using assms(1,2) by (simp add: INT_MIN_def INT_MAX_def)
  obtain d ds where "show_nat (nat \<bar>i\<bar>) = d # ds" "isdigit d" by (rule show_nat_Cons)
  then obtain c cs where c: "show_int i = c # cs" "c = CHR ''-'' \<or> isdigit c"
    by (cases "i < 0") (auto simp: show_int_def)
  then have "32 < (of_char c :: nat)" "c \<notin> {CHR 0x22, CHR 0x7B, CHR ''['', CHR ''n'', CHR ''t'', CHR ''f''}"
    by (auto simp: isdigit_def)
  with c parse_number_show [OF b assms(3)] show ?thesis
    by (simp add: skip_Cons)
qed

lemma parse_pr:
  "ref_valid j \<Longrightarrow> need j \<le> n \<Longrightarrow> rest = [] \<or> \<not> isnumchar (hd rest) \<Longrightarrow>
     parse_value n (pr d j @ rest) = Some (j, rest)"
  "ref_valid_items kvs \<Longrightarrow> kvs \<noteq> [] \<Longrightarrow> need_items kvs \<le> m \<Longrightarrow>
     parse_items m (pr_items d kvs @ tabs e @ CHR 0x7D # rest) = Some (kvs, rest)"
  "ref_valid_elems xs \<Longrightarrow> xs \<noteq> [] \<Longrightarrow> need_elems xs \<le> m \<Longrightarrow>
     parse_elems m (pr_elems d xs @ CHR '']'' # rest) = Some (xs, rest)"
proof (induction d j and d kvs and d xs arbitrary: n rest and m e rest and m rest
    rule: pr_pr_items_pr_elems.induct)
  case (1 d)
  then show ?case by (cases n) (simp_all add: skip_Cons)
next
  case (2 d b)
  then show ?case by (cases n; cases b) (simp_all add: skip_Cons)
next
  case (3 d x)
  then obtain i where "INT_MIN \<le> i" "i \<le> INT_MAX" "x = of_int_d i" by auto
  with 3 parse_value_number show ?case by (cases n) (simp_all add: pr_number_def del: parse_value.simps)
next
  case (4 d s)
  then show ?case by (cases n) (simp_all add: parse_value_string del: parse_value.simps)
next
  case (5 d xs)
  then obtain k where n: "n = Suc k" "need_elems xs \<le> k" by (cases n) auto
  show ?case
  proof (cases xs)
    case Nil
    then show ?thesis by (simp add: n skip_Cons)
  next
    case (Cons y ys)
    with 5(2) obtain c cs where c: "pr d y = c # cs" "32 < (of_char c :: nat)" "c \<noteq> CHR '']''"
      using pr_head [of y d] by auto
    with Cons 5(1) [of k rest] 5(2) n show ?thesis by (simp add: skip_Cons)
  qed
next
  case (6 d kvs)
  then obtain k where n: "n = Suc k" "need_items kvs \<le> k" by (cases n) auto
  show ?case
  proof (cases kvs)
    case Nil
    then show ?thesis by (simp add: n skip_Cons)
  next
    case (Cons y ys)
    let ?t = "pr_items (Suc d) kvs @ tabs d @ CHR 0x7D # rest"
    obtain t where t: "skip ?t = CHR 0x22 # t"
      using Cons by (cases y) (simp add: pr_string_def skip_Cons)
    have "parse_items k (skip ?t) = parse_items k ?t"
      by (rule parse_items_skip) simp
    with t 6(1) [of k d rest] 6(2) n Cons show ?thesis by (simp add: skip_Cons)
  qed
next
  case (8 d k v rest')
  then obtain m' where m: "m = Suc m'" "need v \<le> m'" "need_items rest' \<le> m'" by (cases m) auto
  have v: "parse_value m' (CHR 0x09 # pr d v @ r) = Some (v, r)"
    if "r = [] \<or> \<not> isnumchar (hd r)" for r
    using 8(1) [of m' r] 8(3) m that parse_value_skip [of "CHR 0x09 # pr d v @ r" "pr d v @ r"]
    by simp
  show ?case
  proof (cases "rest' = []")
    case True
    then show ?thesis
      using v [of "CHR 0x0A # tabs e @ CHR 0x7D # rest"]
        parse_chars_pr [of k "CHR '':'' # CHR 0x09 # pr d v @ CHR 0x0A # tabs e @ CHR 0x7D # rest"]
      by (simp add: m pr_string_def skip_Cons)
  next
    case False
    let ?r = "pr_items d rest' @ tabs e @ CHR 0x7D # rest"
    have "parse_items m' (CHR 0x0A # ?r) = parse_items m' ?r"
      by (rule parse_items_skip) simp
    with False show ?thesis
      using v [of "CHR '','' # CHR 0x0A # ?r"] 8(2) [of m' e rest] 8(3) m
        parse_chars_pr [of k "CHR '':'' # CHR 0x09 # pr d v @ CHR '','' # CHR 0x0A # ?r"]
      by (simp add: m pr_string_def skip_Cons)
  qed
next
  case (10 d x xs)
  then obtain m' where m: "m = Suc m'" "need x \<le> m'" "need_elems xs \<le> m'" by (cases m) auto
  show ?case
  proof (cases "xs = []")
    case True
    with 10(1) [of m' "CHR '']'' # rest"] 10(3) m show ?thesis by (simp add: skip_Cons)
  next
    case False
    have "parse_elems m' (CHR '' '' # pr_elems d xs @ CHR '']'' # rest) =
        parse_elems m' (pr_elems d xs @ CHR '']'' # rest)"
      by (rule parse_elems_skip) simp
    with False 10(1) [of m' "CHR '','' # CHR '' '' # pr_elems d xs @ CHR '']'' # rest"]
      10(2) [of m' rest] 10(3) m show ?thesis by (simp add: skip_Cons)
  qed
qed simp_all

lemma parse_json_pr: "ref_valid j \<Longrightarrow> parse_json (pr d j) = Some j"
  using parse_pr(1) [of j "length (pr d j)" "[]" d] need_length(1) [of j d]
  by (simp add: parse_json_def)

lemma parse_json_Nil: "parse_json [] = None"
  by (simp add: parse_json_def)

section \<open>The contract holds\<close>

lemma pr_number_no_nul [simp]: "NUL \<notin> set (pr_number d)"
  by (cases d)
     (auto simp: pr_number_def fmt_mag_def pad_def Let_def split: option.splits)

lemma esc_no_nul [simp]: "NUL \<notin> set (esc c)"
proof -
  have "\<not> isxdigit NUL" by (simp add: isxdigit_def isdigit_def tolower_def)
  then have "NUL \<noteq> hex_char d" if "d < 16" for d
    using hex_char_val [OF that] by metis
  then show ?thesis by (auto simp: esc_def less_mult_imp_div_less)
qed

lemma pr_no_nul:
  "NUL \<notin> set (pr d j)" "NUL \<notin> set (pr_items d kvs)" "NUL \<notin> set (pr_elems d xs)"
  by (induction d j and d kvs and d xs rule: pr_pr_items_pr_elems.induct)
     (auto simp: pr_string_def)

lemma pr_nonempty: "pr d j \<noteq> []"
  by (cases j) (simp_all add: pr_string_def)

lemma ref_valid_items_iff: "ref_valid_items kvs \<longleftrightarrow> (\<forall>(k, v) \<in> set kvs. NUL \<notin> set k \<and> ref_valid v)"
  by (induction kvs) auto

lemma ref_valid_elems_iff: "ref_valid_elems xs \<longleftrightarrow> (\<forall>x \<in> set xs. ref_valid x)"
  by (induction xs) auto

lemma ref_depth_items_append [simp]:
  "ref_depth_items (xs @ ys) = max (ref_depth_items xs) (ref_depth_items ys)"
  by (induction xs) auto

lemma ref_depth_items_le: "(k, v) \<in> set kvs \<Longrightarrow> ref_depth v \<le> ref_depth_items kvs"
  by (induction kvs) auto

lemma ref_depth_elems_le: "x \<in> set xs \<Longrightarrow> ref_depth x \<le> ref_depth_elems xs"
  by (induction xs) auto

lemma ref_depth_items_delete: "ref_depth_items (delete_first P kvs) \<le> ref_depth_items kvs"
  by (induction kvs) auto

lemma json_items_delete:
  "map (\<lambda>(k, v). (Some k, v)) (delete_first (\<lambda>(k', v). ci_eq k (Some k')) kvs) =
   delete_first (\<lambda>(k', v). ci_eq k k') (map (\<lambda>(k, v). (Some k, v)) kvs)"
  by (induction kvs) auto

lemma takeWhile_no_nul: "NUL \<notin> set s \<Longrightarrow> takeWhile (\<lambda>c. c \<noteq> NUL) s = s"
  by (auto simp: takeWhile_eq_all_conv)

lemma ref_depth_item: "(k, v) \<in> set (json_items j) \<Longrightarrow> ref_depth v < ref_depth j"
  by (cases j) (auto simp: json_items_def less_Suc_eq_le ref_depth_items_le ref_depth_elems_le)

lemma ref_valid_item: "ref_valid j \<Longrightarrow> (k, v) \<in> set (json_items j) \<Longrightarrow> ref_valid v"
  by (cases j) (auto simp: json_items_def ref_valid_items_iff ref_valid_elems_iff)

interpretation ref: cjson_lib ref_api ref_valid ref_depth
  by unfold_locales
    (auto simp: ref_api_def parse_json_pr pr_no_nul pr_nonempty parse_json_Nil json_items_delete
       json_items_def takeWhile_no_nul ref_valid_items_iff ref_valid_elems_iff ref_depth_items_delete
       less_Suc_eq_le ref_depth_items_le ref_depth_elems_le
     split: json.splits dest: set_delete_first [THEN subsetD] set_takeWhileD)

end
