(* ===== verification/Cjson_Handler.thy ===== *)
theory Cjson_Handler
  imports Json_Reference
begin

unbundle bit_operations_syntax

text \<open>
  The JSON helpers of the static library, \<open>lib/libsta/src/cjson_handler.c\<close>: lookup and
  update of one key in JSON text, membership tests, merging, printing. A text that is
  updated in place is an array with a fixed capacity, so an update whose printed result is
  longer than the array is a write past its end.
\<close>

section \<open>Flags and messages\<close>

definition INTPARSE :: int where "INTPARSE = 4"
definition OBJPARSE :: int where "OBJPARSE = 8"
definition OVERRIDE :: int where "OVERRIDE = 1"

lemmas flag_defs = INTPARSE_def OBJPARSE_def OVERRIDE_def

definition cj_err :: "string \<Rightarrow> nat \<Rightarrow> ('z world_scheme, unit) comp" where
  "cj_err msg line = error_handler msg ''lib/libsta/src/cjson_handler.c'' line"

section \<open>The library's functions\<close>

definition free_cjson_ptr :: "'j option \<Rightarrow> ('z world_scheme, 'j option) comp" where
  "free_cjson_ptr json = (case json of None \<Rightarrow> ret None
     | Some j \<Rightarrow> thn (modify (\<lambda>w. w\<lparr>live_json := live_json w - 1\<rparr>)) (ret None))"

definition is_key_in_json_object :: "'j cjson_api \<Rightarrow> 'j \<Rightarrow> string option \<Rightarrow> bool" where
  "is_key_in_json_object api cjson_object key = (get_c api cjson_object key \<noteq> None)"

text \<open>The result is the return code and the new value of \<open>*ptr_buffer\<close>. The branch for an
  object prints the value twice and releases neither text; a failed print is handed to
  \<open>strlen\<close> as a null pointer.\<close>

definition get_value_of_key_from_json_object ::
  "'j cjson_api \<Rightarrow> 'j \<Rightarrow> cptr \<Rightarrow> cptr \<Rightarrow> ('z world_scheme, int \<times> cptr) comp" where
  "get_value_of_key_from_json_object api cjson_object key ptr_buffer =
     bnd (opt_str key) (\<lambda>k.
     case get_c api cjson_object k of
       None \<Rightarrow> ret (1, ptr_buffer)
     | Some json_value \<Rightarrow>
         if cJSON_IsString api json_value \<and> valuestring api json_value \<noteq> None
         then (let s = the (valuestring api json_value) in
           bnd (malloc (length s + 1)) (\<lambda>buffer. bnd (is_null buffer) (\<lambda>null.
           if null then thn (cj_err ''Error allocating memory.'' 60) (ret (1, ptr_buffer))
           else bnd (strcpy buffer s) (\<lambda>buffer. ret (0, buffer)))))
         else if cJSON_IsNumber api json_value
         then
           bnd (malloc 20) (\<lambda>buffer. bnd (is_null buffer) (\<lambda>null.
           if null then thn (cj_err ''Error allocating memory.'' 74) (ret (1, ptr_buffer))
           else bnd (strcpy buffer (fmt_fixed 6 (valuedouble api json_value))) (\<lambda>buffer.
             ret (0, buffer))))
         else if cJSON_IsObject api json_value
         then
           bnd (print_c api json_value) (\<lambda>text1. bnd (read_str text1) (\<lambda>s1.
           bnd (malloc (length s1 + 1)) (\<lambda>buffer. bnd (is_null buffer) (\<lambda>null.
           if null then thn (cj_err ''Error allocating memory.'' 89) (ret (1, ptr_buffer))
           else bnd (print_c api json_value) (\<lambda>text2. bnd (read_str text2) (\<lambda>s2.
             bnd (strcpy buffer s2) (\<lambda>buffer. ret (0, buffer))))))))
         else ret (1, ptr_buffer))"

definition get_value_of_key_from_json_string ::
  "'j cjson_api \<Rightarrow> cptr \<Rightarrow> cptr \<Rightarrow> cptr \<Rightarrow> ('z world_scheme, int \<times> cptr) comp" where
  "get_value_of_key_from_json_string api cjson_buffer key ptr_buffer =
     bnd (is_null cjson_buffer) (\<lambda>null.
     if null then thn (cj_err ''Error null char*.'' 28) (ret (1, ptr_buffer))
     else bnd (parse_c api cjson_buffer) (\<lambda>cjson_object.
     case cjson_object of
       None \<Rightarrow> thn (cj_err ''Error null cjson*.'' 34) (ret (- 1, ptr_buffer))
     | Some j \<Rightarrow>
         bnd (get_value_of_key_from_json_object api j key ptr_buffer) (\<lambda>(r, ptr_buffer).
         thn (free_cjson_ptr (Some j)) (ret (if r \<noteq> 0 then 1 else 0, ptr_buffer)))))"

definition json_object_to_json_string ::
  "'j cjson_api \<Rightarrow> 'j \<Rightarrow> cptr \<Rightarrow> ('z world_scheme, int \<times> cptr) comp" where
  "json_object_to_json_string api cjson_object buffer =
     bnd (is_null buffer) (\<lambda>null.
     if null then thn (cj_err ''Error: buffer is NULL'' 187) (ret (1, buffer))
     else bnd (print_c api cjson_object) (\<lambda>result. bnd (is_null result) (\<lambda>failed.
     if failed then thn (cj_err ''Error getting char buffer json.'' 194) (ret (1, buffer))
     else bnd (read_str result) (\<lambda>s. bnd (strcpy buffer s) (\<lambda>buffer.
       thn (free_ptr result) (ret (0, buffer)))))))"

text \<open>The value to store: a number when \<open>INTPARSE\<close> is set and the text reads as a number
  other than zero, a parsed tree when \<open>OBJPARSE\<close> is set, otherwise a string. The result is
  the tree, or the message and the line of the failure.\<close>

definition make_value ::
  "'j cjson_api \<Rightarrow> cptr \<Rightarrow> int \<Rightarrow> ('z world_scheme, (string \<times> nat) + 'j) comp" where
  "make_value api buffer flags =
     bnd (read_str buffer) (\<lambda>text.
     if flags AND INTPARSE \<noteq> 0 \<and> nonzero_d (atof text)
     then bnd (create_c (cJSON_CreateNumber api (atof text))) (\<lambda>v. ret (case v of
       None \<Rightarrow> Inl (''Error: Unable to create JSON number value.'', 130) | Some j \<Rightarrow> Inr j))
     else if flags AND OBJPARSE \<noteq> 0
     then bnd (parse_c api buffer) (\<lambda>v. ret (case v of
       None \<Rightarrow> Inl (''Error: Unable to create JSON object value.'', 141) | Some j \<Rightarrow> Inr j))
     else bnd (create_c (cJSON_CreateString api text)) (\<lambda>v. ret (case v of
       None \<Rightarrow> Inl (''Error: Unable to create JSON string value.'', 151) | Some j \<Rightarrow> Inr j)))"

text \<open>Lines 112 to 121: the tree of the text, or a new object when the text is not JSON.\<close>

definition parse_or_create ::
  "'j cjson_api \<Rightarrow> cptr \<Rightarrow> ('z world_scheme, 'j option) comp" where
  "parse_or_create api cjson_buffer = bnd (parse_c api cjson_buffer) (\<lambda>cjson_object.
     case cjson_object of None \<Rightarrow> create_c (cJSON_CreateObject api) | Some j \<Rightarrow> ret (Some j))"

definition cjson_add_key_value_to_json_string ::
  "'j cjson_api \<Rightarrow> cptr \<Rightarrow> cptr \<Rightarrow> cptr \<Rightarrow> int \<Rightarrow> ('z world_scheme, int \<times> cptr) comp" where
  "cjson_add_key_value_to_json_string api cjson_buffer key buffer flags =
     bnd (is_null buffer) (\<lambda>bnull. bnd (if bnull then ret True else is_null key) (\<lambda>params.
     if params then thn (cj_err ''Error params.'' 107) (ret (1, cjson_buffer))
     else bnd (parse_or_create api cjson_buffer) (\<lambda>cjson_object.
     case cjson_object of
       None \<Rightarrow> thn (cj_err ''Error: Unable to create JSON object.'' 118) (ret (1, cjson_buffer))
     | Some j \<Rightarrow>
         bnd (make_value api buffer flags) (\<lambda>value.
         case value of
           Inl (msg, line) \<Rightarrow>
             thn (free_cjson_ptr (Some j)) (thn (cj_err msg line) (ret (1, cjson_buffer)))
         | Inr v \<Rightarrow>
             bnd (read_str key) (\<lambda>k.
             if is_key_in_json_object api j (Some k) \<and> flags AND OVERRIDE = 0
             then thn (free_cjson_ptr (Some j)) (thn (free_cjson_ptr (Some v))
                    (thn (cj_err ''Error: The key already exists.'' 166) (ret (0, cjson_buffer))))
             else (let j' = (if is_key_in_json_object api j (Some k)
                             then cJSON_DeleteItemFromObject api j k else j) in
               bnd (add_c api j' (Some k) (Some v)) (\<lambda>j''.
               bnd (json_object_to_json_string api j'' cjson_buffer) (\<lambda>(r, cjson_buffer).
               thn (free_cjson_ptr (Some j''))
                 (if r \<noteq> 0
                  then thn (cj_err ''Error: Unable to convert JSON object to string.'' 175)
                         (ret (1, cjson_buffer))
                  else ret (0, cjson_buffer))))))))))"

definition is_key_in_json_buffer ::
  "'j cjson_api \<Rightarrow> cptr \<Rightarrow> cptr \<Rightarrow> ('z world_scheme, bool) comp" where
  "is_key_in_json_buffer api cjson_buffer key =
     bnd (is_null cjson_buffer) (\<lambda>n1. bnd (if n1 then ret True else is_null key) (\<lambda>params.
     if params then thn (cj_err ''Error params.'' 217) (ret False)
     else bnd (parse_c api cjson_buffer) (\<lambda>cjson_object.
     case cjson_object of
       None \<Rightarrow> thn (cj_err ''Error: cJSON_Parse.'' 225) (ret False)
     | Some j \<Rightarrow> bnd (opt_str key) (\<lambda>k.
         thn (free_cjson_ptr (Some j)) (ret (is_key_in_json_object api j k))))))"

text \<open>The loop over the items of the second object. The copy of an item is made anew for
  each; it is lost when it cannot be added.\<close>

fun merge_items :: "'j cjson_api \<Rightarrow> 'j \<Rightarrow> (string option \<times> 'j) list \<Rightarrow> ('z world_scheme, 'j) comp" where
  "merge_items api merged [] = ret merged"
| "merge_items api merged ((key, item) # rest) =
     (let merged' = (case key of
          None \<Rightarrow> merged
        | Some k \<Rightarrow> if is_key_in_json_object api merged (Some k)
                   then cJSON_DeleteItemFromObject api merged k else merged) in
      bnd (create_c (cJSON_Duplicate api item)) (\<lambda>copy.
      bnd (add_c api merged' key copy) (\<lambda>merged''. merge_items api merged'' rest)))"

text \<open>Both texts are parsed before either result is tested, and neither tree is deleted on
  any path.\<close>

definition merge_json_strings ::
  "'j cjson_api \<Rightarrow> cptr \<Rightarrow> cptr \<Rightarrow> cptr \<Rightarrow> ('z world_scheme, int \<times> cptr) comp" where
  "merge_json_strings api json_string1 json_string2 merged_json =
     bnd (is_null json_string1) (\<lambda>n1. bnd (if n1 then ret True else is_null json_string2) (\<lambda>n2.
     bnd (if n2 then ret True else is_null merged_json) (\<lambda>params.
     if params then thn (cj_err ''Error null char*.'' 245) (ret (1, merged_json))
     else bnd (parse_c api json_string1) (\<lambda>json_object1.
     bnd (parse_c api json_string2) (\<lambda>json_object2.
     case (json_object1, json_object2) of
       (Some j1, Some j2) \<Rightarrow>
         bnd (create_c (cJSON_Duplicate api j1)) (\<lambda>merged_object.
         case merged_object of
           None \<Rightarrow> thn (cj_err ''Error duplicating json object.'' 262) (ret (1, merged_json))
         | Some m \<Rightarrow>
             bnd (merge_items api m (cJSON_items api j2)) (\<lambda>m.
             bnd (print_c api m) (\<lambda>merged_string. bnd (is_null merged_string) (\<lambda>failed.
             if failed
             then thn (cj_err ''Error printing merged json.'' 282)
                    (thn (free_cjson_ptr (Some m)) (ret (1, merged_json)))
             else bnd (read_str merged_string) (\<lambda>s. bnd (strcpy merged_json s) (\<lambda>merged_json.
               thn (free_cjson_ptr (Some m)) (thn (free_c merged_string) (ret (0, merged_json)))))))))
     | _ \<Rightarrow> thn (cj_err ''Error parsing json objects.'' 254) (ret (1, merged_json)))))))"

text \<open>After a failed print the code goes on: it hands the null pointer to \<open>printf\<close> and the
  object pointer, already null, to \<open>free_cjson_ptr\<close>. The \<open>%s\<close> of a null pointer has no
  meaning in C.\<close>

definition print_cjson :: "'j cjson_api \<Rightarrow> cptr \<Rightarrow> ('z world_scheme, unit) comp" where
  "print_cjson api cjson_buffer =
     bnd (parse_c api cjson_buffer) (\<lambda>cjson_object.
     case cjson_object of
       None \<Rightarrow> cj_err ''Error parsing json.'' 10
     | Some j \<Rightarrow>
         bnd (print_c api j) (\<lambda>string. bnd (is_null string) (\<lambda>failed.
         bnd (if failed
              then bnd (free_cjson_ptr (Some j)) (\<lambda>obj. thn (cj_err ''Error printing json.'' 17) (ret obj))
              else ret (Some j)) (\<lambda>obj.
         bnd (read_str string) (\<lambda>s.
         thn (print ([NL] @ s @ [NL]))
        (thn (free_ptr string)
        (thn (free_cjson_ptr obj) (ret ()))))))))"

section \<open>Symbolic execution\<close>

lemma wp_cj_err [wp_simps]:
  "wp (cj_err msg l) Q E w = Q () (w\<lparr>stderr := stderr w @
     [error_text (errno w) msg ''lib/libsta/src/cjson_handler.c'' l]\<rparr>)"
  by (simp add: cj_err_def wp_simps)

lemma wp_free_cjson_ptr [wp_simps]:
  "wp (free_cjson_ptr x) Q E w = (case x of None \<Rightarrow> Q None w
     | Some j \<Rightarrow> Q None (w\<lparr>live_json := live_json w - 1\<rparr>))"
  by (cases x) (simp_all add: free_cjson_ptr_def wp_simps)

lemma keeps_cj_err [frame_intros]: "quiet f \<Longrightarrow> keeps f (cj_err m l)"
  by (simp add: cj_err_def frame_intros)

lemma keeps_free_cjson_ptr [frame_intros]:
  "quiet f \<Longrightarrow> keeps f (free_cjson_ptr x)"
  by (cases x) (auto simp: free_cjson_ptr_def quietD intro!: frame_intros)

lemma keeps_get_value_object [frame_intros]:
  "quiet f \<Longrightarrow> keeps f (get_value_of_key_from_json_object api j k p)"
  unfolding get_value_of_key_from_json_object_def Let_def
  by (intro frame_intros) (simp_all add: quiet_def)

lemma keeps_get_value_string [frame_intros]:
  "quiet f \<Longrightarrow> keeps f (get_value_of_key_from_json_string api t k p)"
  unfolding get_value_of_key_from_json_string_def
  by (intro frame_intros) (simp_all add: quiet_def)

lemma keeps_json_object_to_json_string [frame_intros]:
  "quiet f \<Longrightarrow> keeps f (json_object_to_json_string api j b)"
  unfolding json_object_to_json_string_def
  by (intro frame_intros) (simp_all add: quiet_def)

lemma keeps_make_value [frame_intros]: "quiet f \<Longrightarrow> keeps f (make_value api b fl)"
  unfolding make_value_def by (intro frame_intros) (simp_all add: quiet_def)

lemma keeps_sum [frame_intros]:
  "(\<And>a. keeps f (g a)) \<Longrightarrow> (\<And>b. keeps f (h b)) \<Longrightarrow>
     keeps f (case x of Inl a \<Rightarrow> g a | Inr b \<Rightarrow> h b)"
  by (cases x) auto

lemma wp_sum [wp_simps]:
  "wp (case x of Inl a \<Rightarrow> g a | Inr b \<Rightarrow> h b) Q E s =
     (case x of Inl a \<Rightarrow> wp (g a) Q E s | Inr b \<Rightarrow> wp (h b) Q E s)"
  by (cases x) auto

lemma keeps_add_key_value [frame_intros]:
  "quiet f \<Longrightarrow> keeps f (cjson_add_key_value_to_json_string api b k v fl)"
  unfolding cjson_add_key_value_to_json_string_def parse_or_create_def Let_def
  by (intro frame_intros) (simp_all add: quiet_def)

lemma keeps_is_key_in_json_buffer [frame_intros]:
  "quiet f \<Longrightarrow> keeps f (is_key_in_json_buffer api b k)"
  unfolding is_key_in_json_buffer_def by (intro frame_intros) (simp_all add: quiet_def)

subsection \<open>Lookup\<close>

lemma put_str_exact: "length a = Suc (length s) \<Longrightarrow> put_str a s = s @ [NUL]"
  by (simp add: put_str_def)

lemma get_value_string_calm:
  assumes "calm w" "cstr a = Some t" "cJSON_Parse api t = Some j" "cstr k = Some key"
    "cJSON_GetObjectItemCaseSensitive api j key = Some v"
    "cJSON_IsString api v" "valuestring api v = Some s"
  shows "wp (get_value_of_key_from_json_string api (Buf a) (Buf k) p) Q E w =
    Q (0, Buf (s @ [NUL])) (w\<lparr>live_mem := live_mem w + 1, tick := tick w + 2\<rparr>)"
  using assms
  by (simp add: get_value_of_key_from_json_string_def get_value_of_key_from_json_object_def
      wp_simps get_c_def put_str_exact)

lemma get_value_number_calm:
  assumes "calm w" "cstr a = Some t" "cJSON_Parse api t = Some j" "cstr k = Some key"
    "cJSON_GetObjectItemCaseSensitive api j key = Some v"
    "\<not> cJSON_IsString api v" "cJSON_IsNumber api v"
  shows "wp (get_value_of_key_from_json_string api (Buf a) (Buf k) p) Q E w =
    (if length (fmt_fixed 6 (valuedouble api v)) < 20
     then Q (0, Buf (put_str (fit 20 (junk w (Suc (tick w)))) (fmt_fixed 6 (valuedouble api v))))
            (w\<lparr>live_mem := live_mem w + 1, tick := tick w + 2\<rparr>)
     else E (Undef Buffer_Overflow)
            (w\<lparr>live_json := live_json w + 1, live_mem := live_mem w + 1, tick := tick w + 2\<rparr>))"
  using assms
  by (simp add: get_value_of_key_from_json_string_def get_value_of_key_from_json_object_def
      wp_simps get_c_def)

lemma get_value_object_calm:
  assumes "calm w" "cstr a = Some t" "cJSON_Parse api t = Some j" "cstr k = Some key"
    "cJSON_GetObjectItemCaseSensitive api j key = Some v" "\<not> cJSON_IsString api v"
    "\<not> cJSON_IsNumber api v" "cJSON_IsObject api v" "NUL \<notin> set (cJSON_Print api v)"
  shows "wp (get_value_of_key_from_json_string api (Buf a) (Buf k) p) Q E w =
    Q (0, Buf (cJSON_Print api v @ [NUL])) (w\<lparr>live_mem := 3 + live_mem w, tick := tick w + 4\<rparr>)"
  using assms
  by (simp add: get_value_of_key_from_json_string_def get_value_of_key_from_json_object_def
      wp_simps get_c_def put_str_exact eval_nat_numeral)

lemma get_value_missing:
  assumes "cstr a = Some t" "cJSON_Parse api t = Some j" "cstr k = Some key"
    "cJSON_GetObjectItemCaseSensitive api j key = None"
  shows "wp (get_value_of_key_from_json_string api (Buf a) (Buf k) p)
    (\<lambda>(r, q) w'. r \<noteq> 0 \<and> q = p \<and> live_mem w' = live_mem w \<and> live_json w' = live_json w) (\<lambda>_ _. False) w"
  using assms
  by (simp add: get_value_of_key_from_json_string_def get_value_of_key_from_json_object_def
      wp_simps get_c_def)

subsection \<open>Update\<close>

text \<open>The pure content of an update: the tree the text stands for, the value a text and
  flags denote, and the new tree.\<close>

definition tree_of :: "'j cjson_api \<Rightarrow> string \<Rightarrow> 'j" where
  "tree_of api t = (case cJSON_Parse api t of None \<Rightarrow> cJSON_CreateObject api | Some j \<Rightarrow> j)"

definition value_of :: "'j cjson_api \<Rightarrow> string \<Rightarrow> int \<Rightarrow> 'j option" where
  "value_of api text flags =
     (if flags AND INTPARSE \<noteq> 0 \<and> nonzero_d (atof text) then Some (cJSON_CreateNumber api (atof text))
      else if flags AND OBJPARSE \<noteq> 0 then cJSON_Parse api text
      else Some (cJSON_CreateString api text))"

definition set_key :: "'j cjson_api \<Rightarrow> 'j \<Rightarrow> string \<Rightarrow> 'j \<Rightarrow> 'j" where
  "set_key api j k v = cJSON_AddItemToObject api
     (if cJSON_GetObjectItemCaseSensitive api j k \<noteq> None
      then cJSON_DeleteItemFromObject api j k else j) k v"

lemma make_value_calm:
  assumes "calm w" "cstr b = Some text" "value_of api text flags = Some v"
  shows "wp (make_value api (Buf b) flags) Q E w =
    Q (Inr v) (w\<lparr>live_json := live_json w + 1, tick := Suc (tick w)\<rparr>)"
  using assms by (auto simp: make_value_def value_of_def wp_simps split: if_splits)

lemma parse_or_create_calm:
  assumes "calm w" "cstr a = Some t"
  shows "wp (parse_or_create api (Buf a)) Q E w =
    Q (Some (tree_of api t))
      (w\<lparr>live_json := live_json w + 1, tick := tick w + (if cJSON_Parse api t = None then 2 else 1)\<rparr>)"
  using assms by (simp add: parse_or_create_def tree_of_def wp_simps split: option.splits)

lemma json_object_to_json_string_calm:
  assumes "calm w" "NUL \<notin> set (cJSON_Print api j)"
  shows "wp (json_object_to_json_string api j (Buf a)) Q E w =
    (if length (cJSON_Print api j) < length a
     then Q (0, Buf (put_str a (cJSON_Print api j))) (w\<lparr>tick := Suc (tick w)\<rparr>)
     else E (Undef Buffer_Overflow) (w\<lparr>live_mem := live_mem w + 1, tick := Suc (tick w)\<rparr>))"
  using assms by (simp add: json_object_to_json_string_def wp_simps)

text \<open>The whole update, when no call fails: the new text is stored in place if it fits, and
  written past the end of the array if it does not.\<close>

lemma add_key_value_calm:
  assumes "calm w" "cstr a = Some t" "cstr kb = Some k" "cstr b = Some text"
    and v: "value_of api text flags = Some v" and j: "tree_of api t = j"
    and ov: "cJSON_GetObjectItemCaseSensitive api j k = None \<or> flags AND OVERRIDE \<noteq> 0"
    and p: "NUL \<notin> set (cJSON_Print api (set_key api j k v))"
  shows "wp (cjson_add_key_value_to_json_string api (Buf a) (Buf kb) (Buf b) flags) Q E w =
    (let n = tick w + (if cJSON_Parse api t = None then 5 else 4); s = cJSON_Print api (set_key api j k v) in
     if length s < length a then Q (0, Buf (put_str a s)) (w\<lparr>tick := n\<rparr>)
     else E (Undef Buffer_Overflow)
            (w\<lparr>live_mem := live_mem w + 1, live_json := 1 + live_json w, tick := n\<rparr>))"
  using assms
  by (auto simp: cjson_add_key_value_to_json_string_def wp_simps parse_or_create_calm make_value_calm
      is_key_in_json_object_def get_c_def set_key_def json_object_to_json_string_calm Let_def
      eval_nat_numeral split: if_splits)

text \<open>Without \<open>OVERRIDE\<close> an existing key is kept: the text is untouched and the return code
  is still \<open>0\<close>.\<close>

lemma add_key_value_exists:
  assumes "cstr a = Some t" "cstr kb = Some k" "cstr b = Some text" "calm w"
    "value_of api text flags = Some v"
    "cJSON_GetObjectItemCaseSensitive api (tree_of api t) k \<noteq> None" "flags AND OVERRIDE = 0"
  shows "wp (cjson_add_key_value_to_json_string api (Buf a) (Buf kb) (Buf b) flags)
    (\<lambda>(r, p) w'. r = 0 \<and> p = Buf a \<and> live_mem w' = live_mem w \<and> live_json w' = live_json w)
    (\<lambda>_ _. False) w"
  using assms
  by (simp add: cjson_add_key_value_to_json_string_def wp_simps parse_or_create_calm make_value_calm
      is_key_in_json_object_def get_c_def)

text \<open>The text that a lookup delivers for a key of a parsed object.\<close>

definition value_text :: "'j cjson_api \<Rightarrow> 'j \<Rightarrow> string \<Rightarrow> string option" where
  "value_text api j k = (case cJSON_GetObjectItemCaseSensitive api j k of
     None \<Rightarrow> None
   | Some v \<Rightarrow>
       if cJSON_IsString api v \<and> valuestring api v \<noteq> None then valuestring api v
       else if cJSON_IsNumber api v then Some (fmt_fixed 6 (valuedouble api v))
       else if cJSON_IsObject api v then Some (cJSON_Print api v)
       else None)"

text \<open>The text of the value of a key in a message, when the message is JSON and has the key.\<close>

definition field :: "'j cjson_api \<Rightarrow> char list \<Rightarrow> string \<Rightarrow> string option" where
  "field api a k = (case cstr a of None \<Rightarrow> None
     | Some t \<Rightarrow> (case cJSON_Parse api t of None \<Rightarrow> None | Some j \<Rightarrow> value_text api j k))"

context cjson_lib
begin

text \<open>In every world a lookup that succeeds delivers the text of the field, and one that
  fails leaves the pointer as it was.\<close>

lemma get_value_sound:
  assumes "cstr kb = Some k"
  shows "wp (get_value_of_key_from_json_string api (Buf a) (Buf kb) p)
    (\<lambda>(r, q) w'. if r = 0 then \<exists>b s. q = Buf b \<and> cstr b = Some s \<and> field api a k = Some s else q = p)
    (\<lambda>e w'. e = Undef Unterminated_Read \<and> cstr a = None \<or> e = Undef Null_Deref \<or>
       e = Undef Buffer_Overflow \<and> (\<exists>s. field api a k = Some s \<and> 20 \<le> length s)) w"
proof (cases "cstr a")
  case None
  then show ?thesis by (simp add: get_value_of_key_from_json_string_def wp_simps)
next
  case (Some t)
  show ?thesis
  proof (cases "cJSON_Parse api t")
    case None
    with Some show ?thesis by (simp add: get_value_of_key_from_json_string_def wp_simps)
  next
    case p: (Some j)
    show ?thesis
    proof (cases "cJSON_GetObjectItemCaseSensitive api j k")
      case None
      with Some p assms show ?thesis
        by (simp add: get_value_of_key_from_json_string_def get_value_of_key_from_json_object_def wp_simps get_c_def)
    next
      case v: (Some v)
      with Some p assms print_text [of v] valuestring_text [of v] show ?thesis
        by (auto simp: get_value_of_key_from_json_string_def get_value_of_key_from_json_object_def wp_simps get_c_def
          field_def value_text_def put_str_exact)
    qed
  qed
qed

lemma wp_lookup:
  assumes "NUL \<notin> set k"
    and "\<And>b s w'. cstr b = Some s \<Longrightarrow> field api a k = Some s \<Longrightarrow> Q (0, Buf b) w'"
    and "\<And>r w'. r \<noteq> 0 \<Longrightarrow> Q (r, p) w'"
    and "\<And>e w'. E e w'"
  shows "wp (get_value_of_key_from_json_string api (Buf a) (lit k) p) Q E w"
proof -
  have k: "cstr (k @ [NUL]) = Some k" using assms(1) by simp
  show ?thesis
    unfolding lit_def by (rule wp_mono [OF get_value_sound [OF k]]) (use assms(2-) in \<open>auto split: if_splits\<close>)
qed

end

section \<open>Objects as maps\<close>

text \<open>\<open>keys_ok api j k\<close>: the keys of \<open>j\<close> are distinct and none differs from \<open>k\<close> in case only.
  Under it an update of \<open>k\<close> is a map update.\<close>

definition keys_ok :: "'j cjson_api \<Rightarrow> 'j \<Rightarrow> string \<Rightarrow> bool" where
  "keys_ok api j k \<longleftrightarrow> distinct (map fst (cJSON_items api j)) \<and>
     (\<forall>(k', v) \<in> set (cJSON_items api j). ci_eq k k' \<longrightarrow> k' = Some k)"

lemma ci_eq_refl [simp]: "ci_eq k (Some k)"
  by (simp add: ci_eq_def)

lemma delete_first_none: "\<forall>x \<in> set xs. \<not> P x \<Longrightarrow> delete_first P xs = xs"
  by (induction xs) auto

lemma map_of_delete_first:
  assumes "distinct (map fst xs)" "\<forall>(k', v) \<in> set xs. P (k', v) \<longleftrightarrow> k' = k"
  shows "map_of (delete_first P xs) = (map_of xs)(k := None)"
  using assms
proof (induction xs)
  case Nil
  then show ?case by simp
next
  case (Cons x xs)
  obtain k' v where x: "x = (k', v)" by (cases x)
  show ?case
  proof (cases "k' = k")
    case True
    with Cons.prems x have "map_of xs k = None"
      by (force simp: map_of_eq_None_iff)
    with True Cons.prems x show ?thesis by (auto simp: fun_eq_iff)
  next
    case False
    with Cons x show ?thesis by (auto simp: fun_eq_iff)
  qed
qed

context cjson_lib
begin

lemma keys_ok_match: "keys_ok api j k \<Longrightarrow> \<forall>(k', v) \<in> set (cJSON_items api j). ci_eq k k' \<longleftrightarrow> k' = Some k"
  by (auto simp: keys_ok_def)

lemma get_set_key:
  assumes "cJSON_IsObject api j" "keys_ok api j k"
  shows "cJSON_GetObjectItemCaseSensitive api (set_key api j k v) k' =
    (if k' = k then Some v else cJSON_GetObjectItemCaseSensitive api j k')"
proof -
  have "map_of (delete_first (\<lambda>(k', v). ci_eq k k') (cJSON_items api j)) =
      (map_of (cJSON_items api j))(Some k := None)"
    using assms keys_ok_match [OF assms(2)] by (intro map_of_delete_first) (auto simp: keys_ok_def)
  with assms show ?thesis
    by (auto simp: set_key_def cjson_specs map_add_def split: option.splits)
qed

lemma object_set_key: "cJSON_IsObject api j \<Longrightarrow> cJSON_IsObject api (set_key api j k v)"
  by (simp add: set_key_def cjson_specs)

lemma valid_set_key:
  "cJSON_IsObject api j \<Longrightarrow> valid j \<Longrightarrow> valid v \<Longrightarrow> NUL \<notin> set k \<Longrightarrow> valid (set_key api j k v)"
  by (simp add: set_key_def valid_add valid_delete delete_item)

lemma depth_set_key:
  "cJSON_IsObject api j \<Longrightarrow> depth (set_key api j k v) \<le> max (depth j) (Suc (depth v))"
  using depth_delete [of j k] by (auto simp: set_key_def depth_add delete_item)

lemma get_item_valid:
  assumes "cJSON_IsObject api j" "cJSON_GetObjectItemCaseSensitive api j k = Some v"
  shows "valid j \<Longrightarrow> valid v" "depth v < depth j"
  using assms map_of_SomeD [of "cJSON_items api j" "Some k" v] valid_item [of j "Some k" v]
    depth_item [of "Some k" v j]
  by (auto simp: get_items)

text \<open>A value replaced by one that nests no deeper keeps the tree within the limit.\<close>

lemma depth_replace:
  assumes "cJSON_IsObject api j" "cJSON_GetObjectItemCaseSensitive api j k = Some v"
    "depth v' \<le> depth v"
  shows "depth (set_key api j k v') \<le> depth j"
  using depth_set_key [OF assms(1), of k v'] get_item_valid(2) [OF assms(1,2)] assms(3) by linarith

text \<open>The text of a valid tree denotes it again, alone or as a value under \<open>OBJPARSE\<close>.\<close>

lemma tree_of_print:
  "valid j \<Longrightarrow> depth j \<le> CJSON_NESTING_LIMIT \<Longrightarrow> tree_of api (cJSON_Print api j) = j"
  by (simp add: tree_of_def parse_print)

text \<open>The update with \<open>OVERRIDE\<close>, on the text of a valid object.\<close>

lemma add_to_object:
  assumes "calm w" "cstr a = Some (cJSON_Print api j)" "cstr kb = Some k" "cstr b = Some text"
    "cJSON_IsObject api j" "valid j" "depth j \<le> CJSON_NESTING_LIMIT"
    "value_of api text flags = Some v" "flags AND OVERRIDE \<noteq> 0"
  shows "wp (cjson_add_key_value_to_json_string api (Buf a) (Buf kb) (Buf b) flags) Q E w =
    (let s = cJSON_Print api (set_key api j k v) in
     if length s < length a then Q (0, Buf (put_str a s)) (w\<lparr>tick := tick w + 4\<rparr>)
     else E (Undef Buffer_Overflow)
            (w\<lparr>live_mem := live_mem w + 1, live_json := 1 + live_json w, tick := tick w + 4\<rparr>))"
  using assms
  by (subst add_key_value_calm) (auto simp: tree_of_print print_text parse_print Let_def)

end

section \<open>Merging\<close>

text \<open>The tree that the merge loop builds: every item of the second object set in turn.\<close>

fun merge_tree :: "'j cjson_api \<Rightarrow> 'j \<Rightarrow> (string option \<times> 'j) list \<Rightarrow> 'j" where
  "merge_tree api m [] = m"
| "merge_tree api m ((key, item) # rest) =
     merge_tree api (case key of None \<Rightarrow> m | Some k \<Rightarrow> set_key api m k item) rest"

text \<open>No two keys of the list differ in case only.\<close>

definition no_case_clash :: "string option list \<Rightarrow> bool" where
  "no_case_clash ks \<longleftrightarrow> (\<forall>k \<in> set ks. \<forall>k' \<in> set ks. map_option (map tolower) k = map_option (map tolower) k' \<longrightarrow> k = k')"

lemma no_case_clash_set: "set ks = set ks' \<Longrightarrow> no_case_clash ks' \<Longrightarrow> no_case_clash ks"
  unfolding no_case_clash_def by (simp only:)

lemma distinct_delete_first: "distinct (map f xs) \<Longrightarrow> distinct (map f (delete_first P xs))"
  using set_delete_first [of P] by (induction xs) auto

lemma delete_first_removes:
  assumes "distinct (map fst xs)" "\<forall>(k', v) \<in> set xs. P (k', v) \<longleftrightarrow> k' = k"
  shows "fst ` set (delete_first P xs) = fst ` set xs - {k}"
  using assms
proof (induction xs)
  case (Cons x xs)
  then have "P x \<longleftrightarrow> fst x = k" by (cases x) auto
  with Cons show ?case by (cases "P x") auto
qed simp

context cjson_lib
begin

lemma keys_set_key:
  assumes "cJSON_IsObject api j" "keys_ok api j k"
  shows "distinct (map fst (cJSON_items api (set_key api j k v)))"
    "fst ` set (cJSON_items api (set_key api j k v)) = insert (Some k) (fst ` set (cJSON_items api j))"
proof -
  have d: "distinct (map fst (cJSON_items api j))" using assms(2) by (simp add: keys_ok_def)
  note m = keys_ok_match [OF assms(2)]
  have r: "fst ` set (delete_first (\<lambda>(k', v). ci_eq k k') (cJSON_items api j)) =
      fst ` set (cJSON_items api j) - {Some k}"
    by (rule delete_first_removes [OF d]) (use m in auto)
  have n: "cJSON_GetObjectItemCaseSensitive api j k = None \<longleftrightarrow> Some k \<notin> fst ` set (cJSON_items api j)"
    using assms(1) by (simp add: get_items map_of_eq_None_iff)
  have "Some k \<notin> set (map fst (delete_first (\<lambda>(k', v). ci_eq k k') (cJSON_items api j)))" using r by auto
  with n d distinct_delete_first [OF d] show "distinct (map fst (cJSON_items api (set_key api j k v)))"
    using assms(1) by (simp add: set_key_def add_item delete_item)
  show "fst ` set (cJSON_items api (set_key api j k v)) = insert (Some k) (fst ` set (cJSON_items api j))"
    using r assms(1) by (auto simp: set_key_def add_item delete_item)
qed

lemma merge_tree_get:
  assumes "cJSON_IsObject api m" "distinct (map fst (cJSON_items api m))" "distinct (map fst items)"
    "\<forall>(k, v) \<in> set items. k \<noteq> None" "no_case_clash (map fst (cJSON_items api m) @ map fst items)"
  shows "cJSON_IsObject api (merge_tree api m items) \<and>
    cJSON_GetObjectItemCaseSensitive api (merge_tree api m items) k =
    (case map_of items (Some k) of Some v \<Rightarrow> Some v | None \<Rightarrow> cJSON_GetObjectItemCaseSensitive api m k)"
  using assms
proof (induction items arbitrary: m)
  case Nil
  then show ?case by simp
next
  case (Cons x items)
  obtain key v where x: "x = (Some key, v)" using Cons.prems(4) by (cases x) auto
  have ok: "keys_ok api m key"
    unfolding keys_ok_def
  proof (intro conjI ballI)
    fix y
    assume y: "y \<in> set (cJSON_items api m)"
    have "ci_eq key (fst y) \<Longrightarrow> fst y = Some key"
      using Cons.prems(5) [unfolded no_case_clash_def, rule_format, of "Some key" "fst y"] x y
      by (auto simp: ci_eq_def split: option.splits)
    then show "case y of (k', v) \<Rightarrow> ci_eq key k' \<longrightarrow> k' = Some key" by (cases y) auto
  qed (rule Cons.prems(2))
  let ?m = "set_key api m key v"
  note km = keys_set_key [OF Cons.prems(1) ok, of v]
  have "no_case_clash (map fst (cJSON_items api ?m) @ map fst items)"
    by (rule no_case_clash_set [OF _ Cons.prems(5)]) (simp add: km(2) x)
  with Cons.IH [OF object_set_key [OF Cons.prems(1)] km(1)] Cons.prems x
  have IH: "cJSON_IsObject api (merge_tree api ?m items) \<and>
    cJSON_GetObjectItemCaseSensitive api (merge_tree api ?m items) k =
    (case map_of items (Some k) of Some v \<Rightarrow> Some v | None \<Rightarrow> cJSON_GetObjectItemCaseSensitive api ?m k)"
    by auto
  have "map_of items (Some key) = None" using Cons.prems(3) x by (simp add: map_of_eq_None_iff)
  with IH x show ?case by (auto simp: get_set_key [OF Cons.prems(1) ok] split: option.splits)
qed

lemma merge_items_calm:
  assumes "calm w" "\<forall>(k, v) \<in> set items. k \<noteq> None"
  shows "wp (merge_items api m items) Q E w = Q (merge_tree api m items) (w\<lparr>tick := tick w + 2 * length items\<rparr>)"
  using assms
proof (induction items arbitrary: m w)
  case Nil
  then show ?case by (simp add: wp_simps)
next
  case (Cons x items)
  obtain k v where x: "x = (Some k, v)" using Cons.prems(2) by (cases x) auto
  with Cons show ?case
    by (simp add: wp_simps duplicate Let_def is_key_in_json_object_def get_c_def set_key_def)
qed

lemma merge_calm:
  assumes "calm w" "cstr a = Some s" "cJSON_Parse api s = Some j1" "cstr b = Some t" "cJSON_Parse api t = Some j2"
    "\<forall>(k, v) \<in> set (cJSON_items api j2). k \<noteq> None" "m = merge_tree api j1 (cJSON_items api j2)"
  shows "wp (merge_json_strings api (Buf a) (Buf b) (Buf c)) Q E w =
    (let n = tick w + 2 * length (cJSON_items api j2) + 4 in
     if length (cJSON_Print api m) < length c
     then Q (0, Buf (put_str c (cJSON_Print api m))) (w\<lparr>live_json := 2 + live_json w, tick := n\<rparr>)
     else E (Undef Buffer_Overflow) (w\<lparr>live_mem := live_mem w + 1, live_json := 3 + live_json w, tick := n\<rparr>))"
  using assms print_text [of m]
  by (simp add: merge_json_strings_def wp_simps merge_items_calm duplicate Let_def tick_sums)

end

section \<open>The properties of the JSON helpers\<close>

text \<open>C10: In every world a lookup in a JSON text that reports success has delivered a string that
  is the text of the key's value (a string as it is, a number with six decimals, an object
  printed), and one that reports failure has left the caller's pointer alone. The only other
  outcomes are undefined: an unterminated message, a print that failed, or a value of 20 or
  more characters.\<close>

theorem lookup_outcome:
  assumes "cjson_lib api valid depth" "cstr kb = Some k"
  shows "wp (get_value_of_key_from_json_string api (Buf a) (Buf kb) p)
    (\<lambda>(r, q) w'. if r = 0 then \<exists>b s. q = Buf b \<and> cstr b = Some s \<and> field api a k = Some s else q = p)
    (\<lambda>e w'. e = Undef Unterminated_Read \<and> cstr a = None \<or> e = Undef Null_Deref \<or>
       e = Undef Buffer_Overflow \<and> (\<exists>s. field api a k = Some s \<and> 20 \<le> length s)) w"
  using assms(2) by (rule cjson_lib.get_value_sound [OF assms(1)])

text \<open>The text of a small object for the witnesses.\<close>

definition demo_json :: json where
  "demo_json = JObj [(''water'', JStr ''10''), (''food'', JObj [(''rice'', JNum (DFin False 7))])]"

lemma demo_json_object [simp]: "cJSON_IsObject ref_api demo_json"
  by (simp add: demo_json_def ref_api_def)

lemma demo_json_valid [simp]: "ref_valid demo_json"
proof -
  have "DFin False 7 = of_int_d 7" by (simp add: of_int_d_def)
  then show ?thesis by (auto simp: demo_json_def INT_MIN_def INT_MAX_def intro!: bexI [of _ 7])
qed

lemma demo_json_depth [simp]: "ref_depth demo_json \<le> CJSON_NESTING_LIMIT"
  by (simp add: demo_json_def CJSON_NESTING_LIMIT_def)

lemma demo_json_parse [simp]: "cJSON_Parse ref_api (cJSON_Print ref_api demo_json) = Some demo_json"
  by (rule ref.parse_print) simp_all

lemma demo_json_text [simp]: "cstr (cJSON_Print ref_api demo_json @ [NUL]) = Some (cJSON_Print ref_api demo_json)"
  by (simp add: ref.print_text)

lemma demo_json_keys [simp]: "keys_ok ref_api demo_json ''water''"
  by (simp add: keys_ok_def demo_json_def ref_api_def json_items_def ci_eq_def tolower_def)

theorem lookup_outcome_witness:
  "wp (get_value_of_key_from_json_string ref_api (Buf (cJSON_Print ref_api demo_json @ [NUL])) (Buf (''water'' @ [NUL])) Null)
    (\<lambda>(r, q) w'. if r = 0 then \<exists>b s. q = Buf b \<and> cstr b = Some s \<and>
       field ref_api (cJSON_Print ref_api demo_json @ [NUL]) ''water'' = Some s else q = Null)
    (\<lambda>e w'. e = Undef Unterminated_Read \<and> cstr (cJSON_Print ref_api demo_json @ [NUL]) = None \<or> e = Undef Null_Deref \<or>
       e = Undef Buffer_Overflow \<and>
       (\<exists>s. field ref_api (cJSON_Print ref_api demo_json @ [NUL]) ''water'' = Some s \<and> 20 \<le> length s)) (demo_world [] [])"
  by (rule lookup_outcome [OF ref.cjson_lib_axioms]) (simp add: cstr_def)

text \<open>C11: An update with \<open>OVERRIDE\<close>, when no call fails, has exactly two outcomes: if the printed new
  object fits the caller's array, terminator included, it replaces the text, with return code
  \<open>0\<close> and nothing leaked; otherwise the array is written past its end.\<close>

theorem add_key_value_outcome:
  assumes lib: "cjson_lib api valid depth" and "calm w" "cstr a = Some t" "cJSON_Parse api t = Some j"
    "cstr kb = Some k" "cstr vb = Some text" "value_of api text flags = Some v" "flags AND OVERRIDE \<noteq> 0"
  shows "wp (cjson_add_key_value_to_json_string api (Buf a) (Buf kb) (Buf vb) flags)
    (\<lambda>(r, p) w'. length (cJSON_Print api (set_key api j k v)) < length a \<and> r = 0 \<and>
       p = Buf (put_str a (cJSON_Print api (set_key api j k v))) \<and>
       live_mem w' = live_mem w \<and> live_json w' = live_json w \<and> files w' = files w)
    (\<lambda>e w'. length a \<le> length (cJSON_Print api (set_key api j k v)) \<and> e = Undef Buffer_Overflow) w"
  using assms cjson_lib.print_text [OF lib]
  by (subst add_key_value_calm) (auto simp: tree_of_def Let_def)

theorem add_key_value_outcome_witness:
  "wp (cjson_add_key_value_to_json_string ref_api (Buf (cJSON_Print ref_api demo_json @ [NUL])) (Buf (''water'' @ [NUL]))
      (Buf (''11'' @ [NUL])) OVERRIDE)
    (\<lambda>(r, p) w'. length (cJSON_Print ref_api (set_key ref_api demo_json ''water'' (JStr ''11''))) <
         length (cJSON_Print ref_api demo_json @ [NUL]) \<and> r = 0 \<and>
       p = Buf (put_str (cJSON_Print ref_api demo_json @ [NUL]) (cJSON_Print ref_api (set_key ref_api demo_json ''water'' (JStr ''11'')))) \<and>
       live_mem w' = live_mem (demo_world [] []) \<and> live_json w' = live_json (demo_world [] []) \<and>
       files w' = files (demo_world [] []))
    (\<lambda>e w'. length (cJSON_Print ref_api demo_json @ [NUL]) \<le>
         length (cJSON_Print ref_api (set_key ref_api demo_json ''water'' (JStr ''11''))) \<and> e = Undef Buffer_Overflow)
    (demo_world [] [])"
proof (rule add_key_value_outcome [OF ref.cjson_lib_axioms])
  show "value_of ref_api ''11'' OVERRIDE = Some (JStr ''11'')" by (simp add: value_of_def flag_defs ref_api_def)
  show "cstr (''water'' @ [NUL]) = Some ''water''" "cstr (''11'' @ [NUL]) = Some ''11''" by (simp_all add: cstr_def)
  show "OVERRIDE AND OVERRIDE \<noteq> 0" by (simp add: flag_defs)
qed (rule demo_world_calm demo_json_text demo_json_parse)+

context cjson_lib
begin

lemma add_then_get:
  assumes "calm w" "cstr a = Some t" and j: "cJSON_Parse api t = Some j"
    "cJSON_IsObject api j" "valid j" "depth j \<le> CJSON_NESTING_LIMIT" "keys_ok api j k"
    and c: "cstr kb = Some k" "cstr vb = Some text" "cstr lb = Some l"
    and fits: "length (cJSON_Print api (set_key api j k (cJSON_CreateString api text))) < length a"
    and l: "if l = k then s = text
      else \<exists>v. cJSON_GetObjectItemCaseSensitive api j l = Some v \<and> cJSON_IsString api v \<and> valuestring api v = Some s"
  shows "wp (bnd (cjson_add_key_value_to_json_string api (Buf a) (Buf kb) (Buf vb) OVERRIDE)
      (\<lambda>(r, p). get_value_of_key_from_json_string api p (Buf lb) q))
    (\<lambda>(r, p) w'. r = 0 \<and> p = Buf (s @ [NUL])) (\<lambda>_ _. False) w"
proof -
  let ?j = "set_key api j k (cJSON_CreateString api text)"
  note n = cstr_no_nul [OF c(1)] cstr_no_nul [OF c(2)]
  have v: "value_of api text OVERRIDE = Some (cJSON_CreateString api text)" by (simp add: value_of_def flag_defs)
  have "depth ?j \<le> CJSON_NESTING_LIMIT"
    using depth_set_key [OF j(2), of k "cJSON_CreateString api text"] depth_object(1) [OF j(2)] j(4)
    by (simp add: depth_scalar)
  then have parse: "cJSON_Parse api (cJSON_Print api ?j) = Some ?j"
    using j n by (intro parse_print valid_set_key valid_string)
  obtain u where u: "cJSON_GetObjectItemCaseSensitive api ?j l = Some u" "cJSON_IsString api u" "valuestring api u = Some s"
    using l n(2) by (auto simp: get_set_key [OF j(2,5)] create_string split: if_splits)
  have t: "cstr (put_str a (cJSON_Print api ?j)) = Some (cJSON_Print api ?j)" by (simp add: print_text)
  have add: "wp (cjson_add_key_value_to_json_string api (Buf a) (Buf kb) (Buf vb) OVERRIDE) Q E w =
      Q (0, Buf (put_str a (cJSON_Print api ?j))) (w\<lparr>tick := tick w + 4\<rparr>)" for Q E
    using assms(1,2) c(1,2) v j(1) fits
    by (subst add_key_value_calm) (auto simp: tree_of_def flag_defs print_text Let_def)
  show ?thesis
    using assms(1) by (simp add: wp_bnd add get_value_string_calm [OF _ t parse c(3) u])
qed

end

text \<open>C12: What was stored is what is looked up: after an update with \<open>OVERRIDE\<close> that fits, the key has
  the new text, and every other key that held a string holds the same string. The proviso is
  that no other key of the object differs from the updated one in case only.\<close>

theorem add_then_lookup:
  assumes lib: "cjson_lib api valid depth" and "calm w" "cstr a = Some t" and j: "cJSON_Parse api t = Some j"
    "cJSON_IsObject api j" "valid j" "depth j \<le> CJSON_NESTING_LIMIT" "keys_ok api j k"
    and "cstr kb = Some k" "cstr vb = Some text" "cstr lb = Some l"
    and fits: "length (cJSON_Print api (set_key api j k (cJSON_CreateString api text))) < length a"
    and l: "if l = k then s = text
      else \<exists>v. cJSON_GetObjectItemCaseSensitive api j l = Some v \<and> cJSON_IsString api v \<and> valuestring api v = Some s"
  shows "wp (bnd (cjson_add_key_value_to_json_string api (Buf a) (Buf kb) (Buf vb) OVERRIDE)
      (\<lambda>(r, p). get_value_of_key_from_json_string api p (Buf lb) q))
    (\<lambda>(r, p) w'. r = 0 \<and> p = Buf (s @ [NUL])) (\<lambda>_ _. False) w"
  using assms(2-) by (rule cjson_lib.add_then_get [OF lib])

theorem add_then_lookup_witness:
  "wp (bnd (cjson_add_key_value_to_json_string ref_api (Buf (fit 100 (cJSON_Print ref_api demo_json))) (Buf (''water'' @ [NUL]))
        (Buf (''11'' @ [NUL])) OVERRIDE)
      (\<lambda>(r, p). get_value_of_key_from_json_string ref_api p (Buf (''water'' @ [NUL])) Null))
    (\<lambda>(r, p) w'. r = 0 \<and> p = Buf (''11'' @ [NUL])) (\<lambda>_ _. False) (demo_world [] [])"
proof (rule add_then_lookup [OF ref.cjson_lib_axioms demo_world_calm _ demo_json_parse demo_json_object demo_json_valid
    demo_json_depth demo_json_keys, where l = "''water''" and s = "''11''"])
  show "cstr (fit 100 (cJSON_Print ref_api demo_json)) = Some (cJSON_Print ref_api demo_json)" by code_simp
  show "length (cJSON_Print ref_api (set_key ref_api demo_json ''water'' (cJSON_CreateString ref_api ''11'')))
    < length (fit 100 (cJSON_Print ref_api demo_json))" by code_simp
qed (simp_all add: cstr_def)

text \<open>Without \<open>OVERRIDE\<close> an existing key wins: the text stays as it was, nothing is leaked, and the
  return code is still that of success.\<close>

theorem existing_key_kept:
  assumes "cstr a = Some t" "cstr kb = Some k" "cstr vb = Some text" "calm w"
    "value_of api text flags = Some v"
    "cJSON_GetObjectItemCaseSensitive api (tree_of api t) k \<noteq> None" "flags AND OVERRIDE = 0"
  shows "wp (cjson_add_key_value_to_json_string api (Buf a) (Buf kb) (Buf vb) flags)
    (\<lambda>(r, p) w'. r = 0 \<and> p = Buf a \<and> live_mem w' = live_mem w \<and> live_json w' = live_json w)
    (\<lambda>_ _. False) w"
  using assms by (rule add_key_value_exists)

theorem existing_key_kept_witness:
  "wp (cjson_add_key_value_to_json_string ref_api (Buf (cJSON_Print ref_api demo_json @ [NUL])) (Buf (''water'' @ [NUL]))
      (Buf (''11'' @ [NUL])) 0)
    (\<lambda>(r, p) w'. r = 0 \<and> p = Buf (cJSON_Print ref_api demo_json @ [NUL]) \<and>
       live_mem w' = live_mem (demo_world [] []) \<and> live_json w' = live_json (demo_world [] []))
    (\<lambda>_ _. False) (demo_world [] [])"
proof (rule existing_key_kept [OF demo_json_text])
  show "value_of ref_api ''11'' 0 = Some (JStr ''11'')" by (simp add: value_of_def flag_defs ref_api_def)
  show "cJSON_GetObjectItemCaseSensitive ref_api (tree_of ref_api (cJSON_Print ref_api demo_json)) ''water'' \<noteq> None"
    by (simp add: tree_of_def demo_json_parse) (simp add: demo_json_def ref_api_def json_items_def)
qed (simp_all add: cstr_def)

context cjson_lib
begin

text \<open>A key that differs in case only and comes first is deleted in place of the one that is
  updated.\<close>

lemma get_set_key_clash:
  assumes "cJSON_IsObject api j" "cJSON_items api j = (Some k0, x) # rest" "k0 \<noteq> k" "ci_eq k (Some k0)"
    "cJSON_GetObjectItemCaseSensitive api j k = Some y"
  shows "cJSON_GetObjectItemCaseSensitive api (set_key api j k v) k = Some y"
  using assms by (simp add: set_key_def cjson_specs)

end

text \<open>An update can be lost without any error: the key is found with regard to case but deleted
  without, so if a key that differs only in case comes first, that one is removed, the old value
  of the updated key stays in front of the new one, and later lookups deliver the old value.\<close>

theorem override_case_clash:
  assumes lib: "cjson_lib api valid depth" and "calm w" "cstr a = Some t" "cJSON_Parse api t = Some j"
    and j: "cJSON_IsObject api j" "cJSON_items api j = (Some k0, x) # rest" "k0 \<noteq> k" "ci_eq k (Some k0)"
    "cJSON_GetObjectItemCaseSensitive api j k = Some y"
    and "cstr kb = Some k" "cstr vb = Some text" "value_of api text flags = Some v" "flags AND OVERRIDE \<noteq> 0"
    and "length (cJSON_Print api (set_key api j k v)) < length a"
  shows "wp (cjson_add_key_value_to_json_string api (Buf a) (Buf kb) (Buf vb) flags)
    (\<lambda>(r, p) w'. r = 0 \<and> (\<exists>a' j'. p = Buf a' \<and> cstr a' = Some (cJSON_Print api j') \<and>
       cJSON_GetObjectItemCaseSensitive api j' k = Some y)) (\<lambda>_ _. False) w"
  using assms cjson_lib.print_text [OF lib] cjson_lib.get_set_key_clash [OF lib j]
  by (subst add_key_value_calm) (auto simp: tree_of_def Let_def intro!: exI [of _ "set_key api j k v"])

definition clash_json :: json where
  "clash_json = JObj [(''Water'', JStr ''1''), (''water'', JStr ''2'')]"

lemma clash_json_parse: "cJSON_Parse ref_api (cJSON_Print ref_api clash_json) = Some clash_json"
  by (rule ref.parse_print) (simp_all add: clash_json_def CJSON_NESTING_LIMIT_def)

theorem override_case_clash_witness:
  "wp (cjson_add_key_value_to_json_string ref_api (Buf (fit 100 (cJSON_Print ref_api clash_json))) (lit ''water'')
      (lit ''3'') OVERRIDE)
    (\<lambda>(r, p) w'. r = 0 \<and> (\<exists>a' j'. p = Buf a' \<and> cstr a' = Some (cJSON_Print ref_api j') \<and>
       cJSON_GetObjectItemCaseSensitive ref_api j' ''water'' = Some (JStr ''2''))) (\<lambda>_ _. False) (demo_world [] [])"
  unfolding lit_def
proof (rule override_case_clash [OF ref.cjson_lib_axioms demo_world_calm _ clash_json_parse])
  show "cstr (fit 100 (cJSON_Print ref_api clash_json)) = Some (cJSON_Print ref_api clash_json)" by code_simp
  show "length (cJSON_Print ref_api (set_key ref_api clash_json ''water'' (JStr ''3'')))
    < length (fit 100 (cJSON_Print ref_api clash_json))" by code_simp
  show "value_of ref_api ''3'' OVERRIDE = Some (JStr ''3'')" by (simp add: value_of_def flag_defs ref_api_def)
  show "cJSON_items ref_api clash_json = (Some ''Water'', JStr ''1'') # [(Some ''water'', JStr ''2'')]"
    by (simp add: clash_json_def ref_api_def json_items_def)
  show "ci_eq ''water'' (Some ''Water'')" by code_simp
qed (simp_all add: cstr_def flag_defs, simp_all add: clash_json_def ref_api_def json_items_def)

text \<open>C31: Merging two JSON objects in whose keys no two differ in case only: the result, if it fits
  the caller's array, is the text of an object in which every key of the second object has its
  value from there and every other key its value from the first. Each call leaves two parsed
  trees allocated, which nothing can release any more.\<close>

theorem merge_outcome:
  assumes lib: "cjson_lib api valid depth" and w: "calm w" "cstr a = Some s" "cJSON_Parse api s = Some j1"
      "cstr b = Some t" "cJSON_Parse api t = Some j2"
    and some: "\<forall>(k, v) \<in> set (cJSON_items api j2). k \<noteq> None"
    and j: "cJSON_IsObject api j1" "cJSON_IsObject api j2" "distinct (map fst (cJSON_items api j1))"
      "distinct (map fst (cJSON_items api j2))"
      "no_case_clash (map fst (cJSON_items api j1) @ map fst (cJSON_items api j2))"
    and m: "m = merge_tree api j1 (cJSON_items api j2)" "length (cJSON_Print api m) < length c"
  shows "wp (merge_json_strings api (Buf a) (Buf b) (Buf c))
    (\<lambda>(r, p) w'. r = 0 \<and> p = Buf (put_str c (cJSON_Print api m)) \<and>
       live_json w' = live_json w + 2 \<and> live_mem w' = live_mem w \<and>
       (\<forall>k. cJSON_GetObjectItemCaseSensitive api m k =
          (case cJSON_GetObjectItemCaseSensitive api j2 k of Some v \<Rightarrow> Some v
           | None \<Rightarrow> cJSON_GetObjectItemCaseSensitive api j1 k))) (\<lambda>_ _. False) w"
proof -
  have "cJSON_GetObjectItemCaseSensitive api m k =
      (case cJSON_GetObjectItemCaseSensitive api j2 k of Some v \<Rightarrow> Some v
       | None \<Rightarrow> cJSON_GetObjectItemCaseSensitive api j1 k)" for k
    using cjson_lib.merge_tree_get [OF lib j(1,3,4) some j(5), of k] cjson_lib.get_items [OF lib j(2), of k] m(1)
    by simp
  then show ?thesis
    using m(2) by (simp add: cjson_lib.merge_calm [OF lib w some m(1)] Let_def)
qed

definition merge_json_1 :: json where "merge_json_1 = JObj [(''a'', JStr ''1''), (''b'', JStr ''2'')]"
definition merge_json_2 :: json where "merge_json_2 = JObj [(''b'', JStr ''3''), (''c'', JStr ''4'')]"

theorem merge_outcome_witness:
  "wp (merge_json_strings ref_api (Buf (cJSON_Print ref_api merge_json_1 @ [NUL])) (Buf (cJSON_Print ref_api merge_json_2 @ [NUL]))
      (Buf (replicate 100 NUL)))
    (\<lambda>(r, p) w'. r = 0 \<and>
       p = Buf (put_str (replicate 100 NUL) (cJSON_Print ref_api (merge_tree ref_api merge_json_1 (cJSON_items ref_api merge_json_2)))) \<and>
       live_json w' = live_json (demo_world [] []) + 2 \<and> live_mem w' = live_mem (demo_world [] []) \<and>
       (\<forall>k. cJSON_GetObjectItemCaseSensitive ref_api (merge_tree ref_api merge_json_1 (cJSON_items ref_api merge_json_2)) k =
          (case cJSON_GetObjectItemCaseSensitive ref_api merge_json_2 k of Some v \<Rightarrow> Some v
           | None \<Rightarrow> cJSON_GetObjectItemCaseSensitive ref_api merge_json_1 k))) (\<lambda>_ _. False) (demo_world [] [])"
proof (rule merge_outcome [OF ref.cjson_lib_axioms demo_world_calm])
  show "cJSON_Parse ref_api (cJSON_Print ref_api merge_json_1) = Some merge_json_1"
    "cJSON_Parse ref_api (cJSON_Print ref_api merge_json_2) = Some merge_json_2"
    by (rule ref.parse_print; simp add: merge_json_1_def merge_json_2_def CJSON_NESTING_LIMIT_def)+
  show "length (cJSON_Print ref_api (merge_tree ref_api merge_json_1 (cJSON_items ref_api merge_json_2)))
    < length (replicate 100 NUL)" by code_simp
qed (simp_all add: ref.print_text, simp_all add: merge_json_1_def merge_json_2_def ref_api_def json_items_def no_case_clash_def tolower_def)

text \<open>The 20 bytes for a number are too few for large values: the lookup of an integer of 13 or
  more digits prints it past the end of its block.\<close>

theorem large_number_overflow:
  assumes "calm w" "cstr a = Some t" "cJSON_Parse api t = Some j" "cstr kb = Some k"
    "cJSON_GetObjectItemCaseSensitive api j k = Some v" "\<not> cJSON_IsString api v" "cJSON_IsNumber api v"
    "valuedouble api v = of_int_d i" "10 ^ 12 \<le> \<bar>i\<bar>"
  shows "wp (get_value_of_key_from_json_string api (Buf a) (Buf kb) p) (\<lambda>_ _. False)
    (\<lambda>e w'. e = Undef Buffer_Overflow) w"
proof -
  have "12 < length (show_nat (nat \<bar>i\<bar>))"
    using assms(9) by (intro length_show_nat_ge) (simp add: le_nat_iff)
  then have "20 \<le> length (fmt_fixed 6 (of_int_d i))"
    by (auto simp: fmt_fixed_int show_int_def)
  with assms show ?thesis by (simp add: get_value_number_calm)
qed

definition big_text :: string where
  "big_text = [CHR 0x7B, CHR 0x22, CHR ''n'', CHR 0x22, CHR '':''] @ ''1000000000000'' @ [CHR 0x7D]"

text \<open>The reference implementation with the one document of this example.\<close>

definition big_api :: "json cjson_api" where
  "big_api = ref_api\<lparr>cJSON_Parse := (\<lambda>s. if s = big_text then Some (JObj [(''n'', JNum (of_int_d 1000000000000))]) else None)\<rparr>"

theorem large_number_overflow_witness:
  "wp (get_value_of_key_from_json_string big_api (Buf (big_text @ [NUL])) (lit ''n'') Null) (\<lambda>_ _. False)
    (\<lambda>e w'. e = Undef Buffer_Overflow) (demo_world [] [])"
  unfolding lit_def
proof (rule large_number_overflow [OF demo_world_calm, where t = big_text and k = "''n''" and i = 1000000000000
      and j = "JObj [(''n'', JNum (of_int_d 1000000000000))]" and v = "JNum (of_int_d 1000000000000)"])
  show "cstr (big_text @ [NUL]) = Some big_text" by code_simp
qed (simp_all add: cstr_def big_api_def ref_api_def json_items_def)

text \<open>A lookup of an object leaks: it prints the object twice and releases neither text, so two
  blocks stay allocated besides the one the caller gets.\<close>

theorem object_lookup_leaks:
  assumes lib: "cjson_lib api valid depth" and "calm w" "cstr a = Some t" "cJSON_Parse api t = Some j" "cstr kb = Some k"
    "cJSON_GetObjectItemCaseSensitive api j k = Some v" and v: "cJSON_IsObject api v"
  shows "wp (get_value_of_key_from_json_string api (Buf a) (Buf kb) p)
    (\<lambda>(r, q) w'. r = 0 \<and> q = Buf (cJSON_Print api v @ [NUL]) \<and> live_mem w' = live_mem w + 3 \<and> live_json w' = live_json w)
    (\<lambda>_ _. False) w"
  using assms cjson_lib.object_kind [OF lib v] cjson_lib.print_text [OF lib, of v]
  by (simp add: get_value_object_calm)

theorem object_lookup_leaks_witness:
  "wp (get_value_of_key_from_json_string ref_api (Buf (cJSON_Print ref_api demo_json @ [NUL])) (Buf (''food'' @ [NUL])) Null)
    (\<lambda>(r, q) w'. r = 0 \<and> q = Buf (cJSON_Print ref_api (JObj [(''rice'', JNum (DFin False 7))]) @ [NUL]) \<and>
       live_mem w' = live_mem (demo_world [] []) + 3 \<and> live_json w' = live_json (demo_world [] []))
    (\<lambda>_ _. False) (demo_world [] [])"
proof (rule object_lookup_leaks [OF ref.cjson_lib_axioms demo_world_calm demo_json_text demo_json_parse])
qed (simp_all add: cstr_def, simp_all add: demo_json_def ref_api_def json_items_def)

end
