(* ===== verification/Json_Path.thy ===== *)
theory Json_Path
  imports Cjson_Handler "HOL-Library.Sublist"
begin

text \<open>
  The abstract view of the state document: a tree read and updated at a path of keys. The
  three functions that edit the state file (supplies, alerts, emergency) take a section
  out as text, update it, and put it back; the lemmas here say what such a sequence of
  text updates does to the tree.
\<close>

section \<open>Reading and updating at a path\<close>

fun get_path :: "'j cjson_api \<Rightarrow> 'j \<Rightarrow> string list \<Rightarrow> 'j option" where
  "get_path api j [] = Some j"
| "get_path api j (k # ks) = (case cJSON_GetObjectItemCaseSensitive api j k of
     None \<Rightarrow> None | Some v \<Rightarrow> get_path api v ks)"

fun set_path :: "'j cjson_api \<Rightarrow> 'j \<Rightarrow> string list \<Rightarrow> 'j \<Rightarrow> 'j" where
  "set_path api j [] v = v"
| "set_path api j (k # ks) v = (if ks = [] then set_key api j k v
     else (case cJSON_GetObjectItemCaseSensitive api j k of
       None \<Rightarrow> j | Some u \<Rightarrow> set_key api j k (set_path api u ks v)))"

text \<open>Every tree on the path but the last is an object in which the next key is present,
  and no key on the way has a double that differs in case only.\<close>

fun path_ok :: "'j cjson_api \<Rightarrow> 'j \<Rightarrow> string list \<Rightarrow> bool" where
  "path_ok api j [] \<longleftrightarrow> True"
| "path_ok api j (k # ks) \<longleftrightarrow> cJSON_IsObject api j \<and> keys_ok api j k \<and>
     (ks = [] \<or> (case cJSON_GetObjectItemCaseSensitive api j k of
        None \<Rightarrow> False | Some v \<Rightarrow> path_ok api v ks))"

section \<open>The state document\<close>

definition JSON_FILE_PATH :: string where
  "JSON_FILE_PATH = ''data/state_summary.json''"

lemma json_file_path_text [simp]: "NUL \<notin> set JSON_FILE_PATH"
  by (simp add: JSON_FILE_PATH_def)

text \<open>The state file holds the text \<open>t\<close> of the valid object \<open>d\<close>.\<close>

definition state_doc ::
  "'j cjson_api \<Rightarrow> ('j \<Rightarrow> bool) \<Rightarrow> ('j \<Rightarrow> nat) \<Rightarrow> 'z world_scheme \<Rightarrow> string \<Rightarrow> 'j \<Rightarrow> bool" where
  "state_doc api valid depth w t d \<longleftrightarrow>
     files w JSON_FILE_PATH = Some t \<and> t \<noteq> [] \<and> NUL \<notin> set t \<and> cJSON_Parse api t = Some d \<and>
     cJSON_IsObject api d \<and> valid d \<and> depth d \<le> CJSON_NESTING_LIMIT"

section \<open>What text updates do to the tree\<close>

context cjson_lib
begin

lemma state_doc_written:
  assumes "files w JSON_FILE_PATH = Some (cJSON_Print api d)" "cJSON_IsObject api d" "valid d"
    "depth d \<le> CJSON_NESTING_LIMIT"
  shows "state_doc api valid depth w (cJSON_Print api d) d"
  using assms by (simp add: state_doc_def print_text parse_print)

lemma get_set_path: "path_ok api j p \<Longrightarrow> get_path api (set_path api j p v) p = Some v"
  by (induction p arbitrary: j) (auto simp: get_set_key split: option.splits)

lemma get_set_path_other:
  "path_ok api j p \<Longrightarrow> p \<parallel> q \<Longrightarrow> get_path api (set_path api j p v) q = get_path api j q"
proof (induction p arbitrary: j q)
  case Nil
  then show ?case by simp
next
  case (Cons k ks)
  from Cons.prems(2) obtain k' ks' where q: "q = k' # ks'" by (cases q) auto
  show ?case
  proof (cases "ks = []")
    case True
    with Cons.prems q have "k' \<noteq> k" by auto
    with True Cons.prems q show ?thesis by (simp add: get_set_key)
  next
    case False
    with Cons.prems obtain u where u: "cJSON_GetObjectItemCaseSensitive api j k = Some u"
      "path_ok api u ks" by (auto split: option.splits)
    moreover have "k' = k \<Longrightarrow> ks \<parallel> ks'" using Cons.prems(2) q by (simp add: parallel_def)
    ultimately show ?thesis using False Cons q by (auto simp: get_set_key)
  qed
qed

text \<open>Putting a section back: the text of the new section replaces the old one in the text
  of the document.\<close>

lemma put_section:
  assumes "calm w" "cstr a = Some t" "cJSON_Parse api t = Some d" "cstr kb = Some k"
    "cstr b = Some (cJSON_Print api s)" "valid s" "depth s \<le> CJSON_NESTING_LIMIT"
  shows "wp (cjson_add_key_value_to_json_string api (Buf a) (Buf kb) (Buf b) (OVERRIDE OR OBJPARSE)) Q E w =
    (let u = cJSON_Print api (set_key api d k s) in
     if length u < length a then Q (0, Buf (put_str a u)) (w\<lparr>tick := tick w + 4\<rparr>)
     else E (Undef Buffer_Overflow)
            (w\<lparr>live_mem := live_mem w + 1, live_json := 1 + live_json w, tick := tick w + 4\<rparr>))"
proof -
  have "value_of api (cJSON_Print api s) (OVERRIDE OR OBJPARSE) = Some s"
    using assms by (simp add: value_of_def flag_defs parse_print)
  with assms show ?thesis
    by (subst add_key_value_calm) (auto simp: tree_of_def print_text flag_defs Let_def)
qed

text \<open>Taking a section out: the text of the section in a block of exactly its size.\<close>

lemma take_section:
  assumes "calm w" "cstr a = Some t" "cJSON_Parse api t = Some d" "cstr kb = Some k"
    "cJSON_GetObjectItemCaseSensitive api d k = Some s" "cJSON_IsObject api s"
  shows "wp (get_value_of_key_from_json_string api (Buf a) (Buf kb) p) Q E w =
    Q (0, Buf (cJSON_Print api s @ [NUL])) (w\<lparr>live_mem := 3 + live_mem w, tick := tick w + 4\<rparr>)"
  using assms object_kind [of s] print_text [of s] by (simp add: get_value_object_calm)

text \<open>Setting a scalar in a section. A scalar nests no deeper than the section it is put in.\<close>

lemma set_in_section:
  assumes "calm w" "cstr kb = Some k" "cstr b = Some text" "cJSON_IsObject api s" "valid s"
    "depth s \<le> CJSON_NESTING_LIMIT" "value_of api text (OVERRIDE OR INTPARSE) = Some v"
    "length a = Suc (length (cJSON_Print api s))" "cstr a = Some (cJSON_Print api s)"
  shows "wp (cjson_add_key_value_to_json_string api (Buf a) (Buf kb) (Buf b) (OVERRIDE OR INTPARSE)) Q E w =
    (let u = cJSON_Print api (set_key api s k v) in
     if length u \<le> length (cJSON_Print api s) then Q (0, Buf (put_str a u)) (w\<lparr>tick := tick w + 4\<rparr>)
     else E (Undef Buffer_Overflow)
            (w\<lparr>live_mem := live_mem w + 1, live_json := 1 + live_json w, tick := tick w + 4\<rparr>))"
  using assms by (subst add_to_object) (auto simp: flag_defs less_Suc_eq_le)

lemma scalar_depth: "value_of api text (OVERRIDE OR INTPARSE) = Some v \<Longrightarrow> depth v = 0"
  by (auto simp: value_of_def flag_defs depth_scalar split: if_splits)

lemma scalar_section:
  assumes "cJSON_IsObject api s" "valid s" "valid v" "NUL \<notin> set k"
    "value_of api text (OVERRIDE OR INTPARSE) = Some v"
  shows "cJSON_IsObject api (set_key api s k v)" "valid (set_key api s k v)"
    "depth (set_key api s k v) \<le> depth s"
  using assms depth_set_key [of s k v] depth_object(1) [of s]
  by (auto simp: object_set_key valid_set_key scalar_depth)

end

section \<open>The contract of an edit\<close>

text \<open>The functions that change the state document share one contract: from a state file that
  holds a document \<open>d\<close>, when no call fails, the value at one path is replaced and the new
  document written, if the texts that are rewritten in place do not outgrow their blocks;
  otherwise a block is overrun before the file is touched.\<close>

locale doc_editor = cjson_lib api valid depth
  for api :: "'j cjson_api" and valid :: "'j \<Rightarrow> bool" and depth :: "'j \<Rightarrow> nat" +
  fixes edit :: "('z world_scheme, 'r) comp" and code :: "'r \<Rightarrow> int" and path :: "string list"
    and new :: "'j \<Rightarrow> 'j" and pre :: "'j \<Rightarrow> bool" and fits :: "string \<Rightarrow> 'j \<Rightarrow> bool"
  assumes pre_path: "pre d \<Longrightarrow> path_ok api d path"
    and edit_spec: "calm w \<Longrightarrow> state_doc api valid depth w t d \<Longrightarrow> pre d \<Longrightarrow> d' = set_path api d path (new d) \<Longrightarrow>
      wp edit (\<lambda>r w'. fits t d \<and> code r = 0 \<and> files w' = (files w)(JSON_FILE_PATH \<mapsto> cJSON_Print api d') \<and>
           state_doc api valid depth w' (cJSON_Print api d') d')
        (\<lambda>e w'. \<not> fits t d \<and> e = Undef Buffer_Overflow \<and> files w' = files w) w"
begin

text \<open>Seen through paths: the new value is there, everything beside it is as it was, and the
  file still holds a valid document.\<close>

lemma edit_effect:
  assumes "calm w" "state_doc api valid depth w t d" "pre d"
  shows "wp edit (\<lambda>r w'. fits t d \<and> code r = 0 \<and> (\<exists>t' d'. state_doc api valid depth w' t' d' \<and>
       get_path api d' path = Some (new d) \<and> (\<forall>q. path \<parallel> q \<longrightarrow> get_path api d' q = get_path api d q)) \<and>
       (\<forall>g. g \<noteq> JSON_FILE_PATH \<longrightarrow> files w' g = files w g))
    (\<lambda>e w'. \<not> fits t d \<and> e = Undef Buffer_Overflow \<and> files w' = files w) w"
  by (rule wp_mono [OF edit_spec [OF assms refl]])
     (use get_set_path [OF pre_path [OF assms(3)]] get_set_path_other [OF pre_path [OF assms(3)]] in \<open>auto intro!: exI [of _ "set_path api d path (new d)"]\<close>)

end

text \<open>The texts of a section and of the document, which an edit of the section rewrites in place.\<close>

definition section_fits :: "'j cjson_api \<Rightarrow> string \<Rightarrow> string \<Rightarrow> 'j \<Rightarrow> string \<Rightarrow> 'j \<Rightarrow> bool" where
  "section_fits api sec k v t d \<longleftrightarrow> (case cJSON_GetObjectItemCaseSensitive api d sec of None \<Rightarrow> False
     | Some s \<Rightarrow> (let s' = set_key api s k v in
         length (cJSON_Print api s') \<le> length (cJSON_Print api s) \<and>
         length (cJSON_Print api (set_key api d sec s')) \<le> length t))"

section \<open>The document of the repository\<close>

text \<open>The document of \<open>data/state_summary.json\<close>, whose text is the one that \<open>cJSON_Print\<close> gives it.\<close>

definition state_summary :: json where
  "state_summary = JObj [
     (''alerts'', JObj [(''NORTH'', JNum (of_int_d 74)), (''EAST'', JNum (of_int_d 70)),
                        (''WEST'', JNum (of_int_d 70)), (''SOUTH'', JNum (of_int_d 65))]),
     (''supplies'', JObj [
        (''food'', JObj [(''vegetables'', JNum (of_int_d 200))]),
        (''medicine'', JObj [(''antibiotics'', JNum (of_int_d 1)), (''analgesics'', JNum (of_int_d 100))])]),
     (''emergency'', JObj [
        (''last_keepalived'', JStr ''Wed Jul 03 15:13:05''),
        (''last_event'', JStr ''Wed Jul 03 15:13:05, Server failure. Emergency notification sent to all connected clients.'')])]"

abbreviation shipped_world :: world where
  "shipped_world \<equiv> demo_world JSON_FILE_PATH (cJSON_Print ref_api state_summary)"

lemma ref_valid_number: "INT_MIN \<le> i \<Longrightarrow> i \<le> INT_MAX \<Longrightarrow> ref_valid (JNum (of_int_d i))"
  by auto

lemma state_summary_valid: "ref_valid state_summary"
  by (simp add: state_summary_def ref_valid_number INT_MIN_def INT_MAX_def del: ref_valid.simps(1))

lemma shipped_state_doc:
  "state_doc ref_api ref_valid ref_depth shipped_world (cJSON_Print ref_api state_summary) state_summary"
  by (rule ref.state_doc_written)
     (simp_all add: demo_world_def state_summary_valid, simp_all add: state_summary_def ref_api_def CJSON_NESTING_LIMIT_def)

end
