(* ===== verification/Supplies_Data_Handler.thy ===== *)
theory Supplies_Data_Handler
  imports Json_Path
begin

text \<open>
  The supplies, \<open>lib/libsta/src/supplies_data_handler.c\<close>: the state file is returned as it
  is, and one amount in a category of the supplies is set.
\<close>

definition SUPPLIES :: string where
  "SUPPLIES = ''supplies''"

definition get_supply_status :: "cptr \<Rightarrow> ('z world_scheme, int \<times> cptr) comp" where
  "get_supply_status supplies_buffer = read_file JSON_FILE_PATH supplies_buffer"

definition set_supply_status ::
  "'j cjson_api \<Rightarrow> cptr \<Rightarrow> cptr \<Rightarrow> cptr \<Rightarrow> cptr \<Rightarrow> ('z world_scheme, int \<times> cptr) comp" where
  "set_supply_status api category key val supplies_buffer =
     bnd (read_file JSON_FILE_PATH supplies_buffer) (\<lambda>(r, supplies_buffer).
     if r \<noteq> 0 then ret (1, supplies_buffer)
     else bnd (get_value_of_key_from_json_string api supplies_buffer (lit SUPPLIES) Null)
         (\<lambda>(r, value_of_supply_key).
     if r \<noteq> 0 then ret (1, supplies_buffer)
     else bnd (get_value_of_key_from_json_string api value_of_supply_key category Null)
         (\<lambda>(r, value_of_category).
     if r \<noteq> 0 then ret (1, supplies_buffer)
     else bnd (cjson_add_key_value_to_json_string api value_of_category key val (OVERRIDE OR INTPARSE))
         (\<lambda>(r, value_of_category).
     if r \<noteq> 0 then ret (1, supplies_buffer)
     else bnd (cjson_add_key_value_to_json_string api value_of_supply_key category value_of_category
                (OVERRIDE OR OBJPARSE))
         (\<lambda>(r, value_of_supply_key).
     if r \<noteq> 0 then ret (1, supplies_buffer)
     else bnd (cjson_add_key_value_to_json_string api supplies_buffer (lit SUPPLIES) value_of_supply_key
                (OVERRIDE OR OBJPARSE))
         (\<lambda>(r, supplies_buffer).
     if r \<noteq> 0 then ret (1, supplies_buffer)
     else bnd (write_file JSON_FILE_PATH supplies_buffer) (\<lambda>r. ret (r, supplies_buffer))))))))"

text \<open>The part of \<open>set_supply_status\<close> that follows the reading of the file.\<close>

definition edit_supply ::
  "'j cjson_api \<Rightarrow> cptr \<Rightarrow> cptr \<Rightarrow> cptr \<Rightarrow> cptr \<Rightarrow> ('z world_scheme, int \<times> cptr) comp" where
  "edit_supply api category key val supplies_buffer =
     bnd (get_value_of_key_from_json_string api supplies_buffer (lit SUPPLIES) Null)
         (\<lambda>(r, value_of_supply_key).
     if r \<noteq> 0 then ret (1, supplies_buffer)
     else bnd (get_value_of_key_from_json_string api value_of_supply_key category Null)
         (\<lambda>(r, value_of_category).
     if r \<noteq> 0 then ret (1, supplies_buffer)
     else bnd (cjson_add_key_value_to_json_string api value_of_category key val (OVERRIDE OR INTPARSE))
         (\<lambda>(r, value_of_category).
     if r \<noteq> 0 then ret (1, supplies_buffer)
     else bnd (cjson_add_key_value_to_json_string api value_of_supply_key category value_of_category
                (OVERRIDE OR OBJPARSE))
         (\<lambda>(r, value_of_supply_key).
     if r \<noteq> 0 then ret (1, supplies_buffer)
     else bnd (cjson_add_key_value_to_json_string api supplies_buffer (lit SUPPLIES) value_of_supply_key
                (OVERRIDE OR OBJPARSE))
         (\<lambda>(r, supplies_buffer).
     if r \<noteq> 0 then ret (1, supplies_buffer) else ret (0, supplies_buffer))))))"

definition store_supply ::
  "'j cjson_api \<Rightarrow> cptr \<Rightarrow> cptr \<Rightarrow> cptr \<Rightarrow> cptr \<Rightarrow> ('z world_scheme, int \<times> cptr) comp" where
  "store_supply api category key val supplies_buffer =
     bnd (edit_supply api category key val supplies_buffer) (\<lambda>(r, supplies_buffer).
     if r \<noteq> 0 then ret (1, supplies_buffer)
     else bnd (write_file JSON_FILE_PATH supplies_buffer) (\<lambda>r. ret (r, supplies_buffer)))"

lemmas store_supply_defs = store_supply_def edit_supply_def

lemma set_supply_status_split:
  "set_supply_status api category key val buffer = bnd (read_file JSON_FILE_PATH buffer) (\<lambda>(r, buffer).
     if r \<noteq> 0 then ret (1, buffer) else store_supply api category key val buffer)"
  unfolding set_supply_status_def store_supply_defs
  by (simp add: bnd_assoc bnd_if bnd_split cong: if_cong)

section \<open>What a call does\<close>

text \<open>Every update stays within the state file.\<close>

lemma keeps_set_supply_status [frame_intros]:
  "quiet f \<Longrightarrow> (\<And>w m. f (files_update m w) = f w) \<Longrightarrow> keeps f (set_supply_status api c k v b)"
  unfolding set_supply_status_def by (intro frame_intros)

lemma set_supply_status_other_files [frame_intros]:
  "g \<noteq> JSON_FILE_PATH \<Longrightarrow> keeps (\<lambda>w. files w g) (set_supply_status api c k v b)"
  unfolding set_supply_status_def by (intro frame_intros) simp_all

lemma supplies_text [simp]: "NUL \<notin> set SUPPLIES"
  by (simp add: SUPPLIES_def)

context cjson_lib
begin

text \<open>The setting of an update: the state document \<open>d\<close> has an object \<open>s\<close> of supplies and in it
  a category \<open>c\<close>. Each of the three texts that are rewritten in place must not grow.\<close>

lemma store_supply_exec:
  assumes "calm w" and t: "cJSON_Parse api t = Some d" "NUL \<notin> set t" "cJSON_IsObject api d" "valid d"
      "depth d \<le> CJSON_NESTING_LIMIT"
    and s: "cJSON_GetObjectItemCaseSensitive api d SUPPLIES = Some s" "cJSON_IsObject api s"
    and c: "cJSON_GetObjectItemCaseSensitive api s cat = Some c" "cJSON_IsObject api c"
    and args: "cstr cb = Some cat" "cstr kb = Some key" "cstr vb = Some text"
    and v: "value_of api text (OVERRIDE OR INTPARSE) = Some v" "valid v"
    and c': "c' = set_key api c key v" and s': "s' = set_key api s cat c'"
    and d': "d' = set_key api d SUPPLIES s'"
  shows "wp (store_supply api (Buf cb) (Buf kb) (Buf vb) (Buf (t @ [NUL])))
    (\<lambda>(r, q) w'. r = 0 \<and> live_mem w' = live_mem w + 6 \<and> live_json w' = live_json w \<and>
       files w' = (files w)(JSON_FILE_PATH \<mapsto> cJSON_Print api d') \<and>
       q = Buf (put_str (t @ [NUL]) (cJSON_Print api d')) \<and>
       length (cJSON_Print api c') \<le> length (cJSON_Print api c) \<and>
       length (cJSON_Print api s') \<le> length (cJSON_Print api s) \<and>
       length (cJSON_Print api d') \<le> length t)
    (\<lambda>e w'. e = Undef Buffer_Overflow \<and> files w' = files w \<and>
       \<not> (length (cJSON_Print api c') \<le> length (cJSON_Print api c) \<and>
          length (cJSON_Print api s') \<le> length (cJSON_Print api s) \<and>
          length (cJSON_Print api d') \<le> length t)) w"
    and "valid d'" "cJSON_IsObject api d'" "depth d' \<le> CJSON_NESTING_LIMIT"
    and "d' = set_path api d [SUPPLIES, cat, key] v"
proof -
  note sv = get_item_valid [OF t(3) s(1)] and cv = get_item_valid [OF s(2) c(1)]
  have lim: "depth s \<le> CJSON_NESTING_LIMIT" "depth c \<le> CJSON_NESTING_LIMIT"
    using t(5) sv(2) cv(2) by auto
  have val: "valid s" "valid c" using t(4) sv(1) cv(1) by auto
  note nk = cstr_no_nul [OF args(1)] cstr_no_nul [OF args(2)]
  note c1 = scalar_section [OF c(2) val(2) v(2) nk(2) v(1), folded c']
  have s1: "valid s'" "depth s' \<le> depth s"
    using valid_set_key [OF s(2) val(1) c1(2) nk(1)] depth_replace [OF s(2) c(1) c1(3)] by (simp_all add: s')
  show "wp (store_supply api (Buf cb) (Buf kb) (Buf vb) (Buf (t @ [NUL])))
    (\<lambda>(r, q) w'. r = 0 \<and> live_mem w' = live_mem w + 6 \<and> live_json w' = live_json w \<and>
       files w' = (files w)(JSON_FILE_PATH \<mapsto> cJSON_Print api d') \<and>
       q = Buf (put_str (t @ [NUL]) (cJSON_Print api d')) \<and>
       length (cJSON_Print api c') \<le> length (cJSON_Print api c) \<and>
       length (cJSON_Print api s') \<le> length (cJSON_Print api s) \<and>
       length (cJSON_Print api d') \<le> length t)
    (\<lambda>e w'. e = Undef Buffer_Overflow \<and> files w' = files w \<and>
       \<not> (length (cJSON_Print api c') \<le> length (cJSON_Print api c) \<and>
          length (cJSON_Print api s') \<le> length (cJSON_Print api s) \<and>
          length (cJSON_Print api d') \<le> length t)) w"
    unfolding store_supply_defs
    using assms val lim c1 s1
    by (simp add: wp_simps take_section set_in_section put_section lit_def
        print_text parse_print write_file_calm put_str_exact Let_def less_Suc_eq_le c' [symmetric] s' [symmetric]
        d' [symmetric])
  show "valid d'" "cJSON_IsObject api d'"
    using valid_set_key [OF t(3,4) s1(1), of SUPPLIES] object_set_key [OF t(3)] by (simp_all add: d')
  show "depth d' \<le> CJSON_NESTING_LIMIT"
    using depth_replace [OF t(3) s(1) s1(2)] t(5) by (simp add: d')
  show "d' = set_path api d [SUPPLIES, cat, key] v"
    using s(1) c(1) by (simp add: d' s' c')
qed

lemma set_supply_status_exec:
  assumes "calm w" and d: "state_doc api valid depth w t d"
    and s: "cJSON_GetObjectItemCaseSensitive api d SUPPLIES = Some s" "cJSON_IsObject api s"
    and c: "cJSON_GetObjectItemCaseSensitive api s cat = Some c" "cJSON_IsObject api c"
    and args: "cstr cb = Some cat" "cstr kb = Some key" "cstr vb = Some text"
    and v: "value_of api text (OVERRIDE OR INTPARSE) = Some v" "valid v"
    and c': "c' = set_key api c key v" and s': "s' = set_key api s cat c'"
    and d': "d' = set_key api d SUPPLIES s'"
  shows "wp (set_supply_status api (Buf cb) (Buf kb) (Buf vb) p)
    (\<lambda>(r, q) w'. r = 0 \<and> live_mem w' = live_mem w + 7 \<and> live_json w' = live_json w \<and>
       files w' = (files w)(JSON_FILE_PATH \<mapsto> cJSON_Print api d') \<and>
       q = Buf (put_str (t @ [NUL]) (cJSON_Print api d')) \<and>
       length (cJSON_Print api c') \<le> length (cJSON_Print api c) \<and>
       length (cJSON_Print api s') \<le> length (cJSON_Print api s) \<and>
       length (cJSON_Print api d') \<le> length t)
    (\<lambda>e w'. e = Undef Buffer_Overflow \<and> files w' = files w \<and>
       \<not> (length (cJSON_Print api c') \<le> length (cJSON_Print api c) \<and>
          length (cJSON_Print api s') \<le> length (cJSON_Print api s) \<and>
          length (cJSON_Print api d') \<le> length t)) w"
    and "valid d'" "cJSON_IsObject api d'" "depth d' \<le> CJSON_NESTING_LIMIT"
    and "d' = set_path api d [SUPPLIES, cat, key] v"
proof -
  note dd = d [unfolded state_doc_def]
  from dd have t: "cJSON_Parse api t = Some d" "NUL \<notin> set t" "cJSON_IsObject api d" "valid d" "depth d \<le> CJSON_NESTING_LIMIT"
    by simp_all
  let ?w = "w\<lparr>live_mem := live_mem w + 1, tick := tick w + 6\<rparr>"
  have read: "wp (read_file JSON_FILE_PATH p) Q E w = Q (0, Buf (t @ [NUL])) ?w" for Q E
    using assms(1) dd by (simp add: read_file_calm)
  have calm: "calm ?w" using assms(1) by simp
  note exec = store_supply_exec [OF calm t s c args v c' s' d']
  show "wp (set_supply_status api (Buf cb) (Buf kb) (Buf vb) p)
    (\<lambda>(r, q) w'. r = 0 \<and> live_mem w' = live_mem w + 7 \<and> live_json w' = live_json w \<and>
       files w' = (files w)(JSON_FILE_PATH \<mapsto> cJSON_Print api d') \<and>
       q = Buf (put_str (t @ [NUL]) (cJSON_Print api d')) \<and>
       length (cJSON_Print api c') \<le> length (cJSON_Print api c) \<and>
       length (cJSON_Print api s') \<le> length (cJSON_Print api s) \<and>
       length (cJSON_Print api d') \<le> length t)
    (\<lambda>e w'. e = Undef Buffer_Overflow \<and> files w' = files w \<and>
       \<not> (length (cJSON_Print api c') \<le> length (cJSON_Print api c) \<and>
          length (cJSON_Print api s') \<le> length (cJSON_Print api s) \<and>
          length (cJSON_Print api d') \<le> length t)) w"
    unfolding set_supply_status_split
    by (simp add: wp_bnd read) (rule wp_mono [OF exec(1)]; auto)
  show "valid d'" "cJSON_IsObject api d'" "depth d' \<le> CJSON_NESTING_LIMIT" "d' = set_path api d [SUPPLIES, cat, key] v"
    using exec(2-5) by simp_all
qed

end

section \<open>The contract\<close>

text \<open>The three texts that are rewritten in place must not grow.\<close>

definition supply_fits :: "'j cjson_api \<Rightarrow> string \<Rightarrow> string \<Rightarrow> 'j \<Rightarrow> string \<Rightarrow> 'j \<Rightarrow> bool" where
  "supply_fits api cat key v t d \<longleftrightarrow> (case cJSON_GetObjectItemCaseSensitive api d SUPPLIES of None \<Rightarrow> False
     | Some s \<Rightarrow> (case cJSON_GetObjectItemCaseSensitive api s cat of None \<Rightarrow> False
     | Some c \<Rightarrow> (let c' = set_key api c key v; s' = set_key api s cat c' in
         length (cJSON_Print api c') \<le> length (cJSON_Print api c) \<and>
         length (cJSON_Print api s') \<le> length (cJSON_Print api s) \<and>
         length (cJSON_Print api (set_key api d SUPPLIES s')) \<le> length t)))"

lemma supply_editor:
  assumes lib: "cjson_lib api valid depth" and args: "cstr cb = Some cat" "cstr kb = Some key" "cstr vb = Some text"
    and v: "value_of api text (OVERRIDE OR INTPARSE) = Some v" "valid v"
  shows "doc_editor api valid depth (set_supply_status api (Buf cb) (Buf kb) (Buf vb) p :: 'z world_scheme \<Rightarrow> _)
    fst [SUPPLIES, cat, key] (\<lambda>_. v) (\<lambda>d. path_ok api d [SUPPLIES, cat, key]) (supply_fits api cat key v)"
proof (rule doc_editor.intro [OF lib], unfold_locales)
  fix w :: "'z world_scheme" and t d d'
  assume w: "calm w" "state_doc api valid depth w t d" and ok: "path_ok api d [SUPPLIES, cat, key]"
    and d': "d' = set_path api d [SUPPLIES, cat, key] v"
  from ok obtain s c where s: "cJSON_GetObjectItemCaseSensitive api d SUPPLIES = Some s" "cJSON_IsObject api s"
    and c: "cJSON_GetObjectItemCaseSensitive api s cat = Some c" "cJSON_IsObject api c"
    by (auto split: option.splits)
  have d'_eq: "d' = set_key api d SUPPLIES (set_key api s cat (set_key api c key v))" using s c by (simp add: d')
  note exec = cjson_lib.set_supply_status_exec [OF lib w s c args v refl refl d'_eq]
  have doc: "files w' JSON_FILE_PATH = Some (cJSON_Print api d') \<Longrightarrow> state_doc api valid depth w' (cJSON_Print api d') d'"
    for w' :: "'z world_scheme" by (rule cjson_lib.state_doc_written [OF lib _ exec(3,2,4)])
  show "wp (set_supply_status api (Buf cb) (Buf kb) (Buf vb) p)
      (\<lambda>r w'. supply_fits api cat key v t d \<and> fst r = 0 \<and> files w' = (files w)(JSON_FILE_PATH \<mapsto> cJSON_Print api d') \<and>
         state_doc api valid depth w' (cJSON_Print api d') d')
      (\<lambda>e w'. \<not> supply_fits api cat key v t d \<and> e = Undef Buffer_Overflow \<and> files w' = files w) w"
    by (rule wp_mono [OF exec(1)])
       (use s c in \<open>auto simp: supply_fits_def Let_def d'_eq [symmetric] intro!: doc\<close>)
qed

section \<open>The contract on the repository's document\<close>

lemma supplies_path: "keys_ok ref_api (JObj [(''vegetables'', JNum (of_int_d 200))]) k \<Longrightarrow>
    path_ok ref_api state_summary [SUPPLIES, ''food'', k]"
  by (simp add: SUPPLIES_def state_summary_def ref_api_def json_items_def keys_ok_def ci_eq_def tolower_def)

lemma vegetables_path: "path_ok ref_api state_summary [SUPPLIES, ''food'', ''vegetables'']"
  by (rule supplies_path) (simp add: ref_api_def json_items_def keys_ok_def)

lemma number_value:
  assumes "INT_MIN \<le> i" "i \<le> INT_MAX" "i \<noteq> 0"
  shows "value_of ref_api (show_int i) (OVERRIDE OR INTPARSE) = Some (JNum (of_int_d i))"
proof -
  have "\<bar>i\<bar> < 2 ^ 53" using assms by (simp add: INT_MIN_def INT_MAX_def abs_less_iff)
  with assms show ?thesis by (simp add: value_of_def flag_defs atof_show_int ref_api_def)
qed

lemma ref_supply_editor:
  assumes "NUL \<notin> set cat" "NUL \<notin> set key" "INT_MIN \<le> i" "i \<le> INT_MAX" "i \<noteq> 0"
  shows "doc_editor ref_api ref_valid ref_depth
    (set_supply_status ref_api (lit cat) (lit key) (lit (show_int i)) Null :: 'z world_scheme \<Rightarrow> _)
    fst [SUPPLIES, cat, key] (\<lambda>_. JNum (of_int_d i)) (\<lambda>d. path_ok ref_api d [SUPPLIES, cat, key])
    (supply_fits ref_api cat key (JNum (of_int_d i)))"
  unfolding lit_def
proof (rule supply_editor [OF ref.cjson_lib_axioms])
  show "value_of ref_api (show_int i) (OVERRIDE OR INTPARSE) = Some (JNum (of_int_d i))"
    using assms(3-) by (rule number_value)
  show "ref_valid (JNum (of_int_d i))" using assms(3,4) by (rule ref_valid_number)
qed (use assms in simp_all)

interpretation vegetables_edit: doc_editor ref_api ref_valid ref_depth
  "set_supply_status ref_api (lit ''food'') (lit ''vegetables'') (lit (show_int 150)) Null"
  fst "[SUPPLIES, ''food'', ''vegetables'']" "\<lambda>_. JNum (of_int_d 150)"
  "\<lambda>d. path_ok ref_api d [SUPPLIES, ''food'', ''vegetables'']"
  "supply_fits ref_api ''food'' ''vegetables'' (JNum (of_int_d 150))"
  by (rule ref_supply_editor) (simp_all add: INT_MIN_def INT_MAX_def)

interpretation rice_edit: doc_editor ref_api ref_valid ref_depth
  "set_supply_status ref_api (lit ''food'') (lit ''rice'') (lit (show_int 5)) Null"
  fst "[SUPPLIES, ''food'', ''rice'']" "\<lambda>_. JNum (of_int_d 5)"
  "\<lambda>d. path_ok ref_api d [SUPPLIES, ''food'', ''rice'']"
  "supply_fits ref_api ''food'' ''rice'' (JNum (of_int_d 5))"
  by (rule ref_supply_editor) (simp_all add: INT_MIN_def INT_MAX_def)

section \<open>The properties of the supplies\<close>

text \<open>C4: Setting an amount. When no call fails, \<open>set_supply_status\<close> sets the value at the path
  \<open>supplies/category/key\<close> of the state document and nothing else: every path beside it keeps its
  value, the file holds a valid document again, and no other file changes. This happens exactly
  if none of the three texts rewritten in place grows (category, supplies, document); if one
  does, its block is overrun before the file is written.\<close>

theorem supply_update_effect:
  assumes lib: "cjson_lib api valid depth" and "calm w" "state_doc api valid depth w t d"
    and "path_ok api d [SUPPLIES, cat, key]" and "cstr cb = Some cat" "cstr kb = Some key" "cstr vb = Some text"
    and "value_of api text (OVERRIDE OR INTPARSE) = Some v" "valid v"
  shows "wp (set_supply_status api (Buf cb) (Buf kb) (Buf vb) p)
    (\<lambda>r w'. supply_fits api cat key v t d \<and> fst r = 0 \<and> (\<exists>t' d'. state_doc api valid depth w' t' d' \<and>
       get_path api d' [SUPPLIES, cat, key] = Some v \<and>
       (\<forall>q. [SUPPLIES, cat, key] \<parallel> q \<longrightarrow> get_path api d' q = get_path api d q)) \<and>
       (\<forall>g. g \<noteq> JSON_FILE_PATH \<longrightarrow> files w' g = files w g))
    (\<lambda>e w'. \<not> supply_fits api cat key v t d \<and> e = Undef Buffer_Overflow \<and> files w' = files w) w"
  by (rule doc_editor.edit_effect [OF supply_editor [OF lib assms(5-9)] assms(2-4)])

theorem supply_update_effect_witness:
  "wp (set_supply_status ref_api (Buf (''food'' @ [NUL])) (Buf (''vegetables'' @ [NUL])) (Buf (show_int 150 @ [NUL])) Null)
    (\<lambda>r w'. supply_fits ref_api ''food'' ''vegetables'' (JNum (of_int_d 150)) (cJSON_Print ref_api state_summary) state_summary \<and>
       fst r = 0 \<and> (\<exists>t' d'. state_doc ref_api ref_valid ref_depth w' t' d' \<and>
       get_path ref_api d' [SUPPLIES, ''food'', ''vegetables''] = Some (JNum (of_int_d 150)) \<and>
       (\<forall>q. [SUPPLIES, ''food'', ''vegetables''] \<parallel> q \<longrightarrow> get_path ref_api d' q = get_path ref_api state_summary q)) \<and>
       (\<forall>g. g \<noteq> JSON_FILE_PATH \<longrightarrow> files w' g = files shipped_world g))
    (\<lambda>e w'. \<not> supply_fits ref_api ''food'' ''vegetables'' (JNum (of_int_d 150)) (cJSON_Print ref_api state_summary) state_summary \<and>
       e = Undef Buffer_Overflow \<and> files w' = files shipped_world) shipped_world"
proof (rule supply_update_effect [OF ref.cjson_lib_axioms demo_world_calm shipped_state_doc vegetables_path])
  show "value_of ref_api (show_int 150) (OVERRIDE OR INTPARSE) = Some (JNum (of_int_d 150))"
    by (rule number_value) (simp_all add: INT_MIN_def INT_MAX_def)
  show "ref_valid (JNum (of_int_d 150))" by (rule ref_valid_number) (simp_all add: INT_MIN_def INT_MAX_def)
  show "cstr (show_int 150 @ [NUL]) = Some (show_int 150)" by simp
qed (simp_all add: cstr_def)

text \<open>On the repository's own state file, changing the amount of vegetables from 200 to 150
  succeeds, with every other path unchanged; adding a new supply to the category overruns the
  block that holds the category's text.\<close>

theorem shipped_updates:
  "wp (set_supply_status ref_api (lit ''food'') (lit ''vegetables'') (lit ''150'') Null)
     (\<lambda>r w'. fst r = 0 \<and> (\<exists>t' d'. state_doc ref_api ref_valid ref_depth w' t' d' \<and>
        get_path ref_api d' [SUPPLIES, ''food'', ''vegetables''] = Some (JNum (of_int_d 150)))) (\<lambda>_ _. False) shipped_world \<and>
   wp (set_supply_status ref_api (lit ''food'') (lit ''rice'') (lit ''5'') Null)
     (\<lambda>_ _. False) (\<lambda>e w'. e = Undef Buffer_Overflow \<and> files w' = files shipped_world) shipped_world"
proof
  have fits: "supply_fits ref_api ''food'' ''vegetables'' (JNum (of_int_d 150)) (cJSON_Print ref_api state_summary) state_summary"
    by code_simp
  have t: "show_int 150 = ''150''" "show_int 5 = ''5''" by code_simp+
  show "wp (set_supply_status ref_api (lit ''food'') (lit ''vegetables'') (lit ''150'') Null)
     (\<lambda>r w'. fst r = 0 \<and> (\<exists>t' d'. state_doc ref_api ref_valid ref_depth w' t' d' \<and>
        get_path ref_api d' [SUPPLIES, ''food'', ''vegetables''] = Some (JNum (of_int_d 150)))) (\<lambda>_ _. False) shipped_world"
    unfolding t(1) [symmetric]
    by (rule wp_mono [OF vegetables_edit.edit_effect [OF demo_world_calm shipped_state_doc vegetables_path]])
       (use fits in auto)
  have no: "\<not> supply_fits ref_api ''food'' ''rice'' (JNum (of_int_d 5)) (cJSON_Print ref_api state_summary) state_summary"
    by code_simp
  have path: "path_ok ref_api state_summary [SUPPLIES, ''food'', ''rice'']"
    by (rule supplies_path) (simp add: ref_api_def json_items_def keys_ok_def ci_eq_def tolower_def)
  show "wp (set_supply_status ref_api (lit ''food'') (lit ''rice'') (lit ''5'') Null)
     (\<lambda>_ _. False) (\<lambda>e w'. e = Undef Buffer_Overflow \<and> files w' = files shipped_world) shipped_world"
    unfolding t(2) [symmetric]
    by (rule wp_mono [OF rice_edit.edit_effect [OF demo_world_calm shipped_state_doc path]])
       (use no in auto)
qed

end
