(* ===== verification/Alert_Module.thy ===== *)
theory Alert_Module
  imports Json_Path
begin

text \<open>
  The temperature alerts, \<open>lib/libsta/src/alert_module.c\<close>: a simulated sensor per entry, a log
  line per reading, and for a reading above the limit a message to the alert queue and a
  count in the state file.
\<close>

section \<open>Constants and state\<close>

definition MIN_TEMPERATURE :: int where "MIN_TEMPERATURE = 16"
definition MAX_TEMPERATURE :: int where "MAX_TEMPERATURE = 38"
definition HIGH_TEMPERATURE :: int where "HIGH_TEMPERATURE = 38"
definition SIZE_TIME :: nat where "SIZE_TIME = 20"
definition BUFFER_SIZE_M :: nat where "BUFFER_SIZE_M = 100"
definition BUFFER_SIZE_QMS :: nat where "BUFFER_SIZE_QMS = 512"

definition LOG_FILE_PATH :: string where "LOG_FILE_PATH = ''data/temperature.log''"
definition K_ALERTS :: string where "K_ALERTS = ''alerts''"
definition K_Q_MESSAGE :: string where "K_Q_MESSAGE = ''message''"
definition K_Q_COMMAND :: string where "K_Q_COMMAND = ''command''"
definition ALERT :: string where "ALERT = ''1''"

lemmas alert_constants = MIN_TEMPERATURE_def MAX_TEMPERATURE_def HIGH_TEMPERATURE_def
  SIZE_TIME_def BUFFER_SIZE_M_def BUFFER_SIZE_QMS_def

text \<open>The global \<open>msg_id\<close> of the process, the identifier of the alert queue.\<close>

record alert_world = world +
  msg_id :: int

text \<open>\<open>str_temp\<close>: the two arrays of \<open>SIZE_TIME\<close> bytes and the reading.\<close>

record str_temp =
  timestamp :: "char list"
  location :: "char list"
  temperature :: double

text \<open>\<open>mess_t\<close> is a \<open>long\<close> and \<open>BUFFER_SIZE_M\<close> bytes; with the padding to the alignment of
  \<open>long\<close> its size is 112, of which 104 bytes follow \<open>mtype\<close>.\<close>

record mess_t =
  mtype :: int
  message :: "char list"

definition sizeof_mess_t :: nat where "sizeof_mess_t = 112"
definition mess_t_tail :: nat where "mess_t_tail = 104"

definition al_err :: "nat \<Rightarrow> ('z world_scheme, unit) comp" where
  "al_err line = error_handler ''Error '' ''lib/libsta/src/alert_module.c'' line"

section \<open>The queue\<close>

text \<open>\<open>msgsnd\<close> takes \<open>msgsz\<close> bytes that follow \<open>mtype\<close>; what lies behind the structure is
  whatever the stack holds there.\<close>

definition msgsnd :: "mess_t \<Rightarrow> nat \<Rightarrow> ('z world_scheme, int) comp" where
  "msgsnd m msgsz = bnd (gets (\<lambda>w. junk w (tick w))) (\<lambda>stack. bnd sys (\<lambda>ok.
     if ok then thn (modify (\<lambda>w. w\<lparr>mqueue := mqueue w @ [(mtype m, take msgsz (message m @ fit msgsz stack))]\<rparr>)) (ret 0)
     else ret (- 1)))"

section \<open>The module's functions\<close>

text \<open>\<open>rand\<close> lies between \<open>0\<close> and \<open>RAND_MAX\<close>, \<open>2^31 - 1\<close>.\<close>

definition rand :: "('z world_scheme, int) comp" where
  "rand = bnd (gets (\<lambda>w. int (rnd w (tick w)) mod 2 ^ 31)) (\<lambda>r.
     thn (modify (\<lambda>w. w\<lparr>tick := Suc (tick w)\<rparr>)) (ret r))"

definition get_temperature :: "('z world_scheme, double) comp" where
  "get_temperature = bnd rand (\<lambda>r.
     ret (of_int_d ((r div 10) mod (MAX_TEMPERATURE - MIN_TEMPERATURE) + MIN_TEMPERATURE)))"

definition send_alert_msqueue :: "cptr \<Rightarrow> ('z alert_world_scheme, unit) comp" where
  "send_alert_msqueue msg =
     bnd (local_array BUFFER_SIZE_M) (\<lambda>arr.
     bnd (read_str msg) (\<lambda>s.
     bnd (strcpy (Buf arr) s) (\<lambda>p. case p of Buf arr \<Rightarrow>
     (let send_buffer = \<lparr>mtype = 1, message = arr\<rparr> in
     bnd (gets msg_id) (\<lambda>id.
     if id = - 1 \<or> id = 0 then thn (perror ''msgget error'') (halt (Exit 1))
     else bnd (msgsnd send_buffer sizeof_mess_t) (\<lambda>r.
     if r = - 1 then thn (perror ''msgsnd'') (halt (Exit 1)) else ret ())))
     | _ \<Rightarrow> ret ())))"

definition add_entry_to_json :: "'j cjson_api \<Rightarrow> cptr \<Rightarrow> ('z world_scheme, int) comp" where
  "add_entry_to_json api entry =
     bnd (read_file JSON_FILE_PATH Null) (\<lambda>(r, json_buffer).
     if r \<noteq> 0 then thn (al_err 80) (ret 1)
     else bnd (get_value_of_key_from_json_string api json_buffer (lit K_ALERTS) Null)
         (\<lambda>(r, obj_of_json_buffer).
     if r \<noteq> 0 then thn (al_err 86) (ret 1)
     else bnd (get_value_of_key_from_json_string api obj_of_json_buffer entry Null)
         (\<lambda>(r, value_char).
     if r \<noteq> 0 then thn (al_err 92) (ret 1)
     else bnd (read_str value_char) (\<lambda>text.
     if atoi text = INT_MAX then halt (Undef Signed_Overflow)
     else bnd (strcpy value_char (show_int (atoi text + 1))) (\<lambda>value_char.
     bnd (cjson_add_key_value_to_json_string api obj_of_json_buffer entry value_char (OVERRIDE OR INTPARSE))
         (\<lambda>(r, obj_of_json_buffer).
     if r \<noteq> 0 then thn (al_err 101) (ret 1)
     else bnd (cjson_add_key_value_to_json_string api json_buffer (lit K_ALERTS) obj_of_json_buffer
                (OVERRIDE OR OBJPARSE))
         (\<lambda>(r, json_buffer).
     if r \<noteq> 0 then thn (al_err 107) (ret 1)
     else write_file JSON_FILE_PATH json_buffer)))))))"

text \<open>The texts of the two formats, in the UTF-8 encoding of the source file.\<close>

definition reading_text :: "string \<Rightarrow> double \<Rightarrow> string" where
  "reading_text loc t = loc @ '' ENTRY, '' @ fmt_fixed 1 t @ '' '' @ [CHR 0xC2, CHR 0xB0] @ ''C'' @ [NL]"

definition alert_text :: string where
  "alert_text = [NL] @ concat (replicate 3 [CHR 0xC2, CHR 0xA1]) @ '' ALERTA !!!'' @ [NL]"

definition simulate_temperature_sensor ::
  "'j cjson_api \<Rightarrow> cptr \<Rightarrow> ('z alert_world_scheme, unit) comp" where
  "simulate_temperature_sensor api entry =
     (let st = \<lparr>timestamp = replicate SIZE_TIME NUL, location = replicate SIZE_TIME NUL,
                temperature = of_int_d 0\<rparr> in
     bnd get_temperature (\<lambda>temp. let st = st\<lparr>temperature := temp\<rparr> in
     bnd (read_str entry) (\<lambda>name.
     bnd (strcpy (Buf (location st)) name) (\<lambda>loc.
     bnd (set_timestamp (timestamp st) SIZE_TIME) (\<lambda>stamp. let st = st\<lparr>timestamp := stamp\<rparr> in
     bnd (read_str loc) (\<lambda>locname.
     bnd (strcpy (Buf (replicate BUFFER_SIZE_M NUL)) (reading_text locname (temperature st))) (\<lambda>msg.
     thn (generate_log LOG_FILE_PATH (Buf (timestamp st)) msg)
     (if greater_d (temperature st) (of_int_d HIGH_TEMPERATURE)
      then bnd (strcat msg alert_text) (\<lambda>msg.
        bnd (cjson_add_key_value_to_json_string api (Buf (replicate BUFFER_SIZE_QMS NUL)) (lit K_Q_MESSAGE) msg OVERRIDE)
          (\<lambda>(r, send_buffer).
        bnd (cjson_add_key_value_to_json_string api send_buffer (lit K_Q_COMMAND) (lit ALERT) OVERRIDE)
          (\<lambda>(r, send_buffer).
        thn (send_alert_msqueue msg)
       (thn (add_entry_to_json api entry) (ret ())))))
      else ret ()))))))))"

text \<open>The body of the endless loop, and the loop run for a number of rounds.\<close>

definition NORT_ENTRY :: string where "NORT_ENTRY = ''NORTH''"
definition EAST_ENTRY :: string where "EAST_ENTRY = ''EAST''"
definition WEST_ENTRY :: string where "WEST_ENTRY = ''WEST''"
definition SOUTH_ENTRY :: string where "SOUTH_ENTRY = ''SOUTH''"

definition alert_round :: "'j cjson_api \<Rightarrow> ('z alert_world_scheme, unit) comp" where
  "alert_round api = thn (sleep 2)
     (thn (simulate_temperature_sensor api (lit NORT_ENTRY))
     (thn (simulate_temperature_sensor api (lit EAST_ENTRY))
     (thn (simulate_temperature_sensor api (lit WEST_ENTRY))
          (simulate_temperature_sensor api (lit SOUTH_ENTRY)))))"

primrec run_alert_module :: "'j cjson_api \<Rightarrow> nat \<Rightarrow> ('z alert_world_scheme, unit) comp" where
  "run_alert_module api 0 = halt Running"
| "run_alert_module api (Suc rounds) = thn (alert_round api) (run_alert_module api rounds)"

section \<open>The simulated temperature\<close>

text \<open>The reading is a whole number of degrees from \<open>MIN_TEMPERATURE\<close> up to but not
  including \<open>MAX_TEMPERATURE\<close>.\<close>

lemma get_temperature_run:
  "wp get_temperature Q E w =
     Q (of_int_d ((int (rnd w (tick w)) mod 2 ^ 31 div 10) mod 22 + 16)) (w\<lparr>tick := Suc (tick w)\<rparr>)"
  by (simp add: get_temperature_def rand_def wp_simps alert_constants)

lemma get_temperature_range:
  "wp get_temperature
     (\<lambda>t w'. \<exists>i. t = of_int_d i \<and> MIN_TEMPERATURE \<le> i \<and> i < MAX_TEMPERATURE) (\<lambda>_ _. False) w"
  unfolding get_temperature_run
  by (rule exI, rule conjI, rule refl) (simp add: alert_constants)

lemma greater_of_int_d: "greater_d (of_int_d i) (of_int_d j) \<longleftrightarrow> j < i"
  by (auto simp: of_int_d_def)

lemma keeps_get_temperature [frame_intros]: "quiet f \<Longrightarrow> keeps f get_temperature"
  unfolding get_temperature_def rand_def by (intro frame_intros) (simp_all add: quiet_def)

text \<open>So the branch of the alert is dead code: a reading only writes its log line.\<close>

definition sensor_reading :: "cptr \<Rightarrow> ('z world_scheme, unit) comp" where
  "sensor_reading entry =
     bnd get_temperature (\<lambda>temp.
     bnd (read_str entry) (\<lambda>name.
     bnd (strcpy (Buf (replicate SIZE_TIME NUL)) name) (\<lambda>loc.
     bnd (set_timestamp (replicate SIZE_TIME NUL) SIZE_TIME) (\<lambda>stamp.
     bnd (read_str loc) (\<lambda>locname.
     bnd (strcpy (Buf (replicate BUFFER_SIZE_M NUL)) (reading_text locname temp)) (\<lambda>msg.
     thn (generate_log LOG_FILE_PATH (Buf stamp) msg) (ret ())))))))"

lemma simulate_is_reading: "simulate_temperature_sensor api entry = sensor_reading entry"
proof -
  have cold: "\<not> greater_d (of_int_d (r div 10 mod (MAX_TEMPERATURE - MIN_TEMPERATURE) + MIN_TEMPERATURE))
      (of_int_d HIGH_TEMPERATURE)" for r
    by (simp add: greater_of_int_d alert_constants not_less)
  show ?thesis
    unfolding simulate_temperature_sensor_def sensor_reading_def get_temperature_def Let_def
    by (simp add: bnd_assoc cold)
qed

lemma keeps_sensor_reading [frame_intros]:
  "quiet f \<Longrightarrow> (\<And>w m. f (files_update m w) = f w) \<Longrightarrow> keeps f (sensor_reading e)"
  unfolding sensor_reading_def by (intro frame_intros)

lemma sensor_reading_other_files [frame_intros]:
  "g \<noteq> LOG_FILE_PATH \<Longrightarrow> keeps (\<lambda>w. files w g) (sensor_reading e)"
  unfolding sensor_reading_def by (intro frame_intros) simp_all

lemma keeps_alert_rounds [frame_intros]:
  "quiet f \<Longrightarrow> (\<And>w m. f (files_update m w) = f w) \<Longrightarrow> keeps f (run_alert_module api n)"
  by (induction n)
     (auto simp: alert_round_def simulate_is_reading intro!: frame_intros)

lemma alert_rounds_other_files [frame_intros]:
  "g \<noteq> LOG_FILE_PATH \<Longrightarrow> keeps (\<lambda>w. files w g) (run_alert_module api n)"
  by (induction n)
     (auto simp: alert_round_def simulate_is_reading intro!: frame_intros)

section \<open>The count in the state file\<close>

lemma alerts_text [simp]: "NUL \<notin> set K_ALERTS"
  by (simp add: K_ALERTS_def)

lemma keeps_al_err [frame_intros]: "quiet f \<Longrightarrow> keeps f (al_err l)"
  by (simp add: al_err_def frame_intros)

lemma wp_al_err [wp_simps]:
  "wp (al_err l) Q E w = Q () (w\<lparr>stderr := stderr w @
     [error_text (errno w) ''Error '' ''lib/libsta/src/alert_module.c'' l]\<rparr>)"
  by (simp add: al_err_def wp_simps)

lemma keeps_add_entry [frame_intros]:
  "quiet f \<Longrightarrow> (\<And>w m. f (files_update m w) = f w) \<Longrightarrow> keeps f (add_entry_to_json api e)"
  unfolding add_entry_to_json_def by (intro frame_intros)

lemma add_entry_other_files [frame_intros]:
  "g \<noteq> JSON_FILE_PATH \<Longrightarrow> keeps (\<lambda>w. files w g) (add_entry_to_json api e)"
  unfolding add_entry_to_json_def by (intro frame_intros) simp_all

text \<open>A stored count is printed with \<open>%f\<close> into 20 bytes, which always suffices for an \<open>int\<close>.\<close>

lemma count_fits:
  assumes "INT_MIN \<le> i" "i \<le> INT_MAX"
  shows "length (fmt_fixed 6 (of_int_d i)) < 20" "length (show_int i) < 20"
    "NUL \<notin> set (fmt_fixed 6 (of_int_d i))"
  using length_show_int [OF assms] by (simp_all add: fmt_fixed_int)

lemma value_of_count:
  assumes "INT_MIN \<le> i" "i \<le> INT_MAX" "i \<noteq> 0"
  shows "value_of api (show_int i) (OVERRIDE OR INTPARSE) = Some (cJSON_CreateNumber api (of_int_d i))"
proof -
  have "\<bar>i\<bar> < 2 ^ 53" using assms by (simp add: INT_MIN_def INT_MAX_def abs_less_iff)
  with assms show ?thesis by (simp add: value_of_def flag_defs atof_show_int)
qed

context cjson_lib
begin

lemma add_entry_exec:
  assumes "calm w" and d: "state_doc api valid depth w t d"
    and s: "cJSON_GetObjectItemCaseSensitive api d K_ALERTS = Some s" "cJSON_IsObject api s"
    and n: "cJSON_GetObjectItemCaseSensitive api s entry = Some c" "\<not> cJSON_IsString api c"
      "cJSON_IsNumber api c" "valuedouble api c = of_int_d i" "INT_MIN \<le> i" "i < INT_MAX" "i \<noteq> - 1"
    and arg: "cstr eb = Some entry"
    and s': "s' = set_key api s entry (cJSON_CreateNumber api (of_int_d (i + 1)))"
    and d': "d' = set_key api d K_ALERTS s'"
  shows "wp (add_entry_to_json api (Buf eb))
    (\<lambda>r w'. r = 0 \<and> files w' = (files w)(JSON_FILE_PATH \<mapsto> cJSON_Print api d') \<and>
       length (cJSON_Print api s') \<le> length (cJSON_Print api s) \<and> length (cJSON_Print api d') \<le> length t)
    (\<lambda>e w'. e = Undef Buffer_Overflow \<and> files w' = files w \<and>
       \<not> (length (cJSON_Print api s') \<le> length (cJSON_Print api s) \<and> length (cJSON_Print api d') \<le> length t)) w"
    and "valid d'" "cJSON_IsObject api d'" "depth d' \<le> CJSON_NESTING_LIMIT"
    and "d' = set_path api d [K_ALERTS, entry] (cJSON_CreateNumber api (of_int_d (i + 1)))"
proof -
  note dd = d [unfolded state_doc_def]
  from dd have dobj: "cJSON_IsObject api d" and dval: "valid d" and dlim: "depth d \<le> CJSON_NESTING_LIMIT"
    by simp_all
  note sv = get_item_valid [OF dobj s(1)]
  have lim: "depth s \<le> CJSON_NESTING_LIMIT" and val: "valid s" using dlim dval sv by auto
  have i1: "INT_MIN \<le> i + 1" "i + 1 \<le> INT_MAX" "i + 1 \<noteq> 0" and i0: "i \<le> INT_MAX" using n by auto
  note v = value_of_count [OF i1, of api]
  note s1 = scalar_section [OF s(2) val valid_number [OF i1(1,2)] cstr_no_nul [OF arg] v, folded s']
  show "wp (add_entry_to_json api (Buf eb))
    (\<lambda>r w'. r = 0 \<and> files w' = (files w)(JSON_FILE_PATH \<mapsto> cJSON_Print api d') \<and>
       length (cJSON_Print api s') \<le> length (cJSON_Print api s) \<and> length (cJSON_Print api d') \<le> length t)
    (\<lambda>e w'. e = Undef Buffer_Overflow \<and> files w' = files w \<and>
       \<not> (length (cJSON_Print api s') \<le> length (cJSON_Print api s) \<and> length (cJSON_Print api d') \<le> length t)) w"
    unfolding add_entry_to_json_def
    using assms(1) dd val lim s n arg s1 i0 i1
    by (simp add: wp_simps read_file_calm take_section get_value_number_calm count_fits atoi_fmt_fixed_int
        set_in_section v put_section lit_def print_text parse_print write_file_calm put_str_exact Let_def
        less_Suc_eq_le s' [symmetric] d' [symmetric])
  show "valid d'" "cJSON_IsObject api d'"
    using valid_set_key [OF dobj dval s1(2), of K_ALERTS] object_set_key [OF dobj] by (simp_all add: d')
  show "depth d' \<le> CJSON_NESTING_LIMIT"
    using depth_replace [OF dobj s(1) s1(3)] dlim by (simp add: d')
  show "d' = set_path api d [K_ALERTS, entry] (cJSON_CreateNumber api (of_int_d (i + 1)))"
    using s(1) by (simp add: d' s')
qed

end

section \<open>The contract\<close>

text \<open>The entry holds the count \<open>i\<close>, and the next count is an \<open>int\<close> other than zero.\<close>

definition counted :: "'j cjson_api \<Rightarrow> string \<Rightarrow> int \<Rightarrow> 'j \<Rightarrow> bool" where
  "counted api entry i d \<longleftrightarrow> path_ok api d [K_ALERTS, entry] \<and> INT_MIN \<le> i \<and> i < INT_MAX \<and> i \<noteq> - 1 \<and>
     (case get_path api d [K_ALERTS, entry] of None \<Rightarrow> False
      | Some c \<Rightarrow> \<not> cJSON_IsString api c \<and> cJSON_IsNumber api c \<and> valuedouble api c = of_int_d i)"

lemma alert_editor:
  assumes lib: "cjson_lib api valid depth" and arg: "cstr eb = Some entry"
  shows "doc_editor api valid depth (add_entry_to_json api (Buf eb) :: 'z world_scheme \<Rightarrow> _) (\<lambda>r. r)
    [K_ALERTS, entry] (\<lambda>_. cJSON_CreateNumber api (of_int_d (i + 1))) (counted api entry i)
    (section_fits api K_ALERTS entry (cJSON_CreateNumber api (of_int_d (i + 1))))"
proof (rule doc_editor.intro [OF lib], unfold_locales)
  fix w :: "'z world_scheme" and t d d'
  assume w: "calm w" "state_doc api valid depth w t d" and ok: "counted api entry i d"
    and d': "d' = set_path api d [K_ALERTS, entry] (cJSON_CreateNumber api (of_int_d (i + 1)))"
  from ok obtain s c where s: "cJSON_GetObjectItemCaseSensitive api d K_ALERTS = Some s" "cJSON_IsObject api s"
    and c: "cJSON_GetObjectItemCaseSensitive api s entry = Some c" "\<not> cJSON_IsString api c"
      "cJSON_IsNumber api c" "valuedouble api c = of_int_d i" "INT_MIN \<le> i" "i < INT_MAX" "i \<noteq> - 1"
    by (auto simp: counted_def split: option.splits)
  have d'_eq: "d' = set_key api d K_ALERTS (set_key api s entry (cJSON_CreateNumber api (of_int_d (i + 1))))"
    using s by (simp add: d')
  note exec = cjson_lib.add_entry_exec [OF lib w s c arg refl d'_eq]
  have doc: "files w' JSON_FILE_PATH = Some (cJSON_Print api d') \<Longrightarrow> state_doc api valid depth w' (cJSON_Print api d') d'"
    for w' :: "'z world_scheme" by (rule cjson_lib.state_doc_written [OF lib _ exec(3,2,4)])
  show "wp (add_entry_to_json api (Buf eb))
      (\<lambda>r w'. section_fits api K_ALERTS entry (cJSON_CreateNumber api (of_int_d (i + 1))) t d \<and> r = 0 \<and>
         files w' = (files w)(JSON_FILE_PATH \<mapsto> cJSON_Print api d') \<and> state_doc api valid depth w' (cJSON_Print api d') d')
      (\<lambda>e w'. \<not> section_fits api K_ALERTS entry (cJSON_CreateNumber api (of_int_d (i + 1))) t d \<and>
         e = Undef Buffer_Overflow \<and> files w' = files w) w"
    by (rule wp_mono [OF exec(1)])
       (use s in \<open>auto simp: section_fits_def Let_def d'_eq [symmetric] intro!: doc\<close>)
qed (simp add: counted_def)

section \<open>The alert message\<close>

text \<open>In every world the module queues one message of type \<open>1\<close> and \<open>sizeof(mess_t)\<close> bytes that starts
  with the text, or it ends the process.\<close>

lemma send_alert_cases:
  assumes "cstr a = Some s" "length s < BUFFER_SIZE_M"
  shows "wp (send_alert_msqueue (Buf a))
    (\<lambda>_ w'. msg_id w \<noteq> 0 \<and> msg_id w \<noteq> - 1 \<and> (\<exists>m. mqueue w' = mqueue w @ [(1, m)] \<and> length m = sizeof_mess_t \<and>
       cstr (take BUFFER_SIZE_M m) = Some s))
    (\<lambda>e w'. e = Exit 1 \<and> mqueue w' = mqueue w) w"
proof -
  have n: "NUL \<notin> set s" using assms(1) by (rule cstr_no_nul)
  have "length (put_str (fit BUFFER_SIZE_M j) s) = BUFFER_SIZE_M" for j using assms(2) by simp
  then show ?thesis
    using assms n
    by (simp add: send_alert_msqueue_def msgsnd_def wp_simps Let_def sizeof_mess_t_def BUFFER_SIZE_M_def)
qed

section \<open>The properties of the alerts\<close>

text \<open>The simulated temperature is a whole number of degrees from 16 up to 37.\<close>

theorem temperature_range:
  "wp get_temperature
     (\<lambda>t w'. \<exists>i. t = of_int_d i \<and> MIN_TEMPERATURE \<le> i \<and> i < MAX_TEMPERATURE) (\<lambda>_ _. False) w"
  by (rule get_temperature_range)

text \<open>C28: No alert is ever raised: in every world, however long the module runs, it adds nothing to
  the message queue and leaves the state file as it is, because no reading exceeds the limit.\<close>

theorem alerts_never_fire:
  "wp (run_alert_module api n) (\<lambda>_ _. False)
     (\<lambda>e w'. mqueue w' = mqueue w \<and> files w' JSON_FILE_PATH = files w JSON_FILE_PATH) w"
proof -
  have endless: "wp (run_alert_module api n) (\<lambda>_ _. False) (\<lambda>_ _. True) w" for w :: "'a alert_world_scheme"
    by (induction n arbitrary: w) (auto simp: wp_thn_fun wp_halt intro: wp_mono [OF wp_true])
  have "keeps (\<lambda>w. (mqueue w, files w JSON_FILE_PATH)) (run_alert_module api n :: ('a alert_world_scheme, unit) comp)"
    by (rule keeps_pair; intro frame_intros) (simp_all add: JSON_FILE_PATH_def LOG_FILE_PATH_def)
  from wp_keeps [OF this endless] show ?thesis by (rule wp_mono) auto
qed

text \<open>C29: Counting an alert. When no call fails, \<open>add_entry_to_json\<close> replaces the count \<open>i\<close> of the entry by
  \<open>i + 1\<close> and changes nothing else in the state document, if neither the text of the alerts nor
  that of the document grows; otherwise a block is overrun before the file is written.\<close>

theorem alert_count_effect:
  assumes lib: "cjson_lib api valid depth" and "calm w" "state_doc api valid depth w t d" "counted api entry i d"
    and "cstr eb = Some entry"
  shows "wp (add_entry_to_json api (Buf eb))
    (\<lambda>r w'. section_fits api K_ALERTS entry (cJSON_CreateNumber api (of_int_d (i + 1))) t d \<and> r = 0 \<and>
       (\<exists>t' d'. state_doc api valid depth w' t' d' \<and>
         get_path api d' [K_ALERTS, entry] = Some (cJSON_CreateNumber api (of_int_d (i + 1))) \<and>
         (\<forall>q. [K_ALERTS, entry] \<parallel> q \<longrightarrow> get_path api d' q = get_path api d q)) \<and>
       (\<forall>g. g \<noteq> JSON_FILE_PATH \<longrightarrow> files w' g = files w g))
    (\<lambda>e w'. \<not> section_fits api K_ALERTS entry (cJSON_CreateNumber api (of_int_d (i + 1))) t d \<and>
       e = Undef Buffer_Overflow \<and> files w' = files w) w"
  by (rule doc_editor.edit_effect [OF alert_editor [OF lib assms(5)] assms(2-4)])

lemma shipped_count: "counted ref_api ''NORTH'' 74 state_summary"
  by (simp add: counted_def K_ALERTS_def state_summary_def ref_api_def json_items_def keys_ok_def ci_eq_def tolower_def
      INT_MIN_def INT_MAX_def)

theorem alert_count_effect_witness:
  "wp (add_entry_to_json ref_api (Buf (''NORTH'' @ [NUL])))
    (\<lambda>r w'. section_fits ref_api K_ALERTS ''NORTH'' (cJSON_CreateNumber ref_api (of_int_d (74 + 1)))
         (cJSON_Print ref_api state_summary) state_summary \<and> r = 0 \<and>
       (\<exists>t' d'. state_doc ref_api ref_valid ref_depth w' t' d' \<and>
         get_path ref_api d' [K_ALERTS, ''NORTH''] = Some (cJSON_CreateNumber ref_api (of_int_d (74 + 1))) \<and>
         (\<forall>q. [K_ALERTS, ''NORTH''] \<parallel> q \<longrightarrow> get_path ref_api d' q = get_path ref_api state_summary q)) \<and>
       (\<forall>g. g \<noteq> JSON_FILE_PATH \<longrightarrow> files w' g = files shipped_world g))
    (\<lambda>e w'. \<not> section_fits ref_api K_ALERTS ''NORTH'' (cJSON_CreateNumber ref_api (of_int_d (74 + 1)))
         (cJSON_Print ref_api state_summary) state_summary \<and>
       e = Undef Buffer_Overflow \<and> files w' = files shipped_world) shipped_world"
  by (rule alert_count_effect [OF ref.cjson_lib_axioms demo_world_calm shipped_state_doc shipped_count])
     (simp add: cstr_def)

text \<open>The state document with a count of 99.\<close>

definition ninety_nine :: json where
  "ninety_nine = JObj [(''alerts'', JObj [(''NORTH'', JNum (of_int_d 99))])]"

abbreviation ninety_nine_world :: world where
  "ninety_nine_world \<equiv> demo_world JSON_FILE_PATH (cJSON_Print ref_api ninety_nine)"

interpretation north_edit: doc_editor ref_api ref_valid ref_depth "add_entry_to_json ref_api (Buf (''NORTH'' @ [NUL]))"
  "\<lambda>r. r" "[K_ALERTS, ''NORTH'']" "\<lambda>_. cJSON_CreateNumber ref_api (of_int_d (99 + 1))" "counted ref_api ''NORTH'' 99"
  "section_fits ref_api K_ALERTS ''NORTH'' (cJSON_CreateNumber ref_api (of_int_d (99 + 1)))"
  by (rule alert_editor [OF ref.cjson_lib_axioms]) (simp add: cstr_def)

lemma ninety_nine_doc:
  "state_doc ref_api ref_valid ref_depth ninety_nine_world (cJSON_Print ref_api ninety_nine) ninety_nine"
  by (rule ref.state_doc_written)
     (simp_all add: demo_world_def ninety_nine_def ref_valid_number INT_MIN_def INT_MAX_def del: ref_valid.simps(1),
      simp_all add: ref_api_def CJSON_NESTING_LIMIT_def)

lemma ninety_nine_counted: "counted ref_api ''NORTH'' 99 ninety_nine"
  by (simp add: counted_def K_ALERTS_def ninety_nine_def ref_api_def json_items_def keys_ok_def INT_MIN_def INT_MAX_def)

text \<open>A count cannot gain a digit: the alert after the 99th is printed one byte past the end of
  the block that holds the text of the alerts.\<close>

theorem hundredth_alert_overflows:
  "wp (add_entry_to_json ref_api (lit ''NORTH'')) (\<lambda>_ _. False)
     (\<lambda>e w'. e = Undef Buffer_Overflow \<and> files w' = files ninety_nine_world) ninety_nine_world"
proof -
  have "\<not> section_fits ref_api K_ALERTS ''NORTH'' (cJSON_CreateNumber ref_api (of_int_d (99 + 1)))
      (cJSON_Print ref_api ninety_nine) ninety_nine" by code_simp
  then show ?thesis
    unfolding lit_def
    by (intro wp_mono [OF north_edit.edit_effect [OF demo_world_calm ninety_nine_doc ninety_nine_counted]]) auto
qed

end
