(* ===== verification/Emergency_Handler.thy ===== *)
theory Emergency_Handler
  imports Json_Path
begin

text \<open>
  The emergency process of a connection, \<open>lib/libdyn/src/emergency_handler.c\<close>: it records
  the last keep-alive, waits, records the failure of the server in the log and in the
  state file, passes the message to the connection process through the pipe and
  interrupts it.
\<close>

section \<open>Constants\<close>

definition LAST_KEEP_ALIVED :: string where "LAST_KEEP_ALIVED = ''last_keepalived''"
definition LAST_EVENT :: string where "LAST_EVENT = ''last_event''"
definition K_EMERGENCY :: string where "K_EMERGENCY = ''emergency''"
definition LOG_E_FILE_PATH :: string where "LOG_E_FILE_PATH = ''data/emergency.log''"
definition SIZE_TIME_E :: nat where "SIZE_TIME_E = 20"

definition em_err :: "nat \<Rightarrow> ('z world_scheme, unit) comp" where
  "em_err line = error_handler ''Error '' ''lib/libdyn/src/emergency_handler.c'' line"

definition keepalive_text :: string where
  "keepalive_text = ''Last keepalived signal received.''"

definition failure_text :: string where
  "failure_text = ''Server failure. Emergency notification sent to all connected clients.''"

definition SIZE_EVENT :: nat where "SIZE_EVENT = 512"

section \<open>System calls\<close>

definition write_pipe :: "string \<Rightarrow> ('z world_scheme, int) comp" where
  "write_pipe bytes = bnd sys (\<lambda>ok.
     if ok then thn (modify (\<lambda>w. w\<lparr>pipe_data := pipe_data w @ bytes\<rparr>)) (ret (int (length bytes)))
     else ret (- 1))"

definition kill_parent :: "int \<Rightarrow> ('z world_scheme, unit) comp" where
  "kill_parent sig = modify (\<lambda>w. w\<lparr>kills := kills w @ [sig]\<rparr>)"

section \<open>The functions\<close>

definition add_event_to_json :: "'j cjson_api \<Rightarrow> cptr \<Rightarrow> cptr \<Rightarrow> ('z world_scheme, int) comp" where
  "add_event_to_json api key val =
     bnd (read_file JSON_FILE_PATH Null) (\<lambda>(r, json_buffer).
     if r \<noteq> 0 then thn (em_err 49) (ret 1)
     else bnd (get_value_of_key_from_json_string api json_buffer (lit K_EMERGENCY) Null)
         (\<lambda>(r, obj_of_json_buffer).
     if r \<noteq> 0 then thn (em_err 55) (ret 1)
     else bnd (cjson_add_key_value_to_json_string api obj_of_json_buffer key val (OVERRIDE OR INTPARSE))
         (\<lambda>(r, obj_of_json_buffer).
     if r \<noteq> 0 then thn (em_err 61) (ret 1)
     else bnd (cjson_add_key_value_to_json_string api json_buffer (lit K_EMERGENCY) obj_of_json_buffer
                (OVERRIDE OR OBJPARSE))
         (\<lambda>(r, json_buffer).
     if r \<noteq> 0 then thn (em_err 67) (ret 1)
     else write_file JSON_FILE_PATH json_buffer))))"

text \<open>\<open>event\<close> is not initialised before the first \<open>strcat\<close> reads it.\<close>

definition run_emergency_handler :: "'j cjson_api \<Rightarrow> int \<times> int \<Rightarrow> ('z world_scheme, int) comp" where
  "run_emergency_handler api pipe_fd =
     bnd (local_array SIZE_TIME_E) (\<lambda>stamp.
     bnd (set_timestamp stamp SIZE_TIME_E) (\<lambda>stamp.
     thn (generate_log LOG_E_FILE_PATH (Buf stamp) (lit keepalive_text))
    (thn (add_event_to_json api (lit LAST_KEEP_ALIVED) (Buf stamp))
    (thn (close (fst pipe_fd))
    (thn (sleep 60)
    (thn (print (''WARNING !!! 5sec to close the connections'' @ [NL]))
    (thn (sleep 5)
    (thn (generate_log LOG_E_FILE_PATH (Buf stamp) (lit failure_text))
    (bnd (local_array SIZE_EVENT) (\<lambda>event.
     bnd (read_str (Buf stamp)) (\<lambda>time.
     bnd (strcat (Buf event) time) (\<lambda>event.
     bnd (strcat event '', '') (\<lambda>event.
     bnd (strcat event failure_text) (\<lambda>event.
     thn (add_event_to_json api (lit LAST_EVENT) event)
    (bnd (write_pipe (failure_text @ [NUL])) (\<lambda>n.
     if n = - 1 then thn (perror ''write'') (ret 1)
     else thn (kill_parent SIGINT)
         (thn (close (snd pipe_fd)) (ret 0))))))))))))))))))"

section \<open>Frame\<close>

lemma emergency_text [simp]: "NUL \<notin> set K_EMERGENCY" "NUL \<notin> set failure_text"
  "NUL \<notin> set keepalive_text" "NUL \<notin> set LAST_EVENT" "NUL \<notin> set LAST_KEEP_ALIVED"
  by (simp_all add: K_EMERGENCY_def failure_text_def keepalive_text_def LAST_EVENT_def LAST_KEEP_ALIVED_def)

lemma wp_em_err [wp_simps]:
  "wp (em_err l) Q E w = Q () (w\<lparr>stderr := stderr w @
     [error_text (errno w) ''Error '' ''lib/libdyn/src/emergency_handler.c'' l]\<rparr>)"
  by (simp add: em_err_def wp_simps)

lemma wp_write_pipe [wp_simps]:
  "wp (write_pipe b) Q E w = (if sys_err w (tick w) = 0
     then Q (int (length b)) (w\<lparr>pipe_data := pipe_data w @ b, tick := Suc (tick w)\<rparr>)
     else Q (- 1) (w\<lparr>errno := sys_err w (tick w), tick := Suc (tick w)\<rparr>))"
  by (simp add: write_pipe_def wp_simps)

lemma wp_kill_parent [wp_simps]:
  "wp (kill_parent s) Q E w = Q () (w\<lparr>kills := kills w @ [s]\<rparr>)"
  by (simp add: kill_parent_def wp_simps)

lemma keeps_em_err [frame_intros]: "quiet f \<Longrightarrow> keeps f (em_err l)"
  by (simp add: em_err_def frame_intros)

lemma keeps_write_pipe [frame_intros]:
  "quiet f \<Longrightarrow> (\<And>w g. f (pipe_data_update g w) = f w) \<Longrightarrow> keeps f (write_pipe b)"
  unfolding write_pipe_def by (intro frame_intros)

lemma keeps_kill_parent [frame_intros]:
  "(\<And>w g. f (kills_update g w) = f w) \<Longrightarrow> keeps f (kill_parent s)"
  unfolding kill_parent_def by (intro frame_intros)

lemma keeps_add_event [frame_intros]:
  "quiet f \<Longrightarrow> (\<And>w m. f (files_update m w) = f w) \<Longrightarrow> keeps f (add_event_to_json api k v)"
  unfolding add_event_to_json_def by (intro frame_intros)

lemma add_event_other_files [frame_intros]:
  "g \<noteq> JSON_FILE_PATH \<Longrightarrow> keeps (\<lambda>w. files w g) (add_event_to_json api k v)"
  unfolding add_event_to_json_def by (intro frame_intros) simp_all

section \<open>The record in the state file\<close>

context cjson_lib
begin

lemma add_event_exec:
  assumes "calm w" and d: "state_doc api valid depth w t d"
    and s: "cJSON_GetObjectItemCaseSensitive api d K_EMERGENCY = Some s" "cJSON_IsObject api s"
    and args: "cstr kb = Some key" "cstr vb = Some text"
    and v: "value_of api text (OVERRIDE OR INTPARSE) = Some v" "valid v"
    and s': "s' = set_key api s key v" and d': "d' = set_key api d K_EMERGENCY s'"
  shows "wp (add_event_to_json api (Buf kb) (Buf vb))
    (\<lambda>r w'. r = 0 \<and> files w' = (files w)(JSON_FILE_PATH \<mapsto> cJSON_Print api d') \<and>
       length (cJSON_Print api s') \<le> length (cJSON_Print api s) \<and> length (cJSON_Print api d') \<le> length t)
    (\<lambda>e w'. e = Undef Buffer_Overflow \<and> files w' = files w \<and>
       \<not> (length (cJSON_Print api s') \<le> length (cJSON_Print api s) \<and> length (cJSON_Print api d') \<le> length t)) w"
    and "valid d'" "cJSON_IsObject api d'" "depth d' \<le> CJSON_NESTING_LIMIT"
    and "d' = set_path api d [K_EMERGENCY, key] v"
proof -
  note dd = d [unfolded state_doc_def]
  from dd have dobj: "cJSON_IsObject api d" and dval: "valid d" and dlim: "depth d \<le> CJSON_NESTING_LIMIT"
    by simp_all
  note sv = get_item_valid [OF dobj s(1)]
  have lim: "depth s \<le> CJSON_NESTING_LIMIT" and val: "valid s" using dlim dval sv by auto
  note s1 = scalar_section [OF s(2) val v(2) cstr_no_nul [OF args(1)] v(1), folded s']
  show "wp (add_event_to_json api (Buf kb) (Buf vb))
    (\<lambda>r w'. r = 0 \<and> files w' = (files w)(JSON_FILE_PATH \<mapsto> cJSON_Print api d') \<and>
       length (cJSON_Print api s') \<le> length (cJSON_Print api s) \<and> length (cJSON_Print api d') \<le> length t)
    (\<lambda>e w'. e = Undef Buffer_Overflow \<and> files w' = files w \<and>
       \<not> (length (cJSON_Print api s') \<le> length (cJSON_Print api s) \<and> length (cJSON_Print api d') \<le> length t)) w"
    unfolding add_event_to_json_def
    using assms(1) dd val lim s args v s1
    by (simp add: wp_simps read_file_calm take_section set_in_section put_section lit_def print_text
        parse_print write_file_calm put_str_exact Let_def less_Suc_eq_le s' [symmetric] d' [symmetric])
  show "valid d'" "cJSON_IsObject api d'"
    using valid_set_key [OF dobj dval s1(2), of K_EMERGENCY] object_set_key [OF dobj] by (simp_all add: d')
  show "depth d' \<le> CJSON_NESTING_LIMIT"
    using depth_replace [OF dobj s(1) s1(3)] dlim by (simp add: d')
  show "d' = set_path api d [K_EMERGENCY, key] v"
    using s(1) by (simp add: d' s')
qed

end

section \<open>The contract\<close>

lemma emergency_editor:
  assumes lib: "cjson_lib api valid depth" and args: "cstr kb = Some key" "cstr vb = Some text"
    and v: "value_of api text (OVERRIDE OR INTPARSE) = Some v" "valid v"
  shows "doc_editor api valid depth (add_event_to_json api (Buf kb) (Buf vb) :: 'z world_scheme \<Rightarrow> _) (\<lambda>r. r)
    [K_EMERGENCY, key] (\<lambda>_. v) (\<lambda>d. path_ok api d [K_EMERGENCY, key]) (section_fits api K_EMERGENCY key v)"
proof (rule doc_editor.intro [OF lib], unfold_locales)
  fix w :: "'z world_scheme" and t d d'
  assume w: "calm w" "state_doc api valid depth w t d" and ok: "path_ok api d [K_EMERGENCY, key]"
    and d': "d' = set_path api d [K_EMERGENCY, key] v"
  from ok obtain s where s: "cJSON_GetObjectItemCaseSensitive api d K_EMERGENCY = Some s" "cJSON_IsObject api s"
    by (auto split: option.splits)
  have d'_eq: "d' = set_key api d K_EMERGENCY (set_key api s key v)" using s by (simp add: d')
  note exec = cjson_lib.add_event_exec [OF lib w s args v refl d'_eq]
  have doc: "files w' JSON_FILE_PATH = Some (cJSON_Print api d') \<Longrightarrow> state_doc api valid depth w' (cJSON_Print api d') d'"
    for w' :: "'z world_scheme" by (rule cjson_lib.state_doc_written [OF lib _ exec(3,2,4)])
  show "wp (add_event_to_json api (Buf kb) (Buf vb))
      (\<lambda>r w'. section_fits api K_EMERGENCY key v t d \<and> r = 0 \<and>
         files w' = (files w)(JSON_FILE_PATH \<mapsto> cJSON_Print api d') \<and> state_doc api valid depth w' (cJSON_Print api d') d')
      (\<lambda>e w'. \<not> section_fits api K_EMERGENCY key v t d \<and> e = Undef Buffer_Overflow \<and> files w' = files w) w"
    by (rule wp_mono [OF exec(1)])
       (use s in \<open>auto simp: section_fits_def Let_def d'_eq [symmetric] intro!: doc\<close>)
qed

section \<open>The properties of the emergency process\<close>

text \<open>C30: Recording an event. When no call fails, \<open>add_event_to_json\<close> stores the value under its key in
  the emergency section of the state document and changes nothing else, if neither the text of
  the section nor that of the document grows; otherwise a block is overrun before the file is
  written.\<close>

theorem event_effect:
  assumes lib: "cjson_lib api valid depth" and "calm w" "state_doc api valid depth w t d" "path_ok api d [K_EMERGENCY, key]"
    and "cstr kb = Some key" "cstr vb = Some text" "value_of api text (OVERRIDE OR INTPARSE) = Some v" "valid v"
  shows "wp (add_event_to_json api (Buf kb) (Buf vb))
    (\<lambda>r w'. section_fits api K_EMERGENCY key v t d \<and> r = 0 \<and>
       (\<exists>t' d'. state_doc api valid depth w' t' d' \<and> get_path api d' [K_EMERGENCY, key] = Some v \<and>
         (\<forall>q. [K_EMERGENCY, key] \<parallel> q \<longrightarrow> get_path api d' q = get_path api d q)) \<and>
       (\<forall>g. g \<noteq> JSON_FILE_PATH \<longrightarrow> files w' g = files w g))
    (\<lambda>e w'. \<not> section_fits api K_EMERGENCY key v t d \<and> e = Undef Buffer_Overflow \<and> files w' = files w) w"
  by (rule doc_editor.edit_effect [OF emergency_editor [OF lib assms(5-8)] assms(2-4)])

definition keepalive_value :: string where
  "keepalive_value = ''Thu Jul 04 10:00:00''"

interpretation keepalive_edit: doc_editor ref_api ref_valid ref_depth
  "add_event_to_json ref_api (Buf (LAST_KEEP_ALIVED @ [NUL])) (Buf (keepalive_value @ [NUL]))" "\<lambda>r. r"
  "[K_EMERGENCY, LAST_KEEP_ALIVED]" "\<lambda>_. JStr keepalive_value" "\<lambda>d. path_ok ref_api d [K_EMERGENCY, LAST_KEEP_ALIVED]"
  "section_fits ref_api K_EMERGENCY LAST_KEEP_ALIVED (JStr keepalive_value)"
proof (rule emergency_editor [OF ref.cjson_lib_axioms])
  show "value_of ref_api keepalive_value (OVERRIDE OR INTPARSE) = Some (JStr keepalive_value)" by code_simp
  show "cstr (LAST_KEEP_ALIVED @ [NUL]) = Some LAST_KEEP_ALIVED" by simp
  show "cstr (keepalive_value @ [NUL]) = Some keepalive_value" by (simp add: keepalive_value_def cstr_def)
  show "ref_valid (JStr keepalive_value)" by (simp add: keepalive_value_def)
qed

lemma shipped_emergency: "path_ok ref_api state_summary [K_EMERGENCY, LAST_KEEP_ALIVED]"
  by (simp add: K_EMERGENCY_def LAST_KEEP_ALIVED_def state_summary_def ref_api_def json_items_def keys_ok_def ci_eq_def
      tolower_def)

theorem event_effect_witness:
  "wp (add_event_to_json ref_api (Buf (LAST_KEEP_ALIVED @ [NUL])) (Buf (keepalive_value @ [NUL])))
    (\<lambda>r w'. section_fits ref_api K_EMERGENCY LAST_KEEP_ALIVED (JStr keepalive_value) (cJSON_Print ref_api state_summary) state_summary \<and>
       r = 0 \<and> (\<exists>t' d'. state_doc ref_api ref_valid ref_depth w' t' d' \<and>
         get_path ref_api d' [K_EMERGENCY, LAST_KEEP_ALIVED] = Some (JStr keepalive_value) \<and>
         (\<forall>q. [K_EMERGENCY, LAST_KEEP_ALIVED] \<parallel> q \<longrightarrow> get_path ref_api d' q = get_path ref_api state_summary q)) \<and>
       (\<forall>g. g \<noteq> JSON_FILE_PATH \<longrightarrow> files w' g = files shipped_world g))
    (\<lambda>e w'. \<not> section_fits ref_api K_EMERGENCY LAST_KEEP_ALIVED (JStr keepalive_value) (cJSON_Print ref_api state_summary) state_summary \<and>
       e = Undef Buffer_Overflow \<and> files w' = files shipped_world) shipped_world"
proof (rule event_effect [OF ref.cjson_lib_axioms demo_world_calm shipped_state_doc shipped_emergency])
  show "value_of ref_api keepalive_value (OVERRIDE OR INTPARSE) = Some (JStr keepalive_value)" by code_simp
  show "cstr (LAST_KEEP_ALIVED @ [NUL]) = Some LAST_KEEP_ALIVED" by simp
  show "cstr (keepalive_value @ [NUL]) = Some keepalive_value" by (simp add: keepalive_value_def cstr_def)
  show "ref_valid (JStr keepalive_value)" by (simp add: keepalive_value_def)
qed

text \<open>C27: The emergency process interrupts its parent only after the message is in the pipe. In every
  world: if it returns \<open>0\<close>, exactly the message with its null byte was written and one \<open>SIGINT\<close>
  sent; if it returns \<open>1\<close> or stops on the way, neither happened.\<close>

theorem emergency_order:
  "wp (run_emergency_handler api pfd)
     (\<lambda>r w'. if r = 0 then pipe_data w' = pipe_data w @ failure_text @ [NUL] \<and> kills w' = kills w @ [SIGINT]
        else r = 1 \<and> pipe_data w' = pipe_data w \<and> kills w' = kills w)
     (\<lambda>e w'. pipe_data w' = pipe_data w \<and> kills w' = kills w) w"
proof -
  let ?f = "\<lambda>w. (pipe_data w, kills w)"
  have frame: "keeps ?f (generate_log g a b)" "keeps ?f (add_event_to_json api k v)" "keeps ?f (local_array m)"
      "keeps ?f (set_timestamp c m)" "keeps ?f (close fd)" "keeps ?f (sleep m)" "keeps ?f (print x)"
      "keeps ?f (read_str p)" "keeps ?f (strcat p x)" for g a b k v m c fd x p
    by (rule keeps_pair; intro frame_intros; simp)+
  show ?thesis
    unfolding run_emergency_handler_def
    by (((rule wp_thn_frame [where f = ?f] wp_bnd_frame [where f = ?f], rule frame)+, simp_all add: wp_simps)
      ; simp add: failure_text_def)
qed

end
