(* ===== verification/Comunication_Handler.thy ===== *)
theory Comunication_Handler
  imports Lib_Handler
begin

text \<open>
  The sockets, \<open>lib/libsta/src/comunication_handler.c\<close>: opening the server's and the
  client's ends, sending a text in slices of \<open>BUFFER_SIZE\<close>, receiving one.
\<close>

unbundle bit_operations_syntax

section \<open>Constants\<close>

definition PORT_IPV4_UDP :: "16 word" where "PORT_IPV4_UDP = 2222"
definition PORT_IPV4_TCP :: "16 word" where "PORT_IPV4_TCP = 3333"
definition PORT_IPV6_UDP :: "16 word" where "PORT_IPV6_UDP = 4444"
definition PORT_IPV6_TCP :: "16 word" where "PORT_IPV6_TCP = 5555"
definition AF_INET :: int where "AF_INET = 2"
definition AF_INET6 :: int where "AF_INET6 = 10"
definition SOCK_STREAM :: int where "SOCK_STREAM = 1"
definition SOCK_DGRAM :: int where "SOCK_DGRAM = 2"
definition N_CONN :: nat where "N_CONN = 5"
definition BUFFER_SIZE :: nat where "BUFFER_SIZE = 1024"

text \<open>The commands, the keys of a message and its texts.\<close>

definition CLOSE_CONNECTION :: int where "CLOSE_CONNECTION = 0"
definition OPTION1_n :: int where "OPTION1_n = 1"
definition OPTION2_n :: int where "OPTION2_n = 2"
definition ADMIN :: string where "ADMIN = ''ubuntu''"
definition K_COMMAND :: string where "K_COMMAND = ''command''"
definition K_SUP_COMMAND_EQ :: string where "K_SUP_COMMAND_EQ = ''suply_type_equivalent''"
definition K_ACC_DENEID :: string where "K_ACC_DENEID = ''deneid_command''"
definition K_HOSTNAME :: string where "K_HOSTNAME = ''hostname''"
definition K_PASSWORD :: string where "K_PASSWORD = ''password''"
definition K_END :: string where "K_END = ''end_connection''"
definition K_VALUE :: string where "K_VALUE = ''value''"
definition K_KEY :: string where "K_KEY = ''key''"
definition M_ACC_DENEID :: string where
  "M_ACC_DENEID = ''You should be connected to the server using TCP and be an admin to modify the supplies.''"
definition TRUE_text :: string where "TRUE_text = ''1''"
definition IPV4 :: int where "IPV4 = 4"
definition IPV6 :: int where "IPV6 = 6"
definition IP_ADDR_V4 :: string where "IP_ADDR_V4 = ''127.0.0.1''"
definition IP_ADDR_V6 :: string where "IP_ADDR_V6 = ''::1''"
definition MAX_USERNAME_LENGTH :: nat where "MAX_USERNAME_LENGTH = 50"
definition MAX_PASSWORD_LENGTH :: nat where "MAX_PASSWORD_LENGTH = 50"
definition MAX_K_V_SUP_LENGHT :: nat where "MAX_K_V_SUP_LENGHT = 50"
definition SUP_OPT1 :: string where "SUP_OPT1 = ''1''"
definition SUP_OPT1_EQ :: string where "SUP_OPT1_EQ = ''food''"
definition SUP_OPT2 :: string where "SUP_OPT2 = ''2''"
definition SUP_OPT2_EQ :: string where "SUP_OPT2_EQ = ''medicine''"
definition OPTION_END :: int where "OPTION_END = 3"
definition OPTION_END_EQ :: string where "OPTION_END_EQ = ''End client connection''"
definition OPTION1 :: string where "OPTION1 = ''1''"
definition OPTION1_EQ :: string where "OPTION1_EQ = ''Get server status''"
definition OPTION2 :: string where "OPTION2 = ''2''"
definition OPTION2_EQ :: string where "OPTION2_EQ = ''Modify supplies''"
definition K_COMMAND_EQ :: string where "K_COMMAND_EQ = ''command_equivalent''"
definition K_SUP_COMMAND :: string where "K_SUP_COMMAND = ''suply_type''"

lemmas server_texts = ADMIN_def K_COMMAND_def K_SUP_COMMAND_EQ_def K_ACC_DENEID_def K_HOSTNAME_def
  K_PASSWORD_def K_END_def K_VALUE_def K_KEY_def M_ACC_DENEID_def TRUE_text_def

lemma server_texts_no_nul [simp]:
  "NUL \<notin> set K_COMMAND" "NUL \<notin> set K_HOSTNAME" "NUL \<notin> set K_PASSWORD" "NUL \<notin> set K_KEY"
  "NUL \<notin> set K_VALUE" "NUL \<notin> set K_SUP_COMMAND_EQ" "NUL \<notin> set K_ACC_DENEID" "NUL \<notin> set K_END"
  "NUL \<notin> set TRUE_text" "NUL \<notin> set M_ACC_DENEID" "NUL \<notin> set ADMIN"
  by (simp_all add: server_texts)

lemma BUFFER_SIZE_pos [simp]: "0 < BUFFER_SIZE"
  by (simp add: BUFFER_SIZE_def)

lemmas ports = PORT_IPV4_UDP_def PORT_IPV4_TCP_def PORT_IPV6_UDP_def PORT_IPV6_TCP_def

abbreviation co_file :: string where "co_file \<equiv> ''lib/libsta/src/comunication_handler.c''"

section \<open>Byte order and addresses\<close>

text \<open>On a little-endian machine \<open>htons\<close> and \<open>ntohs\<close> both swap the two bytes.\<close>

definition htons :: "16 word \<Rightarrow> 16 word" where
  "htons p = push_bit 8 p OR drop_bit 8 p"

definition ntohs :: "16 word \<Rightarrow> 16 word" where
  "ntohs p = push_bit 8 p OR drop_bit 8 p"

lemma ntohs_htons [simp]: "ntohs (htons p) = p"
  unfolding ntohs_def htons_def
  by (rule bit_word_eqI) (auto simp: bit_simps)

fun split_at :: "char \<Rightarrow> string \<Rightarrow> string list" where
  "split_at c [] = [[]]"
| "split_at c (x # xs) = (if x = c then [] # split_at c xs
     else (case split_at c xs of [] \<Rightarrow> [[x]] | t # ts \<Rightarrow> (x # t) # ts))"

text \<open>The texts that \<open>inet_pton\<close> accepts: four decimal bytes without leading zeros; eight
  groups of up to four hexadecimal digits, one run of them written \<open>::\<close>, the last two
  possibly as four decimal bytes.\<close>

definition dec_byte :: "string \<Rightarrow> bool" where
  "dec_byte s \<longleftrightarrow> s \<noteq> [] \<and> length s \<le> 3 \<and> list_all isdigit s \<and> digits_val s \<le> 255 \<and>
     (s = ''0'' \<or> hd s \<noteq> CHR ''0'')"

definition inet4_ok :: "string \<Rightarrow> bool" where
  "inet4_ok s \<longleftrightarrow> length (split_at (CHR ''.'') s) = 4 \<and> list_all dec_byte (split_at (CHR ''.'') s)"

definition hex_group :: "string \<Rightarrow> bool" where
  "hex_group s \<longleftrightarrow> s \<noteq> [] \<and> length s \<le> 4 \<and> list_all isxdigit s"

fun groups6 :: "string list \<Rightarrow> nat option" where
  "groups6 [] = Some 0"
| "groups6 [g] = (if hex_group g then Some 1 else if inet4_ok g then Some 2 else None)"
| "groups6 (g # gs) = (if hex_group g then map_option Suc (groups6 gs) else None)"

fun split_dcolon :: "string \<Rightarrow> (string \<times> string) option" where
  "split_dcolon (a # b # xs) = (if a = CHR '':'' \<and> b = CHR '':'' then Some ([], xs)
     else map_option (\<lambda>(l, r). (a # l, r)) (split_dcolon (b # xs)))"
| "split_dcolon xs = None"

definition groups_text :: "string \<Rightarrow> nat option" where
  "groups_text s = (if s = [] then Some 0 else groups6 (split_at (CHR '':'') s))"

definition inet6_ok :: "string \<Rightarrow> bool" where
  "inet6_ok s \<longleftrightarrow> (case split_dcolon s of
     None \<Rightarrow> groups_text s = Some 8
   | Some (l, r) \<Rightarrow>
       (l = [] \<or> list_all hex_group (split_at (CHR '':'') l)) \<and>
       (case (groups_text l, groups_text r) of (Some m, Some n) \<Rightarrow> m + n \<le> 7 | _ \<Rightarrow> False))"

section \<open>Socket calls\<close>

definition socket :: "int \<Rightarrow> int \<Rightarrow> ('z world_scheme, int) comp" where
  "socket domain type = bnd sys (\<lambda>ok.
     if ok then bnd (gets next_fd) (\<lambda>fd.
       thn (modify (\<lambda>w. w\<lparr>next_fd := fd + 1, sockets := (sockets w)(fd \<mapsto>
              \<lparr>sk_domain = domain, sk_type = type, sk_bound = None, sk_listen = None, sk_peer = None\<rparr>)\<rparr>))
           (ret fd))
     else ret (- 1))"

definition on_socket :: "int \<Rightarrow> (sock \<Rightarrow> sock) \<Rightarrow> ('z world_scheme, int) comp" where
  "on_socket fd f = bnd sys (\<lambda>ok. bnd (gets (\<lambda>w. sockets w fd)) (\<lambda>s.
     case (if ok then s else None) of
       None \<Rightarrow> ret (- 1)
     | Some s \<Rightarrow> thn (modify (\<lambda>w. w\<lparr>sockets := (sockets w)(fd \<mapsto> f s)\<rparr>)) (ret 0)))"

definition bind :: "int \<Rightarrow> 16 word \<Rightarrow> ('z world_scheme, int) comp" where
  "bind fd sin_port = on_socket fd (\<lambda>s. s\<lparr>sk_bound := Some (unat (ntohs sin_port))\<rparr>)"

definition listen :: "int \<Rightarrow> nat \<Rightarrow> ('z world_scheme, int) comp" where
  "listen fd n = on_socket fd (\<lambda>s. s\<lparr>sk_listen := Some n\<rparr>)"

definition connect :: "int \<Rightarrow> string \<Rightarrow> 16 word \<Rightarrow> ('z world_scheme, int) comp" where
  "connect fd ip sin_port = on_socket fd (\<lambda>s. s\<lparr>sk_peer := Some (ip, unat (ntohs sin_port))\<rparr>)"

text \<open>\<open>send\<close> of \<open>n\<close> bytes of an array. A blocking socket takes all of them or fails; a
  datagram socket that is not connected has no destination (\<open>EDESTADDRREQ\<close>).\<close>

definition unconnected :: "'z world_scheme \<Rightarrow> int \<Rightarrow> bool" where
  "unconnected w fd \<longleftrightarrow> (case sockets w fd of None \<Rightarrow> False
     | Some s \<Rightarrow> sk_type s = SOCK_DGRAM \<and> sk_peer s = None)"

definition send :: "int \<Rightarrow> char list \<Rightarrow> nat \<Rightarrow> ('z world_scheme, int) comp" where
  "send fd a n = (if length a < n then halt (Undef Unterminated_Read)
     else bnd (gets (\<lambda>w. unconnected w fd)) (\<lambda>nodest. bnd sys (\<lambda>ok.
       if nodest then thn (modify (\<lambda>w. w\<lparr>errno := 89\<rparr>)) (ret (- 1))
       else if ok then thn (modify (\<lambda>w. w\<lparr>sent := sent w @ [(fd, take n a)]\<rparr>)) (ret (int n))
       else ret (- 1))))"

definition sendto :: "int \<Rightarrow> char list \<Rightarrow> nat \<Rightarrow> ('z world_scheme, int) comp" where
  "sendto fd a n = (if length a < n then halt (Undef Unterminated_Read)
     else bnd sys (\<lambda>ok.
       if ok then thn (modify (\<lambda>w. w\<lparr>sent := sent w @ [(fd, take n a)]\<rparr>)) (ret (int n))
       else ret (- 1)))"

text \<open>\<open>recvfrom\<close> takes one datagram, drops what does not fit, and waits if there is none. \<open>recv\<close> does
  the same on a datagram socket; on a stream it takes what has arrived, at most \<open>n\<close> bytes, and
  leaves the rest, and nothing to come means that the peer has closed the connection.\<close>

definition recvfrom :: "int \<Rightarrow> char list \<Rightarrow> nat \<Rightarrow> ('z world_scheme, int \<times> char list) comp" where
  "recvfrom fd a n = bnd sys (\<lambda>ok. if \<not> ok then ret (- 1, a)
     else bnd (gets (\<lambda>w. inbox w fd)) (\<lambda>q. case q of
       [] \<Rightarrow> halt Blocked
     | m # ms \<Rightarrow> (let got = take n m in
         if length a < length got then halt (Undef Buffer_Overflow)
         else thn (modify (\<lambda>w. w\<lparr>inbox := (inbox w)(fd := ms)\<rparr>))
                  (ret (int (length got), got @ drop (length got) a)))))"

definition datagram :: "'z world_scheme \<Rightarrow> int \<Rightarrow> bool" where
  "datagram w fd \<longleftrightarrow> (case sockets w fd of None \<Rightarrow> False | Some s \<Rightarrow> sk_type s = SOCK_DGRAM)"

definition recv :: "int \<Rightarrow> char list \<Rightarrow> nat \<Rightarrow> ('z world_scheme, int \<times> char list) comp" where
  "recv fd a n = bnd (gets (\<lambda>w. datagram w fd)) (\<lambda>dgram. if dgram then recvfrom fd a n
     else bnd sys (\<lambda>ok. if \<not> ok then ret (- 1, a)
     else bnd (gets (\<lambda>w. inbox w fd)) (\<lambda>q. case q of
       [] \<Rightarrow> ret (0, a)
     | m # ms \<Rightarrow> (let got = take n m; rest = drop n m in
         if length a < length got then halt (Undef Buffer_Overflow)
         else thn (modify (\<lambda>w. w\<lparr>inbox := (inbox w)(fd := (if rest = [] then ms else rest # ms))\<rparr>))
                  (ret (int (length got), got @ drop (length got) a))))))"

section \<open>Opening the connections\<close>

definition server_banner :: "string \<Rightarrow> string \<Rightarrow> int \<Rightarrow> 16 word \<Rightarrow> string" where
  "server_banner ipv proto p port = ''** SERVIDOR '' @ ipv @ '' '' @ proto @ '' - Proceso: '' @ show_int p @
     '' - socket disponible: '' @ show_nat (unat port) @ '' **'' @ [NL]"

text \<open>The result is the return code and the new value of \<open>*sockfd\<close>.\<close>

definition connect_server_ipv4 :: "int \<Rightarrow> ('z world_scheme, int \<times> int) comp" where
  "connect_server_ipv4 type =
     bnd (socket AF_INET type) (\<lambda>sockfd.
     if sockfd < 0 then thn (error_handler ''Error socket'' co_file 10) (ret (1, sockfd))
     else (let port = (if type = 1 then PORT_IPV4_TCP else PORT_IPV4_UDP); sin_port = htons port in
     bnd (bind sockfd sin_port) (\<lambda>b.
     if b < 0 then thn (error_handler ''Error bind'' co_file 29) (ret (1, sockfd))
     else bnd (gets pid) (\<lambda>p.
     if type = 1
     then thn (print (server_banner ''IPv4'' ''TCP'' p (ntohs sin_port)))
       (bnd (listen sockfd N_CONN) (\<lambda>l.
        if l = - 1 then thn (error_handler ''Error listen'' co_file 39) (ret (1, sockfd))
        else ret (0, sockfd)))
     else thn (print (server_banner ''IPv4'' ''UDP'' p (ntohs sin_port))) (ret (0, sockfd))))))"

definition connect_server_ipv6 :: "int \<Rightarrow> ('z world_scheme, int \<times> int) comp" where
  "connect_server_ipv6 type =
     bnd (socket AF_INET6 type) (\<lambda>sockfd.
     if sockfd < 0 then thn (error_handler ''Error socket'' co_file 58) (ret (1, sockfd))
     else (let port = (if type = 1 then PORT_IPV6_TCP else PORT_IPV6_UDP); sin6_port = htons port in
     bnd (bind sockfd sin6_port) (\<lambda>b.
     if b < 0 then thn (error_handler ''Error bind'' co_file 77) (ret (1, sockfd))
     else bnd (gets pid) (\<lambda>p.
     if type = 1
     then thn (print (server_banner ''IPv6'' ''TCP'' p (ntohs sin6_port)))
       (bnd (listen sockfd N_CONN) (\<lambda>l.
        if l = - 1 then thn (error_handler ''Error listen'' co_file 88) (ret (1, sockfd))
        else ret (0, sockfd)))
     else thn (print (server_banner ''IPv6'' ''UDP'' p (ntohs sin6_port))) (ret (0, sockfd))))))"

text \<open>The text of the message for a bad address is in UTF-8.\<close>

definition bad_address :: string where
  "bad_address = ''Direcci'' @ [CHR 0xC3, CHR 0xB3] @ ''n IP inv'' @ [CHR 0xC3, CHR 0xA1] @ ''lida''"

definition connect_client_ipv4 :: "string \<Rightarrow> int \<Rightarrow> ('z world_scheme, int \<times> int) comp" where
  "connect_client_ipv4 ip_address type =
     bnd (socket AF_INET type) (\<lambda>sockfd.
     if sockfd < 0 then thn (perror ''Fallo al crear el socket'') (ret (- 1, sockfd))
     else (let port = (if type = 1 then PORT_IPV4_TCP else PORT_IPV4_UDP) in
     if \<not> inet4_ok ip_address
     then thn (diag (bad_address @ '': '' @ ip_address @ [NL])) (halt (Exit 1))
     else bnd (connect sockfd ip_address (htons port)) (\<lambda>c.
     if c < 0 then thn (perror ''Fallo al conectar'') (halt (Exit 1))
     else ret (0, sockfd))))"

definition connect_client_ipv6 :: "string \<Rightarrow> int \<Rightarrow> ('z world_scheme, int \<times> int) comp" where
  "connect_client_ipv6 ip_address type =
     bnd (socket AF_INET6 type) (\<lambda>sockfd.
     if sockfd < 0 then thn (perror ''Fallo al crear el socket'') (ret (- 1, sockfd))
     else (let port = (if type = 1 then PORT_IPV6_TCP else PORT_IPV6_UDP) in
     if \<not> inet6_ok ip_address
     then thn (perror bad_address) (halt (Exit 1))
     else bnd (connect sockfd ip_address (htons port)) (\<lambda>c.
     if c < 0 then thn (perror ''Fallo al conectar'') (halt (Exit 1))
     else ret (0, sockfd))))"

section \<open>Sending and receiving\<close>

definition send_message_to_socket :: "char list \<Rightarrow> nat \<Rightarrow> int \<Rightarrow> ('z world_scheme, int) comp" where
  "send_message_to_socket json_buffer b_size sockfd =
     (if b_size = 0 then ret 0
      else bnd (read_str (Buf json_buffer)) (\<lambda>s.
      if length s = 0 then ret 0
      else bnd (send sockfd json_buffer b_size) (\<lambda>n.
      if n = - 1 then thn (diag_at co_file 225 ''Error sending the json_buffer content.'') (ret 1)
      else ret 0)))"

text \<open>The loop over the full slices: the offset of the first byte not yet sent and the
  buffer, or the return code of an early return.\<close>

function send_slices ::
  "char list \<Rightarrow> nat \<Rightarrow> int \<Rightarrow> char list \<Rightarrow> nat \<Rightarrow> ('z world_scheme, int + nat \<times> char list) comp" where
  "send_slices json_buffer b_size sockfd socket_buffer sl =
     (if sl + BUFFER_SIZE > b_size then ret (Inr (sl, socket_buffer))
      else bnd (strncpy socket_buffer (drop sl json_buffer) BUFFER_SIZE) (\<lambda>socket_buffer.
      bnd (send_message_to_socket socket_buffer BUFFER_SIZE sockfd) (\<lambda>r.
      if r \<noteq> 0 then thn (diag_at co_file 208 ''Error send_message_to_socket.'') (ret (Inl 1))
      else send_slices json_buffer b_size sockfd socket_buffer (sl + BUFFER_SIZE))))"
  by pat_completeness auto
termination
  by (relation "measure (\<lambda>(j, b, fd, sb, sl). b - sl)") (auto simp: BUFFER_SIZE_def)

declare send_slices.simps [simp del]

definition send_message :: "cptr \<Rightarrow> nat \<Rightarrow> int \<Rightarrow> ('z world_scheme, int) comp" where
  "send_message json_buffer b_size sockfd = (case json_buffer of
     Indet \<Rightarrow> halt (Undef Indet_Pointer)
   | Null \<Rightarrow> halt (Undef Null_Deref)
   | Buf json \<Rightarrow>
     (let socket_buffer = replicate BUFFER_SIZE NUL in
      if b_size \<le> BUFFER_SIZE
      then bnd (strncpy socket_buffer json b_size) (\<lambda>socket_buffer.
           send_message_to_socket socket_buffer b_size sockfd)
      else bnd (send_slices json b_size sockfd socket_buffer 0) (\<lambda>out. case out of
        Inl r \<Rightarrow> ret r
      | Inr (sl, socket_buffer) \<Rightarrow>
          bnd (strncpy socket_buffer (drop sl json) BUFFER_SIZE) (\<lambda>socket_buffer.
          bnd (read_str (Buf json)) (\<lambda>s.
          send_message_to_socket socket_buffer (length s) sockfd)))))"

definition recv_tcp_message :: "int \<Rightarrow> char list \<Rightarrow> ('z world_scheme, int \<times> char list) comp" where
  "recv_tcp_message sockfd socket_buffer =
     (if length socket_buffer < BUFFER_SIZE then halt (Undef Buffer_Overflow)
      else bnd (recv sockfd (replicate BUFFER_SIZE NUL @ drop BUFFER_SIZE socket_buffer) BUFFER_SIZE)
        (\<lambda>(n, socket_buffer).
      bnd (if n = - 1 then ret True
           else bnd (read_str (Buf socket_buffer)) (\<lambda>s. ret (length s = 0))) (\<lambda>failed.
      if failed then thn (diag_at co_file 238 ''Error reciving the data.'') (ret (1, socket_buffer))
      else ret (0, socket_buffer))))"

definition recv_udp_message :: "int \<Rightarrow> char list \<Rightarrow> ('z world_scheme, int \<times> char list) comp" where
  "recv_udp_message sockfd socket_buffer =
     (if length socket_buffer < BUFFER_SIZE then halt (Undef Buffer_Overflow)
      else bnd (recvfrom sockfd (replicate BUFFER_SIZE NUL @ drop BUFFER_SIZE socket_buffer) BUFFER_SIZE)
        (\<lambda>(n, socket_buffer).
      bnd (if n = - 1 then ret True
           else bnd (read_str (Buf socket_buffer)) (\<lambda>s. ret (length s = 0))) (\<lambda>failed.
      if failed then thn (diag_at co_file 252 ''Error reciving the data.'') (ret (1, socket_buffer))
      else ret (0, socket_buffer))))"

definition send_udp_message :: "int \<Rightarrow> cptr \<Rightarrow> ('z world_scheme, int) comp" where
  "send_udp_message newsockfd send_socket_buffer =
     bnd (read_str send_socket_buffer) (\<lambda>s.
     bnd (sendto newsockfd s (length s)) (\<lambda>n.
     if n = - 1 then thn (diag_at co_file 263 ''Error sending the json_buffer content.'') (ret 1)
     else ret 0))"

section \<open>Symbolic execution\<close>

lemma wp_send [wp_simps]:
  "wp (send fd a n) Q E w = (if length a < n then E (Undef Unterminated_Read) w
     else if unconnected w fd then Q (- 1) (w\<lparr>errno := 89, tick := Suc (tick w)\<rparr>)
     else if sys_err w (tick w) = 0
     then Q (int n) (w\<lparr>sent := sent w @ [(fd, take n a)], tick := Suc (tick w)\<rparr>)
     else Q (- 1) (w\<lparr>errno := sys_err w (tick w), tick := Suc (tick w)\<rparr>))"
  by (simp add: send_def wp_simps)

lemma wp_sendto [wp_simps]:
  "wp (sendto fd a n) Q E w = (if length a < n then E (Undef Unterminated_Read) w
     else if sys_err w (tick w) = 0
     then Q (int n) (w\<lparr>sent := sent w @ [(fd, take n a)], tick := Suc (tick w)\<rparr>)
     else Q (- 1) (w\<lparr>errno := sys_err w (tick w), tick := Suc (tick w)\<rparr>))"
  by (simp add: sendto_def wp_simps)

lemma unconnected_update [simp]:
  "unconnected (w\<lparr>tick := n\<rparr>) fd = unconnected w fd" "unconnected (w\<lparr>sent := m\<rparr>) fd = unconnected w fd"
  "unconnected (w\<lparr>live_mem := k\<rparr>) fd = unconnected w fd" "unconnected (w\<lparr>live_json := k\<rparr>) fd = unconnected w fd"
  "unconnected (w\<lparr>files := fs\<rparr>) fd = unconnected w fd" "unconnected (w\<lparr>inbox := q\<rparr>) fd = unconnected w fd"
  "unconnected (w\<lparr>stdout := l\<rparr>) fd = unconnected w fd" "unconnected (w\<lparr>stderr := l\<rparr>) fd = unconnected w fd"
  "unconnected (w\<lparr>errno := e\<rparr>) fd = unconnected w fd"
  by (simp_all add: unconnected_def)

lemma keeps_socket [frame_intros]:
  "quiet f \<Longrightarrow> (\<And>w g. f (next_fd_update g w) = f w) \<Longrightarrow> (\<And>w g. f (sockets_update g w) = f w) \<Longrightarrow>
     keeps f (socket d ty)"
  unfolding socket_def by (intro frame_intros) simp_all

lemma keeps_on_socket [frame_intros]:
  "quiet f \<Longrightarrow> (\<And>w g. f (sockets_update g w) = f w) \<Longrightarrow> keeps f (on_socket fd h)"
  unfolding on_socket_def by (intro frame_intros) simp_all

lemma keeps_send [frame_intros]:
  "quiet f \<Longrightarrow> (\<And>w g. f (sent_update g w) = f w) \<Longrightarrow> keeps f (send fd a n)"
  unfolding send_def by (intro frame_intros) (simp_all add: quiet_def)

lemma keeps_sendto [frame_intros]:
  "quiet f \<Longrightarrow> (\<And>w g. f (sent_update g w) = f w) \<Longrightarrow> keeps f (sendto fd a n)"
  unfolding sendto_def by (intro frame_intros) simp_all

lemma keeps_list [frame_intros]:
  "keeps f m \<Longrightarrow> (\<And>x xs. keeps f (g x xs)) \<Longrightarrow> keeps f (case q of [] \<Rightarrow> m | x # xs \<Rightarrow> g x xs)"
  by (cases q) auto

lemma wp_list [wp_simps]:
  "wp (case q of [] \<Rightarrow> m | x # xs \<Rightarrow> g x xs) Q E s =
     (case q of [] \<Rightarrow> wp m Q E s | x # xs \<Rightarrow> wp (g x xs) Q E s)"
  by (cases q) auto

lemma keeps_recvfrom [frame_intros]:
  "quiet f \<Longrightarrow> (\<And>w g. f (inbox_update g w) = f w) \<Longrightarrow> keeps f (recvfrom fd a n)"
  unfolding recvfrom_def Let_def by (intro frame_intros) simp_all

lemma keeps_recv [frame_intros]:
  "quiet f \<Longrightarrow> (\<And>w g. f (inbox_update g w) = f w) \<Longrightarrow> keeps f (recv fd a n)"
  unfolding recv_def Let_def by (intro frame_intros) simp_all

lemma keeps_send_message_to_socket [frame_intros]:
  "quiet f \<Longrightarrow> (\<And>w g. f (sent_update g w) = f w) \<Longrightarrow> keeps f (send_message_to_socket a n fd)"
  unfolding send_message_to_socket_def by (intro frame_intros) simp_all

lemma keeps_send_slices [frame_intros]:
  "quiet f \<Longrightarrow> (\<And>w g. f (sent_update g w) = f w) \<Longrightarrow> keeps f (send_slices j b fd sb sl)"
proof (induction j b fd sb sl rule: send_slices.induct)
  case (1 j b fd sb sl)
  show ?case
    by (subst send_slices.simps) (intro frame_intros 1; simp add: 1)
qed

lemma keeps_send_message [frame_intros]:
  "quiet f \<Longrightarrow> (\<And>w g. f (sent_update g w) = f w) \<Longrightarrow> keeps f (send_message p n fd)"
  unfolding send_message_def Let_def
  by (cases p) (auto intro!: frame_intros split: sum.splits)

lemma keeps_send_udp_message [frame_intros]:
  "quiet f \<Longrightarrow> (\<And>w g. f (sent_update g w) = f w) \<Longrightarrow> keeps f (send_udp_message fd p)"
  unfolding send_udp_message_def by (intro frame_intros) simp_all

lemma keeps_recv_tcp_message [frame_intros]:
  "quiet f \<Longrightarrow> (\<And>w g. f (inbox_update g w) = f w) \<Longrightarrow> keeps f (recv_tcp_message fd a)"
  unfolding recv_tcp_message_def by (intro frame_intros) simp_all

lemma keeps_recv_udp_message [frame_intros]:
  "quiet f \<Longrightarrow> (\<And>w g. f (inbox_update g w) = f w) \<Longrightarrow> keeps f (recv_udp_message fd a)"
  unfolding recv_udp_message_def by (intro frame_intros) simp_all

lemma keeps_connections [frame_intros]:
  assumes "quiet f" "\<And>w g. f (sockets_update g w) = f w" "\<And>w g. f (next_fd_update g w) = f w"
  shows "keeps f (connect_client_ipv4 ip ty)" "keeps f (connect_client_ipv6 ip ty)"
    "(\<And>w g. f (stdout_update g w) = f w) \<Longrightarrow> keeps f (connect_server_ipv4 ty)"
    "(\<And>w g. f (stdout_update g w) = f w) \<Longrightarrow> keeps f (connect_server_ipv6 ty)"
  unfolding connect_client_ipv4_def connect_client_ipv6_def connect_server_ipv4_def connect_server_ipv6_def
    bind_def listen_def connect_def Let_def
  by (intro frame_intros; simp add: assms)+

section \<open>Sending a text\<close>

lemma cstr_take:
  assumes "cstr a = Some s"
  shows "take (length s) a = s" "a ! length s = NUL" "n \<le> length s \<Longrightarrow> NUL \<notin> set (take n a)"
proof -
  from assms have s: "s = takeWhile (\<lambda>c. c \<noteq> NUL) a" and n: "NUL \<in> set a"
    by (auto simp: cstr_def split: if_splits)
  show t: "take (length s) a = s" unfolding s by (metis takeWhile_eq_take)
  show "a ! length s = NUL"
    using nth_length_takeWhile [of "\<lambda>c. c \<noteq> NUL" a] cstr_length [OF assms] s by simp
  show "n \<le> length s \<Longrightarrow> NUL \<notin> set (take n a)"
    using cstr_no_nul [OF assms] t set_take_subset_set_take [of n "length s" a] by auto
qed

lemma takeWhile_text: "NUL \<notin> set s \<Longrightarrow> takeWhile (\<lambda>c. c \<noteq> NUL) s = s"
  by (auto simp only: takeWhile_eq_all_conv)

lemma fit_exact [simp]: "length s = n \<Longrightarrow> fit n s = s"
  by (simp add: fit_def)

lemma cstr_fit:
  assumes "NUL \<notin> set s" "length s < n"
  shows "cstr (fit n s) = Some s"
proof -
  obtain k where "n - length s = Suc k" using assms(2) by (metis Suc_diff_Suc)
  moreover have "Suc k \<le> n" using calculation by arith
  ultimately show ?thesis using assms by (simp add: fit_def min_absorb1)
qed

lemma strncpy_text:
  assumes "cstr a = Some s" "n \<le> length s" "n \<le> length d"
  shows "strncpy d a n = ret (take n s @ drop n d)"
proof -
  have "takeWhile (\<lambda>c. c \<noteq> NUL) (take n a) = take n s"
    using cstr_take(3) [OF assms(1,2)] cstr_take(1) [OF assms(1)] assms(2)
    by (metis takeWhile_text min.absorb1 take_take)
  with assms cstr_length [OF assms(1)] show ?thesis by (simp add: strncpy_def)
qed

text \<open>A text shorter than the buffer arrives in one piece; any longer one, and one of
  exactly the size of the buffer, is read past the end of \<open>socket_buffer\<close>.\<close>

lemma send_message_short:
  assumes "calm w" "cstr a = Some s" "s \<noteq> []" "length s < BUFFER_SIZE" "\<not> unconnected w fd"
  shows "wp (send_message (Buf a) (length s) fd) Q E w =
    Q 0 (w\<lparr>sent := sent w @ [(fd, s)], tick := Suc (tick w)\<rparr>)"
proof -
  obtain k where k: "BUFFER_SIZE - length s = Suc k" using assms(4) by (metis Suc_diff_Suc)
  have "drop (length s) (replicate BUFFER_SIZE NUL) = NUL # replicate k NUL"
    by (simp add: k)
  with assms show ?thesis
    by (simp add: send_message_def strncpy_text send_message_to_socket_def wp_simps cstr_no_nul)
qed

lemma full_slice_unterminated:
  assumes "cstr a = Some s" "BUFFER_SIZE \<le> length s"
  shows "cstr (take BUFFER_SIZE s) = None"
  using cstr_no_nul [OF assms(1)] by (auto simp: cstr_def dest: in_set_takeD)

lemma send_message_long:
  assumes "cstr a = Some s" "BUFFER_SIZE \<le> length s"
  shows "wp (send_message (Buf a) (length s) fd) Q E w = E (Undef Unterminated_Read) w"
  using assms full_slice_unterminated [OF assms]
  by (cases "length s = BUFFER_SIZE")
     (simp_all add: send_message_def send_slices.simps [of a "length s"] strncpy_text
       send_message_to_socket_def wp_simps BUFFER_SIZE_def)

text \<open>The client sends its whole array: the text and null bytes up to \<open>BUFFER_SIZE\<close>.\<close>

lemma strncpy_pad:
  assumes "cstr a = Some s" "length a = n" "length d = n"
  shows "strncpy d a n = ret (fit n s)"
proof -
  have "NUL \<in> set a" using assms(1) by (simp add: cstr_def split: if_splits)
  moreover have "takeWhile (\<lambda>c. c \<noteq> NUL) a = s"
    using assms(1) by (simp add: cstr_def split: if_splits)
  ultimately show ?thesis using assms by (simp add: strncpy_def)
qed

lemma send_message_padded:
  assumes "calm w" "cstr a = Some s" "s \<noteq> []" "length a = BUFFER_SIZE" "\<not> unconnected w fd"
  shows "wp (send_message (Buf a) BUFFER_SIZE fd) Q E w =
    Q 0 (w\<lparr>sent := sent w @ [(fd, fit BUFFER_SIZE s)], tick := Suc (tick w)\<rparr>)"
  using assms cstr_length [OF assms(2)] cstr_no_nul [OF assms(2)]
  by (simp add: send_message_def strncpy_pad send_message_to_socket_def wp_simps cstr_fit)

section \<open>Receiving a text\<close>

text \<open>What both ends rely on: a way to put a text on the wire from which the receiver's
  buffer shows the text again.\<close>

locale framing =
  fixes frame :: "string \<Rightarrow> string"
  assumes frame_length: "length s < BUFFER_SIZE \<Longrightarrow> length (frame s) \<le> BUFFER_SIZE"
    and frame_text: "NUL \<notin> set s \<Longrightarrow> length s < BUFFER_SIZE \<Longrightarrow>
      cstr (frame s @ replicate (BUFFER_SIZE - length (frame s)) NUL) = Some s"
begin

lemma recv_frame:
  assumes "calm w" "inbox w fd = frame s # ms" "NUL \<notin> set s" "s \<noteq> []" "length s < BUFFER_SIZE"
    "length b = BUFFER_SIZE"
  shows "wp (recv_tcp_message fd b) Q E w =
    Q (0, frame s @ replicate (BUFFER_SIZE - length (frame s)) NUL)
      (w\<lparr>inbox := (inbox w)(fd := ms), tick := Suc (tick w)\<rparr>)"
  using assms frame_length [OF assms(5)] frame_text [OF assms(3,5)]
  by (simp add: recv_tcp_message_def recv_def recvfrom_def wp_simps Let_def)

lemma recvfrom_frame:
  assumes "calm w" "inbox w fd = frame s # ms" "NUL \<notin> set s" "s \<noteq> []" "length s < BUFFER_SIZE"
    "length b = BUFFER_SIZE"
  shows "wp (recv_udp_message fd b) Q E w =
    Q (0, frame s @ replicate (BUFFER_SIZE - length (frame s)) NUL)
      (w\<lparr>inbox := (inbox w)(fd := ms), tick := Suc (tick w)\<rparr>)"
  using assms frame_length [OF assms(5)] frame_text [OF assms(3,5)]
  by (simp add: recv_udp_message_def recvfrom_def wp_simps Let_def)

end

text \<open>The server sends the bare text, the client the padded one.\<close>

interpretation bare: framing "\<lambda>s. s"
proof
  fix s :: string
  assume s: "NUL \<notin> set s" "length s < BUFFER_SIZE"
  then obtain k where "BUFFER_SIZE - length s = Suc k" by (metis Suc_diff_Suc)
  with s show "cstr (s @ replicate (BUFFER_SIZE - length s) NUL) = Some s" by simp
qed simp

interpretation padded: framing "fit BUFFER_SIZE"
  by unfold_locales (simp_all add: cstr_fit)

text \<open>A message that fills the buffer without a null byte is read past its end.\<close>

lemma recv_full:
  assumes "calm w" "inbox w fd = m # ms" "BUFFER_SIZE \<le> length m" "NUL \<notin> set (take BUFFER_SIZE m)"
    "length b = BUFFER_SIZE" "\<not> datagram w fd"
  shows "wp (recv_tcp_message fd b) Q E w =
    E (Undef Unterminated_Read) (w\<lparr>inbox := (inbox w)(fd := (if drop BUFFER_SIZE m = [] then ms
        else drop BUFFER_SIZE m # ms)), tick := Suc (tick w)\<rparr>)"
  using assms by (simp add: recv_tcp_message_def recv_def wp_simps Let_def cstr_def)

section \<open>The properties of the communication\<close>

text \<open>C13: Sending a text, in every world. A text shorter than the buffer is sent whole in one message,
  or the failure of the call is reported and nothing is sent; an empty one is not sent and
  counts as success. A text of \<open>BUFFER_SIZE\<close> bytes or more is never sent: the
  first slice fills the local buffer and is then read as a string past its end.\<close>

theorem send_message_outcome:
  assumes "cstr a = Some s"
  shows "wp (send_message (Buf a) (length s) fd)
    (\<lambda>r w'. length s < BUFFER_SIZE \<and>
       (if s = [] then r = 0 \<and> sent w' = sent w
        else if sys_err w (tick w) = 0 \<and> \<not> unconnected w fd then r = 0 \<and> sent w' = sent w @ [(fd, s)]
        else r = 1 \<and> sent w' = sent w))
    (\<lambda>e w'. BUFFER_SIZE \<le> length s \<and> e = Undef Unterminated_Read \<and> w' = w) w"
proof (cases "length s < BUFFER_SIZE")
  case True
  then obtain k where k: "BUFFER_SIZE - length s = Suc k" by (metis Suc_diff_Suc)
  have "drop (length s) (replicate BUFFER_SIZE NUL) = NUL # replicate k NUL"
    by (simp add: k)
  with assms True show ?thesis
    by (simp add: send_message_def strncpy_text send_message_to_socket_def wp_simps cstr_no_nul)
next
  case False
  with assms show ?thesis by (simp add: send_message_long)
qed

theorem send_message_outcome_witness:
  "wp (send_message (Buf (''hello'' @ [NUL, CHR ''x''])) (length ''hello'') 4)
    (\<lambda>r w'. length ''hello'' < BUFFER_SIZE \<and>
       (if ''hello'' = [] then r = 0 \<and> sent w' = sent (demo_world [] [])
        else if sys_err (demo_world [] []) (tick (demo_world [] [])) = 0 \<and> \<not> unconnected (demo_world [] []) 4
        then r = 0 \<and> sent w' = sent (demo_world [] []) @ [(4, ''hello'')]
        else r = 1 \<and> sent w' = sent (demo_world [] [])))
    (\<lambda>e w'. BUFFER_SIZE \<le> length ''hello'' \<and> e = Undef Unterminated_Read \<and> w' = demo_world [] []) (demo_world [] [])"
  by (rule send_message_outcome) (simp add: cstr_def)

text \<open>C14: From the client to the server. When no call fails, the client's array, sent whole, is received
  by the server's TCP and UDP functions into a buffer that holds the same text, whatever
  follows in the inbox.\<close>

theorem client_to_server:
  assumes "calm w" "cstr a = Some s" "s \<noteq> []" "length a = BUFFER_SIZE" "\<not> unconnected w fd"
  shows "wp (send_message (Buf a) BUFFER_SIZE fd)
    (\<lambda>r w'. r = 0 \<and> (\<exists>m. sent w' = sent w @ [(fd, m)] \<and>
       (\<forall>v sk ms. calm v \<and> inbox v sk = m # ms \<longrightarrow>
          wp (recv_tcp_message sk (replicate BUFFER_SIZE NUL))
             (\<lambda>(r, b) v'. r = 0 \<and> cstr b = Some s \<and> inbox v' sk = ms) (\<lambda>_ _. False) (v :: world) \<and>
          wp (recv_udp_message sk (replicate BUFFER_SIZE NUL))
             (\<lambda>(r, b) v'. r = 0 \<and> cstr b = Some s \<and> inbox v' sk = ms) (\<lambda>_ _. False) v)))
    (\<lambda>_ _. False) w"
proof -
  have s: "NUL \<notin> set s" "length s < BUFFER_SIZE"
    using cstr_no_nul [OF assms(2)] cstr_length [OF assms(2)] assms(4) by simp_all
  show ?thesis
    unfolding send_message_padded [OF assms]
    by (simp add: padded.recv_frame [OF _ _ s(1) assms(3) s(2)] padded.recvfrom_frame [OF _ _ s(1) assms(3) s(2)]
        cstr_fit [OF s])
qed

theorem client_to_server_witness:
  "wp (send_message (Buf (''{}'' @ replicate 1022 NUL)) BUFFER_SIZE 4)
    (\<lambda>r w'. r = 0 \<and> (\<exists>m. sent w' = sent (demo_world [] []) @ [(4, m)] \<and>
       (\<forall>v sk ms. calm v \<and> inbox v sk = m # ms \<longrightarrow>
          wp (recv_tcp_message sk (replicate BUFFER_SIZE NUL))
             (\<lambda>(r, b) v'. r = 0 \<and> cstr b = Some ''{}'' \<and> inbox v' sk = ms) (\<lambda>_ _. False) (v :: world) \<and>
          wp (recv_udp_message sk (replicate BUFFER_SIZE NUL))
             (\<lambda>(r, b) v'. r = 0 \<and> cstr b = Some ''{}'' \<and> inbox v' sk = ms) (\<lambda>_ _. False) v)))
    (\<lambda>_ _. False) (demo_world [] [])"
  by (rule client_to_server [OF demo_world_calm])
     (simp_all add: cstr_def BUFFER_SIZE_def unconnected_def demo_world_def)

text \<open>From the server to the client. When no call fails, a text shorter than the buffer that the
  server sends is the text the client finds in its buffer.\<close>

theorem server_to_client:
  assumes "calm w" "cstr a = Some s" "s \<noteq> []" "length s < BUFFER_SIZE" "\<not> unconnected w fd"
  shows "wp (send_message (Buf a) (length s) fd)
    (\<lambda>r w'. r = 0 \<and> (\<exists>m. sent w' = sent w @ [(fd, m)] \<and>
       (\<forall>v sk ms. calm v \<and> inbox v sk = m # ms \<longrightarrow>
          wp (recv_tcp_message sk (replicate BUFFER_SIZE NUL))
             (\<lambda>(r, b) v'. r = 0 \<and> cstr b = Some s \<and> inbox v' sk = ms) (\<lambda>_ _. False) (v :: world))))
    (\<lambda>_ _. False) w"
proof -
  have s: "NUL \<notin> set s" using cstr_no_nul [OF assms(2)] .
  show ?thesis
    unfolding send_message_short [OF assms]
    by (simp add: bare.recv_frame [OF _ _ s assms(3,4)] bare.frame_text [OF s assms(4)])
qed

theorem server_to_client_witness:
  "wp (send_message (Buf (''{}'' @ [NUL])) (length ''{}'') 4)
    (\<lambda>r w'. r = 0 \<and> (\<exists>m. sent w' = sent (demo_world [] []) @ [(4, m)] \<and>
       (\<forall>v sk ms. calm v \<and> inbox v sk = m # ms \<longrightarrow>
          wp (recv_tcp_message sk (replicate BUFFER_SIZE NUL))
             (\<lambda>(r, b) v'. r = 0 \<and> cstr b = Some ''{}'' \<and> inbox v' sk = ms) (\<lambda>_ _. False) (v :: world))))
    (\<lambda>_ _. False) (demo_world [] [])"
  by (rule server_to_client [OF demo_world_calm])
     (simp_all add: cstr_def BUFFER_SIZE_def unconnected_def demo_world_def)

section \<open>Who meets whom\<close>

text \<open>What the four ways to open an end leave behind when no call fails.\<close>

lemma wp_socket [wp_simps]:
  "wp (socket d ty) Q E w = (if sys_err w (tick w) = 0
     then Q (next_fd w) (w\<lparr>next_fd := next_fd w + 1, sockets := (sockets w)(next_fd w \<mapsto>
        \<lparr>sk_domain = d, sk_type = ty, sk_bound = None, sk_listen = None, sk_peer = None\<rparr>), tick := Suc (tick w)\<rparr>)
     else Q (- 1) (w\<lparr>errno := sys_err w (tick w), tick := Suc (tick w)\<rparr>))"
  by (simp add: socket_def wp_simps)

lemma wp_on_socket [wp_simps]:
  "calm w \<Longrightarrow> sockets w fd = Some s \<Longrightarrow>
     wp (on_socket fd f) Q E w = Q 0 (w\<lparr>sockets := (sockets w)(fd \<mapsto> f s), tick := Suc (tick w)\<rparr>)"
  by (simp add: on_socket_def wp_simps)

definition listens_on :: "sock \<Rightarrow> int \<Rightarrow> int \<Rightarrow> nat \<Rightarrow> bool" where
  "listens_on s d ty p \<longleftrightarrow> sk_domain s = d \<and> sk_type s = ty \<and> sk_bound s = Some p \<and>
     sk_listen s = (if ty = SOCK_STREAM then Some N_CONN else None)"

definition talks_to :: "sock \<Rightarrow> int \<Rightarrow> int \<Rightarrow> string \<Rightarrow> nat \<Rightarrow> bool" where
  "talks_to s d ty ip p \<longleftrightarrow> sk_domain s = d \<and> sk_type s = ty \<and> sk_peer s = Some (ip, p)"

lemma server_ends:
  assumes "calm w" "0 \<le> next_fd w"
  shows "wp (connect_server_ipv4 ty)
      (\<lambda>(r, fd) w'. r = 0 \<and> (\<exists>s. sockets w' fd = Some s \<and> listens_on s AF_INET ty (if ty = 1 then 3333 else 2222)))
      (\<lambda>_ _. False) w"
    and "wp (connect_server_ipv6 ty)
      (\<lambda>(r, fd) w'. r = 0 \<and> (\<exists>s. sockets w' fd = Some s \<and> listens_on s AF_INET6 ty (if ty = 1 then 5555 else 4444)))
      (\<lambda>_ _. False) w"
  using assms
  by (auto simp: connect_server_ipv4_def connect_server_ipv6_def wp_simps bind_def listen_def Let_def listens_on_def
      ports SOCK_STREAM_def)

lemma client_ends:
  assumes "calm w" "0 \<le> next_fd w"
  shows "inet4_ok ip \<Longrightarrow> wp (connect_client_ipv4 ip ty)
      (\<lambda>(r, fd) w'. r = 0 \<and> (\<exists>s. sockets w' fd = Some s \<and> talks_to s AF_INET ty ip (if ty = 1 then 3333 else 2222)))
      (\<lambda>_ _. False) w"
    and "inet6_ok ip \<Longrightarrow> wp (connect_client_ipv6 ip ty)
      (\<lambda>(r, fd) w'. r = 0 \<and> (\<exists>s. sockets w' fd = Some s \<and> talks_to s AF_INET6 ty ip (if ty = 1 then 5555 else 4444)))
      (\<lambda>_ _. False) w"
  using assms
  by (auto simp: connect_client_ipv4_def connect_client_ipv6_def wp_simps connect_def Let_def talks_to_def ports)

text \<open>C26: The two ends meet. When no call fails, for both versions of IP and both types of socket, the
  server is bound to the port that the client connects to, a TCP server listens with its
  backlog, and both return success.\<close>

theorem ends_meet:
  assumes "calm w" "0 \<le> next_fd w" "calm v" "0 \<le> next_fd v" "inet4_ok ip4" "inet6_ok ip6"
  shows "\<exists>p4 p6. p4 \<noteq> p6 \<and>
    wp (connect_server_ipv4 ty) (\<lambda>(r, fd) w'. r = 0 \<and> (\<exists>s. sockets w' fd = Some s \<and> listens_on s AF_INET ty p4))
      (\<lambda>_ _. False) (w :: 'a world_scheme) \<and>
    wp (connect_client_ipv4 ip4 ty) (\<lambda>(r, fd) w'. r = 0 \<and> (\<exists>s. sockets w' fd = Some s \<and> talks_to s AF_INET ty ip4 p4))
      (\<lambda>_ _. False) (v :: 'b world_scheme) \<and>
    wp (connect_server_ipv6 ty) (\<lambda>(r, fd) w'. r = 0 \<and> (\<exists>s. sockets w' fd = Some s \<and> listens_on s AF_INET6 ty p6))
      (\<lambda>_ _. False) w \<and>
    wp (connect_client_ipv6 ip6 ty) (\<lambda>(r, fd) w'. r = 0 \<and> (\<exists>s. sockets w' fd = Some s \<and> talks_to s AF_INET6 ty ip6 p6))
      (\<lambda>_ _. False) v"
  by (rule exI [of _ "if ty = 1 then 3333 else 2222"], rule exI [of _ "if ty = 1 then 5555 else 4444"])
     (use server_ends [OF assms(1,2)] client_ends(1) [OF assms(3,4,5)] client_ends(2) [OF assms(3,4,6)] in auto)

theorem ends_meet_witness:
  "\<exists>p4 p6. p4 \<noteq> p6 \<and>
    wp (connect_server_ipv4 SOCK_DGRAM) (\<lambda>(r, fd) w'. r = 0 \<and> (\<exists>s. sockets w' fd = Some s \<and> listens_on s AF_INET SOCK_DGRAM p4))
      (\<lambda>_ _. False) (demo_world [] []) \<and>
    wp (connect_client_ipv4 ''127.0.0.1'' SOCK_DGRAM)
      (\<lambda>(r, fd) w'. r = 0 \<and> (\<exists>s. sockets w' fd = Some s \<and> talks_to s AF_INET SOCK_DGRAM ''127.0.0.1'' p4))
      (\<lambda>_ _. False) (demo_world [] []) \<and>
    wp (connect_server_ipv6 SOCK_DGRAM) (\<lambda>(r, fd) w'. r = 0 \<and> (\<exists>s. sockets w' fd = Some s \<and> listens_on s AF_INET6 SOCK_DGRAM p6))
      (\<lambda>_ _. False) (demo_world [] []) \<and>
    wp (connect_client_ipv6 ''::1'' SOCK_DGRAM)
      (\<lambda>(r, fd) w'. r = 0 \<and> (\<exists>s. sockets w' fd = Some s \<and> talks_to s AF_INET6 SOCK_DGRAM ''::1'' p6))
      (\<lambda>_ _. False) (demo_world [] [])"
proof (rule ends_meet [OF demo_world_calm _ demo_world_calm])
  show "inet4_ok ''127.0.0.1''" "inet6_ok ''::1''" by code_simp+
qed (simp_all add: demo_world_def)

end
