(* ===== verification/Server.thy ===== *)
theory Server
  imports Supplies_Data_Handler Alert_Module Emergency_Handler Comunication_Handler
begin

text \<open>
  The server, \<open>server/src/server.c\<close>. Its global variables are the fields of the record
  \<open>server\<close>. A run of the model follows one process: \<open>fork\<close> returns what the world says it
  returns to this process, so the theorems about all worlds hold of the parent and of
  every child. The endless loops take the number of rounds for which they are observed.
\<close>

section \<open>Constants and state\<close>

definition EAGAIN :: int where "EAGAIN = 11"

record server = alert_world +
  flag_handler :: int
  pipe_fd :: "int \<times> int"
  buffer :: "char list"
  sockfd :: int
  newsockfd :: int
  send_socket_buffer :: cptr
  recv_socket_buffer :: "char list"
  mutex_state :: "nat option"
  handlers :: "int list"

text \<open>The server's own fields come first in the normal form of a state.\<close>

lemma server_update_order [simp]:
  "send_socket_buffer_update send_socket_buffer' (recv_socket_buffer_update recv_socket_buffer' w) = recv_socket_buffer_update recv_socket_buffer' (send_socket_buffer_update send_socket_buffer' w)"
  "send_socket_buffer_update send_socket_buffer' (mutex_state_update mutex_state' w) = mutex_state_update mutex_state' (send_socket_buffer_update send_socket_buffer' w)"
  "send_socket_buffer_update send_socket_buffer' (files_update files' w) = files_update files' (send_socket_buffer_update send_socket_buffer' w)"
  "send_socket_buffer_update send_socket_buffer' (sent_update sent' w) = sent_update sent' (send_socket_buffer_update send_socket_buffer' w)"
  "send_socket_buffer_update send_socket_buffer' (inbox_update inbox' w) = inbox_update inbox' (send_socket_buffer_update send_socket_buffer' w)"
  "send_socket_buffer_update send_socket_buffer' (mqueue_update mqueue' w) = mqueue_update mqueue' (send_socket_buffer_update send_socket_buffer' w)"
  "send_socket_buffer_update send_socket_buffer' (pipe_data_update pipe_data' w) = pipe_data_update pipe_data' (send_socket_buffer_update send_socket_buffer' w)"
  "send_socket_buffer_update send_socket_buffer' (kills_update kills' w) = kills_update kills' (send_socket_buffer_update send_socket_buffer' w)"
  "send_socket_buffer_update send_socket_buffer' (closed_fds_update closed_fds' w) = closed_fds_update closed_fds' (send_socket_buffer_update send_socket_buffer' w)"
  "send_socket_buffer_update send_socket_buffer' (sockets_update sockets' w) = sockets_update sockets' (send_socket_buffer_update send_socket_buffer' w)"
  "send_socket_buffer_update send_socket_buffer' (next_fd_update next_fd' w) = next_fd_update next_fd' (send_socket_buffer_update send_socket_buffer' w)"
  "send_socket_buffer_update send_socket_buffer' (stdout_update stdout' w) = stdout_update stdout' (send_socket_buffer_update send_socket_buffer' w)"
  "send_socket_buffer_update send_socket_buffer' (stderr_update stderr' w) = stderr_update stderr' (send_socket_buffer_update send_socket_buffer' w)"
  "send_socket_buffer_update send_socket_buffer' (errno_update errno' w) = errno_update errno' (send_socket_buffer_update send_socket_buffer' w)"
  "send_socket_buffer_update send_socket_buffer' (live_mem_update live_mem' w) = live_mem_update live_mem' (send_socket_buffer_update send_socket_buffer' w)"
  "send_socket_buffer_update send_socket_buffer' (live_json_update live_json' w) = live_json_update live_json' (send_socket_buffer_update send_socket_buffer' w)"
  "send_socket_buffer_update send_socket_buffer' (tick_update tick' w) = tick_update tick' (send_socket_buffer_update send_socket_buffer' w)"
  "recv_socket_buffer_update recv_socket_buffer' (mutex_state_update mutex_state' w) = mutex_state_update mutex_state' (recv_socket_buffer_update recv_socket_buffer' w)"
  "recv_socket_buffer_update recv_socket_buffer' (files_update files' w) = files_update files' (recv_socket_buffer_update recv_socket_buffer' w)"
  "recv_socket_buffer_update recv_socket_buffer' (sent_update sent' w) = sent_update sent' (recv_socket_buffer_update recv_socket_buffer' w)"
  "recv_socket_buffer_update recv_socket_buffer' (inbox_update inbox' w) = inbox_update inbox' (recv_socket_buffer_update recv_socket_buffer' w)"
  "recv_socket_buffer_update recv_socket_buffer' (mqueue_update mqueue' w) = mqueue_update mqueue' (recv_socket_buffer_update recv_socket_buffer' w)"
  "recv_socket_buffer_update recv_socket_buffer' (pipe_data_update pipe_data' w) = pipe_data_update pipe_data' (recv_socket_buffer_update recv_socket_buffer' w)"
  "recv_socket_buffer_update recv_socket_buffer' (kills_update kills' w) = kills_update kills' (recv_socket_buffer_update recv_socket_buffer' w)"
  "recv_socket_buffer_update recv_socket_buffer' (closed_fds_update closed_fds' w) = closed_fds_update closed_fds' (recv_socket_buffer_update recv_socket_buffer' w)"
  "recv_socket_buffer_update recv_socket_buffer' (sockets_update sockets' w) = sockets_update sockets' (recv_socket_buffer_update recv_socket_buffer' w)"
  "recv_socket_buffer_update recv_socket_buffer' (next_fd_update next_fd' w) = next_fd_update next_fd' (recv_socket_buffer_update recv_socket_buffer' w)"
  "recv_socket_buffer_update recv_socket_buffer' (stdout_update stdout' w) = stdout_update stdout' (recv_socket_buffer_update recv_socket_buffer' w)"
  "recv_socket_buffer_update recv_socket_buffer' (stderr_update stderr' w) = stderr_update stderr' (recv_socket_buffer_update recv_socket_buffer' w)"
  "recv_socket_buffer_update recv_socket_buffer' (errno_update errno' w) = errno_update errno' (recv_socket_buffer_update recv_socket_buffer' w)"
  "recv_socket_buffer_update recv_socket_buffer' (live_mem_update live_mem' w) = live_mem_update live_mem' (recv_socket_buffer_update recv_socket_buffer' w)"
  "recv_socket_buffer_update recv_socket_buffer' (live_json_update live_json' w) = live_json_update live_json' (recv_socket_buffer_update recv_socket_buffer' w)"
  "recv_socket_buffer_update recv_socket_buffer' (tick_update tick' w) = tick_update tick' (recv_socket_buffer_update recv_socket_buffer' w)"
  "mutex_state_update mutex_state' (files_update files' w) = files_update files' (mutex_state_update mutex_state' w)"
  "mutex_state_update mutex_state' (sent_update sent' w) = sent_update sent' (mutex_state_update mutex_state' w)"
  "mutex_state_update mutex_state' (inbox_update inbox' w) = inbox_update inbox' (mutex_state_update mutex_state' w)"
  "mutex_state_update mutex_state' (mqueue_update mqueue' w) = mqueue_update mqueue' (mutex_state_update mutex_state' w)"
  "mutex_state_update mutex_state' (pipe_data_update pipe_data' w) = pipe_data_update pipe_data' (mutex_state_update mutex_state' w)"
  "mutex_state_update mutex_state' (kills_update kills' w) = kills_update kills' (mutex_state_update mutex_state' w)"
  "mutex_state_update mutex_state' (closed_fds_update closed_fds' w) = closed_fds_update closed_fds' (mutex_state_update mutex_state' w)"
  "mutex_state_update mutex_state' (sockets_update sockets' w) = sockets_update sockets' (mutex_state_update mutex_state' w)"
  "mutex_state_update mutex_state' (next_fd_update next_fd' w) = next_fd_update next_fd' (mutex_state_update mutex_state' w)"
  "mutex_state_update mutex_state' (stdout_update stdout' w) = stdout_update stdout' (mutex_state_update mutex_state' w)"
  "mutex_state_update mutex_state' (stderr_update stderr' w) = stderr_update stderr' (mutex_state_update mutex_state' w)"
  "mutex_state_update mutex_state' (errno_update errno' w) = errno_update errno' (mutex_state_update mutex_state' w)"
  "mutex_state_update mutex_state' (live_mem_update live_mem' w) = live_mem_update live_mem' (mutex_state_update mutex_state' w)"
  "mutex_state_update mutex_state' (live_json_update live_json' w) = live_json_update live_json' (mutex_state_update mutex_state' w)"
  "mutex_state_update mutex_state' (tick_update tick' w) = tick_update tick' (mutex_state_update mutex_state' w)"
  by simp_all

abbreviation srv_file :: string where "srv_file \<equiv> ''server/src/server.c''"

definition fork :: "('z world_scheme, int) comp" where
  "fork = bnd (gets (\<lambda>w. fork_pid w (tick w))) (\<lambda>p.
     thn (modify (\<lambda>w. w\<lparr>tick := Suc (tick w)\<rparr>)) (ret p))"

text \<open>An assignment to \<open>send_socket_buffer\<close> through its address.\<close>

definition set_ssb :: "cptr \<Rightarrow> ('z server_scheme, unit) comp" where
  "set_ssb p = modify (\<lambda>w. w\<lparr>send_socket_buffer := p\<rparr>)"

definition free_ssb :: "('z server_scheme, unit) comp" where
  "free_ssb = bnd (gets send_socket_buffer) (\<lambda>p. bnd (free_ptr p) set_ssb)"

section \<open>The supplies\<close>

definition sem_wait :: "('z server_scheme, unit) comp" where
  "sem_wait = bnd (gets mutex_state) (\<lambda>m. case m of
     None \<Rightarrow> halt (Undef Bad_Semaphore)
   | Some n \<Rightarrow> if n = 0 then halt Blocked else modify (\<lambda>w. w\<lparr>mutex_state := Some (n - 1)\<rparr>))"

definition sem_post :: "('z server_scheme, unit) comp" where
  "sem_post = bnd (gets mutex_state) (\<lambda>m. case m of
     None \<Rightarrow> halt (Undef Bad_Semaphore)
   | Some n \<Rightarrow> modify (\<lambda>w. w\<lparr>mutex_state := Some (n + 1)\<rparr>))"

definition set_supply :: "'j cjson_api \<Rightarrow> ('z server_scheme, int) comp" where
  "set_supply api =
     bnd (gets (\<lambda>w. Buf (recv_socket_buffer w))) (\<lambda>msg.
     bnd (get_value_of_key_from_json_string api msg (lit K_SUP_COMMAND_EQ) Null) (\<lambda>(r, category).
     if r \<noteq> 0 then thn (free_ptr category)
       (thn (error_handler ''Error get_value_of_key_from_json_string'' srv_file 578) (ret 1))
     else bnd (get_value_of_key_from_json_string api msg (lit K_KEY) Null) (\<lambda>(r, key).
     if r \<noteq> 0 then thn (free_ptr key)
       (thn (error_handler ''Error get_value_of_key_from_json_string'' srv_file 584) (ret 1))
     else bnd (get_value_of_key_from_json_string api msg (lit K_VALUE) Null) (\<lambda>(r, val).
     if r \<noteq> 0 then thn (free_ptr val)
       (thn (error_handler ''Error get_value_of_key_from_json_string'' srv_file 590) (ret 1))
     else bnd (gets send_socket_buffer) (\<lambda>ssb.
     bnd (set_supply_status api category key val ssb) (\<lambda>(r, ssb).
     thn (set_ssb ssb)
    (if r \<noteq> 0 then thn (error_handler ''Error set_supply_status'' srv_file 595) (ret 1)
     else thn (free_ptr category) (thn (free_ptr key) (thn (free_ptr val) (ret 0))))))))))"

definition send_text :: "int \<Rightarrow> ('z server_scheme, int) comp" where
  "send_text fd = bnd (gets send_socket_buffer) (\<lambda>p. bnd (read_str p) (\<lambda>s.
     send_message p (length s) fd))"

definition set_and_send_suply_status :: "'j cjson_api \<Rightarrow> int \<Rightarrow> ('z server_scheme, unit) comp" where
  "set_and_send_suply_status api fd =
     thn sem_wait
    (bnd (set_supply api) (\<lambda>r.
     if r \<noteq> 0 then thn (error_handler ''Error set_supply'' srv_file 493) (thn sem_post (halt (Exit 1)))
     else bnd (send_text fd) (\<lambda>r.
     if r \<noteq> 0 then thn (error_handler ''Error send_message'' srv_file 499) (thn sem_post (halt (Exit 1)))
     else thn free_ssb sem_post)))"

definition send_supply_message :: "int \<Rightarrow> ('z server_scheme, unit) comp" where
  "send_supply_message fd =
     bnd (gets send_socket_buffer) (\<lambda>ssb.
     bnd (get_supply_status ssb) (\<lambda>(r, ssb). thn (set_ssb ssb)
    (if r \<noteq> 0 then thn (error_handler ''Error get_supply_status'' srv_file 513) (halt (Exit 1))
     else bnd (send_text fd) (\<lambda>r.
     if r \<noteq> 0 then thn (error_handler ''Error send_message'' srv_file 518) (halt (Exit 1))
     else free_ssb))))"

definition send_supply_udp :: "int \<Rightarrow> ('z server_scheme, unit) comp" where
  "send_supply_udp fd =
     bnd (gets send_socket_buffer) (\<lambda>ssb.
     bnd (get_supply_status ssb) (\<lambda>(r, ssb). thn (set_ssb ssb)
    (if r \<noteq> 0 then thn (error_handler ''Error get_supply_status'' srv_file 394) (halt (Exit 1))
     else bnd (send_udp_message fd ssb) (\<lambda>r.
     if r \<noteq> 0 then thn (error_handler ''Error send_message'' srv_file 400) (halt (Exit 1))
     else free_ssb))))"

section \<open>The one-key messages\<close>

text \<open>A fresh block of \<open>BUFFER_SIZE\<close> bytes is handed, uninitialised, to the function that
  parses it as JSON before it adds the key. When the allocation fails the code reports it
  and goes on.\<close>

definition alloc_ssb :: "nat \<Rightarrow> ('z server_scheme, unit) comp" where
  "alloc_ssb line = bnd (malloc BUFFER_SIZE) (\<lambda>p. thn (set_ssb p)
     (bnd (is_null p) (\<lambda>null. if null then error_handler ''Error allocating memory'' srv_file line else ret ())))"

definition add_to_ssb :: "'j cjson_api \<Rightarrow> string \<Rightarrow> string \<Rightarrow> nat \<Rightarrow> ('z server_scheme, unit) comp" where
  "add_to_ssb api key val line = bnd (gets send_socket_buffer) (\<lambda>p.
     bnd (cjson_add_key_value_to_json_string api p (lit key) (lit val) OVERRIDE) (\<lambda>(r, p). thn (set_ssb p)
    (if r \<noteq> 0 then thn free_ssb
       (thn (error_handler ''Error json_add_key_value_to_json_string'' srv_file line) (halt (Exit 1)))
     else ret ())))"

definition send_deneid_message :: "'j cjson_api \<Rightarrow> int \<Rightarrow> ('z server_scheme, unit) comp" where
  "send_deneid_message api fd =
     thn (alloc_ssb 530)
    (thn (add_to_ssb api K_ACC_DENEID TRUE_text 535)
    (bnd (send_text fd) (\<lambda>r.
     if r \<noteq> 0 then thn free_ssb (thn (error_handler ''Error send_message'' srv_file 541) (halt (Exit 1)))
     else free_ssb)))"

definition send_end_conn_message :: "'j cjson_api \<Rightarrow> int \<Rightarrow> ('z server_scheme, unit) comp" where
  "send_end_conn_message api fd =
     thn (alloc_ssb 552)
    (thn (add_to_ssb api K_END TRUE_text 557)
    (bnd (send_text fd) (\<lambda>r.
     if r \<noteq> 0 then thn free_ssb (thn (error_handler ''Error send_message'' srv_file 563) (halt (Exit 1)))
     else free_ssb)))"

definition send_deneid_udp_message :: "'j cjson_api \<Rightarrow> int \<Rightarrow> ('z server_scheme, unit) comp" where
  "send_deneid_udp_message api fd =
     thn (alloc_ssb 412)
    (thn (add_to_ssb api K_ACC_DENEID M_ACC_DENEID 417)
    (bnd (bnd (gets send_socket_buffer) (send_udp_message fd)) (\<lambda>r.
     if r \<noteq> 0 then thn free_ssb (thn (error_handler ''Error send_message'' srv_file 423) (halt (Exit 1)))
     else free_ssb)))"

definition make_deneid_message :: "'j cjson_api \<Rightarrow> ('z server_scheme, unit) comp" where
  "make_deneid_message api =
     thn (print (''Only the administrator can modify the data.'' @ [NL]))
    (bnd (gets send_socket_buffer) (\<lambda>ssb.
     bnd (get_supply_status ssb) (\<lambda>(r, ssb). thn (set_ssb ssb)
    (if r \<noteq> 0 then thn (error_handler ''Error get_supply_status'' srv_file 608) (halt (Exit 1))
     else bnd (cjson_add_key_value_to_json_string api ssb (lit K_ACC_DENEID) (lit TRUE_text) OVERRIDE) (\<lambda>(r, ssb).
       set_ssb ssb)))))"

section \<open>Credentials and commands\<close>

text \<open>The two pointers of \<open>check_credentials\<close> and the one of \<open>get_command\<close> are not initialised,
  so a failed lookup hands an indeterminate pointer to \<open>free_ptr\<close>.\<close>

definition check_credentials :: "'j cjson_api \<Rightarrow> ('z server_scheme, int) comp" where
  "check_credentials api =
     bnd (gets (\<lambda>w. Buf (recv_socket_buffer w))) (\<lambda>msg.
     bnd (get_value_of_key_from_json_string api msg (lit K_HOSTNAME) Indet) (\<lambda>(r, username).
     if r \<noteq> 0 then thn (free_ptr username)
       (thn (error_handler ''Error get_value_of_key_from_json_string'' srv_file 622) (ret 1))
     else bnd (get_value_of_key_from_json_string api msg (lit K_PASSWORD) Indet) (\<lambda>(r, password).
     if r \<noteq> 0 then thn (free_ptr password)
       (thn (error_handler ''Error get_value_of_key_from_json_string'' srv_file 628) (ret 1))
     else bnd (read_str username) (\<lambda>u.
     bnd (if u = ADMIN then bnd (read_str password) (\<lambda>p. ret (p = ADMIN)) else ret False) (\<lambda>admin.
     thn (free_ptr password) (thn (free_ptr username) (ret (if admin then 0 else 1))))))))"

definition get_command :: "'j cjson_api \<Rightarrow> ('z server_scheme, int) comp" where
  "get_command api =
     bnd (gets flag_handler) (\<lambda>flag. if flag \<noteq> 0 then ret 0 else
     bnd (gets (\<lambda>w. Buf (recv_socket_buffer w))) (\<lambda>msg.
     bnd (get_value_of_key_from_json_string api msg (lit K_COMMAND) Indet) (\<lambda>(r, c_buffer).
     if r \<noteq> 0 then thn (free_ptr c_buffer)
       (thn (error_handler ''Error get_value_of_key_from_json_string'' srv_file 652) (ret (- 1)))
     else bnd (read_str c_buffer) (\<lambda>s. thn (free_ptr c_buffer) (ret (atoi s))))))"

section \<open>The end of a connection\<close>

definition fcntl :: "('z world_scheme, int) comp" where
  "fcntl = bnd sys (\<lambda>ok. ret (if ok then 0 else - 1))"

text \<open>\<open>read\<close> of at most \<open>n\<close> bytes from the pipe in non-blocking mode: an error (\<open>EAGAIN\<close> when it
  is empty and its writer still there), the end of the data, or some bytes.\<close>

definition read_pipe :: "char list \<Rightarrow> nat \<Rightarrow> ('z world_scheme, int \<times> char list) comp" where
  "read_pipe a n = bnd sys (\<lambda>ok. if \<not> ok then ret (- 1, a)
     else bnd (gets pipe_data) (\<lambda>d. let got = take n d in
       if length a < length got then halt (Undef Buffer_Overflow)
       else thn (modify (\<lambda>w. w\<lparr>pipe_data := drop n d\<rparr>))
                (ret (int (length got), got @ drop (length got) a))))"

definition msgctl_rmid :: "('z world_scheme, unit) comp" where
  "msgctl_rmid = bnd sys (\<lambda>ok. if ok then modify (\<lambda>w. w\<lparr>mqueue := []\<rparr>) else ret ())"

definition end_conn :: "'j cjson_api \<Rightarrow> int \<Rightarrow> ('z server_scheme, unit) comp" where
  "end_conn api fd =
     bnd (gets pipe_fd) (\<lambda>pfd. bnd (gets pid) (\<lambda>me.
     bnd fcntl (\<lambda>flags. if flags = - 1 then thn (perror ''fcntl'') (halt (Exit 1))
     else bnd fcntl (\<lambda>r. if r = - 1 then thn (perror ''fcntl'') (halt (Exit 1))
     else thn (print (''Sending end connection, PID: '' @ show_int me @ ''.'' @ [NL]))
    (bnd (gets buffer) (\<lambda>buf. bnd (read_pipe buf (length buf)) (\<lambda>(bytes_read, buf).
     thn (modify (\<lambda>w. w\<lparr>buffer := buf\<rparr>))
    (thn (if bytes_read = - 1
          then thn (perror ''read'') (bnd (gets errno) (\<lambda>e.
            if e = EAGAIN
            then print (''No hay datos disponibles para leer en este momento, PID: '' @ show_int me @ ''.'' @ [NL])
            else thn (close (fst pfd)) (thn (sleep 5) (thn (send_end_conn_message api fd)
                (thn (close fd) (halt (Exit 1)))))))
          else if 0 < bytes_read
          then bnd (read_str (Buf buf)) (\<lambda>s.
            print (''Mensaje recibido en el proceso padre: '' @ s @ [NL]))
          else ret ())
    (thn (close (fst pfd))
    (thn (send_end_conn_message api fd)
    (thn (sleep 5)
    (thn (close fd)
    (thn (modify (\<lambda>w. w\<lparr>mutex_state := None\<rparr>))
    (thn msgctl_rmid
    (thn (kill_parent SIGTSTP)
         (halt (Exit 0)))))))))))))))))"

text \<open>The text printed on \<open>SIGINT\<close> carries the indentation of the source after its line
  continuations.\<close>

definition sigint_text :: string where
  "sigint_text = replicate 12 (CHR '' '') @ ''The server is not accepting any more connections.'' @
     replicate 12 (CHR '' '') @ [NL] @ ''The received messages will close the client connection.'' @ [NL]"

definition sign_handler :: "'j cjson_api \<Rightarrow> int \<Rightarrow> ('z server_scheme, unit) comp" where
  "sign_handler api signal =
     (if signal = SIGINT
      then thn (modify (\<lambda>w. w\<lparr>flag_handler := 1\<rparr>))
          (thn (print sigint_text)
          (bnd (gets newsockfd) (end_conn api)))
      else if signal = SIGTSTP
      then thn (print (''SIGTSTP called'' @ [NL]))
          (thn (print (replicate 12 (CHR '' '') @ ''The server connection is close.'' @ [NL]))
          (thn (sleep 5)
          (bnd (gets newsockfd) (\<lambda>fd. thn (end_conn api fd) (halt (Exit 0))))))
      else ret ())"

definition sigaction :: "int \<Rightarrow> string \<Rightarrow> ('z server_scheme, unit) comp" where
  "sigaction sig msg = bnd sys (\<lambda>ok.
     if ok then modify (\<lambda>w. w\<lparr>handlers := handlers w @ [sig]\<rparr>)
     else thn (perror msg) (halt (Exit 1)))"

definition set_signal_handlers :: "('z server_scheme, unit) comp" where
  "set_signal_handlers =
     thn (sigaction SIGINT ''Couldn't set SIGINT handler'')
    (thn (sigaction SIGTSTP ''Couldn't set SIGTSTP handler'')
         (sigaction SIGTERM ''Couldn't set SIGTERM handler''))"

section \<open>The request loops\<close>

definition announce :: "('z server_scheme, unit) comp" where
  "announce = bnd (gets pid) (\<lambda>me. thn (print (''PROCESO '' @ show_int me @ ''. ''))
     (bnd (gets (\<lambda>w. Buf (recv_socket_buffer w))) (\<lambda>p. bnd (read_str p) (\<lambda>s.
     print (''Recib'' @ [CHR 0xC3, CHR 0xAD] @ '': '' @ s @ [NL])))))"

text \<open>One round of \<open>run_admin_server\<close>, split where the request has been read.\<close>

definition admin_request :: "'j cjson_api \<Rightarrow> int \<Rightarrow> ('z server_scheme, unit) comp" where
  "admin_request api fd =
     bnd (get_command api) (\<lambda>c.
     if c = CLOSE_CONNECTION then end_conn api fd
     else if c = OPTION1_n then send_supply_message fd
     else if c = OPTION2_n then bnd (check_credentials api) (\<lambda>denied.
       if denied \<noteq> 0 then send_deneid_message api fd else set_and_send_suply_status api fd)
     else print (''Command error'' @ [NL]))"

definition admin_round :: "'j cjson_api \<Rightarrow> int \<Rightarrow> ('z server_scheme, unit) comp" where
  "admin_round api fd =
     thn (modify (\<lambda>w. w\<lparr>recv_socket_buffer := replicate BUFFER_SIZE NUL\<rparr>))
    (bnd (gets recv_socket_buffer) (\<lambda>b. bnd (recv_tcp_message fd b) (\<lambda>(r, b).
     thn (modify (\<lambda>w. w\<lparr>recv_socket_buffer := b\<rparr>))
    (if r \<noteq> 0 then thn (error_handler ''Error recv_tcp_message'' srv_file 326) (halt (Exit 1))
     else thn announce (thn (sleep 1) (admin_request api fd))))))"

primrec run_admin_server :: "'j cjson_api \<Rightarrow> int \<Rightarrow> nat \<Rightarrow> ('z server_scheme, unit) comp" where
  "run_admin_server api fd 0 = halt Running"
| "run_admin_server api fd (Suc n) = thn (admin_round api fd) (run_admin_server api fd n)"

definition user_request :: "'j cjson_api \<Rightarrow> int \<Rightarrow> ('z server_scheme, unit) comp" where
  "user_request api fd =
     bnd (get_command api) (\<lambda>c.
     if c = CLOSE_CONNECTION then end_conn api fd
     else if c = OPTION1_n then send_supply_udp fd
     else if c = OPTION2_n then send_deneid_udp_message api fd
     else print (''Command error'' @ [NL]))"

definition user_round :: "'j cjson_api \<Rightarrow> int \<Rightarrow> ('z server_scheme, unit) comp" where
  "user_round api fd =
     thn (sleep 2)
    (thn (modify (\<lambda>w. w\<lparr>recv_socket_buffer := replicate BUFFER_SIZE NUL\<rparr>))
    (bnd (gets recv_socket_buffer) (\<lambda>b. bnd (recv_udp_message fd b) (\<lambda>(r, b).
     thn (modify (\<lambda>w. w\<lparr>recv_socket_buffer := b\<rparr>))
    (if r \<noteq> 0 then thn (error_handler ''Error recv_udp_message'' srv_file 366) (halt (Exit 1))
     else thn announce (user_request api fd))))))"

primrec run_normal_user_server :: "'j cjson_api \<Rightarrow> int \<Rightarrow> nat \<Rightarrow> ('z server_scheme, unit) comp" where
  "run_normal_user_server api fd 0 = halt Running"
| "run_normal_user_server api fd (Suc n) = thn (user_round api fd) (run_normal_user_server api fd n)"

section \<open>Processes\<close>

definition accept :: "int \<Rightarrow> ('z world_scheme, int) comp" where
  "accept fd = bnd sys (\<lambda>ok.
     if ok then bnd (gets next_fd) (\<lambda>nfd.
       thn (modify (\<lambda>w. w\<lparr>next_fd := nfd + 1, sockets := (sockets w)(nfd \<mapsto>
              \<lparr>sk_domain = (case sockets w fd of None \<Rightarrow> 0 | Some s \<Rightarrow> sk_domain s), sk_type = SOCK_STREAM,
               sk_bound = None, sk_listen = None, sk_peer = Some ([], 0)\<rparr>)\<rparr>)) (ret nfd))
     else ret (- 1))"

definition open_pipe :: "('z server_scheme, int) comp" where
  "open_pipe = bnd sys (\<lambda>ok.
     if ok then bnd (gets next_fd) (\<lambda>fd. thn (modify (\<lambda>w. w\<lparr>next_fd := fd + 2, pipe_data := [],
            pipe_fd := (fd, fd + 1)\<rparr>)) (ret 0))
     else ret (- 1))"

text \<open>The arguments \<open>al\<close> and \<open>el\<close> are the source lines of the two error messages, which the
  IPv4 and the IPv6 version do not share. What the child of an accepted connection does: it forks again, into the emergency
  process and the process that serves the connection.\<close>

definition connection_child :: "'j cjson_api \<Rightarrow> nat \<Rightarrow> nat \<Rightarrow> ('z server_scheme, unit) comp" where
  "connection_child api el rounds =
     bnd (gets sockfd) (\<lambda>fd. thn (close fd)
    (bnd open_pipe (\<lambda>r. if r = - 1 then thn (perror ''pipe'') (halt (Exit 1))
     else bnd fork (\<lambda>p.
     if p = - 1 then thn (perror ''fork'') (halt (Exit 1))
     else if p = 0
     then bnd (gets pipe_fd) (\<lambda>pfd. bnd (run_emergency_handler api pfd) (\<lambda>r.
       if r \<noteq> 0 then thn (error_handler ''Error run_emergency_handler'' srv_file el) (halt (Exit 1))
       else halt (Exit 0)))
     else bnd (gets pipe_fd) (\<lambda>pfd. thn (close (snd pfd))
         (bnd (gets newsockfd) (\<lambda>nfd. run_admin_server api nfd rounds)))))))"

definition accept_round :: "'j cjson_api \<Rightarrow> nat \<Rightarrow> nat \<Rightarrow> nat \<Rightarrow> ('z server_scheme, unit) comp" where
  "accept_round api al el rounds =
     bnd (gets sockfd) (\<lambda>fd. bnd (accept fd) (\<lambda>nfd.
     thn (modify (\<lambda>w. w\<lparr>newsockfd := nfd\<rparr>))
    (if nfd = - 1 then thn (error_handler ''Error accept'' srv_file al) (halt (Exit 1))
     else bnd fork (\<lambda>p.
     if p = 0 then connection_child api el rounds
     else thn (print (''SERVIDOR PID: '' @ show_int p @ '', New client connected'' @ [NL])) (close nfd)))))"

primrec accept_loop :: "'j cjson_api \<Rightarrow> nat \<Rightarrow> nat \<Rightarrow> nat \<Rightarrow> nat \<Rightarrow> ('z server_scheme, unit) comp" where
  "accept_loop api al el rounds 0 = halt Running"
| "accept_loop api al el rounds (Suc n) = thn (accept_round api al el rounds) (accept_loop api al el rounds n)"

definition run_server_ipv4 :: "'j cjson_api \<Rightarrow> int \<Rightarrow> nat \<Rightarrow> ('z server_scheme, unit) comp" where
  "run_server_ipv4 api type rounds =
     bnd (connect_server_ipv4 type) (\<lambda>(r, fd). thn (modify (\<lambda>w. w\<lparr>sockfd := fd\<rparr>))
    (if r \<noteq> 0 then halt (Exit 1)
     else if type = SOCK_STREAM then accept_loop api 191 219 rounds rounds
     else if type = SOCK_DGRAM then run_normal_user_server api fd rounds
     else ret ()))"

definition run_server_ipv6 :: "'j cjson_api \<Rightarrow> int \<Rightarrow> nat \<Rightarrow> ('z server_scheme, unit) comp" where
  "run_server_ipv6 api type rounds =
     bnd (connect_server_ipv6 type) (\<lambda>(r, fd). thn (modify (\<lambda>w. w\<lparr>sockfd := fd\<rparr>))
    (if r \<noteq> 0 then halt (Exit 1)
     else if type = SOCK_STREAM then accept_loop api 263 291 rounds rounds
     else if type = SOCK_DGRAM then run_normal_user_server api fd rounds
     else ret ()))"

section \<open>The alert queue\<close>

text \<open>The identifier that \<open>msgget\<close> returns is any non-negative \<open>int\<close>.\<close>

definition msgget :: "('z world_scheme, int) comp" where
  "msgget = bnd (gets (\<lambda>w. int (rnd w (tick w)) mod 2 ^ 31)) (\<lambda>q. bnd sys (\<lambda>ok. ret (if ok then q else - 1)))"

definition create_message_queue :: "('z server_scheme, int) comp" where
  "create_message_queue =
     bnd sys (\<lambda>key. if \<not> key then thn (error_handler ''Error ftok'' srv_file 144) (halt (Exit 1))
     else bnd msgget (\<lambda>q. thn (modify (\<lambda>w. w\<lparr>msg_id := q\<rparr>))
    (thn (print (''QID = '' @ show_int q @ [NL]))
    (if q = - 1 then thn (error_handler ''msgget error'' srv_file 151) (halt (Exit 1))
     else ret 0))))"

text \<open>\<open>msgrcv\<close> of the first message of type \<open>ty\<close> into the bytes behind \<open>mtype\<close>, of which the
  structure has \<open>mess_t_tail\<close>; it waits if there is none.\<close>

fun take_message :: "int \<Rightarrow> (int \<times> string) list \<Rightarrow> (string \<times> (int \<times> string) list) option" where
  "take_message ty [] = None"
| "take_message ty ((t, m) # q) = (if t = ty then Some (m, q)
     else map_option (\<lambda>(m', q'). (m', (t, m) # q')) (take_message ty q))"

definition msgrcv :: "char list \<Rightarrow> nat \<Rightarrow> int \<Rightarrow> ('z world_scheme, int \<times> char list) comp" where
  "msgrcv tail msgsz ty = bnd sys (\<lambda>ok. if \<not> ok then ret (- 1, tail)
     else bnd (gets mqueue) (\<lambda>q. case take_message ty q of
       None \<Rightarrow> halt Blocked
     | Some (m, q') \<Rightarrow>
         if msgsz < length m then thn (modify (\<lambda>w. w\<lparr>errno := 7\<rparr>)) (ret (- 1, tail))
         else if length tail < length m then halt (Undef Buffer_Overflow)
         else thn (modify (\<lambda>w. w\<lparr>mqueue := q'\<rparr>))
                  (ret (int (length m), m @ drop (length m) tail))))"

definition listener_round :: "char list \<Rightarrow> ('z world_scheme, char list) comp" where
  "listener_round tail =
     bnd (msgrcv tail sizeof_mess_t 1) (\<lambda>(n, tail).
     if n = - 1 then thn (perror ''msgrcv error'') (halt (Exit 1))
     else bnd (read_str (Buf tail)) (\<lambda>s. thn (print (''Mensaje recibido: '' @ s @ [NL])) (ret tail)))"

primrec listener_loop :: "nat \<Rightarrow> char list \<Rightarrow> ('z world_scheme, unit) comp" where
  "listener_loop 0 tail = halt Running"
| "listener_loop (Suc n) tail = bnd (listener_round tail) (listener_loop n)"

definition alert_and_emergency_listener :: "nat \<Rightarrow> ('z world_scheme, unit) comp" where
  "alert_and_emergency_listener rounds = bnd (local_array mess_t_tail) (listener_loop rounds)"

section \<open>The main process\<close>

definition wait_c :: "('z world_scheme, int \<times> nat) comp" where
  "wait_c = bnd (gets (\<lambda>w. wait_ret w (tick w))) (\<lambda>r.
     thn (modify (\<lambda>w. w\<lparr>tick := Suc (tick w)\<rparr>)) (ret r))"

text \<open>The macros on a status: the low seven bits are the signal (\<open>0\<close> for a normal exit, \<open>127\<close>
  for a stopped child), the next byte the exit status or the stop signal.\<close>

definition status_text :: "int \<Rightarrow> nat \<Rightarrow> string" where
  "status_text c status =
     (let sig = status mod 128; high = status div 256 mod 256 in
      if sig = 0 then ''Child '' @ show_int c @ '', status: '' @ show_nat high @ [NL]
      else if sig < 127 then ''Finished child '' @ show_int c @ '', status:'' @ show_nat sig @ [NL]
      else if status mod 256 = 127 then ''Error child '' @ show_int c @ '', status '' @ show_nat high @ [NL]
      else [])"

primrec wait_loop :: "nat \<Rightarrow> ('z world_scheme, unit) comp" where
  "wait_loop 0 = ret ()"
| "wait_loop (Suc child_process) = bnd wait_c (\<lambda>(c, status).
     thn (let m = status_text c status in if m = [] then ret () else print m) (wait_loop child_process))"

text \<open>One \<open>fork\<close> of \<open>main\<close>: the child runs its part and exits, the parent goes on.\<close>

definition start_child ::
  "('z server_scheme, unit) comp \<Rightarrow> ('z server_scheme, unit) comp \<Rightarrow> ('z server_scheme, unit) comp \<Rightarrow>
   ('z server_scheme, unit) comp" where
  "start_child child failed rest = bnd fork (\<lambda>p.
     if p = 0 then thn child (halt (Exit 0))
     else if 0 < p then rest
     else thn failed (halt (Exit 1)))"

definition fork_error :: "nat \<Rightarrow> ('z server_scheme, unit) comp" where
  "fork_error line = error_handler ''Error creating process 1'' srv_file line"

definition fork_error_2 :: "('z server_scheme, unit) comp" where
  "fork_error_2 = bnd (gets errno) (\<lambda>e. diag (''Error creating process 2. Errno: '' @ show_int e @ [NL]))"

definition server_main :: "'j cjson_api \<Rightarrow> nat \<Rightarrow> ('z server_scheme, unit) comp" where
  "server_main api rounds =
     thn set_signal_handlers
    (thn create_message_queue
    (thn (modify (\<lambda>w. w\<lparr>mutex_state := Some 1\<rparr>))
    (start_child (run_server_ipv4 api SOCK_STREAM rounds) (fork_error 28)
    (start_child (run_server_ipv4 api SOCK_DGRAM rounds) (fork_error 45)
    (start_child (run_server_ipv6 api SOCK_STREAM rounds) fork_error_2
    (start_child (run_server_ipv6 api SOCK_DGRAM rounds) fork_error_2
    (start_child (run_alert_module api rounds) fork_error_2
    (start_child (alert_and_emergency_listener rounds) fork_error_2
    (thn (wait_loop 6) (halt (Exit 0)))))))))))"

end
