(* ===== verification/Server_Security.thy ===== *)
theory Server_Security
  imports Server
begin

text \<open>
  What requests can and cannot do to the state file. In every world, with every pattern of
  failing calls, the UDP server writes no file, and the TCP server writes one only for an
  update request with the administrator's credentials.
\<close>

section \<open>What the operations leave alone\<close>

text \<open>What a request handler must not touch: the files, what is still to be received, the
  request itself.\<close>

abbreviation core :: "'z server_scheme \<Rightarrow> (string \<rightharpoonup> string) \<times> (int \<Rightarrow> string list) \<times> char list" where
  "core \<equiv> (\<lambda>w. (files w, inbox w, recv_socket_buffer w))"

lemma quiet_core [simp]: "quiet core"
  by (simp add: quiet_def)

lemma keeps_core_basic [frame_intros]:
  "keeps core (set_ssb p)" "keeps core sem_wait" "keeps core sem_post" "keeps core fork"
  "keeps core fcntl" "keeps core (read_pipe a n)" "keeps core msgctl_rmid" "keeps core msgget"
  "keeps core (accept fd)" "keeps core open_pipe" "keeps core (sigaction sig msg)" "keeps core wait_c"
  "keeps core (kill_parent s)" "keeps core announce" "keeps core free_ssb"
  unfolding set_ssb_def sem_wait_def sem_post_def fork_def fcntl_def read_pipe_def msgctl_rmid_def
    msgget_def accept_def open_pipe_def sigaction_def wait_c_def announce_def free_ssb_def Let_def
  by (intro frame_intros; simp)+

lemma keeps_core_messages [frame_intros]:
  "keeps core (alloc_ssb l)" "keeps core (add_to_ssb api k v l)" "keeps core (send_text fd)"
  unfolding alloc_ssb_def add_to_ssb_def send_text_def
  by (intro frame_intros; simp)+

lemma keeps_core_replies [frame_intros]:
  "keeps core (send_supply_message fd)" "keeps core (send_supply_udp fd)"
  "keeps core (send_deneid_message api fd)" "keeps core (send_end_conn_message api fd)"
  "keeps core (send_deneid_udp_message api fd)" "keeps core (make_deneid_message api)"
  unfolding send_supply_message_def send_supply_udp_def get_supply_status_def send_deneid_message_def
    send_end_conn_message_def send_deneid_udp_message_def make_deneid_message_def
  by (intro frame_intros; simp)+

lemma keeps_core_control [frame_intros]:
  "keeps core (check_credentials api)" "keeps core (get_command api)" "keeps core (end_conn api fd)"
  unfolding check_credentials_def get_command_def end_conn_def
  by (intro frame_intros; simp)+

lemma keeps_core_requests [frame_intros]:
  "keeps core (user_request api fd)" "keeps core (sign_handler api s)"
  unfolding user_request_def sign_handler_def
  by (intro frame_intros; simp)+

lemma keeps_files_user_server [frame_intros]: "keeps files (run_normal_user_server api fd n)"
proof -
  have "keeps files (user_request api fd)" "keeps files announce"
    using keeps_comp [OF keeps_core_requests(1), where g = fst]
      keeps_comp [OF keeps_core_basic(14), where g = fst] by simp_all
  then have "keeps files (user_round api fd)"
    unfolding user_round_def by (intro frame_intros; simp)
  then show ?thesis by (induction n) (auto intro!: frame_intros)
qed

text \<open>An update request leaves the request and the inbox alone, and all files but the state file.\<close>

abbreviation pending :: "'z server_scheme \<Rightarrow> (int \<Rightarrow> string list) \<times> char list" where
  "pending \<equiv> (\<lambda>w. (inbox w, recv_socket_buffer w))"

lemma keeps_core_pending: "keeps core m \<Longrightarrow> keeps pending m"
  using keeps_comp [of core m snd] by simp

lemma keeps_core_files: "keeps core m \<Longrightarrow> keeps (\<lambda>w. files w p) m"
  using keeps_comp [of core m "\<lambda>c. fst c p"] by simp

lemma keeps_pending_update [frame_intros]: "keeps pending (set_and_send_suply_status api fd)"
  unfolding set_and_send_suply_status_def set_supply_def
  by (intro frame_intros keeps_core_pending [OF keeps_core_basic(1)] keeps_core_pending [OF keeps_core_basic(2)]
      keeps_core_pending [OF keeps_core_basic(3)] keeps_core_pending [OF keeps_core_basic(15)]
      keeps_core_pending [OF keeps_core_messages(3)]; simp add: quiet_def)

lemma update_other_files [frame_intros]:
  "p \<noteq> JSON_FILE_PATH \<Longrightarrow> keeps (\<lambda>w. files w p) (set_and_send_suply_status api fd)"
  unfolding set_and_send_suply_status_def set_supply_def
  by (intro frame_intros keeps_core_files [OF keeps_core_basic(1)] keeps_core_files [OF keeps_core_basic(2)]
      keeps_core_files [OF keeps_core_basic(3)] keeps_core_files [OF keeps_core_basic(15)]
      keeps_core_files [OF keeps_core_messages(3)]; simp add: quiet_def)

text \<open>The credentials are accepted only if both fields hold the administrator's name.\<close>

definition granted :: "'j cjson_api \<Rightarrow> char list \<Rightarrow> bool" where
  "granted api a \<longleftrightarrow> field api a K_HOSTNAME = Some ADMIN \<and> field api a K_PASSWORD = Some ADMIN"

definition update_allowed :: "'j cjson_api \<Rightarrow> 'z server_scheme \<Rightarrow> bool" where
  "update_allowed api w \<longleftrightarrow> flag_handler w = 0 \<and> granted api (recv_socket_buffer w) \<and>
     (\<exists>s. field api (recv_socket_buffer w) K_COMMAND = Some s \<and> atoi s = 2)"

context cjson_lib
begin

lemma check_credentials_sound:
  "wp (check_credentials api) (\<lambda>r w'. r = 0 \<longrightarrow> granted api (recv_socket_buffer w)) (\<lambda>_ _. True) w"
  unfolding check_credentials_def wp_bnd wp_gets
  by (rule wp_lookup; (simp add: wp_simps)?)
     (rule wp_lookup; simp add: wp_simps granted_def)

lemma get_command_sound:
  "wp (get_command api) (\<lambda>c w'. c \<noteq> 0 \<longrightarrow> flag_handler w = 0 \<and>
     (\<exists>s. field api (recv_socket_buffer w) K_COMMAND = Some s \<and> c = atoi s)) (\<lambda>_ _. True) w"
  unfolding get_command_def wp_bnd wp_gets wp_if wp_ret
  by (auto intro!: wp_lookup simp: wp_simps)

text \<open>In every world: a request changes a file only if it is an update with the
  administrator's credentials, and then only the state file.\<close>

lemma admin_request_safe:
  "wp (admin_request api fd)
     (\<lambda>_ w'. files w' = files w \<or> update_allowed api w) (\<lambda>_ w'. files w' = files w \<or> update_allowed api w) w"
proof -
  let ?P = "\<lambda>w'. files w' = files w \<or> update_allowed api w"
  have same: "wp m (\<lambda>_. ?P) (\<lambda>_. ?P) w'" if "keeps core m" "core w' = core w" for m :: "('b server_scheme, unit) comp" and w'
    using wp_frame [OF that(1), of w'] that(2) by (auto elim!: wp_mono)
  have update: "wp (set_and_send_suply_status api fd) (\<lambda>_. ?P) (\<lambda>_. ?P) w'" if "update_allowed api w" for w'
    using that by (simp add: wp_true)
  have creds: "wp (check_credentials api) (\<lambda>denied. wp (if denied \<noteq> 0 then send_deneid_message api fd
      else set_and_send_suply_status api fd) (\<lambda>_. ?P) (\<lambda>_. ?P)) (\<lambda>_. ?P) w'"
    if c: "core w' = core w" "flag_handler w = 0" "field api (recv_socket_buffer w) K_COMMAND = Some s" "atoi s = 2" for w' s
  proof (rule wp_mono [OF wp_keeps [OF keeps_core_control(1) check_credentials_sound]])
    fix r t
    assume a: "(r = 0 \<longrightarrow> granted api (recv_socket_buffer w')) \<and> core t = core w'"
    show "wp (if r \<noteq> 0 then send_deneid_message api fd else set_and_send_suply_status api fd) (\<lambda>_. ?P) (\<lambda>_. ?P) t"
    proof (cases "r = 0")
      case True
      with a c have "update_allowed api w" by (simp add: update_allowed_def)
      with True show ?thesis by (simp add: wp_true)
    next
      case False
      with a c same [OF keeps_core_replies(3), of t] show ?thesis by simp
    qed
  qed (use c in auto)
  show ?thesis
    unfolding admin_request_def wp_bnd
  proof (rule wp_mono [OF wp_keeps [OF keeps_core_control(2) get_command_sound]])
    fix c t
    assume a: "(c \<noteq> 0 \<longrightarrow> flag_handler w = 0 \<and>
        (\<exists>s. field api (recv_socket_buffer w) K_COMMAND = Some s \<and> c = atoi s)) \<and> core t = core w"
    show "wp (if c = CLOSE_CONNECTION then end_conn api fd
     else if c = OPTION1_n then send_supply_message fd
     else if c = OPTION2_n then bnd (check_credentials api) (\<lambda>denied.
       if denied \<noteq> 0 then send_deneid_message api fd else set_and_send_suply_status api fd)
     else print (''Command error'' @ [NL])) (\<lambda>_. ?P) (\<lambda>_. ?P) t"
      using a creds [of t] by (auto simp: wp_bnd CLOSE_CONNECTION_def OPTION1_n_def OPTION2_n_def
          intro!: same frame_intros)
  qed auto
qed

end

lemma keeps_pending_request [frame_intros]: "keeps pending (admin_request api fd)"
  unfolding admin_request_def
  by (intro frame_intros keeps_core_pending [OF keeps_core_control(1)] keeps_core_pending [OF keeps_core_control(2)]
      keeps_core_pending [OF keeps_core_control(3)] keeps_core_pending [OF keeps_core_replies(1)]
      keeps_core_pending [OF keeps_core_replies(3)]; simp)

lemma wp_admin_round:
  "wp (admin_round api fd) Q E w =
     wp (recv_tcp_message fd (replicate BUFFER_SIZE NUL)) (\<lambda>p t.
       let t' = t\<lparr>recv_socket_buffer := snd p\<rparr> in
       if fst p \<noteq> 0
       then E (Exit 1) (t'\<lparr>stderr := stderr t' @ [error_text (errno t') ''Error recv_tcp_message'' srv_file 326]\<rparr>)
       else wp (thn announce (thn (sleep 1) (admin_request api fd))) Q E t') E
     (w\<lparr>recv_socket_buffer := replicate BUFFER_SIZE NUL\<rparr>)"
  unfolding admin_round_def wp_thn wp_modify wp_bnd wp_gets
  by simp (rule wp_cong, simp add: wp_simps wp_thn_fun split_def Let_def)

text \<open>A message that fits one receive, seen in the receiver's buffer.\<close>

lemma recv_tcp_sound:
  assumes "\<forall>m \<in> set (inbox w fd). length m \<le> BUFFER_SIZE"
  shows "wp (recv_tcp_message fd (replicate BUFFER_SIZE NUL))
    (\<lambda>(r, b) w'. files w' = files w \<and> (r = 0 \<longrightarrow> (\<exists>m ms. inbox w fd = m # ms \<and> inbox w' fd = ms \<and>
       b = fit BUFFER_SIZE m))) (\<lambda>_ w'. files w' = files w) w"
  using assms
  by (auto simp: recv_tcp_message_def recv_def recvfrom_def wp_simps Let_def fit_pad cstr_zeros BUFFER_SIZE_pos split: list.splits option.splits)

text \<open>No message on its way carries the administrator's credentials.\<close>

definition harmless :: "'j cjson_api \<Rightarrow> string list \<Rightarrow> bool" where
  "harmless api ms \<longleftrightarrow> (\<forall>m \<in> set ms. length m \<le> BUFFER_SIZE \<and> \<not> granted api (fit BUFFER_SIZE m))"

context cjson_lib
begin

lemma admin_request_harmless:
  assumes "\<not> granted api (recv_socket_buffer w)"
  shows "wp (admin_request api fd) (\<lambda>_ w'. files w' = files w \<and> inbox w' = inbox w) (\<lambda>_ w'. files w' = files w) w"
  by (rule wp_mono [OF wp_keeps [OF keeps_pending_request admin_request_safe]])
     (use assms in \<open>auto simp: update_allowed_def\<close>)

lemma announce_request_harmless:
  assumes "\<not> granted api (recv_socket_buffer w)"
  shows "wp (thn announce (thn (sleep 1) (admin_request api fd)))
    (\<lambda>_ w'. files w' = files w \<and> inbox w' = inbox w) (\<lambda>_ w'. files w' = files w) w"
  unfolding wp_thn wp_sleep
proof (rule wp_mono [OF wp_frame [OF keeps_core_basic(14)]])
  fix t :: "'b server_scheme"
  assume "core t = core w"
  with assms show "wp (admin_request api fd) (\<lambda>_ w'. files w' = files w \<and> inbox w' = inbox w)
      (\<lambda>_ w'. files w' = files w) (t\<lparr>tick := Suc (tick t)\<rparr>)"
    using admin_request_harmless [of "t\<lparr>tick := Suc (tick t)\<rparr>" fd] by simp
qed auto

lemma admin_round_harmless:
  assumes "harmless api (inbox w fd)"
  shows "wp (admin_round api fd) (\<lambda>_ w'. files w' = files w \<and> harmless api (inbox w' fd))
    (\<lambda>_ w'. files w' = files w) w"
proof -
  let ?w = "w\<lparr>recv_socket_buffer := replicate BUFFER_SIZE NUL\<rparr>"
  have "\<forall>m \<in> set (inbox ?w fd). length m \<le> BUFFER_SIZE" using assms by (simp add: harmless_def)
  note r = recv_tcp_sound [OF this]
  show ?thesis
    unfolding wp_admin_round
  proof (rule wp_mono [OF r [unfolded split_def]], unfold Let_def)
    fix p and t :: "'b server_scheme"
    assume a: "files t = files ?w \<and> (fst p = 0 \<longrightarrow> (\<exists>m ms. inbox ?w fd = m # ms \<and> inbox t fd = ms \<and>
      snd p = fit BUFFER_SIZE m))"
    let ?t = "t\<lparr>recv_socket_buffer := snd p\<rparr>"
    have "wp (thn announce (thn (sleep 1) (admin_request api fd)))
      (\<lambda>_ w'. files w' = files w \<and> harmless api (inbox w' fd)) (\<lambda>_ w'. files w' = files w) ?t" if "fst p = 0"
      by (rule wp_mono [OF announce_request_harmless])
         (use a assms that in \<open>auto simp: harmless_def\<close>)
    then show "if fst p \<noteq> 0
      then files (?t\<lparr>stderr := stderr ?t @ [error_text (errno ?t) ''Error recv_tcp_message'' srv_file 326]\<rparr>) = files w
      else wp (thn announce (thn (sleep 1) (admin_request api fd)))
        (\<lambda>_ w'. files w' = files w \<and> harmless api (inbox w' fd)) (\<lambda>_ w'. files w' = files w) ?t"
      using a by simp
  qed simp
qed

lemma run_admin_server_harmless:
  "harmless api (inbox w fd) \<Longrightarrow>
     wp (run_admin_server api fd n) (\<lambda>_ w'. files w' = files w) (\<lambda>_ w'. files w' = files w) w"
proof (induction n arbitrary: w)
  case 0
  then show ?case by (simp add: wp_simps)
next
  case (Suc n)
  show ?case
    unfolding run_admin_server.simps wp_thn
    by (rule wp_mono [OF admin_round_harmless [OF Suc.prems]]) (auto dest: Suc.IH)
qed

end

end
