(* ===== verification/Server_Requests.thy ===== *)
theory Server_Requests
  imports Server_Security
begin

text \<open>
  What the server does with a request when no call fails: the status request, the update
  with and without the administrator's credentials, the end of the connection, and a
  message without a command.
\<close>

section \<open>Requests whose fields are strings\<close>

text \<open>The client sends every field as a string.\<close>

definition str_field :: "'j cjson_api \<Rightarrow> char list \<Rightarrow> string \<Rightarrow> string \<Rightarrow> bool" where
  "str_field api a k s \<longleftrightarrow> (case cstr a of None \<Rightarrow> False
     | Some t \<Rightarrow> (case cJSON_Parse api t of None \<Rightarrow> False
     | Some j \<Rightarrow> (case cJSON_GetObjectItemCaseSensitive api j k of None \<Rightarrow> False
     | Some v \<Rightarrow> cJSON_IsString api v \<and> valuestring api v = Some s)))"

lemma lookup_str_field:
  assumes "calm w" "str_field api a k s" "NUL \<notin> set k"
  shows "wp (get_value_of_key_from_json_string api (Buf a) (lit k) p) Q E w =
    Q (0, Buf (s @ [NUL])) (w\<lparr>live_mem := live_mem w + 1, tick := tick w + 2\<rparr>)"
  using assms
  by (auto simp: str_field_def lit_def get_value_string_calm split: option.splits)

text \<open>What a fresh block holds is a string that is not JSON.\<close>

definition fresh_ok :: "'j cjson_api \<Rightarrow> 'z world_scheme \<Rightarrow> bool" where
  "fresh_ok api w \<longleftrightarrow> (\<forall>n. \<exists>t. cstr (fit BUFFER_SIZE (junk w n)) = Some t \<and> cJSON_Parse api t = None)"

lemma fresh_ok_update [simp]:
  "fresh_ok api (w\<lparr>tick := n\<rparr>) = fresh_ok api w" "fresh_ok api (w\<lparr>stdout := l\<rparr>) = fresh_ok api w"
  "fresh_ok api (w\<lparr>pipe_data := p\<rparr>) = fresh_ok api w" "fresh_ok api (w\<lparr>closed_fds := c\<rparr>) = fresh_ok api w"
  "fresh_ok api (w\<lparr>sockets := s\<rparr>) = fresh_ok api w"
  by (simp_all add: fresh_ok_def)

lemma fresh_ok_buffer [simp]: "fresh_ok api (w\<lparr>buffer := b\<rparr>) = fresh_ok api w"
  by (simp add: fresh_ok_def)

definition one_key_text :: "'j cjson_api \<Rightarrow> string \<Rightarrow> string \<Rightarrow> string" where
  "one_key_text api k v = cJSON_Print api (set_key api (cJSON_CreateObject api) k (cJSON_CreateString api v))"

lemma unconnected_server [simp]:
  "unconnected (w\<lparr>send_socket_buffer := p\<rparr>) fd = unconnected w fd"
  "unconnected (w\<lparr>recv_socket_buffer := a\<rparr>) fd = unconnected w fd"
  "unconnected (w\<lparr>mutex_state := m\<rparr>) fd = unconnected w fd"
  by (simp_all add: unconnected_def)

lemma unconnected_sockets: "sockets w' = sockets w \<Longrightarrow> unconnected w' fd = unconnected w fd"
  by (simp add: unconnected_def)

text \<open>What a served request leaves as it found it.\<close>

abbreviation steady where
  "steady \<equiv> (\<lambda>w. (sys_err w, junk w, flag_handler w, sockets w, inbox w, mutex_state w))"

lemma atoi_digits [simp]: "atoi ''1'' = 1" "atoi ''2'' = 2" "atoi ''0'' = 0"
  by code_simp+

context cjson_lib
begin

lemma str_field_text: "str_field api a k s \<Longrightarrow> NUL \<notin> set s"
  using valuestring_text by (auto simp: str_field_def split: option.splits)

lemma get_command_calm:
  assumes "calm w" "flag_handler w = 0" "str_field api (recv_socket_buffer w) K_COMMAND s"
  shows "wp (get_command api) Q E w = Q (atoi s) (w\<lparr>tick := tick w + 2\<rparr>)"
  using assms str_field_text [OF assms(3)]
  by (simp add: get_command_def wp_simps lookup_str_field)

lemma check_credentials_calm:
  assumes "calm w" "str_field api (recv_socket_buffer w) K_HOSTNAME u" "str_field api (recv_socket_buffer w) K_PASSWORD p"
  shows "wp (check_credentials api) Q E w =
    Q (if u = ADMIN \<and> p = ADMIN then 0 else 1) (w\<lparr>tick := tick w + 4\<rparr>)"
  using assms str_field_text [OF assms(2)] str_field_text [OF assms(3)]
  by (simp add: check_credentials_def wp_simps lookup_str_field tick_sums)

text \<open>The pieces of an update of \<open>supplies/cat/key\<close> in the state document \<open>d\<close> with text \<open>t\<close>: the old
  and the new category, supplies and document.\<close>

lemma wp_set_supply:
  assumes "calm w" "str_field api (recv_socket_buffer w) K_SUP_COMMAND_EQ cat"
    "str_field api (recv_socket_buffer w) K_KEY key" "str_field api (recv_socket_buffer w) K_VALUE text"
  shows "wp (set_supply api) Q E w =
    wp (set_supply_status api (Buf (cat @ [NUL])) (Buf (key @ [NUL])) (Buf (text @ [NUL])) (send_socket_buffer w))
      (\<lambda>p t. let t' = t\<lparr>send_socket_buffer := snd p\<rparr> in
         if fst p = 0 then Q 0 (t'\<lparr>live_mem := live_mem t - 3\<rparr>)
         else Q 1 (t'\<lparr>stderr := stderr t @ [error_text (errno t) ''Error set_supply_status'' srv_file 595]\<rparr>))
      E (w\<lparr>live_mem := 3 + live_mem w, tick := tick w + 6\<rparr>)"
  using assms
  by (simp add: set_supply_def wp_simps lookup_str_field tick_sums)
     (rule wp_cong, simp add: wp_simps set_ssb_def split_def Let_def)

lemma set_supply_calm:
  assumes "calm w" and d: "state_doc api valid depth w t d"
    and s: "cJSON_GetObjectItemCaseSensitive api d SUPPLIES = Some s" "cJSON_IsObject api s"
    and c: "cJSON_GetObjectItemCaseSensitive api s cat = Some c" "cJSON_IsObject api c"
    and args: "str_field api (recv_socket_buffer w) K_SUP_COMMAND_EQ cat"
      "str_field api (recv_socket_buffer w) K_KEY key" "str_field api (recv_socket_buffer w) K_VALUE text"
    and v: "value_of api text (OVERRIDE OR INTPARSE) = Some v" "valid v"
    and c': "c' = set_key api c key v" and s': "s' = set_key api s cat c'"
    and d': "d' = set_key api d SUPPLIES s'"
  shows "wp (set_supply api)
    (\<lambda>r w'. r = 0 \<and> files w' = (files w)(JSON_FILE_PATH \<mapsto> cJSON_Print api d') \<and>
       send_socket_buffer w' = Buf (put_str (t @ [NUL]) (cJSON_Print api d')) \<and>
       live_mem w' = live_mem w + 7 \<and> live_json w' = live_json w \<and>
       sent w' = sent w \<and> steady w' = steady w)
    (\<lambda>e w'. e = Undef Buffer_Overflow \<and> files w' = files w \<and>
       \<not> (length (cJSON_Print api c') \<le> length (cJSON_Print api c) \<and>
          length (cJSON_Print api s') \<le> length (cJSON_Print api s) \<and>
          length (cJSON_Print api d') \<le> length t)) w"
proof -
  let ?w = "w\<lparr>live_mem := 3 + live_mem w, tick := tick w + 6\<rparr>"
  let ?f = "\<lambda>w. (sent w, steady w)"
  have doc: "state_doc api valid depth ?w t d" and calm: "calm ?w" using assms by (simp_all add: state_doc_def)
  have texts: "cstr (cat @ [NUL]) = Some cat" "cstr (key @ [NUL]) = Some key" "cstr (text @ [NUL]) = Some text"
    using args str_field_text by simp_all
  have "keeps ?f (set_supply_status api a b c q)" for a b c q
    by (rule keeps_set_supply_status) (simp_all add: quiet_def)
  note exec = wp_keeps [OF this set_supply_status_exec(1) [OF calm doc s c texts v c' s' d', of "send_socket_buffer w"]]
  show ?thesis
    unfolding wp_set_supply [OF assms(1) args] Let_def
    by (rule wp_mono [OF exec]) auto
qed

text \<open>Sending the text held by \<open>send_socket_buffer\<close>, and releasing it.\<close>

lemma wp_send_text:
  assumes "calm w" "send_socket_buffer w = Buf a" "cstr a = Some s" "s \<noteq> []" "\<not> unconnected w fd"
  shows "wp (send_text fd) Q E w = (if length s < BUFFER_SIZE
    then Q 0 (w\<lparr>sent := sent w @ [(fd, s)], tick := Suc (tick w)\<rparr>) else E (Undef Unterminated_Read) w)"
  using assms by (simp add: send_text_def wp_simps send_message_short send_message_long not_less)

lemma wp_free_ssb:
  "send_socket_buffer w = Buf a \<Longrightarrow>
     wp free_ssb Q E w = Q () (w\<lparr>live_mem := live_mem w - 1, send_socket_buffer := Null\<rparr>)"
  by (simp add: free_ssb_def set_ssb_def wp_simps)

lemma status_request:
  assumes "calm w" "flag_handler w = 0" "str_field api (recv_socket_buffer w) K_COMMAND ''1''"
    "files w JSON_FILE_PATH = Some t" "t \<noteq> []" "NUL \<notin> set t" "\<not> unconnected w fd"
  shows "wp (admin_request api fd)
    (\<lambda>_ w'. length t < BUFFER_SIZE \<and> sent w' = sent w @ [(fd, t)] \<and> files w' = files w \<and>
       live_mem w' = live_mem w \<and> live_json w' = live_json w \<and> steady w' = steady w)
    (\<lambda>e w'. BUFFER_SIZE \<le> length t \<and> e = Undef Unterminated_Read \<and> sent w' = sent w \<and> files w' = files w) w"
  using assms
  by (simp add: admin_request_def wp_simps get_command_calm CLOSE_CONNECTION_def OPTION1_n_def
      send_supply_message_def get_supply_status_def read_file_calm set_ssb_def wp_send_text wp_free_ssb)
     simp

text \<open>A fresh block is uninitialised: the message is as meant only if it happens to hold a
  text that is not JSON.\<close>

lemma one_key_message:
  assumes "calm w" and j: "cstr (fit BUFFER_SIZE (junk w (tick w))) = Some t" "cJSON_Parse api t = None"
    and k: "NUL \<notin> set k" "NUL \<notin> set v"
    and m: "m = cJSON_Print api (set_key api (cJSON_CreateObject api) k (cJSON_CreateString api v))"
      "length m < BUFFER_SIZE"
  shows "wp (thn (alloc_ssb l1) (thn (add_to_ssb api k v l2) c)) Q E w =
    wp c Q E (w\<lparr>send_socket_buffer := Buf (put_str (fit BUFFER_SIZE (junk w (tick w))) m),
            live_mem := live_mem w + 1, tick := tick w + 6\<rparr>)"
proof -
  have v: "value_of api v OVERRIDE = Some (cJSON_CreateString api v)" by (simp add: value_of_def flag_defs)
  have g: "cJSON_GetObjectItemCaseSensitive api (cJSON_CreateObject api) k = None"
    by (simp add: get_items create_object)
  show ?thesis
    using assms
    by (simp add: alloc_ssb_def add_to_ssb_def set_ssb_def wp_simps lit_def add_key_value_calm [OF _ _ _ _ v]
        tree_of_def g print_text Let_def tick_sums)
qed

lemma denied_request:
  assumes "calm w" "flag_handler w = 0" "str_field api (recv_socket_buffer w) K_COMMAND ''2''"
    "str_field api (recv_socket_buffer w) K_HOSTNAME u" "str_field api (recv_socket_buffer w) K_PASSWORD p"
    "\<not> (u = ADMIN \<and> p = ADMIN)" "\<not> unconnected w fd"
    and j: "fresh_ok api w" and m: "length (one_key_text api K_ACC_DENEID TRUE_text) < BUFFER_SIZE"
  shows "wp (admin_request api fd)
    (\<lambda>_ w'. sent w' = sent w @ [(fd, one_key_text api K_ACC_DENEID TRUE_text)] \<and> files w' = files w \<and>
       live_mem w' = live_mem w \<and> live_json w' = live_json w \<and> steady w' = steady w) (\<lambda>_ _. False) w"
proof -
  let ?w = "w\<lparr>tick := tick w + 6\<rparr>"
  from j obtain t where t: "cstr (fit BUFFER_SIZE (junk ?w (tick ?w))) = Some t" "cJSON_Parse api t = None"
    by (auto simp: fresh_ok_def)
  note send = one_key_message [of ?w, OF _ t server_texts_no_nul(7,9) refl m [unfolded one_key_text_def]]
  have msg: "one_key_text api K_ACC_DENEID TRUE_text \<noteq> []" "NUL \<notin> set (one_key_text api K_ACC_DENEID TRUE_text)"
    using print_text by (simp_all add: one_key_text_def)
  have denied: "(if u = ADMIN \<and> p = ADMIN then 0 else 1) = (1::int)" using assms(6) by auto
  have "wp (send_deneid_message api fd)
    (\<lambda>_ w'. sent w' = sent w @ [(fd, one_key_text api K_ACC_DENEID TRUE_text)] \<and> files w' = files w \<and>
       live_mem w' = live_mem w \<and> live_json w' = live_json w \<and> steady w' = steady w) (\<lambda>_ _. False) ?w"
    unfolding send_deneid_message_def
    using assms msg
    by (simp add: send one_key_text_def wp_bnd wp_send_text wp_if wp_free_ssb)
       simp
  then show ?thesis
    using assms denied
    by (simp add: admin_request_def wp_bnd get_command_calm check_credentials_calm CLOSE_CONNECTION_def
        OPTION1_n_def OPTION2_n_def tick_sums)
qed

text \<open>An update with the right credentials. The reply is the new document, so it too must
  fit the send buffer.\<close>

lemma update_request:
  assumes "calm w" and d: "state_doc api valid depth w t d"
    and s: "cJSON_GetObjectItemCaseSensitive api d SUPPLIES = Some s" "cJSON_IsObject api s"
    and c: "cJSON_GetObjectItemCaseSensitive api s cat = Some c" "cJSON_IsObject api c"
    and args: "str_field api (recv_socket_buffer w) K_SUP_COMMAND_EQ cat"
      "str_field api (recv_socket_buffer w) K_KEY key" "str_field api (recv_socket_buffer w) K_VALUE text"
    and v: "value_of api text (OVERRIDE OR INTPARSE) = Some v" "valid v"
    and c': "c' = set_key api c key v" and s': "s' = set_key api s cat c'"
    and d': "d' = set_key api d SUPPLIES s'"
    and fits: "length (cJSON_Print api c') \<le> length (cJSON_Print api c)"
      "length (cJSON_Print api s') \<le> length (cJSON_Print api s)" "length (cJSON_Print api d') \<le> length t"
      "length (cJSON_Print api d') < BUFFER_SIZE"
    and req: "flag_handler w = 0" "str_field api (recv_socket_buffer w) K_COMMAND ''2''"
      "str_field api (recv_socket_buffer w) K_HOSTNAME ADMIN" "str_field api (recv_socket_buffer w) K_PASSWORD ADMIN"
    and sys: "mutex_state w = Some (Suc n)" "\<not> unconnected w fd"
  shows "wp (admin_request api fd)
    (\<lambda>_ w'. files w' = (files w)(JSON_FILE_PATH \<mapsto> cJSON_Print api d') \<and>
       sent w' = sent w @ [(fd, cJSON_Print api d')] \<and> steady w' = steady w \<and>
       live_mem w' = live_mem w + 6 \<and> live_json w' = live_json w) (\<lambda>_ _. False) w"
proof -
  let ?w = "w\<lparr>mutex_state := Some n, tick := tick w + 6\<rparr>"
  let ?post = "\<lambda>w'. files w' = (files w)(JSON_FILE_PATH \<mapsto> cJSON_Print api d') \<and>
       sent w' = sent w @ [(fd, cJSON_Print api d')] \<and> steady w' = steady w \<and>
       live_mem w' = live_mem w + 6 \<and> live_json w' = live_json w"
  have doc: "state_doc api valid depth ?w t d" and calm: "calm ?w" using assms by (simp_all add: state_doc_def)
  have args': "str_field api (recv_socket_buffer ?w) K_SUP_COMMAND_EQ cat"
    "str_field api (recv_socket_buffer ?w) K_KEY key" "str_field api (recv_socket_buffer ?w) K_VALUE text"
    using args by simp_all
  note exec = set_supply_calm [OF calm doc s c args' v c' s' d']
  have msg: "cstr (put_str (t @ [NUL]) (cJSON_Print api d')) = Some (cJSON_Print api d')" "cJSON_Print api d' \<noteq> []"
    using print_text [of d'] by simp_all
  have "wp (set_supply api) (\<lambda>r. wp (if r \<noteq> 0
      then thn (error_handler ''Error set_supply'' srv_file 493) (thn sem_post (halt (Exit 1)))
      else bnd (send_text fd) (\<lambda>r.
     if r \<noteq> 0 then thn (error_handler ''Error send_message'' srv_file 499) (thn sem_post (halt (Exit 1)))
     else thn free_ssb sem_post)) (\<lambda>_. ?post) (\<lambda>_ _. False)) (\<lambda>_ _. False) ?w"
  proof (rule wp_mono [OF exec])
    fix r w'
    assume a: "r = 0 \<and> files w' = (files ?w)(JSON_FILE_PATH \<mapsto> cJSON_Print api d') \<and>
       send_socket_buffer w' = Buf (put_str (t @ [NUL]) (cJSON_Print api d')) \<and>
       live_mem w' = live_mem ?w + 7 \<and> live_json w' = live_json ?w \<and>
       sent w' = sent ?w \<and> steady w' = steady ?w"
    then have u: "\<not> unconnected w' fd" and cw: "calm w'" using sys assms(1) by (simp_all add: unconnected_def)
    show "wp (if r \<noteq> 0
      then thn (error_handler ''Error set_supply'' srv_file 493) (thn sem_post (halt (Exit 1)))
      else bnd (send_text fd) (\<lambda>r.
     if r \<noteq> 0 then thn (error_handler ''Error send_message'' srv_file 499) (thn sem_post (halt (Exit 1)))
     else thn free_ssb sem_post)) (\<lambda>_. ?post) (\<lambda>_ _. False) w'"
      using a u cw msg fits(4) sys(1)
      by (simp add: wp_bnd wp_thn wp_send_text wp_free_ssb wp_if sem_post_def wp_gets wp_option wp_modify)
  qed (use fits in auto)
  then show ?thesis
    using assms(1) req sys
    by (simp add: admin_request_def wp_bnd get_command_calm check_credentials_calm CLOSE_CONNECTION_def
        OPTION1_n_def OPTION2_n_def set_and_send_suply_status_def wp_thn sem_wait_def wp_gets wp_option wp_if
        wp_modify tick_sums)
qed

text \<open>The end of a connection: the client is told, the descriptors are closed, the alert
  queue is removed and the parent process is stopped.\<close>

lemma end_conn_calm:
  assumes "calm w" "pipe_data w = []" "fresh_ok api w" "\<not> unconnected w fd" "fst (pipe_fd w) \<noteq> fd"
    and m: "length (one_key_text api K_END TRUE_text) < BUFFER_SIZE"
  shows "wp (end_conn api fd) (\<lambda>_ _. False)
    (\<lambda>e w'. e = Exit 0 \<and> sent w' = sent w @ [(fd, one_key_text api K_END TRUE_text)] \<and> files w' = files w \<and>
       closed_fds w' = closed_fds w @ [fst (pipe_fd w), fd] \<and> mqueue w' = [] \<and> mutex_state w' = None \<and>
       kills w' = kills w @ [SIGTSTP]) w"
proof -
  have msg: "one_key_text api K_END TRUE_text \<noteq> []" "NUL \<notin> set (one_key_text api K_END TRUE_text)"
    using print_text by (simp_all add: one_key_text_def)
  have send: "wp (send_end_conn_message api fd) Q E u =
      Q () (u\<lparr>send_socket_buffer := Null, sent := sent u @ [(fd, one_key_text api K_END TRUE_text)], tick := tick u + 7\<rparr>)"
    if "calm u" "fresh_ok api u" "\<not> unconnected u fd" for Q E and u :: "'b server_scheme"
  proof -
    from that(2) obtain t where t: "cstr (fit BUFFER_SIZE (junk u (tick u))) = Some t" "cJSON_Parse api t = None"
      by (auto simp: fresh_ok_def)
    note add = one_key_message [OF that(1) t server_texts_no_nul(8,9) refl m [unfolded one_key_text_def]]
    show ?thesis
      unfolding send_end_conn_message_def add
      using that m msg unfolding one_key_text_def
      by (simp add: wp_bnd wp_send_text wp_if wp_free_ssb) (simp add: add.commute)
  qed
  show ?thesis
    unfolding end_conn_def
    using assms
    by (simp add: wp_simps fcntl_def read_pipe_def send msgctl_rmid_def Let_def unconnected_def)
qed

end

text \<open>A message without a command, or one that is not JSON, stops the server: the pointer that
  is released was never set.\<close>

lemma get_command_missing:
  assumes "cstr (recv_socket_buffer w) = Some t" "flag_handler w = 0"
    "\<And>j. cJSON_Parse api t = Some j \<Longrightarrow> cJSON_GetObjectItemCaseSensitive api j K_COMMAND = None"
  shows "wp (get_command api) (\<lambda>_ _. False) (\<lambda>e w'. e = Undef Indet_Pointer \<and> files w' = files w) w"
  using assms
  by (auto simp: get_command_def wp_simps get_value_of_key_from_json_string_def
      get_value_of_key_from_json_object_def lit_def get_c_def split: option.splits)

end
