(* ===== verification/Server_Protocol.thy ===== *)
theory Server_Protocol
  imports Server_Requests
begin

text \<open>
  The protocol of the server, as an abstract machine: its state is the state document and its
  text, a request leads to a new state and a reply. Both request loops, the one for the
  administrator's TCP connections and the one for UDP, are shown to follow their machine for
  any sequence of requests that stays within the sizes the code can handle.
\<close>

section \<open>Serving requests in a loop\<close>

text \<open>Runs of an abstract machine that answers requests; it has no step where the request is
  outside what it describes.\<close>

fun run_spec :: "('a \<Rightarrow> 'r \<Rightarrow> ('a \<times> 'b) option) \<Rightarrow> 'a \<Rightarrow> 'r list \<Rightarrow> ('a \<times> 'b list) option" where
  "run_spec step a [] = Some (a, [])"
| "run_spec step a (r # rs) = (case step a r of None \<Rightarrow> None
     | Some (a', b) \<Rightarrow> map_option (\<lambda>(a'', bs). (a'', b # bs)) (run_spec step a' rs))"

text \<open>A loop that serves requests: each round takes the first of the requests that wait and
  does what the machine does.\<close>

locale request_loop =
  fixes round :: "('s, unit) comp" and loop :: "nat \<Rightarrow> ('s, unit) comp"
    and waiting :: "'a \<Rightarrow> 'r list \<Rightarrow> 's \<Rightarrow> bool" and step :: "'a \<Rightarrow> 'r \<Rightarrow> ('a \<times> 'b) option"
    and tag :: "'b \<Rightarrow> 'c" and replies :: "'s \<Rightarrow> 'c list"
  assumes loop_0: "loop 0 = halt Running"
    and loop_Suc: "loop (Suc n) = thn round (loop n)"
    and round_step: "waiting a (r # rs) s \<Longrightarrow> step a r = Some (a', b) \<Longrightarrow>
      wp round (\<lambda>_ s'. waiting a' rs s' \<and> replies s' = replies s @ [tag b]) (\<lambda>_ _. False) s"
begin

lemma loop_run:
  "run_spec step a rs = Some (a', bs) \<Longrightarrow> waiting a rs s \<Longrightarrow>
     wp (loop (length rs)) (\<lambda>_ _. False) (\<lambda>e s'. e = Running \<and> waiting a' [] s' \<and> replies s' = replies s @ map tag bs) s"
proof (induction rs arbitrary: a s bs)
  case Nil
  then show ?case by (simp add: loop_0 wp_halt)
next
  case (Cons r rs)
  from Cons.prems(1) obtain a1 b bs1 where step: "step a r = Some (a1, b)"
    and rest: "run_spec step a1 rs = Some (a', bs1)" and bs: "bs = b # bs1"
    by (auto split: option.splits)
  show ?case
    unfolding list.size(4) add_Suc_right add_0_right loop_Suc wp_thn
    by (rule wp_mono [OF round_step [OF Cons.prems(2) step]])
       (auto simp: bs intro!: wp_mono [OF Cons.IH [OF rest]])
qed

end

section \<open>Requests and replies\<close>

text \<open>The two requests of the client: the status, and a change of an amount with the
  credentials of the user.\<close>

datatype request =
    Status
  | Modify (user: string) (secret: string) (category: string) (item: string) (amount: string)

fun carries :: "'j cjson_api \<Rightarrow> char list \<Rightarrow> request \<Rightarrow> bool" where
  "carries api a Status \<longleftrightarrow> str_field api a K_COMMAND ''1''"
| "carries api a (Modify u p cat key text) \<longleftrightarrow> str_field api a K_COMMAND ''2'' \<and>
     str_field api a K_HOSTNAME u \<and> str_field api a K_PASSWORD p \<and>
     str_field api a K_SUP_COMMAND_EQ cat \<and> str_field api a K_KEY key \<and> str_field api a K_VALUE text"

text \<open>The machine of a TCP connection. The state is the text of the state file and its
  document. A change is made only for the administrator; it is defined where the text is a
  value the document can take, the path is there, and the texts fit their blocks.\<close>

fun admin_step ::
  "'j cjson_api \<Rightarrow> ('j \<Rightarrow> bool) \<Rightarrow> string \<times> 'j \<Rightarrow> request \<Rightarrow> ((string \<times> 'j) \<times> string) option" where
  "admin_step api valid (t, d) Status = (if length t < BUFFER_SIZE then Some ((t, d), t) else None)"
| "admin_step api valid (t, d) (Modify u p cat key text) =
     (if \<not> (u = ADMIN \<and> p = ADMIN)
      then (let m = one_key_text api K_ACC_DENEID TRUE_text in
            if length m < BUFFER_SIZE then Some ((t, d), m) else None)
      else (case value_of api text (OVERRIDE OR INTPARSE) of None \<Rightarrow> None
        | Some v \<Rightarrow> (let d' = set_path api d [SUPPLIES, cat, key] v; t' = cJSON_Print api d' in
            if valid v \<and> path_ok api d [SUPPLIES, cat, key] \<and> supply_fits api cat key v t d \<and> length t' < BUFFER_SIZE
            then Some ((t', d'), t') else None)))"

text \<open>The machine of the UDP server: no request changes anything.\<close>

fun user_step :: "'j cjson_api \<Rightarrow> string \<times> 'j \<Rightarrow> request \<Rightarrow> ((string \<times> 'j) \<times> string) option" where
  "user_step api (t, d) Status = Some ((t, d), t)"
| "user_step api (t, d) (Modify u p cat key text) =
     (let m = one_key_text api K_ACC_DENEID M_ACC_DENEID in
      if length m < BUFFER_SIZE then Some ((t, d), m) else None)"

text \<open>The server holds the document, the requests wait on the socket, and nothing is in the
  way of serving them.\<close>

definition serving ::
  "'j cjson_api \<Rightarrow> ('j \<Rightarrow> bool) \<Rightarrow> ('j \<Rightarrow> nat) \<Rightarrow> int \<Rightarrow> string \<times> 'j \<Rightarrow> request list \<Rightarrow> 'z server_scheme \<Rightarrow> bool" where
  "serving api valid depth fd a reqs w \<longleftrightarrow> calm w \<and> flag_handler w = 0 \<and> fresh_ok api w \<and>
     state_doc api valid depth w (fst a) (snd a) \<and> (\<exists>n. mutex_state w = Some (Suc n)) \<and>
     list_all2 (\<lambda>m r. length m \<le> BUFFER_SIZE \<and> carries api (fit BUFFER_SIZE m) r) (inbox w fd) reqs"

lemma serving_steady:
  assumes "serving api valid depth fd a (r # rs) w" "steady w' = steady (w\<lparr>inbox := (inbox w)(fd := tl (inbox w fd))\<rparr>)"
    "state_doc api valid depth w' (fst a') (snd a')"
  shows "serving api valid depth fd a' rs w'"
  using assms by (auto simp: serving_def fresh_ok_def list_all2_Cons2)

lemma serving_Cons:
  assumes "serving api valid depth fd a (r # rs) w"
  obtains m ms where "inbox w fd = m # ms" "length m \<le> BUFFER_SIZE" "carries api (fit BUFFER_SIZE m) r"
  using assms by (auto simp: serving_def list_all2_Cons2)

context cjson_lib
begin

lemma carries_text:
  assumes "carries api a r"
  obtains s where "cstr a = Some s" "s \<noteq> []"
proof -
  from assms obtain c where "str_field api a K_COMMAND c" by (cases r) auto
  then obtain s j where "cstr a = Some s" "cJSON_Parse api s = Some j" by (auto simp: str_field_def split: option.splits)
  then show thesis using parse_empty by (cases "s = []") (auto intro: that)
qed

text \<open>Up to the request: the message is in the receive buffer.\<close>

lemma recv_request:
  assumes "calm w" "inbox w fd = m # ms" "length m \<le> BUFFER_SIZE" "carries api (fit BUFFER_SIZE m) r"
  shows "wp (recv_tcp_message fd (replicate BUFFER_SIZE NUL)) Q E w =
      Q (0, fit BUFFER_SIZE m) (w\<lparr>inbox := (inbox w)(fd := ms), tick := Suc (tick w)\<rparr>)"
    "wp (recv_udp_message fd (replicate BUFFER_SIZE NUL)) Q E w =
      Q (0, fit BUFFER_SIZE m) (w\<lparr>inbox := (inbox w)(fd := ms), tick := Suc (tick w)\<rparr>)"
proof -
  obtain s where "cstr (fit BUFFER_SIZE m) = Some s" "s \<noteq> []" using carries_text [OF assms(4)] .
  with assms show "wp (recv_tcp_message fd (replicate BUFFER_SIZE NUL)) Q E w =
      Q (0, fit BUFFER_SIZE m) (w\<lparr>inbox := (inbox w)(fd := ms), tick := Suc (tick w)\<rparr>)"
    "wp (recv_udp_message fd (replicate BUFFER_SIZE NUL)) Q E w =
      Q (0, fit BUFFER_SIZE m) (w\<lparr>inbox := (inbox w)(fd := ms), tick := Suc (tick w)\<rparr>)"
    by (simp_all add: recv_tcp_message_def recv_def recv_udp_message_def recvfrom_def wp_simps Let_def fit_pad)
qed

lemma wp_announce:
  "cstr (recv_socket_buffer w) = Some s \<Longrightarrow> wp announce Q E w =
     Q () (w\<lparr>stdout := stdout w @ [''PROCESO '' @ show_int (pid w) @ ''. '', ''Recib'' @ [CHR 0xC3, CHR 0xAD] @ '': '' @ s @ [NL]]\<rparr>)"
  by (simp add: announce_def wp_simps)

text \<open>One request on a TCP connection.\<close>

lemma admin_request_step:
  assumes "calm w" "flag_handler w = 0" "fresh_ok api w" "state_doc api valid depth w t d" "mutex_state w = Some (Suc n)"
    "\<not> unconnected w fd" "carries api (recv_socket_buffer w) r" "admin_step api valid (t, d) r = Some (a', b)"
  shows "wp (admin_request api fd)
    (\<lambda>_ w'. steady w' = steady w \<and> state_doc api valid depth w' (fst a') (snd a') \<and> sent w' = sent w @ [(fd, b)])
    (\<lambda>_ _. False) w"
proof (cases r)
  case Status
  with assms have "length t < BUFFER_SIZE" "a' = (t, d)" "b = t" by (auto split: if_splits)
  with assms Status show ?thesis
    by (intro wp_mono [OF status_request [where t = t]]) (auto simp: state_doc_def)
next
  case (Modify u p cat key am)
  show ?thesis
  proof (cases "u = ADMIN \<and> p = ADMIN")
    case False
    with assms Modify have m: "length (one_key_text api K_ACC_DENEID TRUE_text) < BUFFER_SIZE" "a' = (t, d)"
      "b = one_key_text api K_ACC_DENEID TRUE_text" by (auto simp: Let_def split: if_splits)
    from assms Modify False m show ?thesis
      by (intro wp_mono [OF denied_request [where u = u and p = p]]) (auto simp: state_doc_def)
  next
    case True
    define p3 where "p3 = [SUPPLIES, cat, key]"
    define d' where "d' v = set_path api d p3 v" for v
    have "admin_step api valid (t, d) r = (case value_of api am (OVERRIDE OR INTPARSE) of None \<Rightarrow> None
      | Some v \<Rightarrow> if valid v \<and> path_ok api d p3 \<and> supply_fits api cat key v t d \<and> length (cJSON_Print api (d' v)) < BUFFER_SIZE
          then Some ((cJSON_Print api (d' v), d' v), cJSON_Print api (d' v)) else None)"
      unfolding Modify d'_def p3_def using True by (simp only: admin_step.simps Let_def simp_thms if_False)
    note opt = trans [OF sym [OF this] assms(8)]
    obtain v where v: "value_of api am (OVERRIDE OR INTPARSE) = Some v"
      using opt by (cases "value_of api am (OVERRIDE OR INTPARSE)") (simp_all only: option.case option.distinct)
    have ok: "valid v \<and> path_ok api d p3 \<and> supply_fits api cat key v t d \<and> length (cJSON_Print api (d' v)) < BUFFER_SIZE"
      using opt unfolding v option.case by (rule contrapos_pp) (simp only: if_False not_False_eq_True option.distinct)
    have a': "a' = (cJSON_Print api (d' v), d' v)" "b = cJSON_Print api (d' v)"
      using opt unfolding v option.case by (auto simp only: ok simp_thms if_True option.inject prod.inject)
    from ok have path: "path_ok api d p3" and fits: "supply_fits api cat key v t d" and val: "valid v"
      and len: "length (cJSON_Print api (d' v)) < BUFFER_SIZE" by simp_all
    from path obtain s c where s: "cJSON_GetObjectItemCaseSensitive api d SUPPLIES = Some s" "cJSON_IsObject api s"
      and c: "cJSON_GetObjectItemCaseSensitive api s cat = Some c" "cJSON_IsObject api c"
      by (auto simp: p3_def split: option.splits)
    have d': "d' v = set_key api d SUPPLIES (set_key api s cat (set_key api c key v))" using s c by (simp add: d'_def p3_def)
    have args: "str_field api (recv_socket_buffer w) K_SUP_COMMAND_EQ cat"
      "str_field api (recv_socket_buffer w) K_KEY key" "str_field api (recv_socket_buffer w) K_VALUE am"
      using assms(7) Modify by simp_all
    have texts: "cstr (cat @ [NUL]) = Some cat" "cstr (key @ [NUL]) = Some key" "cstr (am @ [NUL]) = Some am"
      using args str_field_text by simp_all
    note exec = set_supply_status_exec [OF assms(1,4) s c texts v val refl refl d']
    have doc: "files w' JSON_FILE_PATH = Some (cJSON_Print api (d' v)) \<Longrightarrow>
        state_doc api valid depth w' (cJSON_Print api (d' v)) (d' v)" for w' :: "'b server_scheme"
      by (rule state_doc_written [OF _ exec(3,2,4)])
    show ?thesis
      by (rule wp_mono [OF update_request [OF assms(1,4) s c args v val refl refl d']])
         (use assms(2,5-7) Modify True fits s c d' a' len in \<open>auto simp: supply_fits_def Let_def intro!: doc [unfolded d']\<close>)
  qed
qed

lemma admin_round_step:
  assumes "serving api valid depth fd a (r # rs) w \<and> \<not> unconnected w fd" "admin_step api valid a r = Some (a', b)"
  shows "wp (admin_round api fd) (\<lambda>_ w'. (serving api valid depth fd a' rs w' \<and> \<not> unconnected w' fd) \<and>
    sent w' = sent w @ [(fd, b)]) (\<lambda>_ _. False) w"
proof -
  have sv: "serving api valid depth fd a (r # rs) w" and uc: "\<not> unconnected w fd" using assms(1) by auto
  obtain m ms where m: "inbox w fd = m # ms" "length m \<le> BUFFER_SIZE" "carries api (fit BUFFER_SIZE m) r"
    using serving_Cons [OF sv] .
  obtain s where s: "cstr (fit BUFFER_SIZE m) = Some s" using carries_text [OF m(3)] .
  note sv' = sv [unfolded serving_def]
  obtain n where n: "mutex_state w = Some (Suc n)" using sv' by auto
  define w1 where "w1 = w\<lparr>inbox := (inbox w)(fd := ms), recv_socket_buffer := fit BUFFER_SIZE m,
    stdout := stdout w @ [''PROCESO '' @ show_int (pid w) @ ''. '', ''Recib'' @ [CHR 0xC3, CHR 0xAD] @ '': '' @ s @ [NL]],
    tick := tick w + 2\<rparr>"
  have run: "wp (admin_round api fd) Q E w = wp (admin_request api fd) Q E w1" for Q E
    using sv' m s by (simp add: wp_admin_round recv_request [OF _ _ m(2,3)] wp_thn wp_announce wp_sleep w1_def)
  have "wp (admin_request api fd) (\<lambda>_ w'. steady w' = steady w1 \<and> state_doc api valid depth w' (fst a') (snd a') \<and>
      sent w' = sent w1 @ [(fd, b)]) (\<lambda>_ _. False) w1"
    by (rule admin_request_step [where t = "fst a" and d = "snd a" and r = r and n = n])
       (use sv' m n uc assms(2) in \<open>simp_all add: w1_def state_doc_def fresh_ok_def unconnected_def\<close>)
  then show ?thesis
    unfolding run
    by (rule wp_mono) (use m uc in \<open>auto intro!: serving_steady [OF sv] simp: w1_def unconnected_def\<close>)
qed

text \<open>One request to the UDP server.\<close>

lemma user_request_step:
  assumes "calm w" "flag_handler w = 0" "fresh_ok api w" "state_doc api valid depth w t d"
    "carries api (recv_socket_buffer w) r" "user_step api (t, d) r = Some (a', b)"
  shows "wp (user_request api fd)
    (\<lambda>_ w'. steady w' = steady w \<and> state_doc api valid depth w' (fst a') (snd a') \<and> sent w' = sent w @ [(fd, b)])
    (\<lambda>_ _. False) w"
proof (cases r)
  case Status
  then have a': "a' = (t, d)" "b = t" using assms by auto
  show ?thesis
    using assms Status
    by (simp add: user_request_def wp_simps get_command_calm CLOSE_CONNECTION_def OPTION1_n_def a' state_doc_def
        send_supply_udp_def get_supply_status_def read_file_calm set_ssb_def send_udp_message_def wp_free_ssb)
next
  case (Modify u p cat key am)
  then have m: "length (one_key_text api K_ACC_DENEID M_ACC_DENEID) < BUFFER_SIZE" "a' = (t, d)"
      "b = one_key_text api K_ACC_DENEID M_ACC_DENEID" using assms by (auto simp: Let_def split: if_splits)
  let ?w = "w\<lparr>tick := tick w + 2\<rparr>"
  from assms(3) obtain j where j: "cstr (fit BUFFER_SIZE (junk ?w (tick ?w))) = Some j" "cJSON_Parse api j = None"
    by (auto simp: fresh_ok_def)
  have "calm ?w" using assms(1) by simp
  note msg = one_key_message [OF this j server_texts_no_nul(7,10) refl m(1) [unfolded one_key_text_def]]
  have nn: "NUL \<notin> set (one_key_text api K_ACC_DENEID M_ACC_DENEID)" using print_text by (simp add: one_key_text_def)
  have "wp (send_deneid_udp_message api fd)
    (\<lambda>_ w'. steady w' = steady w \<and> state_doc api valid depth w' t d \<and> sent w' = sent w @ [(fd, b)]) (\<lambda>_ _. False) ?w"
    unfolding send_deneid_udp_message_def msg
    using assms(1,4) nn
    by (simp add: one_key_text_def wp_bnd wp_gets send_udp_message_def wp_simps m wp_free_ssb state_doc_def) simp
  moreover have "str_field api (recv_socket_buffer w) K_COMMAND ''2''" using assms(5) Modify by simp
  ultimately show ?thesis
    using m by (simp add: user_request_def wp_bnd get_command_calm [OF assms(1,2)] CLOSE_CONNECTION_def OPTION1_n_def OPTION2_n_def)
qed

lemma user_round_step:
  assumes "serving api valid depth fd a (r # rs) w" "user_step api a r = Some (a', b)"
  shows "wp (user_round api fd) (\<lambda>_ w'. serving api valid depth fd a' rs w' \<and> sent w' = sent w @ [(fd, b)])
    (\<lambda>_ _. False) w"
proof -
  obtain m ms where m: "inbox w fd = m # ms" "length m \<le> BUFFER_SIZE" "carries api (fit BUFFER_SIZE m) r"
    using serving_Cons [OF assms(1)] .
  obtain s where s: "cstr (fit BUFFER_SIZE m) = Some s" using carries_text [OF m(3)] .
  note sv' = assms(1) [unfolded serving_def]
  define w1 where "w1 = w\<lparr>inbox := (inbox w)(fd := ms), recv_socket_buffer := fit BUFFER_SIZE m,
    stdout := stdout w @ [''PROCESO '' @ show_int (pid w) @ ''. '', ''Recib'' @ [CHR 0xC3, CHR 0xAD] @ '': '' @ s @ [NL]],
    tick := tick w + 2\<rparr>"
  have run: "wp (user_round api fd) Q E w = wp (user_request api fd) Q E w1" for Q E
    using sv' m s by (simp add: user_round_def wp_thn wp_bnd wp_gets wp_modify wp_prod wp_if recv_request [OF _ _ m(2,3)] wp_announce wp_sleep w1_def)
  have "wp (user_request api fd) (\<lambda>_ w'. steady w' = steady w1 \<and> state_doc api valid depth w' (fst a') (snd a') \<and>
      sent w' = sent w1 @ [(fd, b)]) (\<lambda>_ _. False) w1"
    by (rule user_request_step [where t = "fst a" and d = "snd a" and r = r])
       (use sv' m assms(2) in \<open>simp_all add: w1_def state_doc_def fresh_ok_def\<close>)
  then show ?thesis
    unfolding run
    by (rule wp_mono) (use m in \<open>auto intro!: serving_steady [OF assms(1)] simp: w1_def\<close>)
qed

end

section \<open>The two loops follow the protocol\<close>

lemma admin_loop:
  "cjson_lib api valid depth \<Longrightarrow> request_loop (admin_round api fd) (run_admin_server api fd)
     (\<lambda>a rs w. serving api valid depth fd a rs w \<and> \<not> unconnected w fd) (admin_step api valid) (Pair fd)
     (sent :: 'z server_scheme \<Rightarrow> _)"
  by (unfold_locales, simp_all only: run_admin_server.simps) (rule cjson_lib.admin_round_step)

lemma user_loop:
  "cjson_lib api valid depth \<Longrightarrow> request_loop (user_round api fd) (run_normal_user_server api fd)
     (serving api valid depth fd) (user_step api) (Pair fd) (sent :: 'z server_scheme \<Rightarrow> _)"
  by (unfold_locales, simp_all only: run_normal_user_server.simps) (rule cjson_lib.user_round_step)

interpretation tcp_service: request_loop "admin_round ref_api fd" "run_admin_server ref_api fd"
  "\<lambda>a rs w. serving ref_api ref_valid ref_depth fd a rs w \<and> \<not> unconnected w fd" "admin_step ref_api ref_valid"
  "Pair fd" sent for fd
  by (rule admin_loop [OF ref.cjson_lib_axioms])

interpretation udp_service: request_loop "user_round ref_api fd" "run_normal_user_server ref_api fd"
  "serving ref_api ref_valid ref_depth fd" "user_step ref_api" "Pair fd" sent for fd
  by (rule user_loop [OF ref.cjson_lib_axioms])

text \<open>A printed object as a message.\<close>

context cjson_lib
begin

lemma str_field_print:
  assumes "valid j" "depth j \<le> CJSON_NESTING_LIMIT" "length (cJSON_Print api j) < BUFFER_SIZE"
  shows "str_field api (fit BUFFER_SIZE (cJSON_Print api j)) k s \<longleftrightarrow>
    (case cJSON_GetObjectItemCaseSensitive api j k of None \<Rightarrow> False
     | Some v \<Rightarrow> cJSON_IsString api v \<and> valuestring api v = Some s)"
  using assms by (simp add: str_field_def cstr_fit print_text parse_print)

end

section \<open>The properties of the protocol\<close>

text \<open>C2: Refinement, TCP. As long as the abstract machine of the administrator's connection has a step for
  each of the requests that wait, the request loop serves them all, in order: it sends exactly
  the replies of the machine and leaves the state file with the machine's document, ready for
  the next request.\<close>

theorem tcp_refines_protocol:
  assumes "cjson_lib api valid depth" "serving api valid depth fd a reqs w" "\<not> unconnected w fd"
    "run_spec (admin_step api valid) a reqs = Some (a', replies)"
  shows "wp (run_admin_server api fd (length reqs)) (\<lambda>_ _. False)
    (\<lambda>e w'. e = Running \<and> serving api valid depth fd a' [] w' \<and> sent w' = sent w @ map (Pair fd) replies) w"
  by (rule wp_mono [OF request_loop.loop_run [OF admin_loop [OF assms(1)] assms(4)]]) (use assms in auto)

text \<open>C6: Refinement, UDP. The request loop of the UDP server serves any sequence of requests that wait with
  the replies of its machine, the state document for a status request and the refusal for a
  change, and leaves the document as it is.\<close>

theorem udp_refines_protocol:
  assumes "cjson_lib api valid depth" "serving api valid depth fd a reqs w"
    "run_spec (user_step api) a reqs = Some (a', replies)"
  shows "wp (run_normal_user_server api fd (length reqs)) (\<lambda>_ _. False)
    (\<lambda>e w'. e = Running \<and> serving api valid depth fd a' [] w' \<and> sent w' = sent w @ map (Pair fd) replies) w"
  by (rule request_loop.loop_run [OF user_loop [OF assms(1)] assms(3,2)])

text \<open>A server process with the repository's state file and three requests on the socket \<open>4\<close>: the
  status, a change without and one with the administrator's credentials.\<close>

definition demo_server :: "string list \<Rightarrow> server" where
  "demo_server ms = \<lparr>sys_err = (\<lambda>_. 0), junk = (\<lambda>_. []), tick = 0,
     localtime = (\<lambda>_. \<lparr>tm_wday = 3, tm_mon = 6, tm_mday = 3, tm_hour = 15, tm_min = 13, tm_sec = 5, tm_year = 2024\<rparr>),
     rnd = (\<lambda>n. n), errno = 0, files = [JSON_FILE_PATH \<mapsto> cJSON_Print ref_api state_summary], live_mem = 0, live_json = 0,
     stdout = [], stderr = [], sockets = Map.empty, next_fd = 5, inbox = (\<lambda>fd. if fd = 4 then ms else []), sent = [],
     mqueue = [], pipe_data = [], kills = [], closed_fds = [], pid = 100, fork_pid = (\<lambda>_. 1), wait_ret = (\<lambda>_. (0, 0)),
     msg_id = 1, flag_handler = 0, pipe_fd = (0, 0), buffer = replicate 100 NUL, sockfd = 3, newsockfd = 4,
     send_socket_buffer = Null, recv_socket_buffer = replicate BUFFER_SIZE NUL, mutex_state = Some 1, handlers = []\<rparr>"

lemmas demo_server_simps [simp] = server.select_convs alert_world.select_convs world.select_convs

fun request_json :: "request \<Rightarrow> json" where
  "request_json Status = JObj [(K_COMMAND, JStr ''1'')]"
| "request_json (Modify u p cat key amt) = JObj [(K_COMMAND, JStr ''2''), (K_SUP_COMMAND_EQ, JStr cat),
     (K_KEY, JStr key), (K_VALUE, JStr amt), (K_HOSTNAME, JStr u), (K_PASSWORD, JStr p)]"

definition demo_requests :: "request list" where
  "demo_requests = [Status, Modify ''guest'' ''guest'' ''food'' ''vegetables'' ''150'',
     Modify ADMIN ADMIN ''food'' ''vegetables'' ''150'']"

definition demo_messages :: "string list" where
  "demo_messages = map (cJSON_Print ref_api \<circ> request_json) demo_requests"

lemma request_carried:
  assumes "ref_valid (request_json r)" "length (cJSON_Print ref_api (request_json r)) < BUFFER_SIZE"
  shows "carries ref_api (fit BUFFER_SIZE (cJSON_Print ref_api (request_json r))) r"
proof -
  define b where "b = fit BUFFER_SIZE (cJSON_Print ref_api (request_json r))"
  have "ref_depth (request_json r) \<le> CJSON_NESTING_LIMIT" by (cases r) (simp_all add: CJSON_NESTING_LIMIT_def)
  note f = ref.str_field_print [OF assms(1) this assms(2), folded b_def]
  show ?thesis
    unfolding b_def [symmetric]
    using assms(1) by (cases r) (simp_all add: f server_texts, auto simp: ref_api_def json_items_def)
qed

lemma demo_sizes: "list_all (\<lambda>m. length m < BUFFER_SIZE) demo_messages"
  unfolding demo_messages_def demo_requests_def by code_simp

lemma demo_serving:
  "serving ref_api ref_valid ref_depth 4 (cJSON_Print ref_api state_summary, state_summary) demo_requests
     (demo_server demo_messages)"
proof -
  have c: "length (cJSON_Print ref_api (request_json r)) \<le> BUFFER_SIZE \<and>
      carries ref_api (fit BUFFER_SIZE (cJSON_Print ref_api (request_json r))) r" if "r \<in> set demo_requests" for r
  proof -
    have l: "length (cJSON_Print ref_api (request_json r)) < BUFFER_SIZE"
      using that demo_sizes by (auto simp: demo_messages_def list_all_iff)
    have "ref_valid (request_json r)" using that by (auto simp: demo_requests_def server_texts)
    with l show ?thesis by (simp add: request_carried)
  qed
  have "state_doc ref_api ref_valid ref_depth (demo_server demo_messages) (cJSON_Print ref_api state_summary) state_summary"
    using shipped_state_doc by (simp add: state_doc_def demo_server_def demo_world_def)
  moreover have "fresh_ok ref_api (demo_server demo_messages)"
    using ref.parse_empty by (simp add: fresh_ok_def demo_server_def cstr_fit)
  ultimately show ?thesis
    using c by (simp add: serving_def demo_server_def demo_messages_def list_all2_conv_all_nth)
qed

definition demo_text :: string where
  "demo_text = cJSON_Print ref_api (set_path ref_api state_summary [SUPPLIES, ''food'', ''vegetables''] (JNum (of_int_d 150)))"

lemma demo_run:
  "run_spec (admin_step ref_api ref_valid) (cJSON_Print ref_api state_summary, state_summary) demo_requests =
     Some ((demo_text, set_path ref_api state_summary [SUPPLIES, ''food'', ''vegetables''] (JNum (of_int_d 150))),
       [cJSON_Print ref_api state_summary, one_key_text ref_api K_ACC_DENEID TRUE_text, demo_text])"
proof -
  have fits: "supply_fits ref_api ''food'' ''vegetables'' (JNum (of_int_d 150)) (cJSON_Print ref_api state_summary) state_summary"
    by code_simp
  have sizes: "length (cJSON_Print ref_api state_summary) < BUFFER_SIZE" "length demo_text < BUFFER_SIZE"
    "length (one_key_text ref_api K_ACC_DENEID TRUE_text) < BUFFER_SIZE" by code_simp+
  have "show_int 150 = ''150''" by code_simp
  then have val: "value_of ref_api ''150'' (OVERRIDE OR INTPARSE) = Some (JNum (of_int_d 150))"
    using number_value [of 150] by (simp add: INT_MIN_def INT_MAX_def)
  have ok: "ref_valid (JNum (of_int_d 150))" by (rule ref_valid_number) (simp_all add: INT_MIN_def INT_MAX_def)
  have guest: "''guest'' \<noteq> ADMIN" by (simp add: ADMIN_def)
  show ?thesis
    using fits sizes val ok guest vegetables_path
    by (simp add: demo_requests_def demo_text_def [symmetric] Let_def del: set_path.simps path_ok.simps ref_valid.simps)
qed

lemma demo_connected: "\<not> unconnected (demo_server ms) fd"
  by (simp add: unconnected_def demo_server_def)

theorem tcp_refines_protocol_witness:
  "wp (run_admin_server ref_api 4 (length demo_requests)) (\<lambda>_ _. False)
    (\<lambda>e w'. e = Running \<and> serving ref_api ref_valid ref_depth 4
         (demo_text, set_path ref_api state_summary [SUPPLIES, ''food'', ''vegetables''] (JNum (of_int_d 150))) [] w' \<and>
       sent w' = sent (demo_server demo_messages) @ map (Pair 4)
         [cJSON_Print ref_api state_summary, one_key_text ref_api K_ACC_DENEID TRUE_text, demo_text]) (demo_server demo_messages)"
  by (rule tcp_refines_protocol [OF ref.cjson_lib_axioms demo_serving demo_connected demo_run])

theorem udp_refines_protocol_witness:
  "wp (run_normal_user_server ref_api 4 (length demo_requests)) (\<lambda>_ _. False)
    (\<lambda>e w'. e = Running \<and> serving ref_api ref_valid ref_depth 4 (cJSON_Print ref_api state_summary, state_summary) [] w' \<and>
       sent w' = sent (demo_server demo_messages) @ map (Pair 4) [cJSON_Print ref_api state_summary,
         one_key_text ref_api K_ACC_DENEID M_ACC_DENEID, one_key_text ref_api K_ACC_DENEID M_ACC_DENEID])
    (demo_server demo_messages)"
proof (rule udp_refines_protocol [OF ref.cjson_lib_axioms demo_serving])
  show "run_spec (user_step ref_api) (cJSON_Print ref_api state_summary, state_summary) demo_requests =
      Some ((cJSON_Print ref_api state_summary, state_summary), [cJSON_Print ref_api state_summary,
         one_key_text ref_api K_ACC_DENEID M_ACC_DENEID, one_key_text ref_api K_ACC_DENEID M_ACC_DENEID])"
    unfolding demo_requests_def by code_simp
qed

end
