(* ===== verification/Server_Properties.thy ===== *)
theory Server_Properties
  imports Server_Protocol
begin

text \<open>
  The properties of the server beyond its protocol: who may change the state file, in every
  world; messages the server does not survive; the end of a connection; the alert queue; the
  start of the processes.
\<close>

section \<open>Who may change the state file\<close>

text \<open>C7: The UDP server changes no file. In every world, whatever it receives, whichever calls fail and
  however long it runs, all files are as they were; and the loop never returns.\<close>

theorem udp_server_read_only:
  "wp (run_normal_user_server api fd n) (\<lambda>_ _. False) (\<lambda>_ w'. files w' = files w) w"
proof -
  have endless: "wp (run_normal_user_server api fd n) (\<lambda>_ _. False) (\<lambda>_ _. True) w" for w :: "'a server_scheme"
    by (induction n arbitrary: w) (auto simp: wp_thn_fun wp_halt intro: wp_mono [OF wp_true])
  show ?thesis by (rule wp_mono [OF wp_keeps [OF keeps_files_user_server endless]]) auto
qed

text \<open>C3: A change needs the administrator. In every world, whichever calls fail, the handler of a TCP
  request leaves all files as they are unless the message is the update command and carries
  the administrator's name in both credential fields.\<close>

theorem change_needs_admin:
  assumes "cjson_lib api valid depth"
  shows "wp (admin_request api fd) (\<lambda>_ w'. files w' = files w \<or> update_allowed api w)
    (\<lambda>_ w'. files w' = files w \<or> update_allowed api w) w"
  by (rule cjson_lib.admin_request_safe [OF assms])

theorem change_needs_admin_witness:
  "wp (admin_request ref_api 4)
    (\<lambda>_ w'. files w' = files (demo_server demo_messages) \<or> update_allowed ref_api (demo_server demo_messages))
    (\<lambda>_ w'. files w' = files (demo_server demo_messages) \<or> update_allowed ref_api (demo_server demo_messages))
    (demo_server demo_messages)"
  by (rule change_needs_admin [OF ref.cjson_lib_axioms])

text \<open>C17: A TCP connection on which no message carries the administrator's credentials changes no file, in
  every world and for any number of rounds.\<close>

theorem harmless_connection:
  assumes "cjson_lib api valid depth" "harmless api (inbox w fd)"
  shows "wp (run_admin_server api fd n) (\<lambda>_ w'. files w' = files w) (\<lambda>_ w'. files w' = files w) w"
  by (rule cjson_lib.run_admin_server_harmless [OF assms])

definition guest_message :: string where
  "guest_message = cJSON_Print ref_api (request_json (Modify ''guest'' ''guest'' ''food'' ''vegetables'' ''150''))"

lemma guest_harmless: "harmless ref_api [guest_message]"
proof -
  let ?j = "request_json (Modify ''guest'' ''guest'' ''food'' ''vegetables'' ''150'')"
  have l: "length guest_message < BUFFER_SIZE" by code_simp
  have "ref_valid ?j" by (simp add: server_texts)
  note c = request_carried [OF this l [unfolded guest_message_def], folded guest_message_def]
  then have "field ref_api (fit BUFFER_SIZE guest_message) K_HOSTNAME = Some ''guest''"
    by (auto simp: field_def str_field_def value_text_def split: option.splits)
  with l show ?thesis by (simp add: harmless_def granted_def ADMIN_def)
qed

theorem harmless_connection_witness:
  "wp (run_admin_server ref_api 4 7) (\<lambda>_ w'. files w' = files (demo_server [guest_message]))
    (\<lambda>_ w'. files w' = files (demo_server [guest_message])) (demo_server [guest_message])"
  by (rule harmless_connection [OF ref.cjson_lib_axioms]) (simp add: guest_harmless demo_server_def)

section \<open>Messages the server does not survive\<close>

text \<open>C23: A message without a command, or one that is not JSON at all, has no defined outcome, in every
  world: both request handlers release a pointer that was never set.\<close>

theorem missing_command_undefined:
  assumes "cstr (recv_socket_buffer w) = Some t" "flag_handler w = 0"
    "\<And>j. cJSON_Parse api t = Some j \<Longrightarrow> cJSON_GetObjectItemCaseSensitive api j K_COMMAND = None"
  shows "wp (admin_request api fd) (\<lambda>_ _. False) (\<lambda>e w'. e = Undef Indet_Pointer \<and> files w' = files w) w \<and>
    wp (user_request api fd) (\<lambda>_ _. False) (\<lambda>e w'. e = Undef Indet_Pointer \<and> files w' = files w) w"
  unfolding admin_request_def user_request_def wp_bnd
  by (intro conjI wp_mono [OF get_command_missing [OF assms]]) auto

theorem missing_command_undefined_witness:
  "wp (admin_request ref_api 4) (\<lambda>_ _. False)
     (\<lambda>e w'. e = Undef Indet_Pointer \<and> files w' = files (demo_server [])) (demo_server []) \<and>
   wp (user_request ref_api 4) (\<lambda>_ _. False)
     (\<lambda>e w'. e = Undef Indet_Pointer \<and> files w' = files (demo_server [])) (demo_server [])"
  by (rule missing_command_undefined [of _ "[]"]) (simp_all add: demo_server_def ref.parse_empty)

section \<open>The end of a connection\<close>


lemma demo_fresh: "fresh_ok ref_api (demo_server ms)"
  using ref.parse_empty by (simp add: fresh_ok_def demo_server_def cstr_fit)


context cjson_lib
begin

text \<open>On a socket without a destination the text is not sent.\<close>

lemma send_text_unconnected:
  assumes "send_socket_buffer w = Buf a" "cstr a = Some s" "s \<noteq> []" "length s < BUFFER_SIZE" "unconnected w fd"
  shows "wp (send_text fd) Q E w = Q 1 (w\<lparr>errno := 89, tick := Suc (tick w),
    stderr := stderr w @ [co_file @ '':'' @ show_nat 225 @ '': '' @ ''Error sending the json_buffer content.'' @ [NL]]\<rparr>)"
proof -
  obtain k where k: "BUFFER_SIZE - length s = Suc k" using assms(4) by (metis Suc_diff_Suc)
  have "drop (length s) (replicate BUFFER_SIZE NUL) = NUL # replicate k NUL" by (simp add: k)
  with assms show ?thesis
    by (simp add: send_text_def send_message_def strncpy_text send_message_to_socket_def wp_simps cstr_no_nul)
qed

lemma end_message_unconnected:
  assumes "calm w" "fresh_ok api w" "unconnected w fd" "length (one_key_text api K_END TRUE_text) < BUFFER_SIZE"
  shows "wp (send_end_conn_message api fd) (\<lambda>_ _. False)
    (\<lambda>e w'. e = Exit 1 \<and> sent w' = sent w \<and> kills w' = kills w \<and> files w' = files w) w"
proof -
  have msg: "one_key_text api K_END TRUE_text \<noteq> []" "NUL \<notin> set (one_key_text api K_END TRUE_text)"
    using print_text by (simp_all add: one_key_text_def)
  from assms(2) obtain t where t: "cstr (fit BUFFER_SIZE (junk w (tick w))) = Some t" "cJSON_Parse api t = None"
    by (auto simp: fresh_ok_def)
  note add = one_key_message [OF assms(1) t server_texts_no_nul(8,9) refl assms(4) [unfolded one_key_text_def]]
  show ?thesis
    unfolding send_end_conn_message_def add
    using assms msg unfolding one_key_text_def
    by (simp add: wp_bnd send_text_unconnected wp_if wp_thn wp_free_ssb wp_error_handler wp_halt)
qed

end

text \<open>C38: The UDP server cannot end a conversation: on its socket, which is connected to nobody, the notice
  cannot be sent. When no other call fails, the request to close sends nothing, signals nobody
  and ends the process with an error.\<close>

theorem udp_close_fails:
  assumes "cjson_lib api valid depth" "calm w" "pipe_data w = []" "fresh_ok api w" "unconnected w fd"
    "fst (pipe_fd w) \<noteq> fd" "length (one_key_text api K_END TRUE_text) < BUFFER_SIZE" "flag_handler w = 0"
    "str_field api (recv_socket_buffer w) K_COMMAND ''0''"
  shows "wp (user_request api fd) (\<lambda>_ _. False)
    (\<lambda>e w'. e = Exit 1 \<and> sent w' = sent w \<and> kills w' = kills w \<and> files w' = files w) w"
proof -
  let ?E = "\<lambda>e w'. e = Exit 1 \<and> sent w' = sent w \<and> kills w' = kills w \<and> files w' = files w"
  have send: "wp (send_end_conn_message api fd) Q ?E u"
    if "calm u" "fresh_ok api u" "unconnected u fd" "sent u = sent w" "kills u = kills w" "files u = files w" for Q u
    by (rule wp_mono [OF cjson_lib.end_message_unconnected [OF assms(1) that(1-3) assms(7)]]) (use that in auto)
  show ?thesis
    using assms(2-6,8)
    by (simp add: user_request_def wp_bnd cjson_lib.get_command_calm [OF assms(1) assms(2,8,9)] CLOSE_CONNECTION_def
        end_conn_def wp_simps fcntl_def read_pipe_def Let_def)
       (rule send; simp add: unconnected_def fresh_ok_def)
qed

definition close_request :: json where
  "close_request = JObj [(K_COMMAND, JStr ''0'')]"

definition udp_server :: server where
  "udp_server = (demo_server [])\<lparr>recv_socket_buffer := fit BUFFER_SIZE (cJSON_Print ref_api close_request),
     sockets := [4 \<mapsto> \<lparr>sk_domain = AF_INET, sk_type = SOCK_DGRAM, sk_bound = Some 2222, sk_listen = None, sk_peer = None\<rparr>]\<rparr>"

theorem udp_close_fails_witness:
  "wp (user_request ref_api 4) (\<lambda>_ _. False)
    (\<lambda>e w'. e = Exit 1 \<and> sent w' = sent udp_server \<and> kills w' = kills udp_server \<and> files w' = files udp_server) udp_server"
proof (rule udp_close_fails [OF ref.cjson_lib_axioms])
  show "length (one_key_text ref_api K_END TRUE_text) < BUFFER_SIZE" by code_simp
  have l: "length (cJSON_Print ref_api close_request) < BUFFER_SIZE" by code_simp
  have "str_field ref_api (fit BUFFER_SIZE (cJSON_Print ref_api close_request)) K_COMMAND ''0''"
    by (subst ref.str_field_print [OF _ _ l])
       (simp_all add: close_request_def K_COMMAND_def CJSON_NESTING_LIMIT_def, simp add: ref_api_def json_items_def)
  then show "str_field ref_api (recv_socket_buffer udp_server) K_COMMAND ''0''" by (simp add: udp_server_def)
  show "fresh_ok ref_api udp_server" using demo_fresh [of "[]"] by (simp add: udp_server_def fresh_ok_def)
qed (simp_all add: udp_server_def unconnected_def, simp_all add: demo_server_def)

section \<open>The alert queue\<close>

text \<open>C37: An alert that is queued is one too long to be received: the message takes \<open>sizeof(mess_t)\<close> bytes
  after its type, the listener's structure has fewer, and receiving it writes past the
  structure's end.\<close>

theorem alert_overruns_listener:
  assumes "cstr a = Some s" "length s < BUFFER_SIZE_M" "calm w" "msg_id w \<noteq> 0" "msg_id w \<noteq> - 1" "mqueue w = []"
    "length tail = mess_t_tail"
  shows "wp (thn (send_alert_msqueue (Buf a)) (listener_round tail)) (\<lambda>_ _. False)
    (\<lambda>e w'. e = Undef Buffer_Overflow) w"
proof -
  have n: "NUL \<notin> set s" using assms(1) by (rule cstr_no_nul)
  have "length (put_str (fit BUFFER_SIZE_M j) s) = BUFFER_SIZE_M" for j using assms(2) by simp
  then show ?thesis
    using assms n
    by (simp add: send_alert_msqueue_def msgsnd_def listener_round_def msgrcv_def wp_simps Let_def sizeof_mess_t_def
        BUFFER_SIZE_M_def mess_t_tail_def)
qed

theorem alert_overruns_listener_witness:
  "wp (thn (send_alert_msqueue (Buf (''NORTH 39'' @ [NUL]))) (listener_round (replicate mess_t_tail NUL))) (\<lambda>_ _. False)
    (\<lambda>e w'. e = Undef Buffer_Overflow) (demo_server [])"
  by (rule alert_overruns_listener [of _ "''NORTH 39''"])
     (simp_all add: cstr_def BUFFER_SIZE_M_def, simp_all add: demo_server_def)

section \<open>The processes\<close>

text \<open>What the children of the main process run, in the order in which they are forked.\<close>

definition child_roles :: "'j cjson_api \<Rightarrow> nat \<Rightarrow> ('z server_scheme, unit) comp list" where
  "child_roles api n = [run_server_ipv4 api SOCK_STREAM n, run_server_ipv4 api SOCK_DGRAM n,
     run_server_ipv6 api SOCK_STREAM n, run_server_ipv6 api SOCK_DGRAM n, run_alert_module api n,
     alert_and_emergency_listener n]"

text \<open>The state in which the first child is forked.\<close>

definition booted :: "'z server_scheme \<Rightarrow> 'z server_scheme" where
  "booted w = (let q = int (rnd w (tick w + 4)) mod 2 ^ 31 in
     w\<lparr>handlers := handlers w @ [SIGINT, SIGTSTP, SIGTERM], tick := tick w + 5, msg_id := q, mutex_state := Some 1,
       stdout := stdout w @ [''QID = '' @ show_int q @ [NL]]\<rparr>)"

lemma wp_start_child [wp_simps]:
  "wp (start_child c f r) Q E w =
     (let p = fork_pid w (tick w); w' = w\<lparr>tick := Suc (tick w)\<rparr> in
      if p = 0 then wp (thn c (halt (Exit 0))) Q E w' else if 0 < p then wp r Q E w'
      else wp (thn f (halt (Exit 1))) Q E w')"
  by (simp add: start_child_def fork_def wp_simps Let_def)

lemma wp_boot:
  assumes "calm w"
  shows "wp (thn set_signal_handlers (thn create_message_queue (thn (modify (\<lambda>w. w\<lparr>mutex_state := Some 1\<rparr>)) m))) Q E w =
    wp m Q E (booted w)"
proof -
  have "0 \<le> int (rnd w (tick w + 4)) mod 2 ^ 31" by simp
  then have "int (rnd w (tick w + 4)) mod 2 ^ 31 \<noteq> - 1" by linarith
  with assms show ?thesis
    by (simp add: set_signal_handlers_def sigaction_def create_message_queue_def msgget_def wp_simps booted_def Let_def
        tick_sums)
qed

lemma booted_simps [simp]:
  "fork_pid (booted w) = fork_pid w" "tick (booted w) = tick w + 5" "mutex_state (booted w) = Some 1"
  "handlers (booted w) = handlers w @ [SIGINT, SIGTSTP, SIGTERM]" "files (booted w) = files w"
  by (simp_all add: booted_def Let_def)

text \<open>C36: The main process, when no call fails, installs its three handlers, creates the alert queue and the
  semaphore and forks six children; the child of the \<open>i\<close>-th \<open>fork\<close> runs exactly the \<open>i\<close>-th role, from
  this state, with its own copy of the semaphore at \<open>1\<close>, and exits with \<open>0\<close> if that returns.\<close>

theorem main_children:
  assumes "calm w" "i < 6" "\<forall>j < i. 0 < fork_pid w (tick w + 5 + j)" "fork_pid w (tick w + 5 + i) = 0"
  shows "wp (server_main api n) Q E w =
    wp (thn (child_roles api n ! i) (halt (Exit 0))) Q E ((booted w)\<lparr>tick := tick w + 6 + i\<rparr>)"
proof -
  have i: "i = 0 \<or> i = 1 \<or> i = 2 \<or> i = 3 \<or> i = 4 \<or> i = 5" using assms(2) by arith
  have f: "0 < fork_pid w (tick w + 5 + j)" "fork_pid w (tick w + 5 + j) \<noteq> 0" if "j < i" for j using assms(3) that by fastforce+
  show ?thesis
    using i f [of 0] f [of 1] f [of 2] f [of 3] f [of 4] assms(4)
    unfolding server_main_def wp_boot [OF assms(1)]
    by (elim disjE) (simp_all add: wp_start_child Let_def child_roles_def numeral_eq_Suc)
qed

definition listener_world :: server where
  "listener_world = (demo_server [])\<lparr>fork_pid := (\<lambda>k. if k = 10 then 0 else 1)\<rparr>"

theorem main_children_witness:
  "wp (server_main ref_api 3) (\<lambda>_ _. False) (\<lambda>e w'. e = Blocked) listener_world =
   wp (thn (child_roles ref_api 3 ! 5) (halt (Exit 0))) (\<lambda>(_ :: unit) _. False) (\<lambda>e w'. e = Blocked)
     ((booted listener_world)\<lparr>tick := tick listener_world + 6 + 5\<rparr>)"
  by (rule main_children [of listener_world 5]) (simp_all add: demo_server_def listener_world_def)

text \<open>What the parent prints while it waits.\<close>

definition wait_reports :: "(nat \<Rightarrow> int \<times> nat) \<Rightarrow> nat \<Rightarrow> nat \<Rightarrow> string list" where
  "wait_reports r t k = filter (\<lambda>m. m \<noteq> []) (map (\<lambda>i. status_text (fst (r i)) (snd (r i))) [t ..< t + k])"

lemma wp_wait_loop:
  "wp (wait_loop k) Q E u = Q () (u\<lparr>tick := tick u + k, stdout := stdout u @ wait_reports (wait_ret u) (tick u) k\<rparr>)"
proof (induction k arbitrary: u)
  case 0
  then show ?case by (simp add: wp_simps wait_reports_def)
next
  case (Suc k)
  have "[tick u ..< tick u + Suc k] = tick u # [Suc (tick u) ..< Suc (tick u) + k]" by (simp add: upt_rec)
  with Suc show ?case by (simp add: wait_c_def wp_simps Let_def split_def wait_reports_def)
qed

text \<open>The parent, when no call fails, waits for its six children, reports each and exits with \<open>0\<close>; it
  changes no file and sends nothing.\<close>

theorem main_parent:
  assumes "calm w" "\<forall>j < 6. 0 < fork_pid w (tick w + 5 + j)"
  shows "wp (server_main api n) (\<lambda>_ _. False)
    (\<lambda>e w'. e = Exit 0 \<and> files w' = files w \<and> sent w' = sent w \<and>
       stdout w' = stdout (booted w) @ wait_reports (wait_ret w) (tick w + 11) 6) w"
proof -
  have f: "0 < fork_pid w (tick w + 5 + j)" "fork_pid w (tick w + 5 + j) \<noteq> 0" if "j < 6" for j using assms(2) that by fastforce+
  have w: "wait_ret (booted w) = wait_ret w" "sent (booted w) = sent w" by (simp_all add: booted_def Let_def)
  show ?thesis
    using f [of 0] f [of 1] f [of 2] f [of 3] f [of 4] f [of 5]
    unfolding server_main_def wp_boot [OF assms(1)]
    by (simp add: wp_start_child Let_def wp_thn wp_wait_loop wp_halt w numeral_eq_Suc del: wait_loop.simps)
qed

theorem main_parent_witness:
  "wp (server_main ref_api 3) (\<lambda>_ _. False)
    (\<lambda>e w'. e = Exit 0 \<and> files w' = files (demo_server []) \<and> sent w' = sent (demo_server []) \<and>
       stdout w' = stdout (booted (demo_server [])) @
         wait_reports (wait_ret (demo_server [])) (tick (demo_server []) + 11) 6) (demo_server [])"
  by (rule main_parent) (simp_all add: demo_server_def)

section \<open>Signals\<close>





section \<open>Accepting connections\<close>




end
