(* ===== verification/Client.thy ===== *)
theory Client
  imports Cjson_Handler Comunication_Handler
begin

text \<open>
  The client, \<open>client/src/client.c\<close>: it asks for the credentials, connects by TCP as the
  administrator and by UDP otherwise, and then sends the requests that the user chooses and
  shows the replies. Its global variables are the fields of the record \<open>client\<close>; what the user
  types is the text \<open>stdin\<close>, which ends with the end of the file.

  The endless loops take the number of rounds for which they are observed. A signal is
  delivered where a loop looks at the flags that the handler sets: the handler only sets
  these flags or ends the process, and a call that it interrupts is one that fails.
\<close>

section \<open>State\<close>

record client = world +
  flag_get_supply :: int
  skip_option :: int
  c_send_socket_buffer :: "char list"
  c_recv_socket_buffer :: "char list"
  c_sockfd :: int
  connection_type :: int
  ip_version :: int
  username :: "char list"
  password :: "char list"
  c_handlers :: "int list"
  stdin :: string
  signals :: "nat \<Rightarrow> int list"

abbreviation cl_file :: string where "cl_file \<equiv> ''client/src/client.c''"

section \<open>Reading what the user types\<close>

text \<open>\<open>fgets\<close>: at most \<open>n - 1\<close> bytes, up to and including the end of the line; at the end of the
  file the array stays as it is.\<close>

fun take_line :: "nat \<Rightarrow> string \<Rightarrow> string" where
  "take_line 0 s = []"
| "take_line (Suc n) [] = []"
| "take_line (Suc n) (c # s) = c # (if c = NL then [] else take_line n s)"

definition fgets :: "char list \<Rightarrow> nat \<Rightarrow> ('z client_scheme, char list) comp" where
  "fgets a n = bnd (gets stdin) (\<lambda>s.
     let line = take_line (n - 1) s in
     if line = [] then ret a
     else if length a \<le> length line then halt (Undef Buffer_Overflow)
     else thn (modify (\<lambda>w. w\<lparr>stdin := drop (length line) s\<rparr>)) (ret (put_str a line)))"

text \<open>\<open>scanf("%d", &v)\<close>: white space is skipped; the variable keeps its value when no number
  follows, and what does not belong to one stays in the input. A number that does not fit an
  \<open>int\<close> has no defined result.\<close>

definition scanf_d :: "int \<Rightarrow> ('z client_scheme, int) comp" where
  "scanf_d v = bnd (gets stdin) (\<lambda>s.
     let (neg, r) = take_sign (dropWhile isspace s); ds = takeWhile isdigit r;
         i = (if neg then - int (digits_val ds) else int (digits_val ds)) in
     thn (modify (\<lambda>w. w\<lparr>stdin := drop (length ds) r\<rparr>))
    (if ds = [] then ret v
     else if INT_MIN \<le> i \<and> i \<le> INT_MAX then ret i
     else halt (Undef Signed_Overflow)))"

text \<open>\<open>scanf("%s", a)\<close>: the next word, whatever its length; at the end of the file the array stays
  as it is.\<close>

definition scanf_s :: "char list \<Rightarrow> ('z client_scheme, char list) comp" where
  "scanf_s a = bnd (gets stdin) (\<lambda>s.
     let r = dropWhile isspace s; word = takeWhile (\<lambda>c. \<not> isspace c) r in
     thn (modify (\<lambda>w. w\<lparr>stdin := drop (length word) r\<rparr>))
    (if word = [] then ret a
     else if length a \<le> length word then halt (Undef Buffer_Overflow)
     else ret (put_str a word)))"

text \<open>\<open>a[strlen(a) - 1] = '\0'\<close>: for the empty string the index is the largest \<open>size_t\<close>.\<close>

definition chop_last :: "char list \<Rightarrow> ('s, char list) comp" where
  "chop_last a = bnd (read_str (Buf a)) (\<lambda>s.
     if s = [] then halt (Undef Buffer_Overflow) else ret (a[length s - 1 := NUL]))"

section \<open>Small functions\<close>

definition clear_screen :: "('z world_scheme, unit) comp" where
  "clear_screen = thn (print (''...'' @ [NL])) (thn (sleep 1) (print ([CHR 0x1B] @ ''[2J'')))"

definition end_client_conn :: "('z client_scheme, 'a) comp" where
  "end_client_conn = bnd (gets c_sockfd) (\<lambda>fd. thn (close fd)
     (thn clear_screen
     (thn (print ([NL] @ ''***Connection closed, terminating execution...***'' @ [NL]))
     (thn (sleep 1) (halt (Exit 0))))))"

definition client_sign_handler :: "int \<Rightarrow> ('z client_scheme, unit) comp" where
  "client_sign_handler signal =
     (if signal = SIGINT
      then thn (print (''SIGINT called'' @ [NL])) (modify (\<lambda>w. w\<lparr>flag_get_supply := 0, skip_option := 1\<rparr>))
      else if signal = SIGTSTP
      then thn (print (''SIGTSTP called'' @ [NL])) end_client_conn
      else ret ())"

primrec handle_signals :: "int list \<Rightarrow> ('z client_scheme, unit) comp" where
  "handle_signals [] = ret ()"
| "handle_signals (s # ss) = thn (client_sign_handler s) (handle_signals ss)"

definition deliver_signals :: "('z client_scheme, unit) comp" where
  "deliver_signals = bnd (gets (\<lambda>w. signals w (tick w))) (\<lambda>ss.
     thn (modify (\<lambda>w. w\<lparr>tick := Suc (tick w)\<rparr>)) (handle_signals ss))"

definition client_sigaction :: "int \<Rightarrow> string \<Rightarrow> ('z client_scheme, unit) comp" where
  "client_sigaction sig msg = bnd sys (\<lambda>ok.
     if ok then modify (\<lambda>w. w\<lparr>c_handlers := c_handlers w @ [sig]\<rparr>)
     else thn (perror msg) (halt (Exit 1)))"

definition client_set_signal_handlers :: "('z client_scheme, unit) comp" where
  "client_set_signal_handlers =
     thn (client_sigaction SIGINT ''Couldn't set SIGINT handler'')
    (thn (client_sigaction SIGTSTP ''Couldn't set SIGTSTP handler'')
         (client_sigaction SIGTERM ''Couldn't set SIGTERM handler''))"

section \<open>Credentials and connection\<close>

definition get_credentials :: "('z client_scheme, unit) comp" where
  "get_credentials =
     thn (print ''Enter your username: '')
    (bnd (gets username) (\<lambda>a. bnd (fgets a MAX_USERNAME_LENGTH) (\<lambda>a.
     thn (modify (\<lambda>w. w\<lparr>username := a\<rparr>))
    (bnd (chop_last a) (\<lambda>a. thn (modify (\<lambda>w. w\<lparr>username := a\<rparr>))
    (thn (print ''Enter your password: '')
    (bnd (gets password) (\<lambda>a. bnd (fgets a MAX_PASSWORD_LENGTH) (\<lambda>a.
     thn (modify (\<lambda>w. w\<lparr>password := a\<rparr>))
    (bnd (chop_last a) (\<lambda>a. modify (\<lambda>w. w\<lparr>password := a\<rparr>))))))))))))"

text \<open>The password is only looked at when the name is the administrator's.\<close>

definition client_check_credentials :: "('z client_scheme, int) comp" where
  "client_check_credentials =
     bnd (gets (\<lambda>w. Buf (username w))) (\<lambda>p. bnd (read_str p) (\<lambda>u.
     bnd (if u = ADMIN then bnd (gets (\<lambda>w. Buf (password w))) (\<lambda>p. bnd (read_str p) (\<lambda>s. ret (s = ADMIN)))
          else ret False) (\<lambda>admin.
     if admin then thn (print (''Welcome Admin'' @ [NL])) (thn (sleep 1) (ret 1)) else ret 0)))"

definition try_connect_server :: "int \<Rightarrow> int \<Rightarrow> ('z client_scheme, unit) comp" where
  "try_connect_server type ipv =
     (if ipv = IPV4
      then bnd (connect_client_ipv4 IP_ADDR_V4 type) (\<lambda>(r, fd). thn (modify (\<lambda>w. w\<lparr>c_sockfd := fd\<rparr>))
          (if r \<noteq> 0 then thn (error_handler ''Error to connect to the server'' cl_file 85) (halt (Exit 1)) else ret ()))
      else if ipv = IPV6
      then bnd (connect_client_ipv6 IP_ADDR_V6 type) (\<lambda>(r, fd). thn (modify (\<lambda>w. w\<lparr>c_sockfd := fd\<rparr>))
          (if r \<noteq> 0 then thn (error_handler ''Error to connect to the server'' cl_file 92) (halt (Exit 1)) else ret ()))
      else thn (diag (''Uso <host> IPV'' @ [NL])) (thn (diag (''Example client localhost 4'' @ [NL]))
          (thn (diag (''Example client localhost 6'' @ [NL])) (halt (Exit 0)))))"

section \<open>Making a request\<close>

text \<open>A key is set in the global array \<open>send_socket_buffer\<close>; the return code is ignored.\<close>

definition add_to_request :: "'j cjson_api \<Rightarrow> string \<Rightarrow> cptr \<Rightarrow> ('z client_scheme, unit) comp" where
  "add_to_request api key val = bnd (gets (\<lambda>w. Buf (c_send_socket_buffer w))) (\<lambda>p.
     bnd (cjson_add_key_value_to_json_string api p (lit key) val OVERRIDE) (\<lambda>(r, p).
     case p of Buf a \<Rightarrow> modify (\<lambda>w. w\<lparr>c_send_socket_buffer := a\<rparr>) | _ \<Rightarrow> ret ()))"

definition clear_request :: "('z client_scheme, unit) comp" where
  "clear_request = modify (\<lambda>w. w\<lparr>c_send_socket_buffer := replicate BUFFER_SIZE NUL\<rparr>)"

definition add_credentials :: "'j cjson_api \<Rightarrow> ('z client_scheme, unit) comp" where
  "add_credentials api =
     bnd (gets (\<lambda>w. Buf (username w))) (\<lambda>u. thn (add_to_request api K_HOSTNAME u)
    (bnd (gets (\<lambda>w. Buf (password w))) (\<lambda>p. add_to_request api K_PASSWORD p)))"

text \<open>The choice of a category: the loop repeats until \<open>1\<close> or \<open>2\<close> has been read.\<close>

primrec category_loop :: "'j cjson_api \<Rightarrow> nat \<Rightarrow> int \<Rightarrow> ('z client_scheme, unit) comp" where
  "category_loop api 0 option = halt Running"
| "category_loop api (Suc n) option =
     thn clear_screen
    (thn (print (''Please enter an option (1 or 2):'' @ [NL]))
    (thn (print (''1. '' @ SUP_OPT1_EQ @ [NL]))
    (thn (print (''2. '' @ SUP_OPT2_EQ @ [NL]))
    (bnd (scanf_d option) (\<lambda>option.
     if option = 1
     then thn (print (''You have selected: '' @ SUP_OPT1_EQ @ ''.'' @ [NL]))
         (thn (add_to_request api K_SUP_COMMAND (lit SUP_OPT1))
              (add_to_request api K_SUP_COMMAND_EQ (lit SUP_OPT1_EQ)))
     else if option = 2
     then thn (print (''You have selected: '' @ SUP_OPT2_EQ @ ''.'' @ [NL]))
         (thn (add_to_request api K_SUP_COMMAND (lit SUP_OPT2))
              (add_to_request api K_SUP_COMMAND_EQ (lit SUP_OPT2_EQ)))
     else thn (print (''Invalid option. Please enter a valid number.'' @ [NL])) (category_loop api n 0))))))"

text \<open>The amount: the loop repeats until a positive number has been read.\<close>

primrec amount_loop :: "nat \<Rightarrow> int \<Rightarrow> ('z client_scheme, int) comp" where
  "amount_loop 0 v = halt Running"
| "amount_loop (Suc n) v =
     thn (print (''Write the amount:'' @ [NL]))
    (bnd (scanf_d v) (\<lambda>v.
     if v \<le> 0 then thn (print (''Invalid amount. Please enter a valid number.'' @ [NL])) (amount_loop n v)
     else ret v))"

definition get_supplies_options :: "'j cjson_api \<Rightarrow> nat \<Rightarrow> ('z client_scheme, unit) comp" where
  "get_supplies_options api n =
     bnd (local_array MAX_K_V_SUP_LENGHT) (\<lambda>key.
     thn (category_loop api n 0)
    (thn (print (''Write the suply:'' @ [NL]))
    (bnd (scanf_s key) (\<lambda>key.
     thn (add_to_request api K_KEY (Buf key))
    (bnd (amount_loop n 0) (\<lambda>v.
     bnd (local_array 10) (\<lambda>value_str.
     bnd (strcpy (Buf value_str) (show_int v)) (\<lambda>value_str.
     add_to_request api K_VALUE value_str))))))))"

primrec get_options :: "'j cjson_api \<Rightarrow> nat \<Rightarrow> int \<Rightarrow> ('z client_scheme, unit) comp" where
  "get_options api 0 option = halt Running"
| "get_options api (Suc n) option =
     thn clear_screen
    (thn (print (''Please enter an option (1 or 2):'' @ [NL]))
    (thn (print (''1. '' @ OPTION1_EQ @ [NL]))
    (thn (print (''2. '' @ OPTION2_EQ @ [NL]))
    (thn (print (''3. '' @ OPTION_END_EQ @ [NL]))
    (bnd (scanf_d option) (\<lambda>option.
     if option = 1
     then thn (print (''You have selected: '' @ OPTION1_EQ @ ''.'' @ [NL]))
         (thn (modify (\<lambda>w. w\<lparr>flag_get_supply := 1\<rparr>))
         (thn (add_to_request api K_COMMAND (lit OPTION1))
              (add_to_request api K_COMMAND_EQ (lit OPTION1_EQ))))
     else if option = 2
     then thn (print (''You have selected: '' @ OPTION2_EQ @ ''.'' @ [NL]))
         (thn (add_to_request api K_COMMAND (lit OPTION2))
         (thn (add_to_request api K_COMMAND_EQ (lit OPTION2_EQ))
              (get_supplies_options api n)))
     else if option = OPTION_END
     then thn (print (''You have selected: '' @ OPTION_END_EQ @ ''.'' @ [NL])) end_client_conn
     else thn (print (''Invalid option. Please enter a valid number.'' @ [NL])) (get_options api n 0)))))))"

section \<open>Sending and receiving\<close>

definition send_message_to_server :: "('z client_scheme, unit) comp" where
  "send_message_to_server = bnd (gets (\<lambda>w. Buf (c_send_socket_buffer w))) (\<lambda>p. bnd (gets c_sockfd) (\<lambda>fd.
     bnd (send_message p BUFFER_SIZE fd) (\<lambda>r.
     if r \<noteq> 0 then thn (error_handler ''Error send_message'' cl_file 62) (halt (Exit 1)) else ret ())))"

text \<open>Up to the loop of \<open>recv_and_check_message\<close>: one message is received, checked and shown. The
  result of the reception is ignored.\<close>

definition receive_and_show :: "'j cjson_api \<Rightarrow> ('z client_scheme, unit) comp" where
  "receive_and_show api =
     thn (modify (\<lambda>w. w\<lparr>c_recv_socket_buffer := replicate BUFFER_SIZE NUL\<rparr>))
    (bnd (gets c_sockfd) (\<lambda>fd. bnd (gets c_recv_socket_buffer) (\<lambda>b. bnd (recv_tcp_message fd b) (\<lambda>(r, b).
     thn (modify (\<lambda>w. w\<lparr>c_recv_socket_buffer := b\<rparr>))
    (bnd (is_key_in_json_buffer api (Buf b) (lit K_ACC_DENEID)) (\<lambda>denied.
     thn (if denied then thn clear_screen (thn (print (''Access denied'' @ [NL])) (sleep 2)) else ret ())
    (bnd (is_key_in_json_buffer api (Buf b) (lit K_END)) (\<lambda>ended.
     thn (if ended then end_client_conn else ret ())
    (thn clear_screen
         (print_cjson api (Buf b)))))))))))"

text \<open>The function calls itself from its loop; the loop ends when a signal has cleared the flag.\<close>

fun recv_and_check_message :: "'j cjson_api \<Rightarrow> nat \<Rightarrow> ('z client_scheme, unit) comp"
  and supply_loop :: "'j cjson_api \<Rightarrow> nat \<Rightarrow> ('z client_scheme, unit) comp" where
  "recv_and_check_message api 0 = halt Running"
| "recv_and_check_message api (Suc n) = thn (receive_and_show api) (supply_loop api n)"
| "supply_loop api 0 = halt Running"
| "supply_loop api (Suc n) =
     thn deliver_signals
    (bnd (gets flag_get_supply) (\<lambda>flag.
     if flag = 1
     then thn (print ([NL, TAB] @ ''CTRL + C to back'' @ [NL]))
         (thn send_message_to_server
         (thn (recv_and_check_message api n) (supply_loop api n)))
     else ret ()))"

section \<open>The main function\<close>

definition make_request :: "'j cjson_api \<Rightarrow> nat \<Rightarrow> ('z client_scheme, unit) comp" where
  "make_request api n = bnd (gets skip_option) (\<lambda>skip.
     if skip = 1
     then thn clear_request (thn (get_options api n 0) (add_credentials api))
     else thn clear_request
         (thn (add_to_request api K_COMMAND (lit OPTION1))
              (add_to_request api K_COMMAND_EQ (lit OPTION1_EQ))))"

definition client_round :: "'j cjson_api \<Rightarrow> nat \<Rightarrow> ('z client_scheme, unit) comp" where
  "client_round api n =
     thn deliver_signals
    (thn (make_request api n)
    (thn (modify (\<lambda>w. w\<lparr>skip_option := 1\<rparr>))
    (thn send_message_to_server
         (recv_and_check_message api n))))"

primrec client_loop :: "'j cjson_api \<Rightarrow> nat \<Rightarrow> nat \<Rightarrow> ('z client_scheme, unit) comp" where
  "client_loop api n 0 = halt Running"
| "client_loop api n (Suc k) = thn (client_round api n) (client_loop api n k)"

text \<open>Who is connected how.\<close>

definition log_in :: "('z client_scheme, unit) comp" where
  "log_in =
     thn get_credentials
    (bnd client_check_credentials (\<lambda>admin.
     if admin \<noteq> 0 then modify (\<lambda>w. w\<lparr>connection_type := SOCK_STREAM\<rparr>)
     else thn (print (''Welcome Normal user'' @ [NL]))
              (modify (\<lambda>w. w\<lparr>connection_type := SOCK_DGRAM, flag_get_supply := 1, skip_option := 0\<rparr>))))"

definition client_usage :: "string \<Rightarrow> ('z world_scheme, unit) comp" where
  "client_usage prog =
     thn (diag (''Uso '' @ prog @ '' <host> IPV'' @ [NL]))
    (thn (diag (''Example '' @ prog @ '' localhost 4'' @ [NL]))
         (diag (''Example '' @ prog @ '' localhost 6'' @ [NL])))"

definition client_main :: "'j cjson_api \<Rightarrow> string list \<Rightarrow> nat \<Rightarrow> ('z client_scheme, unit) comp" where
  "client_main api argv n =
     thn client_set_signal_handlers
    (case argv of
       [] \<Rightarrow> halt (Undef Null_Deref)
     | prog # args \<Rightarrow> (case args of
         host # ipv # _ \<Rightarrow>
           bnd sys (\<lambda>_. thn log_in
          (thn (modify (\<lambda>w. w\<lparr>ip_version := atoi ipv\<rparr>))
          (bnd (gets connection_type) (\<lambda>type. bnd (gets ip_version) (\<lambda>v.
           thn (try_connect_server type v) (client_loop api n n))))))
       | _ \<Rightarrow> thn (client_usage prog) (halt (Exit 0))))"

end
