(* ===== verification/Client_Requests.thy ===== *)
theory Client_Requests
  imports Client
begin

text \<open>
  What the client makes of the user's input: the credentials and the kind of connection, the
  message of a request, and the inputs for which there is no defined outcome or no end.
\<close>

section \<open>What the small functions leave alone\<close>

text \<open>What making a request leaves alone, and with it the input and the message.\<close>

abbreviation session where
  "session \<equiv> (\<lambda>w. (sys_err w, junk w, sockets w, sent w, inbox w, files w, c_sockfd w, username w, password w,
     flag_get_supply w, skip_option w))"

abbreviation desk where
  "desk \<equiv> (\<lambda>w. (session w, stdin w, c_send_socket_buffer w))"

lemma quiet_desk [simp]: "quiet session" "quiet (\<lambda>w. (session w, stdin w))" "quiet desk"
  by (simp_all add: quiet_def)

lemma keeps_desk [frame_intros]:
  "keeps desk clear_screen" "keeps desk (print s)" "keeps desk (local_array n)" "keeps desk (sleep n)"
  unfolding clear_screen_def by (intro frame_intros; simp)+

section \<open>The message\<close>

text \<open>The object with the given fields, all of them strings, set in this order.\<close>

definition fields_obj :: "'j cjson_api \<Rightarrow> (string \<times> string) list \<Rightarrow> 'j" where
  "fields_obj api fs = foldl (\<lambda>j (k, v). set_key api j k (cJSON_CreateString api v)) (cJSON_CreateObject api) fs"

definition good_fields :: "(string \<times> string) list \<Rightarrow> bool" where
  "good_fields fs \<longleftrightarrow> distinct (map (map tolower \<circ> fst) fs) \<and> (\<forall>(k, v) \<in> set fs. NUL \<notin> set k \<and> NUL \<notin> set v)"

text \<open>Every object on the way to the last field fits the message buffer.\<close>

definition message_fits :: "'j cjson_api \<Rightarrow> (string \<times> string) list \<Rightarrow> bool" where
  "message_fits api fs \<longleftrightarrow> (\<forall>i < length fs. length (cJSON_Print api (fields_obj api (take (Suc i) fs))) < BUFFER_SIZE)"

text \<open>The message buffer holds the object of these fields, or nothing yet.\<close>

definition draft :: "'j cjson_api \<Rightarrow> (string \<times> string) list \<Rightarrow> 'z client_scheme \<Rightarrow> bool" where
  "draft api fs w \<longleftrightarrow> length (c_send_socket_buffer w) = BUFFER_SIZE \<and>
     cstr (c_send_socket_buffer w) = Some (if fs = [] then [] else cJSON_Print api (fields_obj api fs))"

lemma fields_obj_snoc [simp]:
  "fields_obj api (fs @ [(k, v)]) = set_key api (fields_obj api fs) k (cJSON_CreateString api v)"
  by (simp add: fields_obj_def)

lemma good_fields_snoc:
  "good_fields (fs @ [(k, v)]) \<longleftrightarrow> good_fields fs \<and> map tolower k \<notin> set (map (map tolower \<circ> fst) fs) \<and>
     NUL \<notin> set k \<and> NUL \<notin> set v"
  by (auto simp: good_fields_def)

context cjson_lib
begin

lemma fields_obj_good:
  "good_fields fs \<Longrightarrow> cJSON_IsObject api (fields_obj api fs) \<and> valid (fields_obj api fs) \<and> depth (fields_obj api fs) \<le> 1 \<and>
     cJSON_items api (fields_obj api fs) = map (\<lambda>(k, v). (Some k, cJSON_CreateString api v)) fs"
proof (induction fs rule: rev_induct)
  case Nil
  then show ?case by (simp add: fields_obj_def create_object valid_object depth_object)
next
  case (snoc x fs)
  obtain k v where x: "x = (k, v)" by (cases x)
  with snoc have g: "good_fields fs" "map tolower k \<notin> set (map (map tolower \<circ> fst) fs)" "NUL \<notin> set k" "NUL \<notin> set v"
    by (simp_all add: good_fields_snoc)
  note IH = snoc.IH [OF g(1)]
  have "cJSON_GetObjectItemCaseSensitive api (fields_obj api fs) k = None"
    using IH g(2) by (force simp: get_items map_of_eq_None_iff image_iff)
  then have "set_key api (fields_obj api fs) k (cJSON_CreateString api v) =
      cJSON_AddItemToObject api (fields_obj api fs) k (cJSON_CreateString api v)" by (simp add: set_key_def)
  with IH g show ?case
    by (simp add: x add_item valid_add valid_string depth_add depth_scalar)
qed

lemma fields_obj_get:
  assumes "good_fields fs"
  shows "cJSON_GetObjectItemCaseSensitive api (fields_obj api fs) k = map_option (cJSON_CreateString api) (map_of fs k)"
proof -
  have "map_of (map (\<lambda>(k, v). (Some k, cJSON_CreateString api v)) fs) (Some k) = map_option (cJSON_CreateString api) (map_of fs k)"
    by (induction fs) auto
  with fields_obj_good [OF assms] show ?thesis by (simp add: get_items)
qed

text \<open>One more field.\<close>

lemma wp_add_to_request:
  assumes "calm w" "draft api fs w" "cstr vb = Some v" "good_fields (fs @ [(k, v)])"
    "length (cJSON_Print api (fields_obj api (fs @ [(k, v)]))) < BUFFER_SIZE"
    and Q: "\<And>w'. draft api (fs @ [(k, v)]) w' \<Longrightarrow> (session w', stdin w') = (session w, stdin w) \<Longrightarrow> Q () w'"
  shows "wp (add_to_request api k (Buf vb)) Q E w"
proof -
  let ?j = "fields_obj api fs" and ?a = "c_send_socket_buffer w"
  from assms(4) have g: "good_fields fs" and nk: "NUL \<notin> set k" by (simp_all add: good_fields_snoc)
  note obj = fields_obj_good [OF g]
  define t where "t = (if fs = [] then [] else cJSON_Print api ?j)"
  have t: "cstr ?a = Some t" "length ?a = BUFFER_SIZE" using assms(2) by (simp_all add: draft_def t_def)
  have lim: "depth ?j \<le> CJSON_NESTING_LIMIT" using obj by (simp add: CJSON_NESTING_LIMIT_def)
  have tree: "tree_of api t = ?j"
    using obj lim by (auto simp: t_def tree_of_print) (simp add: tree_of_def parse_empty fields_obj_def)
  have v: "value_of api v OVERRIDE = Some (cJSON_CreateString api v)" by (simp add: value_of_def flag_defs)
  have kb: "cstr (k @ [NUL]) = Some k" using nk by simp
  have ov: "cJSON_GetObjectItemCaseSensitive api ?j k = None \<or> OVERRIDE AND OVERRIDE \<noteq> 0" by (simp add: flag_defs)
  note add = add_key_value_calm [OF assms(1) t(1) kb assms(3) v tree ov print_text(1)]
  show ?thesis
    unfolding add_to_request_def lit_def
    using assms(5) t(2) by (simp add: wp_bnd wp_gets add Let_def wp_prod wp_cptr wp_modify)
      (auto intro!: Q simp: draft_def print_text)
qed

end

section \<open>Reading numbers and words\<close>

lemma wp_scanf_number:
  assumes "stdin w = s @ show_nat x @ r" "list_all isspace s" "r \<noteq> [] \<Longrightarrow> \<not> isdigit (hd r)" "int x \<le> INT_MAX"
  shows "wp (scanf_d v) Q E w = Q (int x) (w\<lparr>stdin := r\<rparr>)"
proof -
  have "dropWhile isspace (s @ show_nat x @ r) = dropWhile isspace (show_nat x @ r)"
    using assms(2) by (induction s) auto
  then have "take_sign (dropWhile isspace (s @ show_nat x @ r)) = (False, show_nat x @ r)" by simp
  with assms show ?thesis by (simp add: scanf_d_def wp_simps Let_def INT_MIN_def)
qed

lemma wp_scanf_word:
  assumes "stdin w = s @ x @ c # r" "list_all isspace s" "x \<noteq> []" "list_all (\<lambda>c. \<not> isspace c) x" "isspace c" "length x < length a"
  shows "wp (scanf_s a) Q E w = Q (put_str a x) (w\<lparr>stdin := c # r\<rparr>)"
proof -
  have "dropWhile isspace (s @ x @ c # r) = dropWhile isspace (x @ c # r)" using assms(2) by (induction s) auto
  moreover have "dropWhile isspace (x @ c # r) = x @ c # r" using assms(3,4) by (cases x) auto
  moreover have "takeWhile (\<lambda>c. \<not> isspace c) (x @ c # r) = x"
    using assms(4,5) by (induction x) auto
  ultimately show ?thesis using assms(1,3,6) by (simp add: scanf_s_def wp_simps Let_def)
qed

section \<open>Choosing an update\<close>

text \<open>The fields of the message for an update, in the order in which they are set.\<close>

definition category_name :: "nat \<Rightarrow> string" where
  "category_name c = (if c = 1 then SUP_OPT1_EQ else SUP_OPT2_EQ)"

definition update_fields :: "nat \<Rightarrow> string \<Rightarrow> nat \<Rightarrow> string \<Rightarrow> string \<Rightarrow> (string \<times> string) list" where
  "update_fields c key v u p = [(K_COMMAND, OPTION2), (K_COMMAND_EQ, OPTION2_EQ), (K_SUP_COMMAND, show_nat c),
     (K_SUP_COMMAND_EQ, category_name c), (K_KEY, key), (K_VALUE, show_nat v), (K_HOSTNAME, u), (K_PASSWORD, p)]"

text \<open>What the user types for it, line by line.\<close>

definition update_input :: "nat \<Rightarrow> string \<Rightarrow> nat \<Rightarrow> string \<Rightarrow> string" where
  "update_input c key v etc = show_nat 2 @ NL # show_nat c @ NL # key @ NL # show_nat v @ NL # etc"

lemmas client_texts = OPTION1_def OPTION1_EQ_def OPTION2_def OPTION2_EQ_def K_COMMAND_EQ_def K_SUP_COMMAND_def
  SUP_OPT1_def SUP_OPT1_EQ_def SUP_OPT2_def SUP_OPT2_EQ_def OPTION_END_EQ_def category_name_def

lemma client_texts_no_nul [simp]:
  "NUL \<notin> set OPTION1" "NUL \<notin> set OPTION1_EQ" "NUL \<notin> set OPTION2" "NUL \<notin> set OPTION2_EQ" "NUL \<notin> set K_COMMAND_EQ"
  "NUL \<notin> set K_SUP_COMMAND" "NUL \<notin> set SUP_OPT1" "NUL \<notin> set SUP_OPT1_EQ" "NUL \<notin> set SUP_OPT2" "NUL \<notin> set SUP_OPT2_EQ"
  "NUL \<notin> set (category_name c)"
  by (simp_all add: client_texts)

lemma update_fields_good:
  assumes "NUL \<notin> set key" "NUL \<notin> set u" "NUL \<notin> set p"
  shows "good_fields (update_fields c key v u p)"
  using assms show_nat_no_nul
  by (simp add: good_fields_def update_fields_def) (simp add: server_texts client_texts tolower_def)

lemma good_fields_take: "good_fields fs \<Longrightarrow> good_fields (take i fs)"
  by (auto simp: good_fields_def take_map [symmetric] simp del: map_map dest: in_set_takeD)

lemma isspace_NL [simp]: "isspace NL" "\<not> isdigit NL"
  by (simp_all add: isspace_def isdigit_def)

lemma draft_update [simp]:
  "draft api fs (w\<lparr>stdin := x\<rparr>) = draft api fs w" "draft api fs (w\<lparr>tick := n\<rparr>) = draft api fs w"
  "draft api fs (w\<lparr>stdout := l\<rparr>) = draft api fs w"
  by (simp_all add: draft_def)

lemma draft_empty [simp]: "draft api [] (w\<lparr>c_send_socket_buffer := replicate BUFFER_SIZE NUL\<rparr>)"
  by (simp add: draft_def)

context cjson_lib
begin

lemma wp_add_field:
  assumes "calm w" "draft api (take i fs) w" "i < length fs" "fs ! i = (k, v)" "cstr vb = Some v" "good_fields fs"
    "message_fits api fs"
    and Q: "\<And>w'. draft api (take (Suc i) fs) w' \<Longrightarrow> session w' = session w \<Longrightarrow> stdin w' = stdin w \<Longrightarrow> Q () w'"
  shows "wp (add_to_request api k (Buf vb)) Q E w"
proof -
  have fs: "take i fs @ [(k, v)] = take (Suc i) fs" using assms(3,4) by (simp add: take_Suc_conv_app_nth)
  have g: "good_fields (take i fs @ [(k, v)])" unfolding fs by (rule good_fields_take [OF assms(6)])
  have l: "length (cJSON_Print api (fields_obj api (take i fs @ [(k, v)]))) < BUFFER_SIZE"
    unfolding fs using assms(3,7) by (simp add: message_fits_def)
  show ?thesis
    by (rule wp_add_to_request [OF assms(1,2,5) g l], rule Q) (auto simp: fs)
qed

text \<open>The choice of the category adds the third and the fourth field.\<close>

lemma wp_category:
  assumes "calm w" "stdin w = s @ show_nat c @ r" "list_all isspace s" "r \<noteq> [] \<Longrightarrow> \<not> isdigit (hd r)" "c = 1 \<or> c = 2"
    "fs = update_fields c key v u p" "draft api (take 2 fs) w" "good_fields fs" "message_fits api fs"
    and Q: "\<And>w'. draft api (take 4 fs) w' \<Longrightarrow> session w' = session w \<Longrightarrow> stdin w' = r \<Longrightarrow> Q () w'"
  shows "wp (category_loop api (Suc n) v0) Q E w"
proof -
  have c: "int c \<le> INT_MAX" using assms(5) by (auto simp: INT_MAX_def)
  have f: "fs ! 2 = (K_SUP_COMMAND, show_nat c)" "fs ! 3 = (K_SUP_COMMAND_EQ, category_name c)" "length fs = 8"
    by (simp_all add: assms(6) update_fields_def)
  have add: "wp (thn (add_to_request api K_SUP_COMMAND (lit (show_nat c)))
      (add_to_request api K_SUP_COMMAND_EQ (lit (category_name c)))) Q E w1"
    if "calm w1" "session w1 = session w" "stdin w1 = r" "draft api (take 2 fs) w1" for w1
    unfolding wp_thn lit_def
    by (rule wp_add_field [where i = 2 and fs = fs], simp_all add: that f assms(8,9) show_nat_no_nul)
       (rule wp_add_field [where i = 3 and fs = fs], use that assms(1) in \<open>simp_all add: f assms(8,9) show_nat_no_nul Q\<close>)
  have txt1: "show_nat 1 = SUP_OPT1" "show_nat 2 = SUP_OPT2" unfolding client_texts by code_simp+
  note scan = wp_scanf_number [where s = s and x = c and r = r]
  from assms(5) show ?thesis
  proof
    assume 1: "c = 1"
    note add1 = add [unfolded 1 txt1 category_name_def wp_thn, simplified]
    show ?thesis
      using assms(1-4) c 1 by (simp add: clear_screen_def wp_simps scan) (rule add1; use assms(7) in simp)
  next
    assume 2: "c = 2"
    note add2 = add [unfolded 2 txt1 category_name_def wp_thn, simplified]
    show ?thesis
      using assms(1-4) c 2 by (simp add: clear_screen_def wp_simps scan) (rule add2; use assms(7) in simp)
  qed
qed

text \<open>The rest of the update: a word and an amount. An amount of ten digits overruns the array
  into which it is printed.\<close>

lemma wp_supplies:
  assumes "calm w" "stdin w = s @ show_nat c @ NL # key @ NL # show_nat v @ NL # etc" "list_all isspace s" "c = 1 \<or> c = 2"
    "key \<noteq> []" "list_all (\<lambda>c. \<not> isspace c) key" "length key < MAX_K_V_SUP_LENGHT" "0 < v" "int v \<le> INT_MAX"
    "fs = update_fields c key v u p" "draft api (take 2 fs) w" "good_fields fs" "message_fits api fs"
    and Q: "\<And>w'. v < 10 ^ 9 \<Longrightarrow> draft api (take 6 fs) w' \<Longrightarrow> session w' = session w \<Longrightarrow> stdin w' = NL # etc \<Longrightarrow> Q () w'"
    and E: "\<And>w'. 10 ^ 9 \<le> v \<Longrightarrow> session w' = session w \<Longrightarrow> E (Undef Buffer_Overflow) w'"
  shows "wp (get_supplies_options api (Suc n)) Q E w"
proof -
  have f: "fs ! 4 = (K_KEY, key)" "fs ! 5 = (K_VALUE, show_nat v)" "length fs = 8"
    by (simp_all add: assms(10) update_fields_def)
  have nk: "NUL \<notin> set key" using assms(12) by (auto simp: assms(10) update_fields_def good_fields_def)
  have len: "length (show_nat v) < 10 \<longleftrightarrow> v < 10 ^ 9"
    using length_show_nat [of 9 v] length_show_nat_ge [of 9 v] by (cases "v < 10 ^ 9") simp_all
  have amount: "wp (bnd (amount_loop (Suc n) 0) (\<lambda>v. bnd (local_array 10) (\<lambda>value_str.
      bnd (strcpy (Buf value_str) (show_int v)) (\<lambda>value_str. add_to_request api K_VALUE value_str)))) Q E w2"
    if w2: "draft api (take 5 fs) w2" "session w2 = session w" "stdin w2 = NL # show_nat v @ NL # etc" for w2
  proof (cases "v < 10 ^ 9")
    case True
    show ?thesis
      using w2 assms(1,8,9) True len
      by (simp add: wp_simps wp_scanf_number [where s = "[NL]" and x = v and r = "NL # etc"] show_int_def)
         (rule wp_add_field [where i = 5 and fs = fs], simp_all add: f assms(12,13) show_nat_no_nul Q)
  next
    case False
    then show ?thesis
      using w2 assms(1,8,9) len
      by (simp add: wp_simps wp_scanf_number [where s = "[NL]" and x = v and r = "NL # etc"] show_int_def E)
  qed
  show ?thesis
    unfolding get_supplies_options_def wp_bnd [of "local_array _"] wp_local_array wp_thn [of "category_loop _ _ _"]
  proof (rule wp_category [where s = s and r = "NL # key @ NL # show_nat v @ NL # etc", OF _ _ assms(3) _ assms(4,10) _ assms(12,13)])
    fix w1 :: "'a client_scheme"
    assume w1: "draft api (take 4 fs) w1" "stdin w1 = NL # key @ NL # show_nat v @ NL # etc"
      "session w1 = session (w\<lparr>tick := Suc (tick w)\<rparr>)"
    show "wp (thn (print (''Write the suply:'' @ [NL]))
           (bnd (scanf_s (fit MAX_K_V_SUP_LENGHT (junk w (tick w)))) (\<lambda>key. thn (add_to_request api K_KEY (Buf key))
             (bnd (amount_loop (Suc n) 0) (\<lambda>v. bnd (local_array 10) (\<lambda>value_str.
      bnd (strcpy (Buf value_str) (show_int v)) (\<lambda>value_str. add_to_request api K_VALUE value_str))))))) Q E w1"
      using w1 assms(1,5-7)
      by (simp add: wp_thn wp_print wp_bnd [of "scanf_s _"]
          wp_scanf_word [where s = "[NL]" and x = key and r = "show_nat v @ NL # etc" and c = NL]
          del: amount_loop.simps strcpy.simps)
         (rule wp_add_field [where i = 4 and fs = fs], simp_all add: f assms(12,13) nk amount
            del: amount_loop.simps strcpy.simps)
  qed (use assms in simp_all)
qed

text \<open>From the menu to the finished message.\<close>

lemma wp_make_update:
  assumes "calm w" "skip_option w = 1" "stdin w = update_input c key v etc" "c = 1 \<or> c = 2"
    "key \<noteq> []" "list_all (\<lambda>c. \<not> isspace c) key" "length key < MAX_K_V_SUP_LENGHT" "0 < v" "int v \<le> INT_MAX"
    "NUL \<notin> set key" "cstr (username w) = Some u" "cstr (password w) = Some p" "message_fits api (update_fields c key v u p)"
    and Q: "\<And>w'. v < 10 ^ 9 \<Longrightarrow> draft api (update_fields c key v u p) w' \<Longrightarrow> session w' = session w \<Longrightarrow> stdin w' = NL # etc \<Longrightarrow> Q () w'"
    and E: "\<And>w'. 10 ^ 9 \<le> v \<Longrightarrow> session w' = session w \<Longrightarrow> E (Undef Buffer_Overflow) w'"
  shows "wp (make_request api (Suc (Suc n))) Q E w"
proof -
  define fs where "fs = update_fields c key v u p"
  have f: "fs ! 0 = (K_COMMAND, OPTION2)" "fs ! Suc 0 = (K_COMMAND_EQ, OPTION2_EQ)" "fs ! 6 = (K_HOSTNAME, u)"
      "fs ! 7 = (K_PASSWORD, p)" "length fs = 8" by (simp_all add: fs_def update_fields_def)
  have good: "good_fields fs" "message_fits api fs"
    using assms(10,13) update_fields_good cstr_no_nul [OF assms(11)] cstr_no_nul [OF assms(12)] by (simp_all add: fs_def)
  have creds: "wp (add_credentials api) Q E w3"
    if w3: "draft api (take 6 fs) w3" "session w3 = session w" "stdin w3 = NL # etc" "v < 10 ^ 9" for w3
    unfolding add_credentials_def wp_thn wp_bnd wp_gets
    by (rule wp_add_field [where i = 6 and fs = fs], use w3 assms(1,11) in \<open>simp_all add: f good\<close>)
       (rule wp_add_field [where i = 7 and fs = fs], use w3 assms(1,12) in \<open>simp_all add: f good Q fs_def [symmetric]\<close>)
  have choose: "wp (thn (add_to_request api K_COMMAND (lit OPTION2)) (thn (add_to_request api K_COMMAND_EQ (lit OPTION2_EQ))
      (get_supplies_options api (Suc n)))) (\<lambda>_. wp (add_credentials api) Q E) E w1"
    if w1: "draft api [] w1" "session w1 = session w" "stdin w1 = NL # show_nat c @ NL # key @ NL # show_nat v @ NL # etc" for w1
    unfolding wp_thn lit_def
    apply (rule wp_add_field [where i = 0 and fs = fs], use w1 assms(1) in \<open>simp_all add: f good\<close>)
    apply (rule wp_add_field [where i = 1 and fs = fs], use w1 assms(1) in \<open>simp_all add: f good\<close>)
    apply (rule wp_supplies [where s = "[NL]" and fs = fs, OF _ _ _ assms(4-9) fs_def])
    using w1 assms(1) by (auto simp: good numeral_2_eq_2 intro!: creds E)
  show ?thesis
    using assms(1-3) unfolding make_request_def update_input_def
    by (simp add: clear_request_def wp_simps clear_screen_def
        wp_scanf_number [where s = "[]" and x = 2 and r = "NL # show_nat c @ NL # key @ NL # show_nat v @ NL # etc"]
        INT_MAX_def)
       (rule choose [unfolded wp_thn [of "add_to_request api K_COMMAND (lit OPTION2)"]], simp_all)
qed

end

section \<open>The credentials\<close>

lemma take_line_line: "NL \<notin> set u \<Longrightarrow> take_line n (u @ NL # r) = (if length u < n then u @ [NL] else take n u)"
proof (induction u arbitrary: n)
  case Nil
  then show ?case by (cases n) simp_all
next
  case (Cons c u)
  then show ?case by (cases n) auto
qed

lemma cstr_chop [simp]: "NUL \<notin> set s \<Longrightarrow> cstr ((put_str a (s @ [c]))[length s := NUL]) = Some s"
  by (simp add: put_str_def)

lemma wp_fgets:
  assumes "line = take_line (n - 1) (stdin w)" "line \<noteq> []" "length line < length a" "t = drop (length line) (stdin w)"
  shows "wp (fgets a n) Q E w = Q (put_str a line) (w\<lparr>stdin := t\<rparr>)"
  using assms by (simp add: fgets_def wp_simps Let_def)

text \<open>One line of input into a global array, without its last byte.\<close>

lemma wp_fgets_chop:
  assumes "stdin w = u @ NL # r" "NL \<notin> set u" "NUL \<notin> set u" "length a = n" "1 < n"
    and s: "(s, t) = (if length u < n - 1 then (u, r) else (take (n - 2) u, drop (n - 1) u @ NL # r))"
    and Q: "\<And>b b'. cstr b = Some s \<Longrightarrow> length b = n \<Longrightarrow> length b' = n \<Longrightarrow> wp (k b) Q E (g b' (w\<lparr>stdin := t\<rparr>))"
  shows "wp (bnd (fgets a n) (\<lambda>b. thn (modify (g b)) (bnd (chop_last b) k))) Q E w"
proof -
  define line where "line = take_line (n - 1) (u @ NL # r)"
  obtain x where line: "line = s @ [x]" and d: "drop (length line) (u @ NL # r) = t" and ns: "NUL \<notin> set s" and nx: "x \<noteq> NUL"
    and l: "length line < n"
  proof (cases "length u < n - 1")
    case True
    with assms that [of NL] show thesis by (auto simp: line_def take_line_line)
  next
    case False
    then have n: "n - 2 < length u" "Suc (n - 2) = n - 1" "n - 1 < n" "n - 1 \<le> length u" using assms(5) by arith+
    then have "take (n - 1) u = take (n - 2) u @ [u ! (n - 2)]" by (metis take_Suc_conv_app_nth)
    moreover have "u ! (n - 2) \<noteq> NUL" using assms(3) n(1) nth_mem by metis
    moreover have "s = take (n - 2) u" "t = drop (n - 1) u @ NL # r" using False s by simp_all
    moreover have "length (take (n - 1) u) = n - 1" "drop (n - 1) (u @ NL # r) = drop (n - 1) u @ NL # r" using n by simp_all
    moreover have "NUL \<notin> set (take (n - 2) u)" using assms(3) by (auto dest: in_set_takeD)
    ultimately show thesis
      using False assms(2) n that [of "u ! (n - 2)"] by (simp add: line_def take_line_line)
  qed
  have c: "cstr (put_str a line) = Some line" using ns nx by (simp add: line)
  have f: "wp (fgets a n) Q' E w = Q' (put_str a line) (w\<lparr>stdin := t\<rparr>)" for Q'
    by (rule wp_fgets) (use assms(1,4) l line d in \<open>simp_all add: line_def\<close>)
  show ?thesis
    using c l assms(4) ns by (simp add: wp_bnd f wp_thn wp_modify chop_last_def wp_read_str wp_if wp_ret)
       (simp add: line Q)
qed

lemma wp_get_credentials:
  assumes "stdin w = u @ NL # r" "NL \<notin> set u" "NUL \<notin> set u"
    "(s, p @ NL # r') = (if length u < 49 then (u, r) else (take 48 u, drop 49 u @ NL # r))"
    "NL \<notin> set p" "NUL \<notin> set p" "length p < 49"
    "length (username w) = MAX_USERNAME_LENGTH" "length (password w) = MAX_PASSWORD_LENGTH"
    and Q: "\<And>w'. cstr (username w') = Some s \<Longrightarrow> cstr (password w') = Some p \<Longrightarrow> stdin w' = r' \<Longrightarrow>
      flag_get_supply w' = flag_get_supply w \<Longrightarrow> skip_option w' = skip_option w \<Longrightarrow> Q () w'"
  shows "wp get_credentials Q E w"
proof -
  have max: "MAX_USERNAME_LENGTH = 50" "MAX_PASSWORD_LENGTH = 50" by (simp_all add: MAX_USERNAME_LENGTH_def MAX_PASSWORD_LENGTH_def)
  have second: "wp (thn (print ''Enter your password: '') (bnd (gets password) (\<lambda>a. bnd (fgets a MAX_PASSWORD_LENGTH) (\<lambda>a.
     thn (modify (\<lambda>w. w\<lparr>password := a\<rparr>)) (bnd (chop_last a) (\<lambda>a. modify (\<lambda>w. w\<lparr>password := a\<rparr>))))))) Q E w1"
    if w1: "stdin w1 = p @ NL # r'" "length (password w1) = 50" "cstr (username w1) = Some s"
      "flag_get_supply w1 = flag_get_supply w" "skip_option w1 = skip_option w" for w1
    unfolding wp_thn [of "print _"] wp_print wp_bnd [of "gets _"] wp_gets max
    by (rule wp_fgets_chop [where u = p and r = r' and s = p and t = r' and g = "\<lambda>a w. w\<lparr>password := a\<rparr>"])
       (use w1 assms(5-7) in \<open>simp_all add: wp_modify Q\<close>)
  show ?thesis
    unfolding get_credentials_def wp_thn [of "print ''Enter your username: ''"] wp_print wp_bnd [of "gets username"] wp_gets
    by (rule wp_fgets_chop [where u = u and r = r and s = s and t = "p @ NL # r'" and g = "\<lambda>a w. w\<lparr>username := a\<rparr>"];
        (simp only: wp_thn [of "modify _"] wp_modify, rule second)?)
       (use assms(1-4,8,9) in \<open>simp_all add: max\<close>)
qed

text \<open>C16: Logging in, in every world. Two lines of fewer than 49 bytes become the user name and the password
  without their ends of line, and nothing more is read; the client takes TCP exactly if both are
  the administrator's name and UDP otherwise, where it asks for the status at once.\<close>

theorem log_in_effect:
  assumes "stdin w = u @ NL # p @ NL # etc" "NL \<notin> set u" "NUL \<notin> set u" "NL \<notin> set p" "NUL \<notin> set p"
    "length u < 49" "length p < 49" "length (username w) = MAX_USERNAME_LENGTH" "length (password w) = MAX_PASSWORD_LENGTH"
  shows "wp log_in (\<lambda>_ w'. cstr (username w') = Some u \<and> cstr (password w') = Some p \<and> stdin w' = etc \<and>
      (if u = ADMIN \<and> p = ADMIN
       then connection_type w' = SOCK_STREAM \<and> flag_get_supply w' = flag_get_supply w \<and> skip_option w' = skip_option w
       else connection_type w' = SOCK_DGRAM \<and> flag_get_supply w' = 1 \<and> skip_option w' = 0))
    (\<lambda>_ _. False) w"
proof -
  have check: "wp client_check_credentials Q E w1 = (if u = ADMIN \<and> p = ADMIN
      then Q 1 (w1\<lparr>stdout := stdout w1 @ [''Welcome Admin'' @ [NL]], tick := Suc (tick w1)\<rparr>) else Q 0 w1)"
    if "cstr (username w1) = Some u" "cstr (password w1) = Some p" for Q E and w1 :: "'a client_scheme"
    using that by (simp add: client_check_credentials_def wp_simps)
  show ?thesis
    unfolding log_in_def wp_thn [of get_credentials]
    by (rule wp_get_credentials [where u = u and s = u and p = p and r' = etc])
       (use assms in \<open>auto simp: wp_bnd check wp_if wp_thn wp_modify wp_print\<close>)
qed

definition demo_client :: "string \<Rightarrow> client" where
  "demo_client input = \<lparr>sys_err = (\<lambda>_. 0), junk = (\<lambda>_. []), tick = 0,
     localtime = (\<lambda>_. \<lparr>tm_wday = 3, tm_mon = 6, tm_mday = 3, tm_hour = 15, tm_min = 13, tm_sec = 5, tm_year = 2024\<rparr>),
     rnd = (\<lambda>n. n), errno = 0, files = Map.empty, live_mem = 0, live_json = 0, stdout = [], stderr = [],
     sockets = Map.empty, next_fd = 3, inbox = (\<lambda>_. []), sent = [], mqueue = [], pipe_data = [], kills = [],
     closed_fds = [], pid = 200, fork_pid = (\<lambda>_. 1), wait_ret = (\<lambda>_. (0, 0)),
     flag_get_supply = 0, skip_option = 1, c_send_socket_buffer = replicate BUFFER_SIZE NUL,
     c_recv_socket_buffer = replicate BUFFER_SIZE NUL, c_sockfd = 3, connection_type = 0, ip_version = 0,
     username = replicate MAX_USERNAME_LENGTH NUL, password = replicate MAX_PASSWORD_LENGTH NUL, c_handlers = [],
     stdin = input, signals = (\<lambda>_. [])\<rparr>"

theorem log_in_effect_witness:
  "wp log_in (\<lambda>_ w'. cstr (username w') = Some ADMIN \<and> cstr (password w') = Some ''x'' \<and> stdin w' = ''1'' \<and>
      (if ADMIN = ADMIN \<and> ''x'' = ADMIN
       then connection_type w' = SOCK_STREAM \<and>
         flag_get_supply w' = flag_get_supply (demo_client (ADMIN @ NL # ''x'' @ NL # ''1'')) \<and>
         skip_option w' = skip_option (demo_client (ADMIN @ NL # ''x'' @ NL # ''1''))
       else connection_type w' = SOCK_DGRAM \<and> flag_get_supply w' = 1 \<and> skip_option w' = 0))
    (\<lambda>_ _. False) (demo_client (ADMIN @ NL # ''x'' @ NL # ''1''))"
  by (rule log_in_effect) (simp_all add: demo_client_def, simp_all add: ADMIN_def)

text \<open>A user name of 49 bytes or more is cut to its first 48, one byte is lost and the rest of the line
  is taken for the password, in every world: the user is not asked for it.\<close>

theorem long_name_spills:
  assumes "stdin w = u @ NL # etc" "NL \<notin> set u" "NUL \<notin> set u" "49 \<le> length u" "length u < 98"
    "length (username w) = MAX_USERNAME_LENGTH" "length (password w) = MAX_PASSWORD_LENGTH"
  shows "wp get_credentials (\<lambda>_ w'. cstr (username w') = Some (take 48 u) \<and> cstr (password w') = Some (drop 49 u) \<and>
      stdin w' = etc) (\<lambda>_ _. False) w"
  by (rule wp_get_credentials [where u = u and s = "take 48 u" and p = "drop 49 u" and r' = etc])
     (use assms in \<open>auto dest: in_set_dropD\<close>)

theorem long_name_spills_witness:
  "wp get_credentials (\<lambda>_ w'. cstr (username w') = Some (take 48 (replicate 50 (CHR ''a''))) \<and>
      cstr (password w') = Some (drop 49 (replicate 50 (CHR ''a''))) \<and> stdin w' = ''secret'')
    (\<lambda>_ _. False) (demo_client (replicate 50 (CHR ''a'') @ NL # ''secret''))"
  by (rule long_name_spills) (simp_all add: demo_client_def)

text \<open>Without input there is no defined outcome: if the file that is read has ended before the user name,
  the byte before the array is written.\<close>

theorem no_input_undefined:
  assumes "stdin w = []" "cstr (username w) = Some []"
  shows "wp get_credentials (\<lambda>_ _. False) (\<lambda>e w'. e = Undef Buffer_Overflow) w"
proof -
  have "take_line n [] = []" for n by (cases n) simp_all
  with assms show ?thesis by (simp add: get_credentials_def wp_simps fgets_def Let_def chop_last_def)
qed

theorem no_input_undefined_witness:
  "wp get_credentials (\<lambda>_ _. False) (\<lambda>e w'. e = Undef Buffer_Overflow) (demo_client [])"
  by (rule no_input_undefined) (simp_all add: demo_client_def MAX_USERNAME_LENGTH_def)

section \<open>The menu\<close>

text \<open>Input in which \<open>scanf\<close> finds no number and from which it takes nothing.\<close>

definition stuck :: "string \<Rightarrow> bool" where
  "stuck s \<longleftrightarrow> (case s of [] \<Rightarrow> True
     | c # _ \<Rightarrow> \<not> isspace c \<and> \<not> isdigit c \<and> c \<noteq> CHR ''+'' \<and> c \<noteq> CHR ''-'')"

lemma wp_scanf_stuck: "stuck (stdin w) \<Longrightarrow> wp (scanf_d v) Q E w = Q v (w\<lparr>stdin := stdin w\<rparr>)"
  by (cases "stdin w") (simp_all add: stuck_def scanf_d_def wp_simps Let_def)

text \<open>C25: A menu without end. If the input has ended or goes on with something that is not a number, the
  menu is shown again and again: in every world, for any number of rounds, it neither returns nor
  takes anything from the input.\<close>

theorem menu_never_ends:
  "stuck (stdin w) \<Longrightarrow> wp (get_options api n 0) (\<lambda>_ _. False) (\<lambda>e w'. e = Running \<and> stdin w' = stdin w) w"
proof (induction n arbitrary: w)
  case 0
  then show ?case by (simp add: wp_simps)
next
  case (Suc n)
  have "wp (get_options api n 0) (\<lambda>_ _. False) (\<lambda>e w'. e = Running \<and> stdin w' = stdin w) w1"
    if "stdin w1 = stdin w" for w1 :: "'a client_scheme"
    using Suc.IH [of w1] Suc.prems that by simp
  with Suc.prems show ?case by (simp add: clear_screen_def wp_simps wp_scanf_stuck OPTION_END_def)
qed

theorem menu_never_ends_witness:
  "wp (get_options ref_api 5 0) (\<lambda>_ _. False) (\<lambda>e w'. e = Running \<and> stdin w' = stdin (demo_client ''x1'')) (demo_client ''x1'')"
  by (rule menu_never_ends) (simp add: demo_client_def stuck_def isspace_def isdigit_def)

section \<open>The message of an update\<close>

text \<open>C15: Making an update. When no call fails and the message fits its buffer, the lines of the user (the
  choice, a category, a word of fewer than 50 bytes, a positive amount) become the message with
  exactly the eight fields of an update, the credentials last, and nothing else changes; an
  amount of ten digits is printed past the end of its array instead.\<close>

theorem update_message_made:
  assumes "cjson_lib api valid depth" "calm w" "skip_option w = 1" "stdin w = update_input c key v etc" "c = 1 \<or> c = 2"
    "key \<noteq> []" "list_all (\<lambda>c. \<not> isspace c) key" "length key < MAX_K_V_SUP_LENGHT" "0 < v" "int v \<le> INT_MAX"
    "NUL \<notin> set key" "cstr (username w) = Some u" "cstr (password w) = Some p" "message_fits api (update_fields c key v u p)"
  shows "wp (make_request api (Suc (Suc n)))
    (\<lambda>_ w'. v < 10 ^ 9 \<and> draft api (update_fields c key v u p) w' \<and> session w' = session w \<and> stdin w' = NL # etc)
    (\<lambda>e w'. 10 ^ 9 \<le> v \<and> e = Undef Buffer_Overflow \<and> session w' = session w) w"
  by (rule cjson_lib.wp_make_update [OF assms]) auto

definition admin_client :: client where
  "admin_client = (demo_client (update_input 1 ''vegetables'' 150 []))\<lparr>username := fit MAX_USERNAME_LENGTH ADMIN,
     password := fit MAX_PASSWORD_LENGTH ADMIN\<rparr>"

lemma demo_update_fits: "message_fits ref_api (update_fields 1 ''vegetables'' 150 ADMIN ADMIN)"
proof -
  have "list_all (\<lambda>i. length (cJSON_Print ref_api (fields_obj ref_api (take (Suc i) (update_fields 1 ''vegetables'' 150 ADMIN ADMIN)))) < BUFFER_SIZE)
      [0 ..< length (update_fields 1 ''vegetables'' 150 ADMIN ADMIN)]" by code_simp
  then show ?thesis by (simp add: message_fits_def list_all_iff)
qed

theorem update_message_made_witness:
  "wp (make_request ref_api (Suc (Suc 0)))
    (\<lambda>_ w'. 150 < (10 ^ 9 :: nat) \<and> draft ref_api (update_fields 1 ''vegetables'' 150 ADMIN ADMIN) w' \<and>
       session w' = session admin_client \<and> stdin w' = NL # [])
    (\<lambda>e w'. 10 ^ 9 \<le> (150 :: nat) \<and> e = Undef Buffer_Overflow \<and> session w' = session admin_client) admin_client"
proof (rule update_message_made [OF ref.cjson_lib_axioms])
  show "message_fits ref_api (update_fields 1 ''vegetables'' 150 ADMIN ADMIN)" by (rule demo_update_fits)
  show "cstr (username admin_client) = Some ADMIN" "cstr (password admin_client) = Some ADMIN"
    by (simp_all add: admin_client_def cstr_fit ADMIN_def MAX_USERNAME_LENGTH_def MAX_PASSWORD_LENGTH_def)
qed (simp_all add: admin_client_def demo_client_def MAX_K_V_SUP_LENGHT_def isspace_def INT_MAX_def)

section \<open>Following the server\<close>

text \<open>C40: The notice of the end. When no call fails, a message with the key of the end makes the client close
  its socket and exit with success, whatever else it asks for.\<close>

theorem end_notice_ends_client:
  assumes "calm w" "inbox w (c_sockfd w) = s # ms" "s \<noteq> []" "NUL \<notin> set s" "length s < BUFFER_SIZE" "cJSON_Parse api s = Some j"
    "cJSON_GetObjectItemCaseSensitive api j K_END \<noteq> None"
  shows "wp (recv_and_check_message api (Suc n)) (\<lambda>_ _. False)
    (\<lambda>e w'. e = Exit 0 \<and> closed_fds w' = closed_fds w @ [c_sockfd w] \<and> sent w' = sent w) w"
proof -
  let ?w = "w\<lparr>c_recv_socket_buffer := replicate BUFFER_SIZE NUL\<rparr>"
  have "calm ?w" "inbox ?w (c_sockfd w) = s # ms" using assms(1,2) by simp_all
  note recv = bare.recv_frame [OF this assms(4,3,5), of "replicate BUFFER_SIZE NUL", simplified]
  note shown = bare.frame_text [OF assms(4,5)]
  show ?thesis
    using assms
    by (simp add: receive_and_show_def wp_simps recv shown is_key_in_json_buffer_def is_key_in_json_object_def lit_def get_c_def
        clear_screen_def end_client_conn_def)
qed

theorem end_notice_ends_client_witness:
  "wp (recv_and_check_message ref_api (Suc 4)) (\<lambda>_ _. False)
    (\<lambda>e w'. e = Exit 0 \<and> closed_fds w' = closed_fds ((demo_client [])\<lparr>inbox := (\<lambda>_. [cJSON_Print ref_api (JObj [(K_END, JStr TRUE_text)])])\<rparr>) @
         [c_sockfd ((demo_client [])\<lparr>inbox := (\<lambda>_. [cJSON_Print ref_api (JObj [(K_END, JStr TRUE_text)])])\<rparr>)] \<and>
       sent w' = sent ((demo_client [])\<lparr>inbox := (\<lambda>_. [cJSON_Print ref_api (JObj [(K_END, JStr TRUE_text)])])\<rparr>))
    ((demo_client [])\<lparr>inbox := (\<lambda>_. [cJSON_Print ref_api (JObj [(K_END, JStr TRUE_text)])])\<rparr>)"
proof (rule end_notice_ends_client)
  let ?j = "JObj [(K_END, JStr TRUE_text)]"
  show "length (cJSON_Print ref_api ?j) < BUFFER_SIZE" by code_simp
  show "cJSON_Parse ref_api (cJSON_Print ref_api ?j) = Some ?j"
    by (rule ref.parse_print) (simp_all add: CJSON_NESTING_LIMIT_def)
  show "cJSON_GetObjectItemCaseSensitive ref_api ?j K_END \<noteq> None" by (simp add: ref_api_def json_items_def)
qed (simp_all add: ref.print_text, simp_all add: demo_client_def)




end
