(* ===== verification/System.thy ===== *)
theory System
  imports Server_Properties Client_Requests
begin

section \<open>A message of the client at the server\<close>

definition status_fields :: "(string \<times> string) list" where
  "status_fields = [(K_COMMAND, OPTION1), (K_COMMAND_EQ, OPTION1_EQ)]"

lemma status_fields_good: "good_fields status_fields" "status_fields \<noteq> []"
  by (simp_all add: good_fields_def status_fields_def) (simp add: server_texts client_texts tolower_def)

lemma update_fields_Nil: "update_fields c key v u p \<noteq> []"
  by (simp add: update_fields_def)

context cjson_lib
begin

lemma draft_fields:
  assumes "draft api fs w" "good_fields fs" "fs \<noteq> []"
  shows "str_field api (fit BUFFER_SIZE (cJSON_Print api (fields_obj api fs))) k s \<longleftrightarrow> map_of fs k = Some s"
    "cstr (c_send_socket_buffer w) = Some (cJSON_Print api (fields_obj api fs))"
    "length (c_send_socket_buffer w) = BUFFER_SIZE"
proof -
  note obj = fields_obj_good [OF assms(2)]
  show buf: "cstr (c_send_socket_buffer w) = Some (cJSON_Print api (fields_obj api fs))" "length (c_send_socket_buffer w) = BUFFER_SIZE"
    using assms(1,3) by (simp_all add: draft_def)
  have lim: "depth (fields_obj api fs) \<le> CJSON_NESTING_LIMIT" using obj by (simp add: CJSON_NESTING_LIMIT_def)
  have len: "length (cJSON_Print api (fields_obj api fs)) < BUFFER_SIZE" using cstr_length [OF buf(1)] buf(2) by simp
  have "NUL \<notin> set v" if "map_of fs k = Some v" for v
    using assms(2) map_of_SomeD [OF that] by (auto simp: good_fields_def)
  then show "str_field api (fit BUFFER_SIZE (cJSON_Print api (fields_obj api fs))) k s \<longleftrightarrow> map_of fs k = Some s"
    using obj by (auto simp: str_field_print [OF _ lim len] fields_obj_get [OF assms(2)] create_string split: option.splits)
qed

lemma update_carried:
  assumes "draft api (update_fields c key v u p) w" "NUL \<notin> set key" "NUL \<notin> set u" "NUL \<notin> set p"
  shows "carries api (fit BUFFER_SIZE (cJSON_Print api (fields_obj api (update_fields c key v u p))))
      (Modify u p (category_name c) key (show_nat v))"
  using draft_fields(1) [OF assms(1) update_fields_good [OF assms(2-4)]]
  by (simp add: update_fields_def server_texts K_COMMAND_EQ_def K_SUP_COMMAND_def OPTION2_def)

lemma status_carried:
  assumes "draft api status_fields w"
  shows "carries api (fit BUFFER_SIZE (cJSON_Print api (fields_obj api status_fields))) Status"
  using draft_fields(1) [OF assms status_fields_good] by (simp add: status_fields_def OPTION1_def)

text \<open>The request of the status that is sent without a menu.\<close>

lemma wp_make_status:
  assumes "calm w" "skip_option w = 0" "message_fits api status_fields"
    and Q: "\<And>w'. draft api status_fields w' \<Longrightarrow> session w' = session w \<Longrightarrow> Q () w'"
  shows "wp (make_request api n) Q E w"
proof -
  have f: "status_fields ! 0 = (K_COMMAND, OPTION1)" "status_fields ! Suc 0 = (K_COMMAND_EQ, OPTION1_EQ)" "length status_fields = 2"
    by (simp_all add: status_fields_def)
  show ?thesis
    unfolding make_request_def wp_bnd wp_gets lit_def
    using assms(1,2)
    by (simp add: clear_request_def wp_thn wp_modify)
       (rule wp_add_field [where i = 0 and fs = status_fields], simp_all add: f assms(3) status_fields_good,
        rule wp_add_field [where i = 1 and fs = status_fields],
        use f(3) in \<open>auto simp: f(1,2) assms(3) status_fields_good numeral_2_eq_2 intro!: Q\<close>)
qed

text \<open>What the client does with the reply.\<close>

lemma reply_shown:
  assumes "calm y" "inbox y (c_sockfd y) = t # ms" "t \<noteq> []" "NUL \<notin> set t" "length t < BUFFER_SIZE" "cJSON_Parse api t = Some d"
    "cJSON_GetObjectItemCaseSensitive api d K_ACC_DENEID = None" "cJSON_GetObjectItemCaseSensitive api d K_END = None"
  shows "wp (receive_and_show api) (\<lambda>_ y'. stdout y' = stdout y @ [''...'' @ [NL], [CHR 0x1B] @ ''[2J'', [NL] @ cJSON_Print api d @ [NL]])
    (\<lambda>_ _. False) y"
proof -
  let ?y = "y\<lparr>c_recv_socket_buffer := replicate BUFFER_SIZE NUL\<rparr>"
  have "calm ?y" "inbox ?y (c_sockfd y) = t # ms" using assms(1,2) by simp_all
  note recv = bare.recv_frame [OF this assms(4,3,5), of "replicate BUFFER_SIZE NUL", simplified]
  note shown = bare.frame_text [OF assms(4,5)]
  show ?thesis
    using assms
    by (simp add: receive_and_show_def wp_simps recv shown is_key_in_json_buffer_def is_key_in_json_object_def lit_def get_c_def
        clear_screen_def print_cjson_def print_text)
qed

end

text \<open>C1: End to end. When no call fails, what the user types for an update arrives: the client sends one
  message, and a server that receives it on a TCP connection makes exactly the step of the
  protocol for an update with this user's credentials, category, supply and amount, and sends
  the reply of the protocol.\<close>

theorem update_end_to_end:
  assumes lib: "cjson_lib api valid depth" and "calm w" "skip_option w = 1" "stdin w = update_input c key v etc" "c = 1 \<or> c = 2"
    "key \<noteq> []" "list_all (\<lambda>c. \<not> isspace c) key" "length key < MAX_K_V_SUP_LENGHT" "0 < v" "int v \<le> INT_MAX"
    "NUL \<notin> set key" "cstr (username w) = Some u" "cstr (password w) = Some p" "message_fits api (update_fields c key v u p)"
    and "v < 10 ^ 9" "\<not> unconnected w (c_sockfd w)"
  shows "wp (thn (make_request api (Suc (Suc n))) send_message_to_server)
    (\<lambda>_ w'. \<exists>m. sent w' = sent w @ [(c_sockfd w, m)] \<and>
       (\<forall>(x :: server) sk a a' reply. serving api valid depth sk a [] x \<and> \<not> unconnected x sk \<and>
          admin_step api valid a (Modify u p (category_name c) key (show_nat v)) = Some (a', reply) \<longrightarrow>
          wp (admin_round api sk) (\<lambda>_ x'. serving api valid depth sk a' [] x' \<and> sent x' = sent x @ [(sk, reply)])
            (\<lambda>_ _. False) (x\<lparr>inbox := (inbox x)(sk := [m])\<rparr>)))
    (\<lambda>_ _. False) w"
proof -
  let ?m = "fit BUFFER_SIZE (cJSON_Print api (fields_obj api (update_fields c key v u p)))"
  let ?r = "Modify u p (category_name c) key (show_nat v)"
  have server: "wp (admin_round api sk) (\<lambda>_ x'. serving api valid depth sk a' [] x' \<and> sent x' = sent x @ [(sk, reply)])
      (\<lambda>_ _. False) (x\<lparr>inbox := (inbox x)(sk := [?m])\<rparr>)"
    if "carries api ?m ?r" "serving api valid depth sk a [] x" "\<not> unconnected x sk" "admin_step api valid a ?r = Some (a', reply)"
    for x :: server and sk a a' reply
  proof -
    let ?x = "x\<lparr>inbox := (inbox x)(sk := [?m])\<rparr>"
    have "serving api valid depth sk a [?r] ?x \<and> \<not> unconnected ?x sk"
      using that by (simp add: serving_def state_doc_def fresh_ok_def)
    then show ?thesis
      by (rule wp_mono [OF cjson_lib.admin_round_step [OF lib _ that(4)]]) auto
  qed
  show ?thesis
    unfolding wp_thn
  proof (rule cjson_lib.wp_make_update [OF assms(1-14)])
    fix w'
    assume w': "draft api (update_fields c key v u p) w'" "session w' = session w" "stdin w' = NL # etc"
    note n = assms(11) cstr_no_nul [OF assms(12)] cstr_no_nul [OF assms(13)]
    note carried = cjson_lib.update_carried [OF lib w'(1) n]
      cjson_lib.draft_fields(2,3) [OF lib w'(1) update_fields_good [OF n] update_fields_Nil]
    have ne: "cJSON_Print api (fields_obj api (update_fields c key v u p)) \<noteq> []" using cjson_lib.print_text [OF lib] by simp
    have c: "calm w'" and uc: "\<not> unconnected w' (c_sockfd w')" using w'(2) assms(2,16) by (simp_all add: unconnected_def)
    show "wp send_message_to_server
      (\<lambda>_ w'. \<exists>m. sent w' = sent w @ [(c_sockfd w, m)] \<and>
       (\<forall>(x :: server) sk a a' reply. serving api valid depth sk a [] x \<and> \<not> unconnected x sk \<and>
          admin_step api valid a ?r = Some (a', reply) \<longrightarrow>
          wp (admin_round api sk) (\<lambda>_ x'. serving api valid depth sk a' [] x' \<and> sent x' = sent x @ [(sk, reply)])
            (\<lambda>_ _. False) (x\<lparr>inbox := (inbox x)(sk := [m])\<rparr>))) (\<lambda>_ _. False) w'"
      unfolding send_message_to_server_def wp_bnd wp_gets send_message_padded [OF c carried(2) ne carried(3) uc]
      using w'(2) server [OF carried(1)] by (simp add: wp_ret del: admin_step.simps split_paired_All) blast
  qed (use assms(15) in simp)
qed

theorem update_end_to_end_witness:
  "wp (thn (make_request ref_api (Suc (Suc 0))) send_message_to_server)
    (\<lambda>_ w'. \<exists>m. sent w' = sent admin_client @ [(c_sockfd admin_client, m)] \<and>
       (\<forall>(x :: server) sk a a' reply. serving ref_api ref_valid ref_depth sk a [] x \<and> \<not> unconnected x sk \<and>
          admin_step ref_api ref_valid a (Modify ADMIN ADMIN (category_name 1) ''vegetables'' (show_nat 150)) = Some (a', reply) \<longrightarrow>
          wp (admin_round ref_api sk) (\<lambda>_ x'. serving ref_api ref_valid ref_depth sk a' [] x' \<and> sent x' = sent x @ [(sk, reply)])
            (\<lambda>_ _. False) (x\<lparr>inbox := (inbox x)(sk := [m])\<rparr>)))
    (\<lambda>_ _. False) admin_client"
proof (rule update_end_to_end [OF ref.cjson_lib_axioms])
  show "message_fits ref_api (update_fields 1 ''vegetables'' 150 ADMIN ADMIN)" by (rule demo_update_fits)
  show "cstr (username admin_client) = Some ADMIN" "cstr (password admin_client) = Some ADMIN"
    by (simp_all add: admin_client_def cstr_fit ADMIN_def MAX_USERNAME_LENGTH_def MAX_PASSWORD_LENGTH_def)
qed (simp_all add: admin_client_def demo_client_def MAX_K_V_SUP_LENGHT_def isspace_def INT_MAX_def unconnected_def)



end
