(* ===== verification/Concurrency.thy ===== *)
theory Concurrency
  imports Server_Properties
begin

text \<open>
  Several connection processes at work on one state file. Each process has its own copy of all
  variables, the semaphore \<open>mutex_state\<close> included: it is initialised with \<open>pshared = 0\<close> in ordinary
  memory before the processes are forked. Only the files are shared. A process that serves an
  update waits for its semaphore and reads the file, edits the text, opens the file for
  writing, which empties it, writes the text and releases the semaphore; each of these is one
  step, and the steps of different processes interleave.
\<close>

section \<open>The system\<close>

datatype phase =
    Requested (ph_category: string) (ph_key: string) (ph_text: string)
  | Loaded (ph_category: string) (ph_key: string) (ph_text: string) (ph_buffer: cptr)
  | Edited (ph_buffer: cptr)
  | Opened (ph_text: string)
  | Stored (ph_code: int)
  | Released

record system =
  shared :: "string \<rightharpoonup> string"
  mem :: "nat \<Rightarrow> server"
  phase_of :: "nat \<Rightarrow> phase"

text \<open>A process runs on its own memory and the shared files.\<close>

definition view :: "system \<Rightarrow> nat \<Rightarrow> server" where
  "view S i = (mem S i)\<lparr>files := shared S\<rparr>"

definition put_back :: "system \<Rightarrow> nat \<Rightarrow> server \<Rightarrow> phase \<Rightarrow> system" where
  "put_back S i w ph = S\<lparr>shared := files w, mem := (mem S)(i := w), phase_of := (phase_of S)(i := ph)\<rparr>"

inductive sys_step :: "'j cjson_api \<Rightarrow> system \<Rightarrow> system \<Rightarrow> bool" for api where
  load: "phase_of S i = Requested c k v \<Longrightarrow>
     thn sem_wait (read_file JSON_FILE_PATH Null) (view S i) = Inr ((r, p), w) \<Longrightarrow>
     sys_step api S (put_back S i w (if r \<noteq> 0 then Stored 1 else Loaded c k v p))"
| edit: "phase_of S i = Loaded c k v p \<Longrightarrow>
     edit_supply api (lit c) (lit k) (lit v) p (view S i) = Inr ((r, q), w) \<Longrightarrow>
     sys_step api S (put_back S i w (if r \<noteq> 0 then Stored 1 else Edited q))"
| open_file: "phase_of S i = Edited q \<Longrightarrow> begin_write JSON_FILE_PATH q (view S i) = Inr (x, w) \<Longrightarrow>
     sys_step api S (put_back S i w (case x of Inl r \<Rightarrow> Stored r | Inr s \<Rightarrow> Opened s))"
| write_text: "phase_of S i = Opened s \<Longrightarrow> end_write JSON_FILE_PATH s (view S i) = Inr (r, w) \<Longrightarrow>
     sys_step api S (put_back S i w (Stored r))"
| release: "phase_of S i = Stored r \<Longrightarrow> sem_post (view S i) = Inr ((), w) \<Longrightarrow>
     sys_step api S (put_back S i w Released)"

lemma put_back_simps [simp]:
  "phase_of (put_back S i w ph) = (phase_of S)(i := ph)" "shared (put_back S i w ph) = files w"
  "mem (put_back S i w ph) = (mem S)(i := w)"
  by (simp_all add: put_back_def)

lemma put_back_twice [simp]: "put_back (put_back S i w ph) i w' ph' = put_back S i w' ph'"
  by (simp add: put_back_def)

lemma view_put_back [simp]: "view (put_back S i w ph) i = w"
  by (simp add: view_def put_back_def)

section \<open>What every run keeps\<close>


lemma view_simps [simp]:
  "files (view S i) = shared S" "mutex_state (view S i) = mutex_state (mem S i)" "sys_err (view S i) = sys_err (mem S i)"
  by (simp_all add: view_def)

lemma keeps_edit_supply [frame_intros]:
  "quiet f \<Longrightarrow> keeps f (edit_supply api c k v b)"
  unfolding edit_supply_def by (intro frame_intros)




lemma keeps_work:
  "keeps sys_err (edit_supply api c k v p)" "keeps files (edit_supply api c k v p)"
  "keeps mutex_state (edit_supply api c k v p)" "keeps (\<lambda>w. files w g) (edit_supply api c k v p)"
  "keeps mutex_state (begin_write f b)" "keeps mutex_state (end_write f s)"
  by (intro frame_intros; simp add: quiet_def)+




section \<open>Steps that are possible\<close>

text \<open>Reading: the semaphore of the process is free, whatever the other processes do.\<close>

lemma load_possible:
  assumes "phase_of S i = Requested c k v" "calm (mem S i)" "mutex_state (mem S i) = Some 1"
    "shared S JSON_FILE_PATH = Some t" "t \<noteq> []"
  obtains w where "sys_step api S (put_back S i w (Loaded c k v (Buf (t @ [NUL]))))" "files w = shared S" "calm w"
proof -
  have "wp (thn sem_wait (read_file JSON_FILE_PATH Null)) (\<lambda>r w. r = (0, Buf (t @ [NUL])) \<and> files w = shared S \<and> calm w)
      (\<lambda>_ _. False) (view S i)"
    using assms by (simp add: wp_simps sem_wait_def view_def read_file_calm)
  then obtain w where "thn sem_wait (read_file JSON_FILE_PATH Null) (view S i) = Inr ((0, Buf (t @ [NUL])), w)"
    "files w = shared S" "calm w" by (auto simp: wp_returns)
  with that load [OF assms(1), of 0 "Buf (t @ [NUL])" w api] show thesis by simp
qed

text \<open>Editing and opening: the document that was read, with the one change, is ready to be written, and
  the file is empty.\<close>

lemma open_possible:
  assumes lib: "cjson_lib api valid depth" and doc: "state_doc api valid depth x t d"
    and "path_ok api d [SUPPLIES, c, k]" "value_of api v (OVERRIDE OR INTPARSE) = Some j" "valid j" "supply_fits api c k j t d"
    and "NUL \<notin> set c" "NUL \<notin> set k" "NUL \<notin> set v"
    and ph: "phase_of S i = Loaded c k v (Buf (t @ [NUL]))" "calm (mem S i)"
    and P: "P = cJSON_Print api (set_path api d [SUPPLIES, c, k] j)"
  obtains w where "(sys_step api)\<^sup>*\<^sup>* S (put_back S i w (Opened P))" "calm w" "files w = (shared S)(JSON_FILE_PATH \<mapsto> [])"
    "\<And>y. files y JSON_FILE_PATH = Some P \<Longrightarrow> state_doc api valid depth (y :: server) P (set_path api d [SUPPLIES, c, k] j)"
proof -
  from assms(3) obtain s g where s: "cJSON_GetObjectItemCaseSensitive api d SUPPLIES = Some s" "cJSON_IsObject api s"
    and g: "cJSON_GetObjectItemCaseSensitive api s c = Some g" "cJSON_IsObject api g"
    by (auto split: option.splits)
  have args: "cstr (c @ [NUL]) = Some c" "cstr (k @ [NUL]) = Some k" "cstr (v @ [NUL]) = Some v" using assms(7-9) by simp_all
  have t: "cJSON_Parse api t = Some d" "NUL \<notin> set t" "cJSON_IsObject api d" "valid d" "depth d \<le> CJSON_NESTING_LIMIT"
    using doc by (simp_all add: state_doc_def)
  have calm: "calm (view S i)" using ph(2) by (simp add: view_def)
  note exec = cjson_lib.store_supply_exec [OF lib calm t s g args assms(4,5) refl refl refl]
  have doc': "state_doc api valid depth y P (set_path api d [SUPPLIES, c, k] j)" if "files y JSON_FILE_PATH = Some P" for y :: server
    using that exec(2-4) unfolding exec(5) P by (intro cjson_lib.state_doc_written [OF lib]) (simp_all del: set_path.simps)
  have P': "P \<noteq> []" "NUL \<notin> set P"
    using doc' [of "(view S i)\<lparr>files := [JSON_FILE_PATH \<mapsto> P]\<rparr>"] by (simp_all add: state_doc_def del: set_path.simps)
  have "wp (store_supply api (lit c) (lit k) (lit v) (Buf (t @ [NUL])))
      (\<lambda>r w. r = (0, Buf (put_str (t @ [NUL]) P))) (\<lambda>_ _. False) (view S i)"
    unfolding lit_def
    by (rule wp_mono [OF exec(1)])
       (use assms(6) s g exec(5) in \<open>auto simp: supply_fits_def Let_def P simp del: set_path.simps\<close>)
  then obtain w3 where "store_supply api (lit c) (lit k) (lit v) (Buf (t @ [NUL])) (view S i) = Inr ((0, Buf (put_str (t @ [NUL]) P)), w3)"
    by (auto simp: wp_returns)
  then obtain w1 where w1: "edit_supply api (lit c) (lit k) (lit v) (Buf (t @ [NUL])) (view S i) = Inr ((0, Buf (put_str (t @ [NUL]) P)), w1)"
    unfolding store_supply_def by (elim bnd_eq_InrD) (auto simp: ret_def split: if_splits elim!: bnd_eq_InrD)
  have w1_eq: "files w1 = shared S" "calm w1"
    using keeps_Inr [OF keeps_work(1) w1] keeps_Inr [OF keeps_work(2) w1] calm by simp_all
  have "wp (begin_write JSON_FILE_PATH (Buf (put_str (t @ [NUL]) P)))
      (\<lambda>x w. x = Inr P \<and> calm w \<and> files w = (shared S)(JSON_FILE_PATH \<mapsto> [])) (\<lambda>_ _. False) w1"
    using w1_eq P' by (simp add: begin_write_calm)
  then obtain w where w: "begin_write JSON_FILE_PATH (Buf (put_str (t @ [NUL]) P)) w1 = Inr (Inr P, w)" "calm w"
    "files w = (shared S)(JSON_FILE_PATH \<mapsto> [])" by (auto simp: wp_returns)
  from edit [OF ph(1) w1] open_file [of "put_back S i w1 (Edited (Buf (put_str (t @ [NUL]) P)))" i _ "Inr P" w api] w(1)
  have "(sys_step api)\<^sup>*\<^sup>* S (put_back S i w (Opened P))" by simp
  from that [OF this w(2,3)] doc' show thesis by blast
qed

text \<open>Writing: the text replaces what the file holds.\<close>

lemma write_possible:
  assumes "phase_of S i = Opened s" "calm (mem S i)" "shared S JSON_FILE_PATH = Some []"
  obtains w where "sys_step api S (put_back S i w (Stored 0))" "calm w" "files w = (shared S)(JSON_FILE_PATH \<mapsto> s)"
proof -
  have "wp (end_write JSON_FILE_PATH s) (\<lambda>r w. r = 0 \<and> calm w \<and> files w = (shared S)(JSON_FILE_PATH \<mapsto> s)) (\<lambda>_ _. False) (view S i)"
    using assms by (simp add: end_write_calm content_def)
  with that write_text [OF assms(1)] show thesis by (auto simp: wp_returns)
qed

lemma store_possible:
  assumes lib: "cjson_lib api valid depth" and doc: "state_doc api valid depth x t d"
    and "path_ok api d [SUPPLIES, c, k]" "value_of api v (OVERRIDE OR INTPARSE) = Some j" "valid j" "supply_fits api c k j t d"
    and "NUL \<notin> set c" "NUL \<notin> set k" "NUL \<notin> set v"
    and ph: "phase_of S i = Loaded c k v (Buf (t @ [NUL]))" "calm (mem S i)"
  obtains w where "(sys_step api)\<^sup>*\<^sup>* S (put_back S i w (Stored 0))" "calm w"
    "state_doc api valid depth w (cJSON_Print api (set_path api d [SUPPLIES, c, k] j)) (set_path api d [SUPPLIES, c, k] j)"
proof -
  let ?P = "cJSON_Print api (set_path api d [SUPPLIES, c, k] j)"
  obtain w where w: "(sys_step api)\<^sup>*\<^sup>* S (put_back S i w (Opened ?P))" "calm w" "files w = (shared S)(JSON_FILE_PATH \<mapsto> [])"
    "\<And>y. files y JSON_FILE_PATH = Some ?P \<Longrightarrow> state_doc api valid depth (y :: server) ?P (set_path api d [SUPPLIES, c, k] j)"
    using open_possible [OF assms refl] by blast
  have "phase_of (put_back S i w (Opened ?P)) i = Opened ?P" "calm (mem (put_back S i w (Opened ?P)) i)"
    "shared (put_back S i w (Opened ?P)) JSON_FILE_PATH = Some []"
    using w(2,3) by simp_all
  then obtain w' where "sys_step api (put_back S i w (Opened ?P)) (put_back S i w' (Stored 0))" "calm w'"
    "files w' = (shared (put_back S i w (Opened ?P)))(JSON_FILE_PATH \<mapsto> ?P)"
    by (rule write_possible [where api = api]) (simp only: put_back_twice)
  moreover from this have "files w' JSON_FILE_PATH = Some ?P" by simp
  ultimately show thesis using w(1,4) that by (meson rtranclp.rtrancl_into_rtrancl)
qed

section \<open>Two updates at once\<close>

text \<open>Process \<open>i\<close> is about to serve an update that would succeed on the document \<open>d\<close> with text \<open>t\<close>.\<close>

definition asks ::
  "'j cjson_api \<Rightarrow> ('j \<Rightarrow> bool) \<Rightarrow> system \<Rightarrow> nat \<Rightarrow> string \<Rightarrow> string \<Rightarrow> string \<Rightarrow> 'j \<Rightarrow> string \<Rightarrow> 'j \<Rightarrow> bool" where
  "asks api valid S i c k v j t d \<longleftrightarrow> phase_of S i = Requested c k v \<and> calm (mem S i) \<and> mutex_state (mem S i) = Some 1 \<and>
     NUL \<notin> set c \<and> NUL \<notin> set k \<and> NUL \<notin> set v \<and> value_of api v (OVERRIDE OR INTPARSE) = Some j \<and> valid j \<and>
     path_ok api d [SUPPLIES, c, k] \<and> supply_fits api c k j t d"

lemma both_load:
  assumes "asks api valid S a c1 k1 v1 j1 t d" "asks api valid S b c2 k2 v2 j2 t d" "a \<noteq> b"
    "shared S JSON_FILE_PATH = Some t" "t \<noteq> []"
  obtains M where "(sys_step api)\<^sup>*\<^sup>* S M" "shared M = shared S" "calm (mem M a)" "calm (mem M b)"
    "phase_of M a = Loaded c1 k1 v1 (Buf (t @ [NUL]))" "phase_of M b = Loaded c2 k2 v2 (Buf (t @ [NUL]))"
proof -
  note A = assms(1) [unfolded asks_def] and B = assms(2) [unfolded asks_def]
  obtain w where w: "sys_step api S (put_back S a w (Loaded c1 k1 v1 (Buf (t @ [NUL]))))" (is "sys_step api S ?S1")
    "files w = shared S" "calm w" using load_possible [of S a c1 k1 v1 t api] A assms(4,5) by blast
  obtain w' where w': "sys_step api ?S1 (put_back ?S1 b w' (Loaded c2 k2 v2 (Buf (t @ [NUL]))))" "files w' = shared S" "calm w'"
    using load_possible [of ?S1 b c2 k2 v2 t api] B assms(3-5) w(2) by auto
  show thesis
    by (rule that [of "put_back ?S1 b w' (Loaded c2 k2 v2 (Buf (t @ [NUL])))"]) (use w w' assms(3) in auto)
qed

text \<open>C8: An update can be lost. Two connection processes that serve updates of different supplies can both be
  between reading and writing the state file, because each has a semaphore of its own; both then
  report success, the file is a valid document, but it holds one of the changes only: the other
  supply has its old value.\<close>

theorem lost_update:
  assumes lib: "cjson_lib api valid depth" and doc: "state_doc api valid depth (view S a) t d" and "a \<noteq> b"
    and A: "asks api valid S a c1 k1 v1 j1 t d" and B: "asks api valid S b c2 k2 v2 j2 t d"
    and "[SUPPLIES, c1, k1] \<parallel> [SUPPLIES, c2, k2]"
  shows "\<exists>M S' d'. (sys_step api)\<^sup>*\<^sup>* S M \<and> is_Loaded (phase_of M a) \<and> is_Loaded (phase_of M b) \<and>
    (sys_step api)\<^sup>*\<^sup>* M S' \<and> phase_of S' a = Stored 0 \<and> phase_of S' b = Stored 0 \<and>
    state_doc api valid depth (view S' a) (cJSON_Print api d') d' \<and>
    get_path api d' [SUPPLIES, c1, k1] = Some j1 \<and> get_path api d' [SUPPLIES, c2, k2] = get_path api d [SUPPLIES, c2, k2]"
proof -
  note A' = A [unfolded asks_def] and B' = B [unfolded asks_def]
  have t: "shared S JSON_FILE_PATH = Some t" "t \<noteq> []" using doc by (simp_all add: state_doc_def view_def)
  obtain M where M: "(sys_step api)\<^sup>*\<^sup>* S M" "shared M = shared S" "calm (mem M a)" "calm (mem M b)"
    "phase_of M a = Loaded c1 k1 v1 (Buf (t @ [NUL]))" "phase_of M b = Loaded c2 k2 v2 (Buf (t @ [NUL]))"
    using both_load [OF A B assms(3) t] .
  obtain w where w: "(sys_step api)\<^sup>*\<^sup>* M (put_back M b w (Stored 0))" (is "(sys_step api)\<^sup>*\<^sup>* M ?M1")
    using store_possible [OF lib doc _ _ _ _ _ _ _ M(6,4)] B' by metis
  have "phase_of ?M1 a = Loaded c1 k1 v1 (Buf (t @ [NUL]))" "calm (mem ?M1 a)" using M assms(3) by simp_all
  from store_possible [OF lib doc _ _ _ _ _ _ _ this] A'
  obtain w' where w': "(sys_step api)\<^sup>*\<^sup>* ?M1 (put_back ?M1 a w' (Stored 0))" (is "(sys_step api)\<^sup>*\<^sup>* ?M1 ?S'")
    "state_doc api valid depth w' (cJSON_Print api (set_path api d [SUPPLIES, c1, k1] j1)) (set_path api d [SUPPLIES, c1, k1] j1)"
    by metis
  let ?d = "set_path api d [SUPPLIES, c1, k1] j1"
  have "state_doc api valid depth (view ?S' a) (cJSON_Print api ?d) ?d"
    using w'(2) by (simp add: view_def state_doc_def del: set_path.simps)
  moreover have "get_path api ?d [SUPPLIES, c1, k1] = Some j1"
    "get_path api ?d [SUPPLIES, c2, k2] = get_path api d [SUPPLIES, c2, k2]"
    using A' by (simp_all only: cjson_lib.get_set_path [OF lib] cjson_lib.get_set_path_other [OF lib _ assms(6)])
  moreover have "(sys_step api)\<^sup>*\<^sup>* M ?S'" using w w'(1) by (rule rtranclp_trans)
  ultimately show ?thesis
    using M assms(3) by (intro exI [of _ M] exI [of _ ?S'] exI [of _ ?d]) (simp del: set_path.simps get_path.simps)
qed

section \<open>A reader between opening and writing\<close>

text \<open>A server that is asked for the status while the file is empty ends itself without a reply, in every world.\<close>

lemma empty_file_ends_server:
  assumes "files w JSON_FILE_PATH = Some []"
  shows "wp (send_supply_message fd) (\<lambda>_ _. False) (\<lambda>e w'. e = Exit 1 \<and> sent w' = sent w) w"
    and "wp (send_supply_udp fd) (\<lambda>_ _. False) (\<lambda>e w'. e = Exit 1 \<and> sent w' = sent w) w"
proof -
  have "keeps sent (read_file f b)" for f b by (intro frame_intros; simp add: quiet_def)
  from wp_keeps [OF this read_file_cases]
  have "wp (read_file JSON_FILE_PATH p) (\<lambda>(r, _) w'. r = 1 \<and> sent w' = sent w) (\<lambda>_ _. False) w" for p
    by (rule wp_mono) (use assms in auto)
  then have "wp (get_supply_status p) (\<lambda>(r, q) w'. wp (thn (set_ssb q) (if r \<noteq> 0 then m else n q)) (\<lambda>_ _. False) (\<lambda>e w'. e = Exit 1 \<and> sent w' = sent w) w')
      (\<lambda>_ _. False) w"
    if "\<And>w'. sent w' = sent w \<Longrightarrow> wp m (\<lambda>_ _. False) (\<lambda>e w'. e = Exit 1 \<and> sent w' = sent w) w'" for p m n
    unfolding get_supply_status_def by (rule wp_mono) (auto simp: that wp_simps set_ssb_def)
  note ends = wp_mono [OF this]
  show "wp (send_supply_message fd) (\<lambda>_ _. False) (\<lambda>e w'. e = Exit 1 \<and> sent w' = sent w) w"
    "wp (send_supply_udp fd) (\<lambda>_ _. False) (\<lambda>e w'. e = Exit 1 \<and> sent w' = sent w) w"
    unfolding send_supply_message_def send_supply_udp_def wp_bnd [of "gets send_socket_buffer"] wp_gets wp_bnd [of "get_supply_status _"]
    by (rule ends; auto simp: wp_simps)+
qed

text \<open>C9: Readers meet the file while it is empty, because nothing is locked between the opening and the
  writing. Whenever an update can be served, its process can be between the two; every
  other server process that is asked for the status at that moment, over TCP or UDP and whatever calls fail,
  exits with an error and without a reply, and the update still succeeds.\<close>

theorem torn_read:
  assumes lib: "cjson_lib api valid depth" and doc: "state_doc api valid depth (view S a) t d"
    and A: "asks api valid S a c k v j t d" and "a \<noteq> b"
  shows "\<exists>M S'. (sys_step api)\<^sup>*\<^sup>* S M \<and> is_Opened (phase_of M a) \<and> mem M b = mem S b \<and>
    wp (send_supply_message fd) (\<lambda>_ _. False) (\<lambda>e w. e = Exit 1 \<and> sent w = sent (mem S b)) (view M b) \<and>
    wp (send_supply_udp fd) (\<lambda>_ _. False) (\<lambda>e w. e = Exit 1 \<and> sent w = sent (mem S b)) (view M b) \<and>
    sys_step api M S' \<and> phase_of S' a = Stored 0 \<and>
    shared S' = (shared S)(JSON_FILE_PATH \<mapsto> cJSON_Print api (set_path api d [SUPPLIES, c, k] j))"
proof -
  note A' = A [unfolded asks_def]
  let ?P = "cJSON_Print api (set_path api d [SUPPLIES, c, k] j)"
  have t: "shared S JSON_FILE_PATH = Some t" "t \<noteq> []" using doc by (simp_all add: state_doc_def)
  obtain w where w: "sys_step api S (put_back S a w (Loaded c k v (Buf (t @ [NUL]))))" (is "sys_step api S ?L") "files w = shared S" "calm w"
    using load_possible [of S a c k v t api] A' t by blast
  have ph: "phase_of ?L a = Loaded c k v (Buf (t @ [NUL]))" "calm (mem ?L a)" using w(3) by simp_all
  obtain w' where w': "(sys_step api)\<^sup>*\<^sup>* ?L (put_back ?L a w' (Opened ?P))" "calm w'"
    "files w' = (shared ?L)(JSON_FILE_PATH \<mapsto> [])"
    using open_possible [OF lib doc _ _ _ _ _ _ _ ph refl] A' by metis
  define M where "M = put_back S a w' (Opened ?P)"
  have M: "phase_of M a = Opened ?P" "calm (mem M a)" "shared M = (shared S)(JSON_FILE_PATH \<mapsto> [])" "mem M b = mem S b"
    using w(2) w'(2,3) assms(4) by (simp_all add: M_def del: set_path.simps)
  have "(sys_step api)\<^sup>*\<^sup>* S M"
    using converse_rtranclp_into_rtranclp [of "sys_step api", OF w(1) w'(1)] by (simp add: M_def)
  moreover have "sent (view M b) = sent (mem S b)" "files (view M b) JSON_FILE_PATH = Some []"
    using M(3,4) by (simp_all add: view_def)
  moreover obtain x where "sys_step api M (put_back M a x (Stored 0))" "files x = (shared M)(JSON_FILE_PATH \<mapsto> ?P)"
    using write_possible [of M a ?P api] M by (metis fun_upd_same)
  ultimately show ?thesis
    using empty_file_ends_server [of "view M b" fd] M
    by (intro exI [of _ M] exI [of _ "put_back M a x (Stored 0)"]) (simp del: set_path.simps)
qed

text \<open>Two connections on the repository's state file.\<close>

definition demo_system :: system where
  "demo_system = \<lparr>shared = files (demo_server []), mem = (\<lambda>_. demo_server []),
     phase_of = (\<lambda>i. if i = 1 then Requested ''food'' ''vegetables'' (show_int 150)
       else Requested ''medicine'' ''analgesics'' (show_int 99))\<rparr>"

lemma demo_asks:
  "asks ref_api ref_valid demo_system 1 ''food'' ''vegetables'' (show_int 150) (JNum (of_int_d 150))
     (cJSON_Print ref_api state_summary) state_summary"
  "asks ref_api ref_valid demo_system 2 ''medicine'' ''analgesics'' (show_int 99) (JNum (of_int_d 99))
     (cJSON_Print ref_api state_summary) state_summary"
proof -
  have fits: "supply_fits ref_api ''food'' ''vegetables'' (JNum (of_int_d 150)) (cJSON_Print ref_api state_summary) state_summary"
    "supply_fits ref_api ''medicine'' ''analgesics'' (JNum (of_int_d 99)) (cJSON_Print ref_api state_summary) state_summary"
    by code_simp+
  have val: "value_of ref_api (show_int 150) (OVERRIDE OR INTPARSE) = Some (JNum (of_int_d 150))"
    "value_of ref_api (show_int 99) (OVERRIDE OR INTPARSE) = Some (JNum (of_int_d 99))"
    "ref_valid (JNum (of_int_d 150))" "ref_valid (JNum (of_int_d 99))"
    by (simp_all add: number_value ref_valid_number INT_MIN_def INT_MAX_def del: ref_valid.simps)
  have path: "path_ok ref_api state_summary [SUPPLIES, ''medicine'', ''analgesics'']"
    by (simp add: SUPPLIES_def state_summary_def ref_api_def json_items_def keys_ok_def ci_eq_def tolower_def)
  have ph: "phase_of demo_system 1 = Requested ''food'' ''vegetables'' (show_int 150)"
    "phase_of demo_system 2 = Requested ''medicine'' ''analgesics'' (show_int 99)" "calm (mem demo_system i)"
    "mutex_state (mem demo_system i) = Some 1" for i by (simp_all add: demo_system_def demo_server_def)
  show "asks ref_api ref_valid demo_system 1 ''food'' ''vegetables'' (show_int 150) (JNum (of_int_d 150))
     (cJSON_Print ref_api state_summary) state_summary"
    "asks ref_api ref_valid demo_system 2 ''medicine'' ''analgesics'' (show_int 99) (JNum (of_int_d 99))
     (cJSON_Print ref_api state_summary) state_summary"
    using fits val path ph vegetables_path
    by (simp_all add: asks_def del: path_ok.simps ref_valid.simps)
qed

lemma demo_system_doc:
  "state_doc ref_api ref_valid ref_depth (view demo_system 1) (cJSON_Print ref_api state_summary) state_summary"
  using shipped_state_doc by (simp add: state_doc_def demo_system_def demo_server_def demo_world_def)

theorem lost_update_witness:
  "\<exists>M S' d'. (sys_step ref_api)\<^sup>*\<^sup>* demo_system M \<and> is_Loaded (phase_of M 1) \<and> is_Loaded (phase_of M 2) \<and>
    (sys_step ref_api)\<^sup>*\<^sup>* M S' \<and> phase_of S' 1 = Stored 0 \<and> phase_of S' 2 = Stored 0 \<and>
    state_doc ref_api ref_valid ref_depth (view S' 1) (cJSON_Print ref_api d') d' \<and>
    get_path ref_api d' [SUPPLIES, ''food'', ''vegetables''] = Some (JNum (of_int_d 150)) \<and>
    get_path ref_api d' [SUPPLIES, ''medicine'', ''analgesics''] = get_path ref_api state_summary [SUPPLIES, ''medicine'', ''analgesics'']"
  by (rule lost_update [OF ref.cjson_lib_axioms demo_system_doc _ demo_asks]) (simp_all add: parallel_def)


theorem torn_read_witness:
  "\<exists>M S'. (sys_step ref_api)\<^sup>*\<^sup>* demo_system M \<and> is_Opened (phase_of M 1) \<and> mem M 2 = mem demo_system 2 \<and>
    wp (send_supply_message 4) (\<lambda>_ _. False) (\<lambda>e w. e = Exit 1 \<and> sent w = sent (mem demo_system 2)) (view M 2) \<and>
    wp (send_supply_udp 4) (\<lambda>_ _. False) (\<lambda>e w. e = Exit 1 \<and> sent w = sent (mem demo_system 2)) (view M 2) \<and>
    sys_step ref_api M S' \<and> phase_of S' 1 = Stored 0 \<and>
    shared S' = (shared demo_system)(JSON_FILE_PATH \<mapsto>
      cJSON_Print ref_api (set_path ref_api state_summary [SUPPLIES, ''food'', ''vegetables''] (JNum (of_int_d 150))))"
  by (rule torn_read [OF ref.cjson_lib_axioms demo_system_doc demo_asks(1)]) simp

end
