(* ===== verification/State_Invariants.thy ===== *)
theory State_Invariants
  imports Server_Properties Client_Requests
begin

text \<open>
  The types that C does not check: in every world, whichever calls fail and whatever is received or
  typed, the arrays of the client and of the server keep the sizes they are declared with, and
  the flags and the semaphore keep to their few values.
\<close>

section \<open>Functions that fill an array\<close>

text \<open>An array that is passed in comes back with its size.\<close>

abbreviation sized :: "nat \<Rightarrow> cptr \<Rightarrow> bool" where
  "sized n p \<equiv> \<exists>a. p = Buf a \<and> length a = n"

lemma yields_received:
  "yields (\<lambda>(_, b). length b = length a) (recvfrom fd a n)" "yields (\<lambda>(_, b). length b = length a) (recv fd a n)"
  unfolding recv_def recvfrom_def Let_def by (intro inv_intros; auto simp: min_def)+

lemma yields_message:
  "yields (\<lambda>(_, b). length b = length a) (recv_tcp_message fd a)"
  "yields (\<lambda>(_, b). length b = length a) (recv_udp_message fd a)"
  unfolding recv_tcp_message_def recv_udp_message_def
  by (intro yields_if yields_halt yields_bnd_value [OF yields_received(1)] yields_bnd_value [OF yields_received(2)];
      auto intro!: inv_intros)+

lemma yields_pipe: "yields (\<lambda>(_, b). length b = length a) (read_pipe a n)"
  unfolding read_pipe_def Let_def by (intro inv_intros; auto simp: min_def)

lemma yields_line: "yields (\<lambda>b. length b = length a) (fgets a n)" "yields (\<lambda>b. length b = length a) (chop_last a)"
  unfolding fgets_def chop_last_def Let_def by (intro inv_intros; simp)+

lemma yields_strcpy: "yields (sized (length a)) (strcpy (Buf a) s)"
  by (auto intro!: inv_intros)

lemma yields_printed: "yields (\<lambda>(_, p). sized (length a) p) (json_object_to_json_string api j (Buf a))"
  unfolding json_object_to_json_string_def
  by (intro yields_bnd_value [OF yields_strcpy] inv_intros; auto intro!: inv_intros)

lemma yields_updated:
  "yields (\<lambda>(_, p). sized (length a) p) (cjson_add_key_value_to_json_string api (Buf a) k v flags)"
  unfolding cjson_add_key_value_to_json_string_def Let_def
  by (intro yields_bnd_value [OF yields_printed] inv_intros; auto intro!: inv_intros)

section \<open>The client\<close>

text \<open>The arrays of \<open>client.h\<close> have their sizes; \<open>flag_get_supply\<close> and \<open>skip_option\<close> are \<open>0\<close> or \<open>1\<close>.\<close>

abbreviation client_vars :: "'z client_scheme \<Rightarrow> nat \<times> nat \<times> nat \<times> nat \<times> int \<times> int" where
  "client_vars \<equiv> (\<lambda>w. (length (c_send_socket_buffer w), length (c_recv_socket_buffer w), length (username w),
     length (password w), flag_get_supply w, skip_option w))"

definition client_ok :: "'z client_scheme \<Rightarrow> bool" where
  "client_ok w \<longleftrightarrow> length (c_send_socket_buffer w) = BUFFER_SIZE \<and> length (c_recv_socket_buffer w) = BUFFER_SIZE \<and>
     length (username w) = MAX_USERNAME_LENGTH \<and> length (password w) = MAX_PASSWORD_LENGTH \<and>
     flag_get_supply w \<in> {0, 1} \<and> skip_option w \<in> {0, 1}"

lemma client_ok_keeps: "keeps client_vars m \<Longrightarrow> preserves client_ok m"
  by (erule preserves_keeps) (auto simp: client_ok_def)

lemma quiet_client_vars [simp]: "quiet client_vars"
  by (simp add: quiet_def)

lemma keeps_client_vars:
  "keeps client_vars (fgets a n)" "keeps client_vars (chop_last a)" "keeps client_vars (scanf_d i)" "keeps client_vars (scanf_s a)"
  "keeps client_vars (print m)" "keeps client_vars clear_screen" "keeps client_vars (end_client_conn :: (_, 'a) comp)"
  "keeps client_vars (client_sigaction sig m)" "keeps client_vars client_set_signal_handlers"
  "keeps client_vars client_check_credentials" "keeps client_vars (try_connect_server ty i)"
  "keeps client_vars (client_usage prog)" "keeps client_vars send_message_to_server"
  "keeps client_vars (recv_tcp_message fd a)" "keeps client_vars (print_cjson api p)"
  "keeps client_vars (is_key_in_json_buffer api p k)" "keeps client_vars (cjson_add_key_value_to_json_string api p k v flags)"
  "keeps client_vars (local_array n)" "keeps client_vars (strcpy p s)" "keeps client_vars (sleep n)" "keeps client_vars sys"
  "keeps client_vars (error_handler m f l)" "keeps client_vars (diag m)"
  unfolding fgets_def chop_last_def scanf_d_def scanf_s_def clear_screen_def end_client_conn_def client_sigaction_def
    client_set_signal_handlers_def client_check_credentials_def try_connect_server_def client_usage_def
    send_message_to_server_def print_cjson_def Let_def
  by (intro frame_intros; simp)+

lemmas client_ok_frames [inv_intros] = keeps_client_vars [THEN client_ok_keeps]

lemma preserves_signals [inv_intros]:
  "preserves client_ok (client_sign_handler sig)" "preserves client_ok (handle_signals ss)" "preserves client_ok deliver_signals"
proof -
  show h: "preserves client_ok (client_sign_handler sig)" for sig
    unfolding client_sign_handler_def by (intro inv_intros; simp add: client_ok_def)
  show l: "preserves client_ok (handle_signals ss)" for ss by (induction ss) (auto intro!: inv_intros h)
  show "preserves client_ok deliver_signals"
    unfolding deliver_signals_def by (intro inv_intros l; simp add: client_ok_def)
qed

lemma preserves_credentials [inv_intros]: "preserves client_ok get_credentials"
proof -
  have name: "preserves client_ok (bnd (fgets a MAX_USERNAME_LENGTH) (\<lambda>a. thn (modify (\<lambda>w. w\<lparr>username := a\<rparr>))
      (bnd (chop_last a) (\<lambda>a. thn (modify (\<lambda>w. w\<lparr>username := a\<rparr>)) m))))"
    if "length a = MAX_USERNAME_LENGTH" "preserves client_ok m" for a and m :: "('a client_scheme, 'b) comp"
    by (intro preserves_store [OF yields_line(1)] preserves_store [OF yields_line(2)] client_ok_frames(1,2))
       (use that in \<open>auto simp: client_ok_def\<close>)
  have pass: "preserves client_ok (bnd (fgets a MAX_PASSWORD_LENGTH) (\<lambda>a. thn (modify (\<lambda>w. w\<lparr>password := a\<rparr>))
      (bnd (chop_last a) (\<lambda>a. modify (\<lambda>w. w\<lparr>password := a\<rparr>)))))"
    if "length a = MAX_PASSWORD_LENGTH" for a
    by (intro preserves_store [OF yields_line(1)] preserves_bnd_value [OF yields_line(2)] preserves_modify client_ok_frames(1,2))
       (use that in \<open>auto simp: client_ok_def\<close>)
  show ?thesis
    unfolding get_credentials_def
    by (intro preserves_thn client_ok_frames preserves_gets_value [where R = "\<lambda>a. length a = MAX_USERNAME_LENGTH"] name
        preserves_gets_value [where R = "\<lambda>a. length a = MAX_PASSWORD_LENGTH"] pass)
       (simp_all add: client_ok_def)
qed

lemma preserves_add_to_request [inv_intros]: "preserves client_ok (add_to_request api k v)"
  unfolding add_to_request_def
proof (rule preserves_gets_value [where R = "sized BUFFER_SIZE"])
  fix p assume "sized BUFFER_SIZE p"
  then obtain a where a: "p = Buf a" "length a = BUFFER_SIZE" by blast
  show "preserves client_ok (bnd (cjson_add_key_value_to_json_string api p (lit k) v OVERRIDE) (\<lambda>(r, p).
      case p of Buf a \<Rightarrow> modify (\<lambda>w. w\<lparr>c_send_socket_buffer := a\<rparr>) | _ \<Rightarrow> ret ()))"
    unfolding a(1)
    by (rule preserves_bnd_value [OF yields_updated client_ok_frames(17)])
       (use a(2) in \<open>auto simp: client_ok_def intro!: inv_intros\<close>)
qed (simp add: client_ok_def)

lemma preserves_receive [inv_intros]: "preserves client_ok (receive_and_show api)"
proof -
  have recv: "preserves client_ok (bnd (recv_tcp_message fd b) (\<lambda>(r, b). thn (modify (\<lambda>w. w\<lparr>c_recv_socket_buffer := b\<rparr>)) (m b)))"
    if "length b = BUFFER_SIZE" "\<And>b. preserves client_ok (m b)" for fd b and m :: "_ \<Rightarrow> ('a client_scheme, unit) comp"
    by (rule preserves_bnd_value [OF yields_message(1) client_ok_frames(14)])
       (use that in \<open>auto simp: client_ok_def intro!: preserves_thn preserves_modify\<close>)
  show ?thesis
    unfolding receive_and_show_def
    by (intro preserves_thn preserves_modify preserves_bnd [OF preserves_basic(3)]
        preserves_gets_value [where R = "\<lambda>b. length b = BUFFER_SIZE" and f = c_recv_socket_buffer] recv inv_intros)
       (simp_all add: client_ok_def)
qed

lemma preserves_requests [inv_intros]:
  "preserves client_ok clear_request" "preserves client_ok (add_credentials api)" "preserves client_ok (category_loop api n i)"
  "preserves client_ok (amount_loop n i)" "preserves client_ok (get_supplies_options api n)" "preserves client_ok (get_options api n i)"
  "preserves client_ok (make_request api n)"
proof -
  show clear: "preserves client_ok clear_request"
    unfolding clear_request_def by (intro inv_intros; simp add: client_ok_def)
  show cred: "preserves client_ok (add_credentials api)" unfolding add_credentials_def by (intro inv_intros)
  show cat: "preserves client_ok (category_loop api n i)" for n i by (induction n arbitrary: i) (auto intro!: inv_intros)
  show am: "preserves client_ok (amount_loop n i)" for n i by (induction n arbitrary: i) (auto intro!: inv_intros)
  show sup: "preserves client_ok (get_supplies_options api n)" for n
    unfolding get_supplies_options_def by (intro inv_intros cat am)
  show opt: "preserves client_ok (get_options api n i)" for n i
    by (induction n arbitrary: i) (auto intro!: inv_intros sup simp: client_ok_def)
  show "preserves client_ok (make_request api n)" unfolding make_request_def by (intro inv_intros clear cred opt)
qed

lemma preserves_shown [inv_intros]:
  "preserves client_ok (recv_and_check_message api n :: ('a client_scheme, unit) comp)"
  "preserves client_ok (supply_loop api n :: ('a client_scheme, unit) comp)"
proof -
  have "preserves client_ok (recv_and_check_message api n :: ('a client_scheme, unit) comp) \<and>
      preserves client_ok (supply_loop api n :: ('a client_scheme, unit) comp)"
    by (induction n) (auto intro!: inv_intros)
  then show "preserves client_ok (recv_and_check_message api n :: ('a client_scheme, unit) comp)"
    "preserves client_ok (supply_loop api n :: ('a client_scheme, unit) comp)" by auto
qed




section \<open>The server\<close>

text \<open>The arrays of \<open>server.h\<close> have their sizes, \<open>flag_handler\<close> is \<open>0\<close> or \<open>1\<close>, and the semaphore, where
  there is one, is \<open>0\<close> or \<open>1\<close>.\<close>

abbreviation server_vars :: "'z server_scheme \<Rightarrow> nat \<times> nat \<times> int \<times> nat option" where
  "server_vars \<equiv> (\<lambda>w. (length (recv_socket_buffer w), length (buffer w), flag_handler w, mutex_state w))"

definition server_ok :: "'z server_scheme \<Rightarrow> bool" where
  "server_ok w \<longleftrightarrow> length (recv_socket_buffer w) = BUFFER_SIZE \<and> length (buffer w) = 100 \<and>
     flag_handler w \<in> {0, 1} \<and> mutex_state w \<in> {None, Some 0, Some 1}"

lemma server_ok_keeps: "keeps server_vars m \<Longrightarrow> preserves server_ok m"
  by (erule preserves_keeps) (auto simp: server_ok_def)

lemma quiet_server_vars [simp]: "quiet server_vars"
  by (simp add: quiet_def)

lemma keeps_server_vars [frame_intros]:
  "keeps server_vars (set_ssb p)" "keeps server_vars fork" "keeps server_vars fcntl" "keeps server_vars (read_pipe a n)"
  "keeps server_vars msgctl_rmid" "keeps server_vars msgget" "keeps server_vars (accept fd)" "keeps server_vars open_pipe"
  "keeps server_vars (sigaction sig msg)" "keeps server_vars wait_c" "keeps server_vars announce" "keeps server_vars free_ssb"
  "keeps server_vars (alloc_ssb l)" "keeps server_vars (add_to_ssb api k v l)" "keeps server_vars (send_text fd)"
  "keeps server_vars (set_supply api)" "keeps server_vars create_message_queue" "keeps server_vars set_signal_handlers"
  unfolding set_ssb_def fork_def fcntl_def read_pipe_def msgctl_rmid_def msgget_def accept_def open_pipe_def sigaction_def
    wait_c_def announce_def free_ssb_def alloc_ssb_def add_to_ssb_def send_text_def set_supply_def create_message_queue_def
    set_signal_handlers_def Let_def
  by (intro frame_intros; simp)+

lemma keeps_server_vars_replies [frame_intros]:
  "keeps server_vars (send_supply_message fd)" "keeps server_vars (send_supply_udp fd)"
  "keeps server_vars (send_deneid_message api fd)" "keeps server_vars (send_end_conn_message api fd)"
  "keeps server_vars (send_deneid_udp_message api fd)" "keeps server_vars (check_credentials api)"
  "keeps server_vars (get_command api)" "keeps server_vars (fork_error l)" "keeps server_vars fork_error_2"
  "keeps server_vars (recv_tcp_message fd a)" "keeps server_vars (recv_udp_message fd a)"
  "keeps server_vars (connect_server_ipv4 ty)" "keeps server_vars (connect_server_ipv6 ty)"
  "keeps server_vars (run_emergency_handler api pfd)"
  unfolding send_supply_message_def send_supply_udp_def get_supply_status_def send_deneid_message_def
    send_end_conn_message_def send_deneid_udp_message_def check_credentials_def get_command_def fork_error_def fork_error_2_def
    run_emergency_handler_def Let_def
  by (intro frame_intros; simp)+

lemmas server_ok_frames [inv_intros] = keeps_server_vars [THEN server_ok_keeps] keeps_server_vars_replies [THEN server_ok_keeps]

lemma server_ok_basic [inv_intros]:
  "preserves server_ok (print m)" "preserves server_ok (sleep n)" "preserves server_ok (close fd)" "preserves server_ok sys"
  "preserves server_ok (error_handler m f l)" "preserves server_ok (perror m)" "preserves server_ok (read_str p)"
  "preserves server_ok (kill_parent i)" "preserves server_ok (local_array n)"
  by (intro server_ok_keeps frame_intros; simp)+

text \<open>Between the two operations on the semaphore nothing touches it, so it returns to \<open>1\<close>.\<close>

definition locked :: "'z server_scheme \<Rightarrow> bool" where
  "locked w \<longleftrightarrow> server_ok w \<and> mutex_state w = Some 0"

lemma locked_keeps: "keeps server_vars m \<Longrightarrow> preserves locked m"
  by (erule preserves_keeps) (auto simp: locked_def server_ok_def)

text \<open>Work under the lock that ends with its release.\<close>

definition releases :: "('z server_scheme, 'a) comp \<Rightarrow> bool" where
  "releases m \<longleftrightarrow> (\<forall>w. locked w \<longrightarrow> wp m (\<lambda>_. server_ok) (\<lambda>_. server_ok) w)"

lemma releases_post: "releases sem_post" "preserves server_ok m \<Longrightarrow> releases (thn sem_post m)"
proof -
  show "releases (sem_post :: ('a server_scheme, unit) comp)"
    by (simp add: releases_def locked_def server_ok_def sem_post_def wp_simps)
  show "releases (thn sem_post m)" if "preserves server_ok m"
    unfolding releases_def wp_thn
    using preservesD [OF that] by (auto simp: locked_def server_ok_def sem_post_def wp_simps)
qed

lemma releases_bnd:
  assumes "keeps server_vars m" "\<And>a. releases (g a)"
  shows "releases (bnd m g)"
  unfolding releases_def wp_bnd
  by (intro allI impI, rule wp_mono [OF preservesD [OF locked_keeps [OF assms(1)]]])
     (use assms(2) in \<open>auto simp: releases_def locked_def\<close>)

lemma releases_thn: "keeps server_vars m \<Longrightarrow> releases n \<Longrightarrow> releases (thn m n)"
  by (simp add: thn_def releases_bnd)

lemma releases_if: "releases m \<Longrightarrow> releases n \<Longrightarrow> releases (if b then m else n)"
  by simp

lemma server_ok_update [inv_intros]: "preserves server_ok (set_and_send_suply_status api fd)"
proof -
  let ?work = "bnd (set_supply api) (\<lambda>r.
     if r \<noteq> 0 then thn (error_handler ''Error set_supply'' srv_file 493) (thn sem_post (halt (Exit 1)))
     else bnd (send_text fd) (\<lambda>r.
     if r \<noteq> 0 then thn (error_handler ''Error send_message'' srv_file 499) (thn sem_post (halt (Exit 1)))
     else thn free_ssb sem_post))"
  have "releases ?work"
    by (intro releases_bnd releases_if releases_thn releases_post inv_intros frame_intros; simp)
  then have "wp ?work (\<lambda>_. server_ok) (\<lambda>_. server_ok) (w\<lparr>mutex_state := Some 0\<rparr>)" if "server_ok w" for w :: "'a server_scheme"
  proof -
    have "locked (w\<lparr>mutex_state := Some 0\<rparr>)" using that by (simp add: locked_def server_ok_def)
    with \<open>releases ?work\<close> show ?thesis unfolding releases_def by blast
  qed
  then show ?thesis
    unfolding set_and_send_suply_status_def preserves_def wp_thn sem_wait_def
    by (auto simp: wp_bnd [of "gets _"] wp_gets wp_halt wp_if wp_modify wp_option server_ok_def)
qed

lemma server_ok_end_conn [inv_intros]: "preserves server_ok (end_conn api fd)"
proof -
  have read: "preserves server_ok (bnd (read_pipe buf (length buf)) (\<lambda>(n, buf). thn (modify (\<lambda>w. w\<lparr>buffer := buf\<rparr>)) (m n buf)))"
    if "length buf = 100" "\<And>n b. preserves server_ok (m n b)" for buf and m :: "_ \<Rightarrow> _ \<Rightarrow> ('a server_scheme, unit) comp"
    by (rule preserves_bnd_value [OF yields_pipe server_ok_frames(4)])
       (use that in \<open>auto simp: server_ok_def intro!: preserves_thn preserves_modify\<close>)
  show ?thesis
    unfolding end_conn_def
    by (intro preserves_gets_value [where R = "\<lambda>b. length b = 100" and f = buffer] read inv_intros) (simp_all add: server_ok_def)
qed

lemma server_ok_received:
  assumes "length b = BUFFER_SIZE" "\<And>r. preserves server_ok (m r)"
  shows "preserves server_ok (bnd (recv_tcp_message fd b) (\<lambda>(r, b). thn (modify (\<lambda>w. w\<lparr>recv_socket_buffer := b\<rparr>)) (m r)))"
    "preserves server_ok (bnd (recv_udp_message fd b) (\<lambda>(r, b). thn (modify (\<lambda>w. w\<lparr>recv_socket_buffer := b\<rparr>)) (m r)))"
  by (rule preserves_bnd_value [OF yields_message(1) server_ok_frames(28)] preserves_bnd_value [OF yields_message(2) server_ok_frames(29)],
      use assms in \<open>auto simp: server_ok_def intro!: preserves_thn preserves_modify\<close>)+

lemma server_ok_requests [inv_intros]:
  "preserves server_ok (admin_request api fd)" "preserves server_ok (user_request api fd)" "preserves server_ok (sign_handler api i)"
  unfolding admin_request_def user_request_def sign_handler_def
  by (intro inv_intros; simp add: server_ok_def)+

lemma server_ok_loops [inv_intros]:
  "preserves server_ok (run_admin_server api fd n)" "preserves server_ok (run_normal_user_server api fd n)"
proof -
  have "preserves server_ok (admin_round api fd)" "preserves server_ok (user_round api fd)"
    unfolding admin_round_def user_round_def
    by (intro preserves_gets_value [where R = "\<lambda>b. length b = BUFFER_SIZE" and f = recv_socket_buffer] server_ok_received inv_intros;
        simp add: server_ok_def)+
  then show "preserves server_ok (run_admin_server api fd n)" "preserves server_ok (run_normal_user_server api fd n)"
    by (induction n) (auto intro!: inv_intros)
qed

lemma server_ok_listener [inv_intros]: "preserves server_ok (alert_and_emergency_listener n)" "preserves server_ok (run_alert_module api n)"
proof -
  have round: "keeps server_vars (listener_round t)" for t
    unfolding listener_round_def msgrcv_def by (intro frame_intros; simp)
  have "preserves server_ok (listener_loop n t)" for t
    by (induction n arbitrary: t) (auto intro!: inv_intros round [THEN server_ok_keeps])
  then show "preserves server_ok (alert_and_emergency_listener n)"
    unfolding alert_and_emergency_listener_def by (intro inv_intros)
  show "preserves server_ok (run_alert_module api n)"
    by (intro server_ok_keeps frame_intros; simp)
qed

lemma server_ok_servers [inv_intros]:
  "preserves server_ok (run_server_ipv4 api ty n)" "preserves server_ok (run_server_ipv6 api ty n)"
proof -
  have "preserves server_ok (connection_child api el n)" for el
    unfolding connection_child_def by (intro inv_intros)
  then have "preserves server_ok (accept_round api al el n)" for al el
    unfolding accept_round_def by (intro inv_intros; simp add: server_ok_def)
  then have loop: "preserves server_ok (accept_loop api al el n k)" for al el k
    by (induction k) (auto intro!: inv_intros)
  show "preserves server_ok (run_server_ipv4 api ty n)" "preserves server_ok (run_server_ipv6 api ty n)"
    unfolding run_server_ipv4_def run_server_ipv6_def by (intro inv_intros loop; simp add: server_ok_def)+
qed

lemma server_ok_main [inv_intros]: "preserves server_ok (server_main api n)"
proof -
  have child: "preserves server_ok (start_child c f r)" if "preserves server_ok c" "preserves server_ok f" "preserves server_ok r"
    for c f r :: "('a server_scheme, unit) comp"
    unfolding start_child_def by (intro inv_intros that)
  have wait: "preserves server_ok (wait_loop k)" for k
    by (induction k) (auto intro!: inv_intros simp: Let_def)
  show ?thesis
    unfolding server_main_def by (intro child wait inv_intros; simp add: server_ok_def)
qed

text \<open>C19: The types of the server's variables. In every world, for the main process, each of its
  children and each of theirs, whatever they receive, whichever calls fail and for any number of
  rounds: the arrays keep their declared sizes, \<open>flag_handler\<close> stays \<open>0\<close> or \<open>1\<close>, and the
  semaphore of the process, where there is one, \<open>0\<close> or \<open>1\<close>, on every path through the program, its
  stops included.\<close>

theorem server_well_formed:
  assumes "server_ok w"
  shows "wp (server_main api n) (\<lambda>_ w'. server_ok w') (\<lambda>_ w'. server_ok w') w"
  using preservesD [OF server_ok_main assms] .

theorem server_well_formed_witness:
  "server_ok (demo_server []) \<and> wp (server_main ref_api 5) (\<lambda>_ w'. server_ok w') (\<lambda>_ w'. server_ok w') (demo_server [])"
proof
  show ok: "server_ok (demo_server [])" by (simp add: server_ok_def demo_server_def)
  show "wp (server_main ref_api 5) (\<lambda>_ w'. server_ok w') (\<lambda>_ w'. server_ok w') (demo_server [])"
    by (rule server_well_formed [OF ok])
qed

end
