(* ===== verification/Unit_Tests.thy ===== *)
theory Unit_Tests
  imports Alert_Module Comunication_Handler
begin

text \<open>
  The repository's unit tests, \<open>tests/unit/tests.c\<close>, replayed on the model: each lemma runs the calls of
  one test, when no system call fails, with the reference printer and parser for cJSON, and ends
  in the assertions of the test. The expected texts are those of the test file, so the lemmas
  compare the reference printer with the real one. A test that starts from an uninitialised array
  needs that the array happens to hold a terminated text that is not JSON.
\<close>

section \<open>The texts\<close>



definition quoted :: "string \<Rightarrow> string" where "quoted s = ''\"'' @ s @ ''\"''"

definition key_value_text :: string where
  "key_value_text = ''{'' @ [NL, TAB] @ quoted ''key'' @ '':'' @ [TAB] @ quoted ''value'' @ [NL] @ ''}''"

definition key_object_text :: string where
  "key_object_text = ''{'' @ [NL, TAB] @ quoted ''key'' @ '':'' @ [TAB] @ ''{'' @ [NL, TAB, TAB] @ quoted ''key'' @ '':'' @
     [TAB] @ quoted ''value'' @ [NL, TAB] @ ''}'' @ [NL] @ ''}''"

definition two_roots :: string where
  "two_roots = ''{'' @ quoted ''key_root1'' @ '':'' @ quoted ''value'' @ '','' @ quoted ''key_root2'' @ '':'' @ quoted ''value'' @ ''}''"

definition two_keys :: string where
  "two_keys = ''{'' @ quoted ''key1'' @ '':'' @ quoted ''value'' @ '','' @ quoted ''key2'' @ '':'' @ quoted ''value'' @ ''}''"

definition key_added_text :: string where
  "key_added_text = ''{'' @ [NL, TAB] @ quoted ''key_root1'' @ '':'' @ [TAB] @ quoted ''value'' @ '','' @
     [NL, TAB] @ quoted ''key_root2'' @ '':'' @ [TAB] @ quoted ''value'' @ '','' @
     [NL, TAB] @ quoted ''key_added'' @ '':'' @ [TAB] @ ''{'' @
     [NL, TAB, TAB] @ quoted ''key1'' @ '':'' @ [TAB] @ quoted ''value'' @ '','' @
     [NL, TAB, TAB] @ quoted ''key2'' @ '':'' @ [TAB] @ quoted ''value'' @ [NL, TAB] @ ''}'' @ [NL] @ ''}''"

definition nested_text :: string where
  "nested_text = ''{'' @ quoted ''key1'' @ '':'' @ quoted ''value1'' @ '','' @ quoted ''key2'' @ '':'' @
     ''{'' @ quoted ''nested_key'' @ '':'' @ quoted ''nested_value'' @ ''}'' @ ''}''"

section \<open>Updates\<close>

text \<open>What the tests of \<open>cjson_add_key_value_to_json_string\<close> have in common.\<close>

lemma update_test:
  assumes "calm w" "cstr a = Some t" "NUL \<notin> set k" "NUL \<notin> set val" "value_of ref_api val flags = Some v"
    "flags AND OVERRIDE \<noteq> 0" "cJSON_Print ref_api (set_key ref_api (tree_of ref_api t) k v) = s" "length s < length a"
  shows "wp (cjson_add_key_value_to_json_string ref_api (Buf a) (lit k) (lit val) flags)
    (\<lambda>(r, p) _. r = 0 \<and> (\<exists>b. p = Buf b \<and> cstr b = Some s)) (\<lambda>_ _. False) w"
  using assms ref.print_text [of "set_key ref_api (tree_of ref_api t) k v"] unfolding lit_def
  by (subst add_key_value_calm [of w a t _ k _ val ref_api flags v]) (auto simp: Let_def)

lemma no_json_tree: "cJSON_Parse ref_api t = None \<Longrightarrow> tree_of ref_api t = JObj []"
  by (simp add: tree_of_def ref_api_def)

lemma test_cjson_add_key_value_to_json_string:
  assumes "calm w" "length a = 50" "cstr a = Some t" "cJSON_Parse ref_api t = None"
  shows "wp (cjson_add_key_value_to_json_string ref_api (Buf a) (lit ''key'') (lit ''value'') OVERRIDE)
    (\<lambda>(r, p) _. r = 0 \<and> (\<exists>b. p = Buf b \<and> cstr b = Some key_value_text)) (\<lambda>_ _. False) w"
proof (rule update_test [OF assms(1,3)])
  show "cJSON_Print ref_api (set_key ref_api (tree_of ref_api t) ''key'' (JStr ''value'')) = key_value_text"
    unfolding no_json_tree [OF assms(4)] by code_simp
  show "value_of ref_api ''value'' OVERRIDE = Some (JStr ''value'')" by code_simp
  have "length key_value_text < 50" by code_simp
  then show "length key_value_text < length a" using assms(2) by simp
qed (simp_all add: flag_defs)

lemma test_cjson_add_key_object_to_json_string:
  assumes "calm w" "length a = 50" "cstr a = Some t" "cJSON_Parse ref_api t = None"
  shows "wp (cjson_add_key_value_to_json_string ref_api (Buf a) (lit ''key'')
      (lit (''{'' @ quoted ''key'' @ '':'' @ quoted ''value'' @ ''}'')) (OVERRIDE OR OBJPARSE))
    (\<lambda>(r, p) _. r = 0 \<and> (\<exists>b. p = Buf b \<and> cstr b = Some key_object_text)) (\<lambda>_ _. False) w"
proof (rule update_test [OF assms(1,3)])
  show "cJSON_Print ref_api (set_key ref_api (tree_of ref_api t) ''key'' (JObj [(''key'', JStr ''value'')])) = key_object_text"
    unfolding no_json_tree [OF assms(4)] by code_simp
  show "value_of ref_api (''{'' @ quoted ''key'' @ '':'' @ quoted ''value'' @ ''}'') (OVERRIDE OR OBJPARSE) =
      Some (JObj [(''key'', JStr ''value'')])" by code_simp
  have "length key_object_text < 50" by code_simp
  then show "length key_object_text < length a" using assms(2) by simp
qed (simp_all add: flag_defs quoted_def)

lemma test_cjson_add_key_object_to_json_string_2:
  assumes "calm w"
  shows "wp (cjson_add_key_value_to_json_string ref_api (Buf (fit 500 two_roots)) (lit ''key_added'') (lit two_keys) (OVERRIDE OR OBJPARSE))
    (\<lambda>(r, p) _. r = 0 \<and> (\<exists>b. p = Buf b \<and> cstr b = Some key_added_text)) (\<lambda>_ _. False) w"
proof (rule update_test [OF assms, where t = two_roots])
  show "cJSON_Print ref_api (set_key ref_api (tree_of ref_api two_roots) ''key_added''
      (JObj [(''key1'', JStr ''value''), (''key2'', JStr ''value'')])) = key_added_text" by code_simp
  show "value_of ref_api two_keys (OVERRIDE OR OBJPARSE) = Some (JObj [(''key1'', JStr ''value''), (''key2'', JStr ''value'')])"
    by code_simp
  have "length two_roots < 500" "NUL \<notin> set two_roots" by code_simp+
  then show "cstr (fit 500 two_roots) = Some two_roots" by (simp add: cstr_fit)
  have "length key_added_text < 500" by code_simp
  then show "length key_added_text < length (fit 500 two_roots)" by simp
qed (simp_all add: flag_defs quoted_def two_keys_def)

section \<open>Lookups\<close>

lemma test_is_key_in_json_object:
  defines "object \<equiv> cJSON_AddItemToObject ref_api (cJSON_AddItemToObject ref_api (cJSON_CreateObject ref_api)
      ''key1'' (cJSON_CreateString ref_api ''value1'')) ''key2'' (cJSON_CreateString ref_api ''value2'')"
  shows "is_key_in_json_object ref_api object (Some ''key1'')" "is_key_in_json_object ref_api object (Some ''key2'')"
    "\<not> is_key_in_json_object ref_api object (Some ''key3'')"
    "\<not> is_key_in_json_object ref_api (cJSON_CreateObject ref_api) (Some ''key3'')"
  unfolding object_def by code_simp+

lemma nested_parse:
  "cJSON_Parse ref_api nested_text = Some (JObj [(''key1'', JStr ''value1''), (''key2'', JObj [(''nested_key'', JStr ''nested_value'')])])"
  "cstr (nested_text @ [NUL]) = Some nested_text"
  by code_simp+

lemma test_get_value_of_key_from_json_string:
  assumes "calm w"
  shows "wp (get_value_of_key_from_json_string ref_api (lit nested_text) (lit ''key1'') Null)
      (\<lambda>(r, p) _. r = 0 \<and> p = lit ''value1'') (\<lambda>_ _. False) w"
    and "wp (get_value_of_key_from_json_string ref_api (lit nested_text) (lit ''key2'') Null)
      (\<lambda>(r, p) _. r = 0 \<and> p = lit (''{'' @ [NL, TAB] @ quoted ''nested_key'' @ '':'' @ [TAB] @ quoted ''nested_value'' @ [NL] @ ''}''))
      (\<lambda>_ _. False) w"
    and "wp (get_value_of_key_from_json_string ref_api (lit nested_text) (lit ''nonexistent_key'') Null)
      (\<lambda>(r, p) _. r = 1 \<and> p = Null) (\<lambda>_ _. False) w"
proof -
  have get: "cJSON_GetObjectItemCaseSensitive ref_api (JObj [(''key1'', JStr ''value1''), (''key2'', JObj [(''nested_key'', JStr ''nested_value'')])]) k =
      (if k = ''key1'' then Some (JStr ''value1'')
       else if k = ''key2'' then Some (JObj [(''nested_key'', JStr ''nested_value'')]) else None)" for k
    by (simp add: ref_api_def json_items_def)
  have kind: "cJSON_IsString ref_api (JStr ''value1'')" "valuestring ref_api (JStr ''value1'') = Some ''value1''" "\<not> cJSON_IsString ref_api (JObj m)"
    "\<not> cJSON_IsNumber ref_api (JObj m)" "cJSON_IsObject ref_api (JObj m)" for m by (simp_all add: ref_api_def)
  have pr: "cJSON_Print ref_api (JObj [(''nested_key'', JStr ''nested_value'')]) =
      ''{'' @ [NL, TAB] @ quoted ''nested_key'' @ '':'' @ [TAB] @ quoted ''nested_value'' @ [NL] @ ''}''" by code_simp
  have pr0: "NUL \<notin> set (cJSON_Print ref_api (JObj [(''nested_key'', JStr ''nested_value'')]))" by (rule ref.print_text)
  have key: "cstr (''key1'' @ [NUL]) = Some ''key1''" "cstr (''key2'' @ [NUL]) = Some ''key2''"
    "cstr (''nonexistent_key'' @ [NUL]) = Some ''nonexistent_key''" by code_simp+
  show "wp (get_value_of_key_from_json_string ref_api (lit nested_text) (lit ''key1'') Null)
      (\<lambda>(r, p) _. r = 0 \<and> p = lit ''value1'') (\<lambda>_ _. False) w"
    unfolding lit_def by (subst get_value_string_calm [OF assms nested_parse(2,1) key(1), where v = "JStr ''value1''"]) (simp_all add: get kind(1,2))
  show "wp (get_value_of_key_from_json_string ref_api (lit nested_text) (lit ''key2'') Null)
      (\<lambda>(r, p) _. r = 0 \<and> p = lit (''{'' @ [NL, TAB] @ quoted ''nested_key'' @ '':'' @ [TAB] @ quoted ''nested_value'' @ [NL] @ ''}''))
      (\<lambda>_ _. False) w"
    unfolding lit_def pr [symmetric]
    by (subst get_value_object_calm [OF assms nested_parse(2,1) key(2), where v = "JObj [(''nested_key'', JStr ''nested_value'')]"]) (simp_all add: get kind pr0)
  show "wp (get_value_of_key_from_json_string ref_api (lit nested_text) (lit ''nonexistent_key'') Null)
      (\<lambda>(r, p) _. r = 1 \<and> p = Null) (\<lambda>_ _. False) w"
    unfolding lit_def using assms nested_parse key(3)
    by (simp add: get_value_of_key_from_json_string_def get_value_of_key_from_json_object_def wp_simps get_c_def get)
qed

section \<open>Files, readings and sockets\<close>

lemma test_free_ptr: "wp (bnd (malloc 10) free_ptr) (\<lambda>p _. p = Null) (\<lambda>_ _. False) w"
  by (simp add: malloc_def free_ptr_def wp_simps)

text \<open>The reading test depends on the writing test before it.\<close>

lemma test_write_file_read_file:
  assumes "calm w"
  shows "wp (bnd (write_file ''Testing/Temporary/test.txt'' (lit ''Hello World!'')) (\<lambda>r.
      bnd (read_file ''Testing/Temporary/test.txt'' Null) (\<lambda>(s, p). ret (r, s, p))))
    (\<lambda>(r, s, p) _. r = 0 \<and> s = 0 \<and> p \<noteq> Null) (\<lambda>_ _. False) w"
  using assms by (simp add: wp_simps lit_def cstr_def write_file_calm read_file_calm)

lemma test_get_temperature:
  "wp get_temperature (\<lambda>t _. \<exists>i. t = of_int_d i \<and> MIN_TEMPERATURE \<le> i \<and> i \<le> MAX_TEMPERATURE) (\<lambda>_ _. False) w"
  by (rule wp_mono [OF get_temperature_range]) auto

lemma test_connect_server:
  assumes "calm w" "0 \<le> next_fd w"
  shows "wp (connect_server_ipv6 SOCK_DGRAM) (\<lambda>(r, fd) _. r = 0) (\<lambda>_ _. False) w"
    "wp (connect_server_ipv6 SOCK_STREAM) (\<lambda>(r, fd) _. r = 0) (\<lambda>_ _. False) w"
    "wp (connect_server_ipv4 SOCK_DGRAM) (\<lambda>(r, fd) _. r = 0) (\<lambda>_ _. False) w"
    "wp (connect_server_ipv4 SOCK_STREAM) (\<lambda>(r, fd) _. r = 0) (\<lambda>_ _. False) w"
  by (rule wp_mono [OF server_ends(2) [OF assms]] wp_mono [OF server_ends(1) [OF assms]]; auto)+

end
