(* ===== verification/Spec2Isabelle.thy ===== *)
theory Spec2Isabelle
  imports System Concurrency State_Invariants Unit_Tests
begin

text \<open>
  A verification development of the hope-programming emergency and supplies server and its client.

  \<^bold>\<open>The program.\<close> A server process (\<open>src/server/src/server.c\<close>) forks six children: a TCP and a UDP
  server for IPv4 and for IPv6, a temperature alert module and a listener on the alert queue. A TCP
  server forks a connection process per client, which serves the administrator, and that forks an
  emergency process (\<open>src/lib/libdyn/src/emergency_handler.c\<close>). All work on one state file, a JSON
  document with the alerts, the supplies and the last emergency. The static library under
  \<open>src/lib/libsta\<close> holds the common parts: files, logs and time stamps (\<open>lib_handler.c\<close>), JSON in
  character buffers on top of the cJSON library (\<open>cjson_handler.c\<close>), sockets
  (\<open>comunication_handler.c\<close>), the supplies (\<open>supplies_data_handler.c\<close>) and the alerts
  (\<open>alert_module.c\<close>). The client (\<open>src/client/src/client.c\<close>) asks the user for credentials and
  requests and shows the replies.

  \<^bold>\<open>How C is modelled.\<close> Theory Prelude. A C function is a computation \<open>('s, 'a) comp\<close> from a state to a
  value and a new state, or to a stop: \<open>Exit\<close>, \<open>Blocked\<close> (waiting for ever), \<open>Running\<close> (still in a loop
  when the observation ends) or \<open>Undef\<close> with the reason for which the C standard gives the
  execution no meaning. The state is a record: \<open>world\<close> holds what is outside the program (files,
  sockets, the message queue, the pipe, the live blocks, the sequence of outcomes of system
  calls), and \<open>alert_world\<close>, \<open>server\<close> and \<open>client\<close> extend it by the global variables of each
  program. Every call that can fail has its own entry in the arbitrary function \<open>sys_err\<close>, so a
  theorem about every state is a theorem about every pattern of failures; \<open>calm\<close> says that no
  call fails. A \<open>char *\<close> is \<open>Indet\<close>, \<open>Null\<close> or a buffer with its exact capacity, so that writing past
  its end is visible. \<open>wp m Q E s\<close> is the weakest precondition for a result in \<open>Q\<close> or a stop in \<open>E\<close>;
  \<open>keeps f m\<close> says that \<open>m\<close> leaves the observation \<open>f\<close> alone on every path. The collections
  \<open>wp_simps\<close> and \<open>frame_intros\<close> carry the proofs. Theory C_Numbers models \<open>atoi\<close>, \<open>atof\<close>, \<open>printf\<close> of
  numbers and IEEE doubles as exact rationals with rounding.

  \<^bold>\<open>cJSON.\<close> The library is not part of the repository. It is the parameter \<open>cjson_api\<close> of the model,
  and the locale \<open>cjson_lib\<close> (theory Cjson_Api) states its documented behaviour: printing then
  parsing gives a valid tree back, lookups respect case, deletion does not, and so on. Theory
  Json_Reference defines a printer and a parser for JSON and shows that they satisfy the locale
  (interpretation \<open>ref\<close>), so the hypotheses can hold; the witnesses evaluate with them.

  \<^bold>\<open>The theories and what they show.\<close>
  \<^item> Lib_Handler: every function of \<open>lib_handler.c\<close>. Reading and writing whole files in every world,
    their round trip (locale \<open>text_store\<close>), append-only logs, the time stamp that never fits.
  \<^item> Cjson_Handler: every function of \<open>cjson_handler.c\<close> with capacities and leaks. Outcome of lookups
    and updates, round trip, the case clash, merging, the overflows.
  \<^item> Json_Path: the state document seen through paths, and the locale \<open>doc_editor\<close>: one value is
    replaced, everything beside it is kept, or a block is overrun before the file is touched.
    Supplies_Data_Handler, Alert_Module and Emergency_Handler give its three instances; they also
    show that no alert is ever raised and that the emergency process signals after writing.
  \<^item> Comunication_Handler: opening, sending in slices, receiving. What a message is on the wire
    (locale \<open>framing\<close>, interpreted for the padded and the bare text), what happens at and beyond
    the size of the buffer, that the two ends meet on the same ports.
  \<^item> Server: every function of \<open>server.c\<close>. Server_Security: what a request may change, in every
    world. Server_Requests: each request when no call fails. Server_Protocol: an abstract machine
    per transport and the refinement of both request loops (locale \<open>request_loop\<close>).
    Server_Properties: safety, undefined messages, the end of a connection, the alert queue, the
    start of the processes, signals, the loop that accepts connections.
  \<^item> Client: every function of \<open>client.c\<close>. Client_Requests: credentials, menu, message of an
    update, the end, the display of the status.
  \<^item> System: client and server together, an update from the keyboard to the reply and the status from the
    request to its display.
  \<^item> Concurrency: connection processes on one state file as a step relation (\<open>sys_step\<close>) with
    separate steps for reading, editing, opening and writing (\<open>edit_supply\<close>, \<open>begin_write\<close> and \<open>end_write\<close> cut the functions at
    their accesses to the file, and make them up again without interference): the invariant of the
    semaphores, the update that is lost, and the reader that meets the emptied file and ends.
  \<^item> State_Invariants: the types that C does not check, in every world: the arrays of client and server
    keep their sizes, flags and semaphore their values (\<open>client_ok\<close>, \<open>server_ok\<close>), for the whole of
    \<open>client_main\<close> and \<open>server_main\<close>. The judgements \<open>preserves\<close> and \<open>yields\<close> of Prelude, with the rules
    \<open>inv_intros\<close>, follow the code.
  \<^item> Unit_Tests: the repository's unit tests as lemmas about the model, with the texts they expect.

  \<^bold>\<open>Loops and fuel.\<close> The loop of \<open>send_message\<close> is a \<open>function\<close> with a termination proof. The endless
  loops of the servers, the alert module, the listener and the client take the number of rounds
  for which they are observed and stop as \<open>Running\<close>; theorems about them hold for every number, and
  the refinement theorems say that as many rounds as requests serve all requests. The menus
  take a number of rounds too; two are enough for the input that \<open>update_message_made\<close>
  describes.

  \<^bold>\<open>Bounds.\<close> Sizes are those of the headers: 1024 bytes for a message, 50 for credentials and keys, 20
  for a time stamp and a printed number, 100 for an alert. On the platform of the model (64-bit
  Linux, little endian) an \<open>int\<close> has 32 bits, a \<open>long\<close> 64, and \<open>sizeof(mess_t)\<close> is 112.

  \<^bold>\<open>Not modelled.\<close> The code of cJSON, fetched by the build. The address of the sender of a datagram,
  which the UDP server hands back to \<open>sendto\<close>. Real time: \<open>sleep\<close> only advances the count of
  calls. Buffering of standard output. The delivery of a signal in the middle of a function
  (the server's handler is a function of the model; the client's runs where the loops test its
  flags). In Concurrency, the calls that read the file are one step. The test driver, the
  build files and the quality scripts have no logic of the program.
\<close>

end
